(* ===== verification/Dyn_Prelude.thy ===== *)
theory Dyn_Prelude
  imports Main "HOL-Library.Word" "HOL-Library.Signed_Division"
begin

text \<open>
  Shared material of the development: the machine integers of the C++ code, the C rules for
  division and remainder, and the collections of simplification rules the component theories
  add to.

  The sources compute with \<^verbatim>\<open>int64_t\<close>, \<^verbatim>\<open>long\<close>, \<^verbatim>\<open>int\<close> and \<^verbatim>\<open>unsigned\<close>. A signed value is
  modelled as an \<^typ>\<open>int\<close> that every arithmetic operation brings back into range with
  \<open>wrap64\<close> or \<open>wrap32\<close> (two's complement), and an unsigned address as an
  \<^typ>\<open>int\<close> or \<^typ>\<open>nat\<close> reduced modulo its width where the code relies on it. Signed
  division and remainder of C truncate towards zero: they are \<open>sdiv\<close> and \<open>smod\<close> of the library.
\<close>

named_theorems dyn_defs \<open>definitions of the model that component proofs unfold\<close>
named_theorems dyn_sound \<open>soundness facts of the abstract domains\<close>
named_theorems dyn_inv \<open>preservation of component invariants\<close>

section \<open>Fixed-width integers\<close>

definition LLONG_MIN :: int where "LLONG_MIN = - 9223372036854775808"
definition LLONG_MAX :: int where "LLONG_MAX = 9223372036854775807"

definition fits64 :: "int \<Rightarrow> bool" where
  "fits64 x \<longleftrightarrow> LLONG_MIN \<le> x \<and> x \<le> LLONG_MAX"

definition wrap64 :: "int \<Rightarrow> int" where
  "wrap64 x = signed_take_bit 63 x"

definition wrap32 :: "int \<Rightarrow> int" where
  "wrap32 x = signed_take_bit 31 x"

definition uwrap64 :: "int \<Rightarrow> int" where
  "uwrap64 x = x mod 18446744073709551616"

definition uwrap32 :: "int \<Rightarrow> int" where
  "uwrap32 x = x mod 4294967296"

lemma wrap64_fits [simp]: "fits64 x \<Longrightarrow> wrap64 x = x"
  by (simp add: fits64_def wrap64_def LLONG_MIN_def LLONG_MAX_def signed_take_bit_int_eq_self)

lemma fits64_wrap64 [simp]: "fits64 (wrap64 x)"
proof -
  have "- (2 ^ 63) \<le> signed_take_bit 63 x" "signed_take_bit 63 x < (2 ^ 63 :: int)"
    by (rule signed_take_bit_int_greater_eq_minus_exp signed_take_bit_int_less_exp)+
  then show ?thesis
    by (simp add: fits64_def wrap64_def LLONG_MIN_def LLONG_MAX_def)
qed

lemma abs_wrap64_le: "\<bar>wrap64 x\<bar> \<le> \<bar>x\<bar>"
proof (cases "fits64 x")
  case False
  then have "9223372036854775808 \<le> \<bar>x\<bar>"
    by (auto simp: fits64_def LLONG_MIN_def LLONG_MAX_def)
  moreover have "\<bar>wrap64 x\<bar> \<le> 9223372036854775808"
    using fits64_wrap64[of x] by (auto simp: fits64_def LLONG_MIN_def LLONG_MAX_def)
  ultimately show ?thesis by linarith
qed simp

lemma fits64_between: "\<lbrakk> fits64 a; fits64 b; a \<le> x; x \<le> b \<rbrakk> \<Longrightarrow> fits64 x"
  by (simp add: fits64_def)

lemma fits64_nonneg_le: "\<lbrakk> 0 \<le> x; x \<le> y; fits64 y \<rbrakk> \<Longrightarrow> fits64 x"
  by (simp add: fits64_def LLONG_MIN_def)

lemma fits64_div: "\<lbrakk> 0 \<le> x; 0 < c; fits64 x \<rbrakk> \<Longrightarrow> fits64 (x div c)"
  using fits64_nonneg_le[of "x div c" x] zdiv_mono2[of x 1 c] by (simp add: pos_imp_zdiv_nonneg_iff)

lemma fits64_max: "fits64 a \<Longrightarrow> fits64 b \<Longrightarrow> fits64 (max a b)"
  by (simp add: max_def)

lemma fits64_small [simp]: "fits64 0" "fits64 1" "fits64 (-1)"
  by (simp_all add: fits64_def LLONG_MIN_def LLONG_MAX_def)

lemma uwrap64_id [simp]: "0 \<le> x \<Longrightarrow> x < 18446744073709551616 \<Longrightarrow> uwrap64 x = x"
  by (simp add: uwrap64_def)

lemma uwrap32_id [simp]: "0 \<le> x \<Longrightarrow> x < 4294967296 \<Longrightarrow> uwrap32 x = x"
  by (simp add: uwrap32_def)

section \<open>C division and remainder\<close>

lemma smod_eq_0_iff: "(a::int) smod b = 0 \<longleftrightarrow> b dvd a"
  by (auto simp: smod_int_alt_def sgn_0_0 dvd_eq_mod_eq_0[symmetric])

lemma abs_smod: "\<bar>(a::int) smod b\<bar> = \<bar>a\<bar> mod \<bar>b\<bar>"
proof -
  have "\<bar>\<bar>a\<bar> mod \<bar>b\<bar>\<bar> = \<bar>a\<bar> mod \<bar>b\<bar>"
    by (cases "b = 0") simp_all
  then show ?thesis
    by (cases "a = 0") (simp_all add: smod_int_alt_def abs_mult)
qed

lemma gcd_smod: "gcd (b::int) (a smod b) = gcd a b"
proof -
  have "gcd b (a smod b) = gcd \<bar>b\<bar> \<bar>a smod b\<bar>" by simp
  also have "\<dots> = gcd \<bar>b\<bar> (\<bar>a\<bar> mod \<bar>b\<bar>)" by (simp only: abs_smod)
  also have "\<dots> = gcd \<bar>a\<bar> \<bar>b\<bar>" by (metis gcd.commute gcd_red_int)
  finally show ?thesis by simp
qed

lemma sdiv_pos [simp]: "0 \<le> a \<Longrightarrow> 0 \<le> b \<Longrightarrow> (a::int) sdiv b = a div b"
  by (cases "a = 0"; cases "b = 0") (simp_all add: signed_divide_int_def)

lemma smod_pos [simp]: "0 \<le> a \<Longrightarrow> 0 \<le> b \<Longrightarrow> (a::int) smod b = a mod b"
  by (rule smod_mod_positive)

lemma fits64_numeral [simp]:
  "fits64 (numeral n) \<longleftrightarrow> (numeral n :: int) \<le> 9223372036854775807"
  "fits64 (- numeral n) \<longleftrightarrow> (numeral n :: int) \<le> 9223372036854775808"
  by (simp_all add: fits64_def LLONG_MIN_def LLONG_MAX_def)

end
