(* ===== verification/Reg_Base.thy ===== *)
theory Reg_Base
  imports Dyn_Prelude
begin

text \<open>
  Architectures and registers: the encodings of \<^verbatim>\<open>common/h/Architecture.h\<close>,
  \<^verbatim>\<open>common/h/registers/MachRegister.h\<close> and \<^verbatim>\<open>abstract_regs.h\<close>. A register is a
  32-bit number with the architecture in the top byte, then the category, the subrange and the
  base identifier.
\<close>

unbundle bit_operations_syntax

type_synonym MachRegister = "32 word"

type_synonym Architecture = "32 word"

abbreviation Arch_none :: Architecture where "Arch_none \<equiv> 0x00000000"
abbreviation Arch_x86 :: Architecture where "Arch_x86 \<equiv> 0x14000000"
abbreviation Arch_x86_64 :: Architecture where "Arch_x86_64 \<equiv> 0x18000000"
abbreviation Arch_ppc32 :: Architecture where "Arch_ppc32 \<equiv> 0x24000000"
abbreviation Arch_ppc64 :: Architecture where "Arch_ppc64 \<equiv> 0x28000000"
abbreviation Arch_aarch32 :: Architecture where "Arch_aarch32 \<equiv> 0x44000000"
abbreviation Arch_aarch64 :: Architecture where "Arch_aarch64 \<equiv> 0x48000000"
abbreviation Arch_cuda :: Architecture where "Arch_cuda \<equiv> 0x88000000"
abbreviation Arch_amdgpu_gfx908 :: Architecture where "Arch_amdgpu_gfx908 \<equiv> 0x94000000"
abbreviation Arch_amdgpu_gfx90a :: Architecture where "Arch_amdgpu_gfx90a \<equiv> 0x98000000"
abbreviation Arch_amdgpu_gfx940 :: Architecture where "Arch_amdgpu_gfx940 \<equiv> 0x9c000000"
abbreviation Arch_intelGen9 :: Architecture where "Arch_intelGen9 \<equiv> 0xb6000000"

definition getArchAddressWidth :: "Architecture \<Rightarrow> nat option" where
  "getArchAddressWidth arch =
     (if arch = Arch_none then Some 0
      else if arch = Arch_x86 \<or> arch = Arch_ppc32 then Some 4
      else if arch = Arch_x86_64 \<or> arch = Arch_ppc64 \<or> arch = Arch_aarch64 \<or> arch = Arch_cuda \<or>
              arch = Arch_intelGen9 \<or> arch = Arch_amdgpu_gfx908 \<or> arch = Arch_amdgpu_gfx90a \<or>
              arch = Arch_amdgpu_gfx940 then Some 8
      else None)"

abbreviation InvalidReg :: MachRegister where "InvalidReg \<equiv> 0 OR Arch_none"
abbreviation FrameBase :: MachRegister where "FrameBase \<equiv> 1 OR Arch_none"
abbreviation ReturnAddr :: MachRegister where "ReturnAddr \<equiv> 2 OR Arch_none"
abbreviation StackTop :: MachRegister where "StackTop \<equiv> 3 OR Arch_none"
abbreviation CFA :: MachRegister where "CFA \<equiv> 4 OR Arch_none"

end
