(* ===== verification/Reg_Tables_X86.thy ===== *)
theory Reg_Tables_X86
  imports Reg_Base
begin

text \<open>
  The register tables of \<^verbatim>\<open>common/h/registers/x86_regs.h\<close> and
  \<^verbatim>\<open>x86_64_regs.h\<close>, one constant per \<^verbatim>\<open>DEF_REGISTER\<close> in the order of the header, and
  the switch tables of \<^verbatim>\<open>MachRegister::DwarfEncToReg\<close> and
  \<^verbatim>\<open>MachRegister::getDwarfEnc\<close> for the two architectures, one row per \<^verbatim>\<open>case\<close>.
\<close>

section \<open>Registers of x86\<close>

abbreviation x86_FULL :: MachRegister where "x86_FULL \<equiv> 0x00000000"
abbreviation x86_BIT :: MachRegister where "x86_BIT \<equiv> 0x00000100"
abbreviation x86_L_REG :: MachRegister where "x86_L_REG \<equiv> 0x00000200"
abbreviation x86_H_REG :: MachRegister where "x86_H_REG \<equiv> 0x00000300"
abbreviation x86_W_REG :: MachRegister where "x86_W_REG \<equiv> 0x00000400"
abbreviation x86_FPDBL :: MachRegister where "x86_FPDBL \<equiv> 0x00000500"
abbreviation x86_MMS :: MachRegister where "x86_MMS \<equiv> 0x00000600"
abbreviation x86_XMMS :: MachRegister where "x86_XMMS \<equiv> 0x00000700"
abbreviation x86_YMMS :: MachRegister where "x86_YMMS \<equiv> 0x00000800"
abbreviation x86_ZMMS :: MachRegister where "x86_ZMMS \<equiv> 0x00000900"
abbreviation x86_KMSKS :: MachRegister where "x86_KMSKS \<equiv> 0x00000a00"
abbreviation x86_GPR :: MachRegister where "x86_GPR \<equiv> 0x00010000"
abbreviation x86_SEG :: MachRegister where "x86_SEG \<equiv> 0x00020000"
abbreviation x86_FLAG :: MachRegister where "x86_FLAG \<equiv> 0x00030000"
abbreviation x86_MISC :: MachRegister where "x86_MISC \<equiv> 0x00040000"
abbreviation x86_CTL :: MachRegister where "x86_CTL \<equiv> 0x00050000"
abbreviation x86_DBG :: MachRegister where "x86_DBG \<equiv> 0x00060000"
abbreviation x86_TST :: MachRegister where "x86_TST \<equiv> 0x00070000"
abbreviation x86_X87 :: MachRegister where "x86_X87 \<equiv> 0x00080000"
abbreviation x86_MMX :: MachRegister where "x86_MMX \<equiv> 0x00090000"
abbreviation x86_XMM :: MachRegister where "x86_XMM \<equiv> 0x000a0000"
abbreviation x86_YMM :: MachRegister where "x86_YMM \<equiv> 0x000b0000"
abbreviation x86_ZMM :: MachRegister where "x86_ZMM \<equiv> 0x000c0000"
abbreviation x86_KMASK :: MachRegister where "x86_KMASK \<equiv> 0x000d0000"
abbreviation x86_FPCTL :: MachRegister where "x86_FPCTL \<equiv> 0x000e0000"
abbreviation x86_BASEA :: MachRegister where "x86_BASEA \<equiv> 0x0"
abbreviation x86_BASEC :: MachRegister where "x86_BASEC \<equiv> 0x1"
abbreviation x86_BASED :: MachRegister where "x86_BASED \<equiv> 0x2"
abbreviation x86_BASEB :: MachRegister where "x86_BASEB \<equiv> 0x3"
abbreviation x86_BASESP :: MachRegister where "x86_BASESP \<equiv> 0x4"
abbreviation x86_BASEBP :: MachRegister where "x86_BASEBP \<equiv> 0x5"
abbreviation x86_BASESI :: MachRegister where "x86_BASESI \<equiv> 0x6"
abbreviation x86_BASEDI :: MachRegister where "x86_BASEDI \<equiv> 0x7"
abbreviation x86_FLAGS :: MachRegister where "x86_FLAGS \<equiv> 0x0"
abbreviation x86_BASEDS :: MachRegister where "x86_BASEDS \<equiv> 0x0"
abbreviation x86_BASESS :: MachRegister where "x86_BASESS \<equiv> 0x1"
abbreviation x86_BASEFS :: MachRegister where "x86_BASEFS \<equiv> 0x2"
abbreviation x86_BASEGS :: MachRegister where "x86_BASEGS \<equiv> 0x3"
abbreviation x86_BASECS :: MachRegister where "x86_BASECS \<equiv> 0x4"
abbreviation x86_BASEES :: MachRegister where "x86_BASEES \<equiv> 0x5"
abbreviation x86_BASEGD :: MachRegister where "x86_BASEGD \<equiv> 0x6"
abbreviation x86_BASELD :: MachRegister where "x86_BASELD \<equiv> 0x7"
abbreviation x86_BASEID :: MachRegister where "x86_BASEID \<equiv> 0x8"
abbreviation x86_BASETR :: MachRegister where "x86_BASETR \<equiv> 0x9"
abbreviation x86_CF :: MachRegister where "x86_CF \<equiv> 0x00"
abbreviation x86_FLAG1 :: MachRegister where "x86_FLAG1 \<equiv> 0x01"
abbreviation x86_PF :: MachRegister where "x86_PF \<equiv> 0x02"
abbreviation x86_FLAG3 :: MachRegister where "x86_FLAG3 \<equiv> 0x03"
abbreviation x86_AF :: MachRegister where "x86_AF \<equiv> 0x04"
abbreviation x86_FLAG5 :: MachRegister where "x86_FLAG5 \<equiv> 0x05"
abbreviation x86_ZF :: MachRegister where "x86_ZF \<equiv> 0x06"
abbreviation x86_SF :: MachRegister where "x86_SF \<equiv> 0x07"
abbreviation x86_TF :: MachRegister where "x86_TF \<equiv> 0x08"
abbreviation x86_IF :: MachRegister where "x86_IF \<equiv> 0x09"
abbreviation x86_DF :: MachRegister where "x86_DF \<equiv> 0x0a"
abbreviation x86_OF :: MachRegister where "x86_OF \<equiv> 0x0b"
abbreviation x86_FLAGC :: MachRegister where "x86_FLAGC \<equiv> 0x0c"
abbreviation x86_FLAGD :: MachRegister where "x86_FLAGD \<equiv> 0x0d"
abbreviation x86_NT :: MachRegister where "x86_NT \<equiv> 0x0e"
abbreviation x86_FLAGF :: MachRegister where "x86_FLAGF \<equiv> 0x0f"
abbreviation x86_RF :: MachRegister where "x86_RF \<equiv> 0x10"
abbreviation x86_VM :: MachRegister where "x86_VM \<equiv> 0x11"
abbreviation x86_AC :: MachRegister where "x86_AC \<equiv> 0x12"
abbreviation x86_VIF :: MachRegister where "x86_VIF \<equiv> 0x13"
abbreviation x86_VIP :: MachRegister where "x86_VIP \<equiv> 0x14"
abbreviation x86_ID :: MachRegister where "x86_ID \<equiv> 0x15"

abbreviation x86_eax :: MachRegister where "x86_eax \<equiv> x86_BASEA OR x86_FULL OR x86_GPR OR Arch_x86"
abbreviation x86_ax :: MachRegister where "x86_ax \<equiv> x86_BASEA OR x86_W_REG OR x86_GPR OR Arch_x86"
abbreviation x86_ah :: MachRegister where "x86_ah \<equiv> x86_BASEA OR x86_H_REG OR x86_GPR OR Arch_x86"
abbreviation x86_al :: MachRegister where "x86_al \<equiv> x86_BASEA OR x86_L_REG OR x86_GPR OR Arch_x86"
abbreviation x86_ecx :: MachRegister where "x86_ecx \<equiv> x86_BASEC OR x86_FULL OR x86_GPR OR Arch_x86"
abbreviation x86_cx :: MachRegister where "x86_cx \<equiv> x86_BASEC OR x86_W_REG OR x86_GPR OR Arch_x86"
abbreviation x86_ch :: MachRegister where "x86_ch \<equiv> x86_BASEC OR x86_H_REG OR x86_GPR OR Arch_x86"
abbreviation x86_cl :: MachRegister where "x86_cl \<equiv> x86_BASEC OR x86_L_REG OR x86_GPR OR Arch_x86"
abbreviation x86_edx :: MachRegister where "x86_edx \<equiv> x86_BASED OR x86_FULL OR x86_GPR OR Arch_x86"
abbreviation x86_dx :: MachRegister where "x86_dx \<equiv> x86_BASED OR x86_W_REG OR x86_GPR OR Arch_x86"
abbreviation x86_dh :: MachRegister where "x86_dh \<equiv> x86_BASED OR x86_H_REG OR x86_GPR OR Arch_x86"
abbreviation x86_dl :: MachRegister where "x86_dl \<equiv> x86_BASED OR x86_L_REG OR x86_GPR OR Arch_x86"
abbreviation x86_ebx :: MachRegister where "x86_ebx \<equiv> x86_BASEB OR x86_FULL OR x86_GPR OR Arch_x86"
abbreviation x86_bx :: MachRegister where "x86_bx \<equiv> x86_BASEB OR x86_W_REG OR x86_GPR OR Arch_x86"
abbreviation x86_bh :: MachRegister where "x86_bh \<equiv> x86_BASEB OR x86_H_REG OR x86_GPR OR Arch_x86"
abbreviation x86_bl :: MachRegister where "x86_bl \<equiv> x86_BASEB OR x86_L_REG OR x86_GPR OR Arch_x86"
abbreviation x86_esp :: MachRegister where "x86_esp \<equiv> x86_BASESP OR x86_FULL OR x86_GPR OR Arch_x86"
abbreviation x86_sp :: MachRegister where "x86_sp \<equiv> x86_BASESP OR x86_W_REG OR x86_GPR OR Arch_x86"
abbreviation x86_ebp :: MachRegister where "x86_ebp \<equiv> x86_BASEBP OR x86_FULL OR x86_GPR OR Arch_x86"
abbreviation x86_bp :: MachRegister where "x86_bp \<equiv> x86_BASEBP OR x86_W_REG OR x86_GPR OR Arch_x86"
abbreviation x86_esi :: MachRegister where "x86_esi \<equiv> x86_BASESI OR x86_FULL OR x86_GPR OR Arch_x86"
abbreviation x86_si :: MachRegister where "x86_si \<equiv> x86_BASESI OR x86_W_REG OR x86_GPR OR Arch_x86"
abbreviation x86_edi :: MachRegister where "x86_edi \<equiv> x86_BASEDI OR x86_FULL OR x86_GPR OR Arch_x86"
abbreviation x86_di :: MachRegister where "x86_di \<equiv> x86_BASEDI OR x86_W_REG OR x86_GPR OR Arch_x86"
abbreviation x86_eip :: MachRegister where "x86_eip \<equiv> 0x10 OR x86_FULL OR Arch_x86"
abbreviation x86_cs :: MachRegister where "x86_cs \<equiv> x86_BASECS OR x86_W_REG OR x86_SEG OR Arch_x86"
abbreviation x86_ds :: MachRegister where "x86_ds \<equiv> x86_BASEDS OR x86_W_REG OR x86_SEG OR Arch_x86"
abbreviation x86_es :: MachRegister where "x86_es \<equiv> x86_BASEES OR x86_W_REG OR x86_SEG OR Arch_x86"
abbreviation x86_ss :: MachRegister where "x86_ss \<equiv> x86_BASESS OR x86_W_REG OR x86_SEG OR Arch_x86"
abbreviation x86_fs :: MachRegister where "x86_fs \<equiv> x86_BASEFS OR x86_W_REG OR x86_SEG OR Arch_x86"
abbreviation x86_gs :: MachRegister where "x86_gs \<equiv> x86_BASEGS OR x86_W_REG OR x86_SEG OR Arch_x86"
abbreviation x86_gdtr :: MachRegister where
  "x86_gdtr \<equiv> x86_BASEGD OR x86_W_REG OR x86_SEG OR Arch_x86"
abbreviation x86_ldtr :: MachRegister where
  "x86_ldtr \<equiv> x86_BASELD OR x86_W_REG OR x86_SEG OR Arch_x86"
abbreviation x86_idtr :: MachRegister where
  "x86_idtr \<equiv> x86_BASEID OR x86_W_REG OR x86_SEG OR Arch_x86"
abbreviation x86_tr :: MachRegister where "x86_tr \<equiv> x86_BASETR OR x86_W_REG OR x86_SEG OR Arch_x86"
abbreviation x86_flags :: MachRegister where
  "x86_flags \<equiv> x86_FLAGS OR x86_FULL OR x86_FLAG OR Arch_x86"
abbreviation x86_cf :: MachRegister where "x86_cf \<equiv> x86_CF OR x86_BIT OR x86_FLAG OR Arch_x86"
abbreviation x86_flag1 :: MachRegister where
  "x86_flag1 \<equiv> x86_FLAG1 OR x86_BIT OR x86_FLAG OR Arch_x86"
abbreviation x86_pf :: MachRegister where "x86_pf \<equiv> x86_PF OR x86_BIT OR x86_FLAG OR Arch_x86"
abbreviation x86_flag3 :: MachRegister where
  "x86_flag3 \<equiv> x86_FLAG3 OR x86_BIT OR x86_FLAG OR Arch_x86"
abbreviation x86_af :: MachRegister where "x86_af \<equiv> x86_AF OR x86_BIT OR x86_FLAG OR Arch_x86"
abbreviation x86_flag5 :: MachRegister where
  "x86_flag5 \<equiv> x86_FLAG5 OR x86_BIT OR x86_FLAG OR Arch_x86"
abbreviation x86_zf :: MachRegister where "x86_zf \<equiv> x86_ZF OR x86_BIT OR x86_FLAG OR Arch_x86"
abbreviation x86_sf :: MachRegister where "x86_sf \<equiv> x86_SF OR x86_BIT OR x86_FLAG OR Arch_x86"
abbreviation x86_tf :: MachRegister where "x86_tf \<equiv> x86_TF OR x86_BIT OR x86_FLAG OR Arch_x86"
abbreviation x86_if :: MachRegister where "x86_if \<equiv> x86_IF OR x86_BIT OR x86_FLAG OR Arch_x86"
abbreviation x86_df :: MachRegister where "x86_df \<equiv> x86_DF OR x86_BIT OR x86_FLAG OR Arch_x86"
abbreviation x86_of :: MachRegister where "x86_of \<equiv> x86_OF OR x86_BIT OR x86_FLAG OR Arch_x86"
abbreviation x86_flagc :: MachRegister where
  "x86_flagc \<equiv> x86_FLAGC OR x86_BIT OR x86_FLAG OR Arch_x86"
abbreviation x86_flagd :: MachRegister where
  "x86_flagd \<equiv> x86_FLAGD OR x86_BIT OR x86_FLAG OR Arch_x86"
abbreviation x86_nt :: MachRegister where "x86_nt \<equiv> x86_NT OR x86_BIT OR x86_FLAG OR Arch_x86"
abbreviation x86_flagf :: MachRegister where
  "x86_flagf \<equiv> x86_FLAGF OR x86_BIT OR x86_FLAG OR Arch_x86"
abbreviation x86_rf :: MachRegister where "x86_rf \<equiv> x86_RF OR x86_BIT OR x86_FLAG OR Arch_x86"
abbreviation x86_vm :: MachRegister where "x86_vm \<equiv> x86_VM OR x86_BIT OR x86_FLAG OR Arch_x86"
abbreviation x86_ac :: MachRegister where "x86_ac \<equiv> x86_AC OR x86_BIT OR x86_FLAG OR Arch_x86"
abbreviation x86_vif :: MachRegister where "x86_vif \<equiv> x86_VIF OR x86_BIT OR x86_FLAG OR Arch_x86"
abbreviation x86_vip :: MachRegister where "x86_vip \<equiv> x86_VIP OR x86_BIT OR x86_FLAG OR Arch_x86"
abbreviation x86_id :: MachRegister where "x86_id \<equiv> x86_ID OR x86_BIT OR x86_FLAG OR Arch_x86"
abbreviation x86_cr0 :: MachRegister where "x86_cr0 \<equiv> 0x0 OR x86_FULL OR x86_CTL OR Arch_x86"
abbreviation x86_cr1 :: MachRegister where "x86_cr1 \<equiv> 0x1 OR x86_FULL OR x86_CTL OR Arch_x86"
abbreviation x86_cr2 :: MachRegister where "x86_cr2 \<equiv> 0x2 OR x86_FULL OR x86_CTL OR Arch_x86"
abbreviation x86_cr3 :: MachRegister where "x86_cr3 \<equiv> 0x3 OR x86_FULL OR x86_CTL OR Arch_x86"
abbreviation x86_cr4 :: MachRegister where "x86_cr4 \<equiv> 0x4 OR x86_FULL OR x86_CTL OR Arch_x86"
abbreviation x86_cr5 :: MachRegister where "x86_cr5 \<equiv> 0x5 OR x86_FULL OR x86_CTL OR Arch_x86"
abbreviation x86_cr6 :: MachRegister where "x86_cr6 \<equiv> 0x6 OR x86_FULL OR x86_CTL OR Arch_x86"
abbreviation x86_cr7 :: MachRegister where "x86_cr7 \<equiv> 0x7 OR x86_FULL OR x86_CTL OR Arch_x86"
abbreviation x86_dr0 :: MachRegister where "x86_dr0 \<equiv> 0x0 OR x86_FULL OR x86_DBG OR Arch_x86"
abbreviation x86_dr1 :: MachRegister where "x86_dr1 \<equiv> 0x1 OR x86_FULL OR x86_DBG OR Arch_x86"
abbreviation x86_dr2 :: MachRegister where "x86_dr2 \<equiv> 0x2 OR x86_FULL OR x86_DBG OR Arch_x86"
abbreviation x86_dr3 :: MachRegister where "x86_dr3 \<equiv> 0x3 OR x86_FULL OR x86_DBG OR Arch_x86"
abbreviation x86_dr4 :: MachRegister where "x86_dr4 \<equiv> 0x4 OR x86_FULL OR x86_DBG OR Arch_x86"
abbreviation x86_dr5 :: MachRegister where "x86_dr5 \<equiv> 0x5 OR x86_FULL OR x86_DBG OR Arch_x86"
abbreviation x86_dr6 :: MachRegister where "x86_dr6 \<equiv> 0x6 OR x86_FULL OR x86_DBG OR Arch_x86"
abbreviation x86_dr7 :: MachRegister where "x86_dr7 \<equiv> 0x7 OR x86_FULL OR x86_DBG OR Arch_x86"
abbreviation x86_st0 :: MachRegister where "x86_st0 \<equiv> 0x0 OR x86_FPDBL OR x86_X87 OR Arch_x86"
abbreviation x86_st1 :: MachRegister where "x86_st1 \<equiv> 0x1 OR x86_FPDBL OR x86_X87 OR Arch_x86"
abbreviation x86_st2 :: MachRegister where "x86_st2 \<equiv> 0x2 OR x86_FPDBL OR x86_X87 OR Arch_x86"
abbreviation x86_st3 :: MachRegister where "x86_st3 \<equiv> 0x3 OR x86_FPDBL OR x86_X87 OR Arch_x86"
abbreviation x86_st4 :: MachRegister where "x86_st4 \<equiv> 0x4 OR x86_FPDBL OR x86_X87 OR Arch_x86"
abbreviation x86_st5 :: MachRegister where "x86_st5 \<equiv> 0x5 OR x86_FPDBL OR x86_X87 OR Arch_x86"
abbreviation x86_st6 :: MachRegister where "x86_st6 \<equiv> 0x6 OR x86_FPDBL OR x86_X87 OR Arch_x86"
abbreviation x86_st7 :: MachRegister where "x86_st7 \<equiv> 0x7 OR x86_FPDBL OR x86_X87 OR Arch_x86"
abbreviation x86_fcw :: MachRegister where "x86_fcw \<equiv> 0x8 OR x86_W_REG OR x86_FPCTL OR Arch_x86"
abbreviation x86_fsw :: MachRegister where "x86_fsw \<equiv> 0x9 OR x86_W_REG OR x86_FPCTL OR Arch_x86"
abbreviation x86_mm0 :: MachRegister where "x86_mm0 \<equiv> 0x0 OR x86_MMS OR x86_MMX OR Arch_x86"
abbreviation x86_mm1 :: MachRegister where "x86_mm1 \<equiv> 0x1 OR x86_MMS OR x86_MMX OR Arch_x86"
abbreviation x86_mm2 :: MachRegister where "x86_mm2 \<equiv> 0x2 OR x86_MMS OR x86_MMX OR Arch_x86"
abbreviation x86_mm3 :: MachRegister where "x86_mm3 \<equiv> 0x3 OR x86_MMS OR x86_MMX OR Arch_x86"
abbreviation x86_mm4 :: MachRegister where "x86_mm4 \<equiv> 0x4 OR x86_MMS OR x86_MMX OR Arch_x86"
abbreviation x86_mm5 :: MachRegister where "x86_mm5 \<equiv> 0x5 OR x86_MMS OR x86_MMX OR Arch_x86"
abbreviation x86_mm6 :: MachRegister where "x86_mm6 \<equiv> 0x6 OR x86_MMS OR x86_MMX OR Arch_x86"
abbreviation x86_mm7 :: MachRegister where "x86_mm7 \<equiv> 0x7 OR x86_MMS OR x86_MMX OR Arch_x86"
abbreviation x86_xmm0 :: MachRegister where "x86_xmm0 \<equiv> 0x00 OR x86_XMMS OR x86_XMM OR Arch_x86"
abbreviation x86_xmm1 :: MachRegister where "x86_xmm1 \<equiv> 0x01 OR x86_XMMS OR x86_XMM OR Arch_x86"
abbreviation x86_xmm2 :: MachRegister where "x86_xmm2 \<equiv> 0x02 OR x86_XMMS OR x86_XMM OR Arch_x86"
abbreviation x86_xmm3 :: MachRegister where "x86_xmm3 \<equiv> 0x03 OR x86_XMMS OR x86_XMM OR Arch_x86"
abbreviation x86_xmm4 :: MachRegister where "x86_xmm4 \<equiv> 0x04 OR x86_XMMS OR x86_XMM OR Arch_x86"
abbreviation x86_xmm5 :: MachRegister where "x86_xmm5 \<equiv> 0x05 OR x86_XMMS OR x86_XMM OR Arch_x86"
abbreviation x86_xmm6 :: MachRegister where "x86_xmm6 \<equiv> 0x06 OR x86_XMMS OR x86_XMM OR Arch_x86"
abbreviation x86_xmm7 :: MachRegister where "x86_xmm7 \<equiv> 0x07 OR x86_XMMS OR x86_XMM OR Arch_x86"
abbreviation x86_mxcsr :: MachRegister where "x86_mxcsr \<equiv> 0x08 OR x86_FULL OR x86_FPCTL OR Arch_x86"
abbreviation x86_ymm0 :: MachRegister where "x86_ymm0 \<equiv> 0x00 OR x86_YMMS OR x86_YMM OR Arch_x86"
abbreviation x86_ymm1 :: MachRegister where "x86_ymm1 \<equiv> 0x01 OR x86_YMMS OR x86_YMM OR Arch_x86"
abbreviation x86_ymm2 :: MachRegister where "x86_ymm2 \<equiv> 0x02 OR x86_YMMS OR x86_YMM OR Arch_x86"
abbreviation x86_ymm3 :: MachRegister where "x86_ymm3 \<equiv> 0x03 OR x86_YMMS OR x86_YMM OR Arch_x86"
abbreviation x86_ymm4 :: MachRegister where "x86_ymm4 \<equiv> 0x04 OR x86_YMMS OR x86_YMM OR Arch_x86"
abbreviation x86_ymm5 :: MachRegister where "x86_ymm5 \<equiv> 0x05 OR x86_YMMS OR x86_YMM OR Arch_x86"
abbreviation x86_ymm6 :: MachRegister where "x86_ymm6 \<equiv> 0x06 OR x86_YMMS OR x86_YMM OR Arch_x86"
abbreviation x86_ymm7 :: MachRegister where "x86_ymm7 \<equiv> 0x07 OR x86_YMMS OR x86_YMM OR Arch_x86"
abbreviation x86_zmm0 :: MachRegister where "x86_zmm0 \<equiv> 0x00 OR x86_ZMMS OR x86_ZMM OR Arch_x86"
abbreviation x86_zmm1 :: MachRegister where "x86_zmm1 \<equiv> 0x01 OR x86_ZMMS OR x86_ZMM OR Arch_x86"
abbreviation x86_zmm2 :: MachRegister where "x86_zmm2 \<equiv> 0x02 OR x86_ZMMS OR x86_ZMM OR Arch_x86"
abbreviation x86_zmm3 :: MachRegister where "x86_zmm3 \<equiv> 0x03 OR x86_ZMMS OR x86_ZMM OR Arch_x86"
abbreviation x86_zmm4 :: MachRegister where "x86_zmm4 \<equiv> 0x04 OR x86_ZMMS OR x86_ZMM OR Arch_x86"
abbreviation x86_zmm5 :: MachRegister where "x86_zmm5 \<equiv> 0x05 OR x86_ZMMS OR x86_ZMM OR Arch_x86"
abbreviation x86_zmm6 :: MachRegister where "x86_zmm6 \<equiv> 0x06 OR x86_ZMMS OR x86_ZMM OR Arch_x86"
abbreviation x86_zmm7 :: MachRegister where "x86_zmm7 \<equiv> 0x07 OR x86_ZMMS OR x86_ZMM OR Arch_x86"
abbreviation x86_k0 :: MachRegister where "x86_k0 \<equiv> 0x00 OR x86_KMSKS OR x86_KMASK OR Arch_x86"
abbreviation x86_k1 :: MachRegister where "x86_k1 \<equiv> 0x01 OR x86_KMSKS OR x86_KMASK OR Arch_x86"
abbreviation x86_k2 :: MachRegister where "x86_k2 \<equiv> 0x02 OR x86_KMSKS OR x86_KMASK OR Arch_x86"
abbreviation x86_k3 :: MachRegister where "x86_k3 \<equiv> 0x03 OR x86_KMSKS OR x86_KMASK OR Arch_x86"
abbreviation x86_k4 :: MachRegister where "x86_k4 \<equiv> 0x04 OR x86_KMSKS OR x86_KMASK OR Arch_x86"
abbreviation x86_k5 :: MachRegister where "x86_k5 \<equiv> 0x05 OR x86_KMSKS OR x86_KMASK OR Arch_x86"
abbreviation x86_k6 :: MachRegister where "x86_k6 \<equiv> 0x06 OR x86_KMSKS OR x86_KMASK OR Arch_x86"
abbreviation x86_k7 :: MachRegister where "x86_k7 \<equiv> 0x07 OR x86_KMSKS OR x86_KMASK OR Arch_x86"
abbreviation x86_oeax :: MachRegister where "x86_oeax \<equiv> 0x0 OR x86_FULL OR x86_MISC OR Arch_x86"
abbreviation x86_fsbase :: MachRegister where "x86_fsbase \<equiv> 0x1 OR x86_FULL OR x86_MISC OR Arch_x86"
abbreviation x86_gsbase :: MachRegister where "x86_gsbase \<equiv> 0x2 OR x86_FULL OR x86_MISC OR Arch_x86"
abbreviation x86_tr0 :: MachRegister where "x86_tr0 \<equiv> 0x0 OR x86_FULL OR x86_TST OR Arch_x86"
abbreviation x86_tr1 :: MachRegister where "x86_tr1 \<equiv> 0x1 OR x86_FULL OR x86_TST OR Arch_x86"
abbreviation x86_tr2 :: MachRegister where "x86_tr2 \<equiv> 0x2 OR x86_FULL OR x86_TST OR Arch_x86"
abbreviation x86_tr3 :: MachRegister where "x86_tr3 \<equiv> 0x3 OR x86_FULL OR x86_TST OR Arch_x86"
abbreviation x86_tr4 :: MachRegister where "x86_tr4 \<equiv> 0x4 OR x86_FULL OR x86_TST OR Arch_x86"
abbreviation x86_tr5 :: MachRegister where "x86_tr5 \<equiv> 0x5 OR x86_FULL OR x86_TST OR Arch_x86"
abbreviation x86_tr6 :: MachRegister where "x86_tr6 \<equiv> 0x6 OR x86_FULL OR x86_TST OR Arch_x86"
abbreviation x86_tr7 :: MachRegister where "x86_tr7 \<equiv> 0x7 OR x86_FULL OR x86_TST OR Arch_x86"

definition x86_regs1 :: "MachRegister list" where
  "x86_regs1 = [
    x86_eax, x86_ax, x86_ah, x86_al, x86_ecx, x86_cx, x86_ch, x86_cl, x86_edx, x86_dx, x86_dh,
    x86_dl, x86_ebx, x86_bx, x86_bh, x86_bl, x86_esp, x86_sp, x86_ebp, x86_bp, x86_esi, x86_si,
    x86_edi, x86_di, x86_eip, x86_cs, x86_ds, x86_es, x86_ss, x86_fs, x86_gs, x86_gdtr,
    x86_ldtr, x86_idtr, x86_tr, x86_flags, x86_cf, x86_flag1, x86_pf, x86_flag3, x86_af,
    x86_flag5, x86_zf, x86_sf, x86_tf, x86_if, x86_df, x86_of, x86_flagc, x86_flagd, x86_nt,
    x86_flagf, x86_rf, x86_vm, x86_ac, x86_vif, x86_vip, x86_id, x86_cr0, x86_cr1, x86_cr2,
    x86_cr3, x86_cr4, x86_cr5, x86_cr6, x86_cr7, x86_dr0, x86_dr1, x86_dr2, x86_dr3, x86_dr4,
    x86_dr5, x86_dr6, x86_dr7, x86_st0, x86_st1, x86_st2, x86_st3, x86_st4, x86_st5, x86_st6,
    x86_st7, x86_fcw, x86_fsw, x86_mm0, x86_mm1, x86_mm2, x86_mm3, x86_mm4, x86_mm5, x86_mm6,
    x86_mm7, x86_xmm0, x86_xmm1, x86_xmm2, x86_xmm3, x86_xmm4, x86_xmm5, x86_xmm6, x86_xmm7,
    x86_mxcsr, x86_ymm0, x86_ymm1, x86_ymm2, x86_ymm3, x86_ymm4, x86_ymm5, x86_ymm6, x86_ymm7,
    x86_zmm0, x86_zmm1, x86_zmm2, x86_zmm3, x86_zmm4, x86_zmm5, x86_zmm6]"

definition x86_regs2 :: "MachRegister list" where
  "x86_regs2 = [
    x86_zmm7, x86_k0, x86_k1, x86_k2, x86_k3, x86_k4, x86_k5, x86_k6, x86_k7, x86_oeax,
    x86_fsbase, x86_gsbase, x86_tr0, x86_tr1, x86_tr2, x86_tr3, x86_tr4, x86_tr5, x86_tr6,
    x86_tr7]"

definition x86_regs :: "MachRegister list" where
  "x86_regs = x86_regs1 @ x86_regs2"

section \<open>Registers of x86_64\<close>

abbreviation x86_64_FULL :: MachRegister where "x86_64_FULL \<equiv> 0x00000000"
abbreviation x86_64_BIT :: MachRegister where "x86_64_BIT \<equiv> 0x00000100"
abbreviation x86_64_L_REG :: MachRegister where "x86_64_L_REG \<equiv> 0x00000200"
abbreviation x86_64_H_REG :: MachRegister where "x86_64_H_REG \<equiv> 0x00000300"
abbreviation x86_64_W_REG :: MachRegister where "x86_64_W_REG \<equiv> 0x00000400"
abbreviation x86_64_D_REG :: MachRegister where "x86_64_D_REG \<equiv> 0x00000500"
abbreviation x86_64_FPDBL :: MachRegister where "x86_64_FPDBL \<equiv> 0x00000600"
abbreviation x86_64_MMS :: MachRegister where "x86_64_MMS \<equiv> 0x00000700"
abbreviation x86_64_XMMS :: MachRegister where "x86_64_XMMS \<equiv> 0x00000800"
abbreviation x86_64_YMMS :: MachRegister where "x86_64_YMMS \<equiv> 0x00000900"
abbreviation x86_64_ZMMS :: MachRegister where "x86_64_ZMMS \<equiv> 0x00000a00"
abbreviation x86_64_KMSKS :: MachRegister where "x86_64_KMSKS \<equiv> 0x00000b00"
abbreviation x86_64_GPR :: MachRegister where "x86_64_GPR \<equiv> 0x00010000"
abbreviation x86_64_SEG :: MachRegister where "x86_64_SEG \<equiv> 0x00020000"
abbreviation x86_64_FLAG :: MachRegister where "x86_64_FLAG \<equiv> 0x00030000"
abbreviation x86_64_MISC :: MachRegister where "x86_64_MISC \<equiv> 0x00040000"
abbreviation x86_64_CTL :: MachRegister where "x86_64_CTL \<equiv> 0x00050000"
abbreviation x86_64_DBG :: MachRegister where "x86_64_DBG \<equiv> 0x00060000"
abbreviation x86_64_TST :: MachRegister where "x86_64_TST \<equiv> 0x00070000"
abbreviation x86_64_X87 :: MachRegister where "x86_64_X87 \<equiv> 0x00080000"
abbreviation x86_64_MMX :: MachRegister where "x86_64_MMX \<equiv> 0x00090000"
abbreviation x86_64_XMM :: MachRegister where "x86_64_XMM \<equiv> 0x000a0000"
abbreviation x86_64_YMM :: MachRegister where "x86_64_YMM \<equiv> 0x000b0000"
abbreviation x86_64_ZMM :: MachRegister where "x86_64_ZMM \<equiv> 0x000c0000"
abbreviation x86_64_KMASK :: MachRegister where "x86_64_KMASK \<equiv> 0x000d0000"
abbreviation x86_64_FPCTL :: MachRegister where "x86_64_FPCTL \<equiv> 0x000e0000"
abbreviation x86_64_FLAGS :: MachRegister where "x86_64_FLAGS \<equiv> 0x00"
abbreviation x86_64_BASEA :: MachRegister where "x86_64_BASEA \<equiv> 0x00"
abbreviation x86_64_BASEC :: MachRegister where "x86_64_BASEC \<equiv> 0x01"
abbreviation x86_64_BASED :: MachRegister where "x86_64_BASED \<equiv> 0x02"
abbreviation x86_64_BASEB :: MachRegister where "x86_64_BASEB \<equiv> 0x03"
abbreviation x86_64_BASESP :: MachRegister where "x86_64_BASESP \<equiv> 0x04"
abbreviation x86_64_BASEBP :: MachRegister where "x86_64_BASEBP \<equiv> 0x05"
abbreviation x86_64_BASESI :: MachRegister where "x86_64_BASESI \<equiv> 0x06"
abbreviation x86_64_BASEDI :: MachRegister where "x86_64_BASEDI \<equiv> 0x07"
abbreviation x86_64_BASE8 :: MachRegister where "x86_64_BASE8 \<equiv> 0x08"
abbreviation x86_64_BASE9 :: MachRegister where "x86_64_BASE9 \<equiv> 0x09"
abbreviation x86_64_BASE10 :: MachRegister where "x86_64_BASE10 \<equiv> 0x0a"
abbreviation x86_64_BASE11 :: MachRegister where "x86_64_BASE11 \<equiv> 0x0b"
abbreviation x86_64_BASE12 :: MachRegister where "x86_64_BASE12 \<equiv> 0x0c"
abbreviation x86_64_BASE13 :: MachRegister where "x86_64_BASE13 \<equiv> 0x0d"
abbreviation x86_64_BASE14 :: MachRegister where "x86_64_BASE14 \<equiv> 0x0e"
abbreviation x86_64_BASE15 :: MachRegister where "x86_64_BASE15 \<equiv> 0x0f"
abbreviation x86_64_BASEDS :: MachRegister where "x86_64_BASEDS \<equiv> 0x0"
abbreviation x86_64_BASESS :: MachRegister where "x86_64_BASESS \<equiv> 0x1"
abbreviation x86_64_BASEFS :: MachRegister where "x86_64_BASEFS \<equiv> 0x2"
abbreviation x86_64_BASEGS :: MachRegister where "x86_64_BASEGS \<equiv> 0x3"
abbreviation x86_64_BASECS :: MachRegister where "x86_64_BASECS \<equiv> 0x4"
abbreviation x86_64_BASEES :: MachRegister where "x86_64_BASEES \<equiv> 0x5"
abbreviation x86_64_BASEGD :: MachRegister where "x86_64_BASEGD \<equiv> 0x6"
abbreviation x86_64_BASELD :: MachRegister where "x86_64_BASELD \<equiv> 0x7"
abbreviation x86_64_BASEID :: MachRegister where "x86_64_BASEID \<equiv> 0x8"
abbreviation x86_64_BASETR :: MachRegister where "x86_64_BASETR \<equiv> 0x9"
abbreviation x86_64_CF :: MachRegister where "x86_64_CF \<equiv> x86_CF"
abbreviation x86_64_FLAG1 :: MachRegister where "x86_64_FLAG1 \<equiv> x86_FLAG1"
abbreviation x86_64_PF :: MachRegister where "x86_64_PF \<equiv> x86_PF"
abbreviation x86_64_FLAG3 :: MachRegister where "x86_64_FLAG3 \<equiv> x86_FLAG3"
abbreviation x86_64_AF :: MachRegister where "x86_64_AF \<equiv> x86_AF"
abbreviation x86_64_FLAG5 :: MachRegister where "x86_64_FLAG5 \<equiv> x86_FLAG5"
abbreviation x86_64_ZF :: MachRegister where "x86_64_ZF \<equiv> x86_ZF"
abbreviation x86_64_SF :: MachRegister where "x86_64_SF \<equiv> x86_SF"
abbreviation x86_64_TF :: MachRegister where "x86_64_TF \<equiv> x86_TF"
abbreviation x86_64_IF :: MachRegister where "x86_64_IF \<equiv> x86_IF"
abbreviation x86_64_DF :: MachRegister where "x86_64_DF \<equiv> x86_DF"
abbreviation x86_64_OF :: MachRegister where "x86_64_OF \<equiv> x86_OF"
abbreviation x86_64_FLAGC :: MachRegister where "x86_64_FLAGC \<equiv> x86_FLAGC"
abbreviation x86_64_FLAGD :: MachRegister where "x86_64_FLAGD \<equiv> x86_FLAGD"
abbreviation x86_64_NT :: MachRegister where "x86_64_NT \<equiv> x86_NT"
abbreviation x86_64_FLAGF :: MachRegister where "x86_64_FLAGF \<equiv> x86_FLAGF"
abbreviation x86_64_RF :: MachRegister where "x86_64_RF \<equiv> x86_RF"
abbreviation x86_64_VM :: MachRegister where "x86_64_VM \<equiv> x86_VM"
abbreviation x86_64_AC :: MachRegister where "x86_64_AC \<equiv> x86_AC"
abbreviation x86_64_VIF :: MachRegister where "x86_64_VIF \<equiv> x86_VIF"
abbreviation x86_64_VIP :: MachRegister where "x86_64_VIP \<equiv> x86_VIP"
abbreviation x86_64_ID :: MachRegister where "x86_64_ID \<equiv> x86_ID"

abbreviation x86_64_rax :: MachRegister where
  "x86_64_rax \<equiv> x86_64_BASEA OR x86_64_FULL OR x86_64_GPR OR Arch_x86_64"
abbreviation x86_64_eax :: MachRegister where
  "x86_64_eax \<equiv> x86_64_BASEA OR x86_64_D_REG OR x86_64_GPR OR Arch_x86_64"
abbreviation x86_64_ax :: MachRegister where
  "x86_64_ax \<equiv> x86_64_BASEA OR x86_64_W_REG OR x86_64_GPR OR Arch_x86_64"
abbreviation x86_64_ah :: MachRegister where
  "x86_64_ah \<equiv> x86_64_BASEA OR x86_64_H_REG OR x86_64_GPR OR Arch_x86_64"
abbreviation x86_64_al :: MachRegister where
  "x86_64_al \<equiv> x86_64_BASEA OR x86_64_L_REG OR x86_64_GPR OR Arch_x86_64"
abbreviation x86_64_rcx :: MachRegister where
  "x86_64_rcx \<equiv> x86_64_BASEC OR x86_64_FULL OR x86_64_GPR OR Arch_x86_64"
abbreviation x86_64_ecx :: MachRegister where
  "x86_64_ecx \<equiv> x86_64_BASEC OR x86_64_D_REG OR x86_64_GPR OR Arch_x86_64"
abbreviation x86_64_cx :: MachRegister where
  "x86_64_cx \<equiv> x86_64_BASEC OR x86_64_W_REG OR x86_64_GPR OR Arch_x86_64"
abbreviation x86_64_ch :: MachRegister where
  "x86_64_ch \<equiv> x86_64_BASEC OR x86_64_H_REG OR x86_64_GPR OR Arch_x86_64"
abbreviation x86_64_cl :: MachRegister where
  "x86_64_cl \<equiv> x86_64_BASEC OR x86_64_L_REG OR x86_64_GPR OR Arch_x86_64"
abbreviation x86_64_rdx :: MachRegister where
  "x86_64_rdx \<equiv> x86_64_BASED OR x86_64_FULL OR x86_64_GPR OR Arch_x86_64"
abbreviation x86_64_edx :: MachRegister where
  "x86_64_edx \<equiv> x86_64_BASED OR x86_64_D_REG OR x86_64_GPR OR Arch_x86_64"
abbreviation x86_64_dx :: MachRegister where
  "x86_64_dx \<equiv> x86_64_BASED OR x86_64_W_REG OR x86_64_GPR OR Arch_x86_64"
abbreviation x86_64_dh :: MachRegister where
  "x86_64_dh \<equiv> x86_64_BASED OR x86_64_H_REG OR x86_64_GPR OR Arch_x86_64"
abbreviation x86_64_dl :: MachRegister where
  "x86_64_dl \<equiv> x86_64_BASED OR x86_64_L_REG OR x86_64_GPR OR Arch_x86_64"
abbreviation x86_64_rbx :: MachRegister where
  "x86_64_rbx \<equiv> x86_64_BASEB OR x86_64_FULL OR x86_64_GPR OR Arch_x86_64"
abbreviation x86_64_ebx :: MachRegister where
  "x86_64_ebx \<equiv> x86_64_BASEB OR x86_64_D_REG OR x86_64_GPR OR Arch_x86_64"
abbreviation x86_64_bx :: MachRegister where
  "x86_64_bx \<equiv> x86_64_BASEB OR x86_64_W_REG OR x86_64_GPR OR Arch_x86_64"
abbreviation x86_64_bh :: MachRegister where
  "x86_64_bh \<equiv> x86_64_BASEB OR x86_64_H_REG OR x86_64_GPR OR Arch_x86_64"
abbreviation x86_64_bl :: MachRegister where
  "x86_64_bl \<equiv> x86_64_BASEB OR x86_64_L_REG OR x86_64_GPR OR Arch_x86_64"
abbreviation x86_64_rsp :: MachRegister where
  "x86_64_rsp \<equiv> x86_64_BASESP OR x86_64_FULL OR x86_64_GPR OR Arch_x86_64"
abbreviation x86_64_esp :: MachRegister where
  "x86_64_esp \<equiv> x86_64_BASESP OR x86_64_D_REG OR x86_64_GPR OR Arch_x86_64"
abbreviation x86_64_sp :: MachRegister where
  "x86_64_sp \<equiv> x86_64_BASESP OR x86_64_W_REG OR x86_64_GPR OR Arch_x86_64"
abbreviation x86_64_spl :: MachRegister where
  "x86_64_spl \<equiv> x86_64_BASESP OR x86_64_L_REG OR x86_64_GPR OR Arch_x86_64"
abbreviation x86_64_rbp :: MachRegister where
  "x86_64_rbp \<equiv> x86_64_BASEBP OR x86_64_FULL OR x86_64_GPR OR Arch_x86_64"
abbreviation x86_64_ebp :: MachRegister where
  "x86_64_ebp \<equiv> x86_64_BASEBP OR x86_64_D_REG OR x86_64_GPR OR Arch_x86_64"
abbreviation x86_64_bp :: MachRegister where
  "x86_64_bp \<equiv> x86_64_BASEBP OR x86_64_W_REG OR x86_64_GPR OR Arch_x86_64"
abbreviation x86_64_bpl :: MachRegister where
  "x86_64_bpl \<equiv> x86_64_BASEBP OR x86_64_L_REG OR x86_64_GPR OR Arch_x86_64"
abbreviation x86_64_rsi :: MachRegister where
  "x86_64_rsi \<equiv> x86_64_BASESI OR x86_64_FULL OR x86_64_GPR OR Arch_x86_64"
abbreviation x86_64_esi :: MachRegister where
  "x86_64_esi \<equiv> x86_64_BASESI OR x86_64_D_REG OR x86_64_GPR OR Arch_x86_64"
abbreviation x86_64_si :: MachRegister where
  "x86_64_si \<equiv> x86_64_BASESI OR x86_64_W_REG OR x86_64_GPR OR Arch_x86_64"
abbreviation x86_64_sil :: MachRegister where
  "x86_64_sil \<equiv> x86_64_BASESI OR x86_64_L_REG OR x86_64_GPR OR Arch_x86_64"
abbreviation x86_64_rdi :: MachRegister where
  "x86_64_rdi \<equiv> x86_64_BASEDI OR x86_64_FULL OR x86_64_GPR OR Arch_x86_64"
abbreviation x86_64_edi :: MachRegister where
  "x86_64_edi \<equiv> x86_64_BASEDI OR x86_64_D_REG OR x86_64_GPR OR Arch_x86_64"
abbreviation x86_64_di :: MachRegister where
  "x86_64_di \<equiv> x86_64_BASEDI OR x86_64_W_REG OR x86_64_GPR OR Arch_x86_64"
abbreviation x86_64_dil :: MachRegister where
  "x86_64_dil \<equiv> x86_64_BASEDI OR x86_64_L_REG OR x86_64_GPR OR Arch_x86_64"
abbreviation x86_64_r8 :: MachRegister where
  "x86_64_r8 \<equiv> x86_64_BASE8 OR x86_64_FULL OR x86_64_GPR OR Arch_x86_64"
abbreviation x86_64_r8b :: MachRegister where
  "x86_64_r8b \<equiv> x86_64_BASE8 OR x86_64_L_REG OR x86_64_GPR OR Arch_x86_64"
abbreviation x86_64_r8w :: MachRegister where
  "x86_64_r8w \<equiv> x86_64_BASE8 OR x86_64_W_REG OR x86_64_GPR OR Arch_x86_64"
abbreviation x86_64_r8d :: MachRegister where
  "x86_64_r8d \<equiv> x86_64_BASE8 OR x86_64_D_REG OR x86_64_GPR OR Arch_x86_64"
abbreviation x86_64_r9 :: MachRegister where
  "x86_64_r9 \<equiv> x86_64_BASE9 OR x86_64_FULL OR x86_64_GPR OR Arch_x86_64"
abbreviation x86_64_r9b :: MachRegister where
  "x86_64_r9b \<equiv> x86_64_BASE9 OR x86_64_L_REG OR x86_64_GPR OR Arch_x86_64"
abbreviation x86_64_r9w :: MachRegister where
  "x86_64_r9w \<equiv> x86_64_BASE9 OR x86_64_W_REG OR x86_64_GPR OR Arch_x86_64"
abbreviation x86_64_r9d :: MachRegister where
  "x86_64_r9d \<equiv> x86_64_BASE9 OR x86_64_D_REG OR x86_64_GPR OR Arch_x86_64"
abbreviation x86_64_r10 :: MachRegister where
  "x86_64_r10 \<equiv> x86_64_BASE10 OR x86_64_FULL OR x86_64_GPR OR Arch_x86_64"
abbreviation x86_64_r10b :: MachRegister where
  "x86_64_r10b \<equiv> x86_64_BASE10 OR x86_64_L_REG OR x86_64_GPR OR Arch_x86_64"
abbreviation x86_64_r10w :: MachRegister where
  "x86_64_r10w \<equiv> x86_64_BASE10 OR x86_64_W_REG OR x86_64_GPR OR Arch_x86_64"
abbreviation x86_64_r10d :: MachRegister where
  "x86_64_r10d \<equiv> x86_64_BASE10 OR x86_64_D_REG OR x86_64_GPR OR Arch_x86_64"
abbreviation x86_64_r11 :: MachRegister where
  "x86_64_r11 \<equiv> x86_64_BASE11 OR x86_64_FULL OR x86_64_GPR OR Arch_x86_64"
abbreviation x86_64_r11b :: MachRegister where
  "x86_64_r11b \<equiv> x86_64_BASE11 OR x86_64_L_REG OR x86_64_GPR OR Arch_x86_64"
abbreviation x86_64_r11w :: MachRegister where
  "x86_64_r11w \<equiv> x86_64_BASE11 OR x86_64_W_REG OR x86_64_GPR OR Arch_x86_64"
abbreviation x86_64_r11d :: MachRegister where
  "x86_64_r11d \<equiv> x86_64_BASE11 OR x86_64_D_REG OR x86_64_GPR OR Arch_x86_64"
abbreviation x86_64_r12 :: MachRegister where
  "x86_64_r12 \<equiv> x86_64_BASE12 OR x86_64_FULL OR x86_64_GPR OR Arch_x86_64"
abbreviation x86_64_r12b :: MachRegister where
  "x86_64_r12b \<equiv> x86_64_BASE12 OR x86_64_L_REG OR x86_64_GPR OR Arch_x86_64"
abbreviation x86_64_r12w :: MachRegister where
  "x86_64_r12w \<equiv> x86_64_BASE12 OR x86_64_W_REG OR x86_64_GPR OR Arch_x86_64"
abbreviation x86_64_r12d :: MachRegister where
  "x86_64_r12d \<equiv> x86_64_BASE12 OR x86_64_D_REG OR x86_64_GPR OR Arch_x86_64"
abbreviation x86_64_r13 :: MachRegister where
  "x86_64_r13 \<equiv> x86_64_BASE13 OR x86_64_FULL OR x86_64_GPR OR Arch_x86_64"
abbreviation x86_64_r13b :: MachRegister where
  "x86_64_r13b \<equiv> x86_64_BASE13 OR x86_64_L_REG OR x86_64_GPR OR Arch_x86_64"
abbreviation x86_64_r13w :: MachRegister where
  "x86_64_r13w \<equiv> x86_64_BASE13 OR x86_64_W_REG OR x86_64_GPR OR Arch_x86_64"
abbreviation x86_64_r13d :: MachRegister where
  "x86_64_r13d \<equiv> x86_64_BASE13 OR x86_64_D_REG OR x86_64_GPR OR Arch_x86_64"
abbreviation x86_64_r14 :: MachRegister where
  "x86_64_r14 \<equiv> x86_64_BASE14 OR x86_64_FULL OR x86_64_GPR OR Arch_x86_64"
abbreviation x86_64_r14b :: MachRegister where
  "x86_64_r14b \<equiv> x86_64_BASE14 OR x86_64_L_REG OR x86_64_GPR OR Arch_x86_64"
abbreviation x86_64_r14w :: MachRegister where
  "x86_64_r14w \<equiv> x86_64_BASE14 OR x86_64_W_REG OR x86_64_GPR OR Arch_x86_64"
abbreviation x86_64_r14d :: MachRegister where
  "x86_64_r14d \<equiv> x86_64_BASE14 OR x86_64_D_REG OR x86_64_GPR OR Arch_x86_64"
abbreviation x86_64_r15 :: MachRegister where
  "x86_64_r15 \<equiv> x86_64_BASE15 OR x86_64_FULL OR x86_64_GPR OR Arch_x86_64"
abbreviation x86_64_r15b :: MachRegister where
  "x86_64_r15b \<equiv> x86_64_BASE15 OR x86_64_L_REG OR x86_64_GPR OR Arch_x86_64"
abbreviation x86_64_r15w :: MachRegister where
  "x86_64_r15w \<equiv> x86_64_BASE15 OR x86_64_W_REG OR x86_64_GPR OR Arch_x86_64"
abbreviation x86_64_r15d :: MachRegister where
  "x86_64_r15d \<equiv> x86_64_BASE15 OR x86_64_D_REG OR x86_64_GPR OR Arch_x86_64"
abbreviation x86_64_rip :: MachRegister where "x86_64_rip \<equiv> 0x10 OR x86_64_FULL OR Arch_x86_64"
abbreviation x86_64_eip :: MachRegister where "x86_64_eip \<equiv> 0x10 OR x86_64_D_REG OR Arch_x86_64"
abbreviation x86_64_flags :: MachRegister where
  "x86_64_flags \<equiv> x86_64_FLAGS OR x86_64_FULL OR x86_64_FLAG OR Arch_x86_64"
abbreviation x86_64_cf :: MachRegister where
  "x86_64_cf \<equiv> x86_64_CF OR x86_64_BIT OR x86_64_FLAG OR Arch_x86_64"
abbreviation x86_64_flag1 :: MachRegister where
  "x86_64_flag1 \<equiv> x86_64_FLAG1 OR x86_64_BIT OR x86_64_FLAG OR Arch_x86_64"
abbreviation x86_64_pf :: MachRegister where
  "x86_64_pf \<equiv> x86_64_PF OR x86_64_BIT OR x86_64_FLAG OR Arch_x86_64"
abbreviation x86_64_flag3 :: MachRegister where
  "x86_64_flag3 \<equiv> x86_64_FLAG3 OR x86_64_BIT OR x86_64_FLAG OR Arch_x86_64"
abbreviation x86_64_af :: MachRegister where
  "x86_64_af \<equiv> x86_64_AF OR x86_64_BIT OR x86_64_FLAG OR Arch_x86_64"
abbreviation x86_64_flag5 :: MachRegister where
  "x86_64_flag5 \<equiv> x86_64_FLAG5 OR x86_64_BIT OR x86_64_FLAG OR Arch_x86_64"
abbreviation x86_64_zf :: MachRegister where
  "x86_64_zf \<equiv> x86_64_ZF OR x86_64_BIT OR x86_64_FLAG OR Arch_x86_64"
abbreviation x86_64_sf :: MachRegister where
  "x86_64_sf \<equiv> x86_64_SF OR x86_64_BIT OR x86_64_FLAG OR Arch_x86_64"
abbreviation x86_64_tf :: MachRegister where
  "x86_64_tf \<equiv> x86_64_TF OR x86_64_BIT OR x86_64_FLAG OR Arch_x86_64"
abbreviation x86_64_if :: MachRegister where
  "x86_64_if \<equiv> x86_64_IF OR x86_64_BIT OR x86_64_FLAG OR Arch_x86_64"
abbreviation x86_64_df :: MachRegister where
  "x86_64_df \<equiv> x86_64_DF OR x86_64_BIT OR x86_64_FLAG OR Arch_x86_64"
abbreviation x86_64_of :: MachRegister where
  "x86_64_of \<equiv> x86_64_OF OR x86_64_BIT OR x86_64_FLAG OR Arch_x86_64"
abbreviation x86_64_flagc :: MachRegister where
  "x86_64_flagc \<equiv> x86_64_FLAGC OR x86_64_BIT OR x86_64_FLAG OR Arch_x86_64"
abbreviation x86_64_flagd :: MachRegister where
  "x86_64_flagd \<equiv> x86_64_FLAGD OR x86_64_BIT OR x86_64_FLAG OR Arch_x86_64"
abbreviation x86_64_nt :: MachRegister where
  "x86_64_nt \<equiv> x86_64_NT OR x86_64_BIT OR x86_64_FLAG OR Arch_x86_64"
abbreviation x86_64_flagf :: MachRegister where
  "x86_64_flagf \<equiv> x86_64_FLAGF OR x86_64_BIT OR x86_64_FLAG OR Arch_x86_64"
abbreviation x86_64_rf :: MachRegister where
  "x86_64_rf \<equiv> x86_64_RF OR x86_64_BIT OR x86_64_FLAG OR Arch_x86_64"
abbreviation x86_64_vm :: MachRegister where
  "x86_64_vm \<equiv> x86_64_VM OR x86_64_BIT OR x86_64_FLAG OR Arch_x86_64"
abbreviation x86_64_ac :: MachRegister where
  "x86_64_ac \<equiv> x86_64_AC OR x86_64_BIT OR x86_64_FLAG OR Arch_x86_64"
abbreviation x86_64_vif :: MachRegister where
  "x86_64_vif \<equiv> x86_64_VIF OR x86_64_BIT OR x86_64_FLAG OR Arch_x86_64"
abbreviation x86_64_vip :: MachRegister where
  "x86_64_vip \<equiv> x86_64_VIP OR x86_64_BIT OR x86_64_FLAG OR Arch_x86_64"
abbreviation x86_64_id :: MachRegister where
  "x86_64_id \<equiv> x86_64_ID OR x86_64_BIT OR x86_64_FLAG OR Arch_x86_64"
abbreviation x86_64_ds :: MachRegister where
  "x86_64_ds \<equiv> x86_64_BASEDS OR x86_64_FULL OR x86_64_SEG OR Arch_x86_64"
abbreviation x86_64_es :: MachRegister where
  "x86_64_es \<equiv> x86_64_BASEES OR x86_64_FULL OR x86_64_SEG OR Arch_x86_64"
abbreviation x86_64_fs :: MachRegister where
  "x86_64_fs \<equiv> x86_64_BASEFS OR x86_64_FULL OR x86_64_SEG OR Arch_x86_64"
abbreviation x86_64_gs :: MachRegister where
  "x86_64_gs \<equiv> x86_64_BASEGS OR x86_64_FULL OR x86_64_SEG OR Arch_x86_64"
abbreviation x86_64_cs :: MachRegister where
  "x86_64_cs \<equiv> x86_64_BASECS OR x86_64_FULL OR x86_64_SEG OR Arch_x86_64"
abbreviation x86_64_ss :: MachRegister where
  "x86_64_ss \<equiv> x86_64_BASESS OR x86_64_FULL OR x86_64_SEG OR Arch_x86_64"
abbreviation x86_64_gdtr :: MachRegister where
  "x86_64_gdtr \<equiv> x86_64_BASEGD OR x86_64_W_REG OR x86_64_SEG OR Arch_x86_64"
abbreviation x86_64_ldtr :: MachRegister where
  "x86_64_ldtr \<equiv> x86_64_BASELD OR x86_64_W_REG OR x86_64_SEG OR Arch_x86_64"
abbreviation x86_64_idtr :: MachRegister where
  "x86_64_idtr \<equiv> x86_64_BASEID OR x86_64_W_REG OR x86_64_SEG OR Arch_x86_64"
abbreviation x86_64_tr :: MachRegister where
  "x86_64_tr \<equiv> x86_64_BASETR OR x86_64_W_REG OR x86_64_SEG OR Arch_x86_64"
abbreviation x86_64_cr0 :: MachRegister where
  "x86_64_cr0 \<equiv> 0x0 OR x86_64_FULL OR x86_64_CTL OR Arch_x86_64"
abbreviation x86_64_cr1 :: MachRegister where
  "x86_64_cr1 \<equiv> 0x1 OR x86_64_FULL OR x86_64_CTL OR Arch_x86_64"
abbreviation x86_64_cr2 :: MachRegister where
  "x86_64_cr2 \<equiv> 0x2 OR x86_64_FULL OR x86_64_CTL OR Arch_x86_64"
abbreviation x86_64_cr3 :: MachRegister where
  "x86_64_cr3 \<equiv> 0x3 OR x86_64_FULL OR x86_64_CTL OR Arch_x86_64"
abbreviation x86_64_cr4 :: MachRegister where
  "x86_64_cr4 \<equiv> 0x4 OR x86_64_FULL OR x86_64_CTL OR Arch_x86_64"
abbreviation x86_64_cr5 :: MachRegister where
  "x86_64_cr5 \<equiv> 0x5 OR x86_64_FULL OR x86_64_CTL OR Arch_x86_64"
abbreviation x86_64_cr6 :: MachRegister where
  "x86_64_cr6 \<equiv> 0x6 OR x86_64_FULL OR x86_64_CTL OR Arch_x86_64"
abbreviation x86_64_cr7 :: MachRegister where
  "x86_64_cr7 \<equiv> 0x7 OR x86_64_FULL OR x86_64_CTL OR Arch_x86_64"
abbreviation x86_64_cr8 :: MachRegister where
  "x86_64_cr8 \<equiv> 0x8 OR x86_64_FULL OR x86_64_CTL OR Arch_x86_64"
abbreviation x86_64_cr9 :: MachRegister where
  "x86_64_cr9 \<equiv> 0x9 OR x86_64_FULL OR x86_64_CTL OR Arch_x86_64"
abbreviation x86_64_cr10 :: MachRegister where
  "x86_64_cr10 \<equiv> 0xa OR x86_64_FULL OR x86_64_CTL OR Arch_x86_64"
abbreviation x86_64_cr11 :: MachRegister where
  "x86_64_cr11 \<equiv> 0xb OR x86_64_FULL OR x86_64_CTL OR Arch_x86_64"
abbreviation x86_64_cr12 :: MachRegister where
  "x86_64_cr12 \<equiv> 0xc OR x86_64_FULL OR x86_64_CTL OR Arch_x86_64"
abbreviation x86_64_cr13 :: MachRegister where
  "x86_64_cr13 \<equiv> 0xd OR x86_64_FULL OR x86_64_CTL OR Arch_x86_64"
abbreviation x86_64_cr14 :: MachRegister where
  "x86_64_cr14 \<equiv> 0xe OR x86_64_FULL OR x86_64_CTL OR Arch_x86_64"
abbreviation x86_64_cr15 :: MachRegister where
  "x86_64_cr15 \<equiv> 0xf OR x86_64_FULL OR x86_64_CTL OR Arch_x86_64"
abbreviation x86_64_dr0 :: MachRegister where
  "x86_64_dr0 \<equiv> 0x0 OR x86_64_FULL OR x86_64_DBG OR Arch_x86_64"
abbreviation x86_64_dr1 :: MachRegister where
  "x86_64_dr1 \<equiv> 0x1 OR x86_64_FULL OR x86_64_DBG OR Arch_x86_64"
abbreviation x86_64_dr2 :: MachRegister where
  "x86_64_dr2 \<equiv> 0x2 OR x86_64_FULL OR x86_64_DBG OR Arch_x86_64"
abbreviation x86_64_dr3 :: MachRegister where
  "x86_64_dr3 \<equiv> 0x3 OR x86_64_FULL OR x86_64_DBG OR Arch_x86_64"
abbreviation x86_64_dr4 :: MachRegister where
  "x86_64_dr4 \<equiv> 0x4 OR x86_64_FULL OR x86_64_DBG OR Arch_x86_64"
abbreviation x86_64_dr5 :: MachRegister where
  "x86_64_dr5 \<equiv> 0x5 OR x86_64_FULL OR x86_64_DBG OR Arch_x86_64"
abbreviation x86_64_dr6 :: MachRegister where
  "x86_64_dr6 \<equiv> 0x6 OR x86_64_FULL OR x86_64_DBG OR Arch_x86_64"
abbreviation x86_64_dr7 :: MachRegister where
  "x86_64_dr7 \<equiv> 0x7 OR x86_64_FULL OR x86_64_DBG OR Arch_x86_64"
abbreviation x86_64_dr8 :: MachRegister where
  "x86_64_dr8 \<equiv> 0x8 OR x86_64_FULL OR x86_64_DBG OR Arch_x86_64"
abbreviation x86_64_dr9 :: MachRegister where
  "x86_64_dr9 \<equiv> 0x9 OR x86_64_FULL OR x86_64_DBG OR Arch_x86_64"
abbreviation x86_64_dr10 :: MachRegister where
  "x86_64_dr10 \<equiv> 0xa OR x86_64_FULL OR x86_64_DBG OR Arch_x86_64"
abbreviation x86_64_dr11 :: MachRegister where
  "x86_64_dr11 \<equiv> 0xb OR x86_64_FULL OR x86_64_DBG OR Arch_x86_64"
abbreviation x86_64_dr12 :: MachRegister where
  "x86_64_dr12 \<equiv> 0xc OR x86_64_FULL OR x86_64_DBG OR Arch_x86_64"
abbreviation x86_64_dr13 :: MachRegister where
  "x86_64_dr13 \<equiv> 0xd OR x86_64_FULL OR x86_64_DBG OR Arch_x86_64"
abbreviation x86_64_dr14 :: MachRegister where
  "x86_64_dr14 \<equiv> 0xe OR x86_64_FULL OR x86_64_DBG OR Arch_x86_64"
abbreviation x86_64_dr15 :: MachRegister where
  "x86_64_dr15 \<equiv> 0xf OR x86_64_FULL OR x86_64_DBG OR Arch_x86_64"
abbreviation x86_64_st0 :: MachRegister where
  "x86_64_st0 \<equiv> 0x0 OR x86_64_FPDBL OR x86_64_X87 OR Arch_x86_64"
abbreviation x86_64_st1 :: MachRegister where
  "x86_64_st1 \<equiv> 0x1 OR x86_64_FPDBL OR x86_64_X87 OR Arch_x86_64"
abbreviation x86_64_st2 :: MachRegister where
  "x86_64_st2 \<equiv> 0x2 OR x86_64_FPDBL OR x86_64_X87 OR Arch_x86_64"
abbreviation x86_64_st3 :: MachRegister where
  "x86_64_st3 \<equiv> 0x3 OR x86_64_FPDBL OR x86_64_X87 OR Arch_x86_64"
abbreviation x86_64_st4 :: MachRegister where
  "x86_64_st4 \<equiv> 0x4 OR x86_64_FPDBL OR x86_64_X87 OR Arch_x86_64"
abbreviation x86_64_st5 :: MachRegister where
  "x86_64_st5 \<equiv> 0x5 OR x86_64_FPDBL OR x86_64_X87 OR Arch_x86_64"
abbreviation x86_64_st6 :: MachRegister where
  "x86_64_st6 \<equiv> 0x6 OR x86_64_FPDBL OR x86_64_X87 OR Arch_x86_64"
abbreviation x86_64_st7 :: MachRegister where
  "x86_64_st7 \<equiv> 0x7 OR x86_64_FPDBL OR x86_64_X87 OR Arch_x86_64"
abbreviation x86_64_fcw :: MachRegister where
  "x86_64_fcw \<equiv> 0x8 OR x86_64_W_REG OR x86_64_FPCTL OR Arch_x86_64"
abbreviation x86_64_fsw :: MachRegister where
  "x86_64_fsw \<equiv> 0x9 OR x86_64_W_REG OR x86_64_FPCTL OR Arch_x86_64"
abbreviation x86_64_mm0 :: MachRegister where
  "x86_64_mm0 \<equiv> 0x0 OR x86_64_MMS OR x86_64_MMX OR Arch_x86_64"
abbreviation x86_64_mm1 :: MachRegister where
  "x86_64_mm1 \<equiv> 0x1 OR x86_64_MMS OR x86_64_MMX OR Arch_x86_64"
abbreviation x86_64_mm2 :: MachRegister where
  "x86_64_mm2 \<equiv> 0x2 OR x86_64_MMS OR x86_64_MMX OR Arch_x86_64"
abbreviation x86_64_mm3 :: MachRegister where
  "x86_64_mm3 \<equiv> 0x3 OR x86_64_MMS OR x86_64_MMX OR Arch_x86_64"
abbreviation x86_64_mm4 :: MachRegister where
  "x86_64_mm4 \<equiv> 0x4 OR x86_64_MMS OR x86_64_MMX OR Arch_x86_64"
abbreviation x86_64_mm5 :: MachRegister where
  "x86_64_mm5 \<equiv> 0x5 OR x86_64_MMS OR x86_64_MMX OR Arch_x86_64"
abbreviation x86_64_mm6 :: MachRegister where
  "x86_64_mm6 \<equiv> 0x6 OR x86_64_MMS OR x86_64_MMX OR Arch_x86_64"
abbreviation x86_64_mm7 :: MachRegister where
  "x86_64_mm7 \<equiv> 0x7 OR x86_64_MMS OR x86_64_MMX OR Arch_x86_64"
abbreviation x86_64_xmm0 :: MachRegister where
  "x86_64_xmm0 \<equiv> 0x00 OR x86_64_XMMS OR x86_64_XMM OR Arch_x86_64"
abbreviation x86_64_xmm1 :: MachRegister where
  "x86_64_xmm1 \<equiv> 0x01 OR x86_64_XMMS OR x86_64_XMM OR Arch_x86_64"
abbreviation x86_64_xmm2 :: MachRegister where
  "x86_64_xmm2 \<equiv> 0x02 OR x86_64_XMMS OR x86_64_XMM OR Arch_x86_64"
abbreviation x86_64_xmm3 :: MachRegister where
  "x86_64_xmm3 \<equiv> 0x03 OR x86_64_XMMS OR x86_64_XMM OR Arch_x86_64"
abbreviation x86_64_xmm4 :: MachRegister where
  "x86_64_xmm4 \<equiv> 0x04 OR x86_64_XMMS OR x86_64_XMM OR Arch_x86_64"
abbreviation x86_64_xmm5 :: MachRegister where
  "x86_64_xmm5 \<equiv> 0x05 OR x86_64_XMMS OR x86_64_XMM OR Arch_x86_64"
abbreviation x86_64_xmm6 :: MachRegister where
  "x86_64_xmm6 \<equiv> 0x06 OR x86_64_XMMS OR x86_64_XMM OR Arch_x86_64"
abbreviation x86_64_xmm7 :: MachRegister where
  "x86_64_xmm7 \<equiv> 0x07 OR x86_64_XMMS OR x86_64_XMM OR Arch_x86_64"
abbreviation x86_64_xmm8 :: MachRegister where
  "x86_64_xmm8 \<equiv> 0x08 OR x86_64_XMMS OR x86_64_XMM OR Arch_x86_64"
abbreviation x86_64_xmm9 :: MachRegister where
  "x86_64_xmm9 \<equiv> 0x09 OR x86_64_XMMS OR x86_64_XMM OR Arch_x86_64"
abbreviation x86_64_xmm10 :: MachRegister where
  "x86_64_xmm10 \<equiv> 0x0a OR x86_64_XMMS OR x86_64_XMM OR Arch_x86_64"
abbreviation x86_64_xmm11 :: MachRegister where
  "x86_64_xmm11 \<equiv> 0x0b OR x86_64_XMMS OR x86_64_XMM OR Arch_x86_64"
abbreviation x86_64_xmm12 :: MachRegister where
  "x86_64_xmm12 \<equiv> 0x0c OR x86_64_XMMS OR x86_64_XMM OR Arch_x86_64"
abbreviation x86_64_xmm13 :: MachRegister where
  "x86_64_xmm13 \<equiv> 0x0d OR x86_64_XMMS OR x86_64_XMM OR Arch_x86_64"
abbreviation x86_64_xmm14 :: MachRegister where
  "x86_64_xmm14 \<equiv> 0x0e OR x86_64_XMMS OR x86_64_XMM OR Arch_x86_64"
abbreviation x86_64_xmm15 :: MachRegister where
  "x86_64_xmm15 \<equiv> 0x0f OR x86_64_XMMS OR x86_64_XMM OR Arch_x86_64"
abbreviation x86_64_xmm16 :: MachRegister where
  "x86_64_xmm16 \<equiv> 0x10 OR x86_64_XMMS OR x86_64_XMM OR Arch_x86_64"
abbreviation x86_64_xmm17 :: MachRegister where
  "x86_64_xmm17 \<equiv> 0x11 OR x86_64_XMMS OR x86_64_XMM OR Arch_x86_64"
abbreviation x86_64_xmm18 :: MachRegister where
  "x86_64_xmm18 \<equiv> 0x12 OR x86_64_XMMS OR x86_64_XMM OR Arch_x86_64"
abbreviation x86_64_xmm19 :: MachRegister where
  "x86_64_xmm19 \<equiv> 0x13 OR x86_64_XMMS OR x86_64_XMM OR Arch_x86_64"
abbreviation x86_64_xmm20 :: MachRegister where
  "x86_64_xmm20 \<equiv> 0x14 OR x86_64_XMMS OR x86_64_XMM OR Arch_x86_64"
abbreviation x86_64_xmm21 :: MachRegister where
  "x86_64_xmm21 \<equiv> 0x15 OR x86_64_XMMS OR x86_64_XMM OR Arch_x86_64"
abbreviation x86_64_xmm22 :: MachRegister where
  "x86_64_xmm22 \<equiv> 0x16 OR x86_64_XMMS OR x86_64_XMM OR Arch_x86_64"
abbreviation x86_64_xmm23 :: MachRegister where
  "x86_64_xmm23 \<equiv> 0x17 OR x86_64_XMMS OR x86_64_XMM OR Arch_x86_64"
abbreviation x86_64_xmm24 :: MachRegister where
  "x86_64_xmm24 \<equiv> 0x18 OR x86_64_XMMS OR x86_64_XMM OR Arch_x86_64"
abbreviation x86_64_xmm25 :: MachRegister where
  "x86_64_xmm25 \<equiv> 0x19 OR x86_64_XMMS OR x86_64_XMM OR Arch_x86_64"
abbreviation x86_64_xmm26 :: MachRegister where
  "x86_64_xmm26 \<equiv> 0x1a OR x86_64_XMMS OR x86_64_XMM OR Arch_x86_64"
abbreviation x86_64_xmm27 :: MachRegister where
  "x86_64_xmm27 \<equiv> 0x1b OR x86_64_XMMS OR x86_64_XMM OR Arch_x86_64"
abbreviation x86_64_xmm28 :: MachRegister where
  "x86_64_xmm28 \<equiv> 0x1c OR x86_64_XMMS OR x86_64_XMM OR Arch_x86_64"
abbreviation x86_64_xmm29 :: MachRegister where
  "x86_64_xmm29 \<equiv> 0x1d OR x86_64_XMMS OR x86_64_XMM OR Arch_x86_64"
abbreviation x86_64_xmm30 :: MachRegister where
  "x86_64_xmm30 \<equiv> 0x1e OR x86_64_XMMS OR x86_64_XMM OR Arch_x86_64"
abbreviation x86_64_xmm31 :: MachRegister where
  "x86_64_xmm31 \<equiv> 0x1f OR x86_64_XMMS OR x86_64_XMM OR Arch_x86_64"
abbreviation x86_64_mxcsr :: MachRegister where
  "x86_64_mxcsr \<equiv> 0x20 OR x86_64_D_REG OR x86_64_FPCTL OR Arch_x86_64"
abbreviation x86_64_ymm0 :: MachRegister where
  "x86_64_ymm0 \<equiv> 0x00 OR x86_64_YMMS OR x86_64_YMM OR Arch_x86_64"
abbreviation x86_64_ymm1 :: MachRegister where
  "x86_64_ymm1 \<equiv> 0x01 OR x86_64_YMMS OR x86_64_YMM OR Arch_x86_64"
abbreviation x86_64_ymm2 :: MachRegister where
  "x86_64_ymm2 \<equiv> 0x02 OR x86_64_YMMS OR x86_64_YMM OR Arch_x86_64"
abbreviation x86_64_ymm3 :: MachRegister where
  "x86_64_ymm3 \<equiv> 0x03 OR x86_64_YMMS OR x86_64_YMM OR Arch_x86_64"
abbreviation x86_64_ymm4 :: MachRegister where
  "x86_64_ymm4 \<equiv> 0x04 OR x86_64_YMMS OR x86_64_YMM OR Arch_x86_64"
abbreviation x86_64_ymm5 :: MachRegister where
  "x86_64_ymm5 \<equiv> 0x05 OR x86_64_YMMS OR x86_64_YMM OR Arch_x86_64"
abbreviation x86_64_ymm6 :: MachRegister where
  "x86_64_ymm6 \<equiv> 0x06 OR x86_64_YMMS OR x86_64_YMM OR Arch_x86_64"
abbreviation x86_64_ymm7 :: MachRegister where
  "x86_64_ymm7 \<equiv> 0x07 OR x86_64_YMMS OR x86_64_YMM OR Arch_x86_64"
abbreviation x86_64_ymm8 :: MachRegister where
  "x86_64_ymm8 \<equiv> 0x08 OR x86_64_YMMS OR x86_64_YMM OR Arch_x86_64"
abbreviation x86_64_ymm9 :: MachRegister where
  "x86_64_ymm9 \<equiv> 0x09 OR x86_64_YMMS OR x86_64_YMM OR Arch_x86_64"
abbreviation x86_64_ymm10 :: MachRegister where
  "x86_64_ymm10 \<equiv> 0x0a OR x86_64_YMMS OR x86_64_YMM OR Arch_x86_64"
abbreviation x86_64_ymm11 :: MachRegister where
  "x86_64_ymm11 \<equiv> 0x0b OR x86_64_YMMS OR x86_64_YMM OR Arch_x86_64"
abbreviation x86_64_ymm12 :: MachRegister where
  "x86_64_ymm12 \<equiv> 0x0c OR x86_64_YMMS OR x86_64_YMM OR Arch_x86_64"
abbreviation x86_64_ymm13 :: MachRegister where
  "x86_64_ymm13 \<equiv> 0x0d OR x86_64_YMMS OR x86_64_YMM OR Arch_x86_64"
abbreviation x86_64_ymm14 :: MachRegister where
  "x86_64_ymm14 \<equiv> 0x0e OR x86_64_YMMS OR x86_64_YMM OR Arch_x86_64"
abbreviation x86_64_ymm15 :: MachRegister where
  "x86_64_ymm15 \<equiv> 0x0f OR x86_64_YMMS OR x86_64_YMM OR Arch_x86_64"
abbreviation x86_64_ymm16 :: MachRegister where
  "x86_64_ymm16 \<equiv> 0x10 OR x86_64_YMMS OR x86_64_YMM OR Arch_x86_64"
abbreviation x86_64_ymm17 :: MachRegister where
  "x86_64_ymm17 \<equiv> 0x11 OR x86_64_YMMS OR x86_64_YMM OR Arch_x86_64"
abbreviation x86_64_ymm18 :: MachRegister where
  "x86_64_ymm18 \<equiv> 0x12 OR x86_64_YMMS OR x86_64_YMM OR Arch_x86_64"
abbreviation x86_64_ymm19 :: MachRegister where
  "x86_64_ymm19 \<equiv> 0x13 OR x86_64_YMMS OR x86_64_YMM OR Arch_x86_64"
abbreviation x86_64_ymm20 :: MachRegister where
  "x86_64_ymm20 \<equiv> 0x14 OR x86_64_YMMS OR x86_64_YMM OR Arch_x86_64"
abbreviation x86_64_ymm21 :: MachRegister where
  "x86_64_ymm21 \<equiv> 0x15 OR x86_64_YMMS OR x86_64_YMM OR Arch_x86_64"
abbreviation x86_64_ymm22 :: MachRegister where
  "x86_64_ymm22 \<equiv> 0x16 OR x86_64_YMMS OR x86_64_YMM OR Arch_x86_64"
abbreviation x86_64_ymm23 :: MachRegister where
  "x86_64_ymm23 \<equiv> 0x17 OR x86_64_YMMS OR x86_64_YMM OR Arch_x86_64"
abbreviation x86_64_ymm24 :: MachRegister where
  "x86_64_ymm24 \<equiv> 0x18 OR x86_64_YMMS OR x86_64_YMM OR Arch_x86_64"
abbreviation x86_64_ymm25 :: MachRegister where
  "x86_64_ymm25 \<equiv> 0x19 OR x86_64_YMMS OR x86_64_YMM OR Arch_x86_64"
abbreviation x86_64_ymm26 :: MachRegister where
  "x86_64_ymm26 \<equiv> 0x1a OR x86_64_YMMS OR x86_64_YMM OR Arch_x86_64"
abbreviation x86_64_ymm27 :: MachRegister where
  "x86_64_ymm27 \<equiv> 0x1b OR x86_64_YMMS OR x86_64_YMM OR Arch_x86_64"
abbreviation x86_64_ymm28 :: MachRegister where
  "x86_64_ymm28 \<equiv> 0x1c OR x86_64_YMMS OR x86_64_YMM OR Arch_x86_64"
abbreviation x86_64_ymm29 :: MachRegister where
  "x86_64_ymm29 \<equiv> 0x1d OR x86_64_YMMS OR x86_64_YMM OR Arch_x86_64"
abbreviation x86_64_ymm30 :: MachRegister where
  "x86_64_ymm30 \<equiv> 0x1e OR x86_64_YMMS OR x86_64_YMM OR Arch_x86_64"
abbreviation x86_64_ymm31 :: MachRegister where
  "x86_64_ymm31 \<equiv> 0x1f OR x86_64_YMMS OR x86_64_YMM OR Arch_x86_64"
abbreviation x86_64_zmm0 :: MachRegister where
  "x86_64_zmm0 \<equiv> 0x00 OR x86_64_ZMMS OR x86_64_ZMM OR Arch_x86_64"
abbreviation x86_64_zmm1 :: MachRegister where
  "x86_64_zmm1 \<equiv> 0x01 OR x86_64_ZMMS OR x86_64_ZMM OR Arch_x86_64"
abbreviation x86_64_zmm2 :: MachRegister where
  "x86_64_zmm2 \<equiv> 0x02 OR x86_64_ZMMS OR x86_64_ZMM OR Arch_x86_64"
abbreviation x86_64_zmm3 :: MachRegister where
  "x86_64_zmm3 \<equiv> 0x03 OR x86_64_ZMMS OR x86_64_ZMM OR Arch_x86_64"
abbreviation x86_64_zmm4 :: MachRegister where
  "x86_64_zmm4 \<equiv> 0x04 OR x86_64_ZMMS OR x86_64_ZMM OR Arch_x86_64"
abbreviation x86_64_zmm5 :: MachRegister where
  "x86_64_zmm5 \<equiv> 0x05 OR x86_64_ZMMS OR x86_64_ZMM OR Arch_x86_64"
abbreviation x86_64_zmm6 :: MachRegister where
  "x86_64_zmm6 \<equiv> 0x06 OR x86_64_ZMMS OR x86_64_ZMM OR Arch_x86_64"
abbreviation x86_64_zmm7 :: MachRegister where
  "x86_64_zmm7 \<equiv> 0x07 OR x86_64_ZMMS OR x86_64_ZMM OR Arch_x86_64"
abbreviation x86_64_zmm8 :: MachRegister where
  "x86_64_zmm8 \<equiv> 0x08 OR x86_64_ZMMS OR x86_64_ZMM OR Arch_x86_64"
abbreviation x86_64_zmm9 :: MachRegister where
  "x86_64_zmm9 \<equiv> 0x09 OR x86_64_ZMMS OR x86_64_ZMM OR Arch_x86_64"
abbreviation x86_64_zmm10 :: MachRegister where
  "x86_64_zmm10 \<equiv> 0x0a OR x86_64_ZMMS OR x86_64_ZMM OR Arch_x86_64"
abbreviation x86_64_zmm11 :: MachRegister where
  "x86_64_zmm11 \<equiv> 0x0b OR x86_64_ZMMS OR x86_64_ZMM OR Arch_x86_64"
abbreviation x86_64_zmm12 :: MachRegister where
  "x86_64_zmm12 \<equiv> 0x0c OR x86_64_ZMMS OR x86_64_ZMM OR Arch_x86_64"
abbreviation x86_64_zmm13 :: MachRegister where
  "x86_64_zmm13 \<equiv> 0x0d OR x86_64_ZMMS OR x86_64_ZMM OR Arch_x86_64"
abbreviation x86_64_zmm14 :: MachRegister where
  "x86_64_zmm14 \<equiv> 0x0e OR x86_64_ZMMS OR x86_64_ZMM OR Arch_x86_64"
abbreviation x86_64_zmm15 :: MachRegister where
  "x86_64_zmm15 \<equiv> 0x0f OR x86_64_ZMMS OR x86_64_ZMM OR Arch_x86_64"
abbreviation x86_64_zmm16 :: MachRegister where
  "x86_64_zmm16 \<equiv> 0x10 OR x86_64_ZMMS OR x86_64_ZMM OR Arch_x86_64"
abbreviation x86_64_zmm17 :: MachRegister where
  "x86_64_zmm17 \<equiv> 0x11 OR x86_64_ZMMS OR x86_64_ZMM OR Arch_x86_64"
abbreviation x86_64_zmm18 :: MachRegister where
  "x86_64_zmm18 \<equiv> 0x12 OR x86_64_ZMMS OR x86_64_ZMM OR Arch_x86_64"
abbreviation x86_64_zmm19 :: MachRegister where
  "x86_64_zmm19 \<equiv> 0x13 OR x86_64_ZMMS OR x86_64_ZMM OR Arch_x86_64"
abbreviation x86_64_zmm20 :: MachRegister where
  "x86_64_zmm20 \<equiv> 0x14 OR x86_64_ZMMS OR x86_64_ZMM OR Arch_x86_64"
abbreviation x86_64_zmm21 :: MachRegister where
  "x86_64_zmm21 \<equiv> 0x15 OR x86_64_ZMMS OR x86_64_ZMM OR Arch_x86_64"
abbreviation x86_64_zmm22 :: MachRegister where
  "x86_64_zmm22 \<equiv> 0x16 OR x86_64_ZMMS OR x86_64_ZMM OR Arch_x86_64"
abbreviation x86_64_zmm23 :: MachRegister where
  "x86_64_zmm23 \<equiv> 0x17 OR x86_64_ZMMS OR x86_64_ZMM OR Arch_x86_64"
abbreviation x86_64_zmm24 :: MachRegister where
  "x86_64_zmm24 \<equiv> 0x18 OR x86_64_ZMMS OR x86_64_ZMM OR Arch_x86_64"
abbreviation x86_64_zmm25 :: MachRegister where
  "x86_64_zmm25 \<equiv> 0x19 OR x86_64_ZMMS OR x86_64_ZMM OR Arch_x86_64"
abbreviation x86_64_zmm26 :: MachRegister where
  "x86_64_zmm26 \<equiv> 0x1a OR x86_64_ZMMS OR x86_64_ZMM OR Arch_x86_64"
abbreviation x86_64_zmm27 :: MachRegister where
  "x86_64_zmm27 \<equiv> 0x1b OR x86_64_ZMMS OR x86_64_ZMM OR Arch_x86_64"
abbreviation x86_64_zmm28 :: MachRegister where
  "x86_64_zmm28 \<equiv> 0x1c OR x86_64_ZMMS OR x86_64_ZMM OR Arch_x86_64"
abbreviation x86_64_zmm29 :: MachRegister where
  "x86_64_zmm29 \<equiv> 0x1d OR x86_64_ZMMS OR x86_64_ZMM OR Arch_x86_64"
abbreviation x86_64_zmm30 :: MachRegister where
  "x86_64_zmm30 \<equiv> 0x1e OR x86_64_ZMMS OR x86_64_ZMM OR Arch_x86_64"
abbreviation x86_64_zmm31 :: MachRegister where
  "x86_64_zmm31 \<equiv> 0x1f OR x86_64_ZMMS OR x86_64_ZMM OR Arch_x86_64"
abbreviation x86_64_k0 :: MachRegister where
  "x86_64_k0 \<equiv> 0x00 OR x86_64_KMSKS OR x86_64_KMASK OR Arch_x86_64"
abbreviation x86_64_k1 :: MachRegister where
  "x86_64_k1 \<equiv> 0x01 OR x86_64_KMSKS OR x86_64_KMASK OR Arch_x86_64"
abbreviation x86_64_k2 :: MachRegister where
  "x86_64_k2 \<equiv> 0x02 OR x86_64_KMSKS OR x86_64_KMASK OR Arch_x86_64"
abbreviation x86_64_k3 :: MachRegister where
  "x86_64_k3 \<equiv> 0x03 OR x86_64_KMSKS OR x86_64_KMASK OR Arch_x86_64"
abbreviation x86_64_k4 :: MachRegister where
  "x86_64_k4 \<equiv> 0x04 OR x86_64_KMSKS OR x86_64_KMASK OR Arch_x86_64"
abbreviation x86_64_k5 :: MachRegister where
  "x86_64_k5 \<equiv> 0x05 OR x86_64_KMSKS OR x86_64_KMASK OR Arch_x86_64"
abbreviation x86_64_k6 :: MachRegister where
  "x86_64_k6 \<equiv> 0x06 OR x86_64_KMSKS OR x86_64_KMASK OR Arch_x86_64"
abbreviation x86_64_k7 :: MachRegister where
  "x86_64_k7 \<equiv> 0x07 OR x86_64_KMSKS OR x86_64_KMASK OR Arch_x86_64"
abbreviation x86_64_orax :: MachRegister where
  "x86_64_orax \<equiv> 0x0 OR x86_64_FULL OR x86_64_MISC OR Arch_x86_64"
abbreviation x86_64_fsbase :: MachRegister where
  "x86_64_fsbase \<equiv> 0x1 OR x86_64_FULL OR x86_64_MISC OR Arch_x86_64"
abbreviation x86_64_gsbase :: MachRegister where
  "x86_64_gsbase \<equiv> 0x2 OR x86_64_FULL OR x86_64_MISC OR Arch_x86_64"
abbreviation x86_64_tr0 :: MachRegister where
  "x86_64_tr0 \<equiv> 0x0 OR x86_64_FULL OR x86_64_TST OR Arch_x86_64"
abbreviation x86_64_tr1 :: MachRegister where
  "x86_64_tr1 \<equiv> 0x1 OR x86_64_FULL OR x86_64_TST OR Arch_x86_64"
abbreviation x86_64_tr2 :: MachRegister where
  "x86_64_tr2 \<equiv> 0x2 OR x86_64_FULL OR x86_64_TST OR Arch_x86_64"
abbreviation x86_64_tr3 :: MachRegister where
  "x86_64_tr3 \<equiv> 0x3 OR x86_64_FULL OR x86_64_TST OR Arch_x86_64"
abbreviation x86_64_tr4 :: MachRegister where
  "x86_64_tr4 \<equiv> 0x4 OR x86_64_FULL OR x86_64_TST OR Arch_x86_64"
abbreviation x86_64_tr5 :: MachRegister where
  "x86_64_tr5 \<equiv> 0x5 OR x86_64_FULL OR x86_64_TST OR Arch_x86_64"
abbreviation x86_64_tr6 :: MachRegister where
  "x86_64_tr6 \<equiv> 0x6 OR x86_64_FULL OR x86_64_TST OR Arch_x86_64"
abbreviation x86_64_tr7 :: MachRegister where
  "x86_64_tr7 \<equiv> 0x7 OR x86_64_FULL OR x86_64_TST OR Arch_x86_64"

definition x86_64_regs1 :: "MachRegister list" where
  "x86_64_regs1 = [
    x86_64_rax, x86_64_eax, x86_64_ax, x86_64_ah, x86_64_al, x86_64_rcx, x86_64_ecx, x86_64_cx,
    x86_64_ch, x86_64_cl, x86_64_rdx, x86_64_edx, x86_64_dx, x86_64_dh, x86_64_dl, x86_64_rbx,
    x86_64_ebx, x86_64_bx, x86_64_bh, x86_64_bl, x86_64_rsp, x86_64_esp, x86_64_sp, x86_64_spl,
    x86_64_rbp, x86_64_ebp, x86_64_bp, x86_64_bpl, x86_64_rsi, x86_64_esi, x86_64_si,
    x86_64_sil, x86_64_rdi, x86_64_edi, x86_64_di, x86_64_dil, x86_64_r8, x86_64_r8b,
    x86_64_r8w, x86_64_r8d, x86_64_r9, x86_64_r9b, x86_64_r9w, x86_64_r9d, x86_64_r10,
    x86_64_r10b, x86_64_r10w, x86_64_r10d, x86_64_r11, x86_64_r11b, x86_64_r11w, x86_64_r11d,
    x86_64_r12, x86_64_r12b, x86_64_r12w, x86_64_r12d, x86_64_r13, x86_64_r13b, x86_64_r13w,
    x86_64_r13d, x86_64_r14, x86_64_r14b, x86_64_r14w, x86_64_r14d, x86_64_r15, x86_64_r15b,
    x86_64_r15w, x86_64_r15d, x86_64_rip, x86_64_eip, x86_64_flags, x86_64_cf, x86_64_flag1,
    x86_64_pf, x86_64_flag3, x86_64_af, x86_64_flag5, x86_64_zf, x86_64_sf, x86_64_tf,
    x86_64_if, x86_64_df, x86_64_of, x86_64_flagc, x86_64_flagd, x86_64_nt, x86_64_flagf,
    x86_64_rf, x86_64_vm, x86_64_ac, x86_64_vif, x86_64_vip, x86_64_id, x86_64_ds, x86_64_es,
    x86_64_fs, x86_64_gs, x86_64_cs, x86_64_ss, x86_64_gdtr, x86_64_ldtr, x86_64_idtr,
    x86_64_tr, x86_64_cr0, x86_64_cr1, x86_64_cr2, x86_64_cr3, x86_64_cr4, x86_64_cr5,
    x86_64_cr6, x86_64_cr7, x86_64_cr8, x86_64_cr9, x86_64_cr10, x86_64_cr11, x86_64_cr12,
    x86_64_cr13, x86_64_cr14, x86_64_cr15, x86_64_dr0, x86_64_dr1]"

definition x86_64_regs2 :: "MachRegister list" where
  "x86_64_regs2 = [
    x86_64_dr2, x86_64_dr3, x86_64_dr4, x86_64_dr5, x86_64_dr6, x86_64_dr7, x86_64_dr8,
    x86_64_dr9, x86_64_dr10, x86_64_dr11, x86_64_dr12, x86_64_dr13, x86_64_dr14, x86_64_dr15,
    x86_64_st0, x86_64_st1, x86_64_st2, x86_64_st3, x86_64_st4, x86_64_st5, x86_64_st6,
    x86_64_st7, x86_64_fcw, x86_64_fsw, x86_64_mm0, x86_64_mm1, x86_64_mm2, x86_64_mm3,
    x86_64_mm4, x86_64_mm5, x86_64_mm6, x86_64_mm7, x86_64_xmm0, x86_64_xmm1, x86_64_xmm2,
    x86_64_xmm3, x86_64_xmm4, x86_64_xmm5, x86_64_xmm6, x86_64_xmm7, x86_64_xmm8, x86_64_xmm9,
    x86_64_xmm10, x86_64_xmm11, x86_64_xmm12, x86_64_xmm13, x86_64_xmm14, x86_64_xmm15,
    x86_64_xmm16, x86_64_xmm17, x86_64_xmm18, x86_64_xmm19, x86_64_xmm20, x86_64_xmm21,
    x86_64_xmm22, x86_64_xmm23, x86_64_xmm24, x86_64_xmm25, x86_64_xmm26, x86_64_xmm27,
    x86_64_xmm28, x86_64_xmm29, x86_64_xmm30, x86_64_xmm31, x86_64_mxcsr, x86_64_ymm0,
    x86_64_ymm1, x86_64_ymm2, x86_64_ymm3, x86_64_ymm4, x86_64_ymm5, x86_64_ymm6, x86_64_ymm7,
    x86_64_ymm8, x86_64_ymm9, x86_64_ymm10, x86_64_ymm11, x86_64_ymm12, x86_64_ymm13,
    x86_64_ymm14, x86_64_ymm15, x86_64_ymm16, x86_64_ymm17, x86_64_ymm18, x86_64_ymm19,
    x86_64_ymm20, x86_64_ymm21, x86_64_ymm22, x86_64_ymm23, x86_64_ymm24, x86_64_ymm25,
    x86_64_ymm26, x86_64_ymm27, x86_64_ymm28, x86_64_ymm29, x86_64_ymm30, x86_64_ymm31,
    x86_64_zmm0, x86_64_zmm1, x86_64_zmm2, x86_64_zmm3, x86_64_zmm4, x86_64_zmm5, x86_64_zmm6,
    x86_64_zmm7, x86_64_zmm8, x86_64_zmm9, x86_64_zmm10, x86_64_zmm11, x86_64_zmm12,
    x86_64_zmm13, x86_64_zmm14, x86_64_zmm15, x86_64_zmm16, x86_64_zmm17, x86_64_zmm18,
    x86_64_zmm19, x86_64_zmm20, x86_64_zmm21, x86_64_zmm22]"

definition x86_64_regs3 :: "MachRegister list" where
  "x86_64_regs3 = [
    x86_64_zmm23, x86_64_zmm24, x86_64_zmm25, x86_64_zmm26, x86_64_zmm27, x86_64_zmm28,
    x86_64_zmm29, x86_64_zmm30, x86_64_zmm31, x86_64_k0, x86_64_k1, x86_64_k2, x86_64_k3,
    x86_64_k4, x86_64_k5, x86_64_k6, x86_64_k7, x86_64_orax, x86_64_fsbase, x86_64_gsbase,
    x86_64_tr0, x86_64_tr1, x86_64_tr2, x86_64_tr3, x86_64_tr4, x86_64_tr5, x86_64_tr6,
    x86_64_tr7]"

definition x86_64_regs :: "MachRegister list" where
  "x86_64_regs = x86_64_regs1 @ x86_64_regs2 @ x86_64_regs3"

section \<open>DWARF encodings\<close>

definition x86_DwarfEncToReg1 :: "(int \<times> MachRegister) list" where
  "x86_DwarfEncToReg1 = [
    (0, x86_eax), (1, x86_ecx), (2, x86_edx), (3, x86_ebx), (4, x86_esp), (5, x86_ebp),
    (6, x86_esi), (7, x86_edi), (8, x86_eip), (9, x86_flags), (10, InvalidReg), (11, x86_st0),
    (12, x86_st1), (13, x86_st2), (14, x86_st3), (15, x86_st4), (16, x86_st5), (17, x86_st6),
    (18, x86_st7), (19, InvalidReg), (20, InvalidReg), (21, x86_xmm0), (22, x86_xmm1),
    (23, x86_xmm2), (24, x86_xmm3), (25, x86_xmm4), (26, x86_xmm5), (27, x86_xmm6),
    (28, x86_xmm7), (29, x86_mm0), (30, x86_mm1), (31, x86_mm2), (32, x86_mm3), (33, x86_mm4),
    (34, x86_mm5), (35, x86_mm6), (36, x86_mm7), (37, InvalidReg), (38, InvalidReg),
    (39, x86_mxcsr), (40, x86_es), (41, x86_cs), (42, x86_ss), (43, x86_ds), (44, x86_fs),
    (45, x86_gs), (46, InvalidReg), (47, InvalidReg), (48, x86_tr), (49, x86_ldtr),
    (50, InvalidReg), (51, InvalidReg), (52, InvalidReg), (53, InvalidReg), (54, InvalidReg),
    (55, InvalidReg), (56, InvalidReg), (57, InvalidReg), (58, InvalidReg), (59, InvalidReg),
    (60, InvalidReg), (61, InvalidReg), (62, InvalidReg), (63, InvalidReg), (64, InvalidReg),
    (65, InvalidReg), (66, InvalidReg), (67, InvalidReg), (68, InvalidReg), (69, InvalidReg),
    (70, InvalidReg), (71, InvalidReg), (72, InvalidReg), (73, InvalidReg), (74, InvalidReg),
    (75, InvalidReg), (76, InvalidReg), (77, InvalidReg), (78, InvalidReg), (79, InvalidReg),
    (80, InvalidReg), (81, InvalidReg), (82, InvalidReg), (83, InvalidReg), (84, InvalidReg),
    (85, InvalidReg), (86, InvalidReg), (87, InvalidReg), (88, InvalidReg), (89, InvalidReg),
    (90, InvalidReg), (91, InvalidReg), (92, InvalidReg), (1024, x86_ax), (1025, x86_ah),
    (1026, x86_al), (1027, x86_cx), (1028, x86_ch), (1029, x86_cl), (1030, x86_dx),
    (1031, x86_dh), (1032, x86_dl), (1033, x86_bx), (1034, x86_bh), (1035, x86_bl),
    (1036, x86_sp), (1037, x86_bp), (1038, x86_si), (1039, x86_di), (1040, x86_gdtr),
    (1041, x86_idtr), (1042, x86_cf), (1043, x86_flag1), (1044, x86_pf), (1045, x86_flag3),
    (1046, x86_af), (1047, x86_flag5), (1048, x86_zf), (1049, x86_sf), (1050, x86_tf),
    (1051, x86_if), (1052, x86_df), (1053, x86_of), (1054, x86_flagc), (1055, x86_flagd),
    (1056, x86_nt), (1057, x86_flagf), (1058, x86_rf), (1059, x86_vm), (1060, x86_ac),
    (1061, x86_vif), (1062, x86_vip), (1063, x86_id), (1064, x86_cr0), (1065, x86_cr1),
    (1066, x86_cr2), (1067, x86_cr3), (1068, x86_cr4), (1069, x86_cr5), (1070, x86_cr6),
    (1071, x86_cr7), (1072, x86_dr0)]"

definition x86_DwarfEncToReg2 :: "(int \<times> MachRegister) list" where
  "x86_DwarfEncToReg2 = [
    (1073, x86_dr1), (1074, x86_dr2), (1075, x86_dr3), (1076, x86_dr4), (1077, x86_dr5),
    (1078, x86_dr6), (1079, x86_dr7), (1080, x86_fcw), (1081, x86_fsw), (1082, x86_ymm0),
    (1083, x86_ymm1), (1084, x86_ymm2), (1085, x86_ymm3), (1086, x86_ymm4), (1087, x86_ymm5),
    (1088, x86_ymm6), (1089, x86_ymm7), (1090, x86_zmm0), (1091, x86_zmm1), (1092, x86_zmm2),
    (1093, x86_zmm3), (1094, x86_zmm4), (1095, x86_zmm5), (1096, x86_zmm6), (1097, x86_zmm7),
    (1098, x86_k0), (1099, x86_k1), (1100, x86_k2), (1101, x86_k3), (1102, x86_k4),
    (1103, x86_k5), (1104, x86_k6), (1105, x86_k7), (1106, x86_oeax), (1107, x86_fsbase),
    (1108, x86_gsbase), (1109, x86_tr0), (1110, x86_tr1), (1111, x86_tr2), (1112, x86_tr3),
    (1113, x86_tr4), (1114, x86_tr5), (1115, x86_tr6), (1116, x86_tr7)]"

definition x86_DwarfEncToReg :: "(int \<times> MachRegister) list" where
  "x86_DwarfEncToReg = x86_DwarfEncToReg1 @ x86_DwarfEncToReg2"

definition x86_getDwarfEnc1 :: "(MachRegister \<times> int) list" where
  "x86_getDwarfEnc1 = [
    (x86_eax, 0), (x86_ecx, 1), (x86_edx, 2), (x86_ebx, 3), (x86_esp, 4), (x86_ebp, 5),
    (x86_esi, 6), (x86_edi, 7), (x86_eip, 8), (x86_flags, 9), (x86_st0, 11), (x86_st1, 12),
    (x86_st2, 13), (x86_st3, 14), (x86_st4, 15), (x86_st5, 16), (x86_st6, 17), (x86_st7, 18),
    (x86_xmm0, 21), (x86_xmm1, 22), (x86_xmm2, 23), (x86_xmm3, 24), (x86_xmm4, 25),
    (x86_xmm5, 26), (x86_xmm6, 27), (x86_xmm7, 28), (x86_mm0, 29), (x86_mm1, 30), (x86_mm2, 31),
    (x86_mm3, 32), (x86_mm4, 33), (x86_mm5, 34), (x86_mm6, 35), (x86_mm7, 36), (x86_mxcsr, 39),
    (x86_es, 40), (x86_cs, 41), (x86_ss, 42), (x86_ds, 43), (x86_fs, 44), (x86_gs, 45),
    (x86_tr, 48), (x86_ldtr, 49), (x86_ax, 1024), (x86_ah, 1025), (x86_al, 1026),
    (x86_cx, 1027), (x86_ch, 1028), (x86_cl, 1029), (x86_dx, 1030), (x86_dh, 1031),
    (x86_dl, 1032), (x86_bx, 1033), (x86_bh, 1034), (x86_bl, 1035), (x86_sp, 1036),
    (x86_bp, 1037), (x86_si, 1038), (x86_di, 1039), (x86_gdtr, 1040), (x86_idtr, 1041),
    (x86_cf, 1042), (x86_flag1, 1043), (x86_pf, 1044), (x86_flag3, 1045), (x86_af, 1046),
    (x86_flag5, 1047), (x86_zf, 1048), (x86_sf, 1049), (x86_tf, 1050), (x86_if, 1051),
    (x86_df, 1052), (x86_of, 1053), (x86_flagc, 1054), (x86_flagd, 1055), (x86_nt, 1056),
    (x86_flagf, 1057), (x86_rf, 1058), (x86_vm, 1059), (x86_ac, 1060), (x86_vif, 1061),
    (x86_vip, 1062), (x86_id, 1063), (x86_cr0, 1064), (x86_cr1, 1065), (x86_cr2, 1066),
    (x86_cr3, 1067), (x86_cr4, 1068), (x86_cr5, 1069), (x86_cr6, 1070), (x86_cr7, 1071),
    (x86_dr0, 1072)]"

definition x86_getDwarfEnc2 :: "(MachRegister \<times> int) list" where
  "x86_getDwarfEnc2 = [
    (x86_dr1, 1073), (x86_dr2, 1074), (x86_dr3, 1075), (x86_dr4, 1076), (x86_dr5, 1077),
    (x86_dr6, 1078), (x86_dr7, 1079), (x86_fcw, 1080), (x86_fsw, 1081), (x86_ymm0, 1082),
    (x86_ymm1, 1083), (x86_ymm2, 1084), (x86_ymm3, 1085), (x86_ymm4, 1086), (x86_ymm5, 1087),
    (x86_ymm6, 1088), (x86_ymm7, 1089), (x86_zmm0, 1090), (x86_zmm1, 1091), (x86_zmm2, 1092),
    (x86_zmm3, 1093), (x86_zmm4, 1094), (x86_zmm5, 1095), (x86_zmm6, 1096), (x86_zmm7, 1097),
    (x86_k0, 1098), (x86_k1, 1099), (x86_k2, 1100), (x86_k3, 1101), (x86_k4, 1102),
    (x86_k5, 1103), (x86_k6, 1104), (x86_k7, 1105), (x86_oeax, 1106), (x86_fsbase, 1107),
    (x86_gsbase, 1108), (x86_tr0, 1109), (x86_tr1, 1110), (x86_tr2, 1111), (x86_tr3, 1112),
    (x86_tr4, 1113), (x86_tr5, 1114), (x86_tr6, 1115), (x86_tr7, 1116)]"

definition x86_getDwarfEnc :: "(MachRegister \<times> int) list" where
  "x86_getDwarfEnc = x86_getDwarfEnc1 @ x86_getDwarfEnc2"

definition x86_64_DwarfEncToReg1 :: "(int \<times> MachRegister) list" where
  "x86_64_DwarfEncToReg1 = [
    (0, x86_64_rax), (1, x86_64_rdx), (2, x86_64_rcx), (3, x86_64_rbx), (4, x86_64_rsi),
    (5, x86_64_rdi), (6, x86_64_rbp), (7, x86_64_rsp), (8, x86_64_r8), (9, x86_64_r9),
    (10, x86_64_r10), (11, x86_64_r11), (12, x86_64_r12), (13, x86_64_r13), (14, x86_64_r14),
    (15, x86_64_r15), (16, x86_64_rip), (17, x86_64_xmm0), (18, x86_64_xmm1), (19, x86_64_xmm2),
    (20, x86_64_xmm3), (21, x86_64_xmm4), (22, x86_64_xmm5), (23, x86_64_xmm6),
    (24, x86_64_xmm7), (25, x86_64_xmm8), (26, x86_64_xmm9), (27, x86_64_xmm10),
    (28, x86_64_xmm11), (29, x86_64_xmm12), (30, x86_64_xmm13), (31, x86_64_xmm14),
    (32, x86_64_xmm15), (33, x86_64_st0), (34, x86_64_st1), (35, x86_64_st2), (36, x86_64_st3),
    (37, x86_64_st4), (38, x86_64_st5), (39, x86_64_st6), (40, x86_64_st7), (41, x86_64_mm0),
    (42, x86_64_mm1), (43, x86_64_mm2), (44, x86_64_mm3), (45, x86_64_mm4), (46, x86_64_mm5),
    (47, x86_64_mm6), (48, x86_64_mm7), (49, x86_64_flags), (50, x86_64_es), (51, x86_64_cs),
    (52, x86_64_ss), (53, x86_64_ds), (54, x86_64_fs), (55, x86_64_gs), (56, InvalidReg),
    (57, InvalidReg), (58, x86_64_fsbase), (59, x86_64_gsbase), (60, InvalidReg),
    (61, InvalidReg), (62, x86_64_tr), (63, x86_64_ldtr), (64, x86_64_mxcsr), (65, x86_64_fcw),
    (66, x86_64_fsw), (67, x86_64_xmm16), (68, x86_64_xmm17), (69, x86_64_xmm18),
    (70, x86_64_xmm19), (71, x86_64_xmm20), (72, x86_64_xmm21), (73, x86_64_xmm22),
    (74, x86_64_xmm23), (75, x86_64_xmm24), (76, x86_64_xmm25), (77, x86_64_xmm26),
    (78, x86_64_xmm27), (79, x86_64_xmm28), (80, x86_64_xmm29), (81, x86_64_xmm30),
    (82, x86_64_xmm31), (83, InvalidReg), (84, InvalidReg), (85, InvalidReg), (86, InvalidReg),
    (87, InvalidReg), (88, InvalidReg), (89, InvalidReg), (90, InvalidReg), (91, InvalidReg),
    (92, InvalidReg), (93, InvalidReg), (94, InvalidReg), (95, InvalidReg), (96, InvalidReg),
    (97, InvalidReg), (98, InvalidReg), (99, InvalidReg), (100, InvalidReg), (101, InvalidReg),
    (102, InvalidReg), (103, InvalidReg), (104, InvalidReg), (105, InvalidReg),
    (106, InvalidReg), (107, InvalidReg), (108, InvalidReg), (109, InvalidReg),
    (110, InvalidReg), (111, InvalidReg), (112, InvalidReg), (113, InvalidReg),
    (114, InvalidReg), (115, InvalidReg), (116, InvalidReg), (117, InvalidReg),
    (118, x86_64_k0), (119, x86_64_k1), (120, x86_64_k2), (121, x86_64_k3), (122, x86_64_k4),
    (123, x86_64_k5), (124, x86_64_k6), (125, x86_64_k7), (126, InvalidReg), (127, InvalidReg),
    (128, InvalidReg), (129, InvalidReg), (1024, x86_64_eax), (1025, x86_64_ax),
    (1026, x86_64_ah), (1027, x86_64_al), (1028, x86_64_ecx), (1029, x86_64_cx),
    (1030, x86_64_ch), (1031, x86_64_cl), (1032, x86_64_edx), (1033, x86_64_dx),
    (1034, x86_64_dh), (1035, x86_64_dl)]"

definition x86_64_DwarfEncToReg2 :: "(int \<times> MachRegister) list" where
  "x86_64_DwarfEncToReg2 = [
    (1036, x86_64_ebx), (1037, x86_64_bx), (1038, x86_64_bh), (1039, x86_64_bl),
    (1040, x86_64_esp), (1041, x86_64_sp), (1042, x86_64_spl), (1043, x86_64_ebp),
    (1044, x86_64_bp), (1045, x86_64_bpl), (1046, x86_64_esi), (1047, x86_64_si),
    (1048, x86_64_sil), (1049, x86_64_edi), (1050, x86_64_di), (1051, x86_64_dil),
    (1052, x86_64_r8b), (1053, x86_64_r8w), (1054, x86_64_r8d), (1055, x86_64_r9b),
    (1056, x86_64_r9w), (1057, x86_64_r9d), (1058, x86_64_r10b), (1059, x86_64_r10w),
    (1060, x86_64_r10d), (1061, x86_64_r11b), (1062, x86_64_r11w), (1063, x86_64_r11d),
    (1064, x86_64_r12b), (1065, x86_64_r12w), (1066, x86_64_r12d), (1067, x86_64_r13b),
    (1068, x86_64_r13w), (1069, x86_64_r13d), (1070, x86_64_r14b), (1071, x86_64_r14w),
    (1072, x86_64_r14d), (1073, x86_64_r15b), (1074, x86_64_r15w), (1075, x86_64_r15d),
    (1076, x86_64_eip), (1077, x86_64_cf), (1078, x86_64_flag1), (1079, x86_64_pf),
    (1080, x86_64_flag3), (1081, x86_64_af), (1082, x86_64_flag5), (1083, x86_64_zf),
    (1084, x86_64_sf), (1085, x86_64_tf), (1086, x86_64_if), (1087, x86_64_df),
    (1088, x86_64_of), (1089, x86_64_flagc), (1090, x86_64_flagd), (1091, x86_64_nt),
    (1092, x86_64_flagf), (1093, x86_64_rf), (1094, x86_64_vm), (1095, x86_64_ac),
    (1096, x86_64_vif), (1097, x86_64_vip), (1098, x86_64_id), (1099, x86_64_gdtr),
    (1100, x86_64_idtr), (1101, x86_64_cr0), (1102, x86_64_cr1), (1103, x86_64_cr2),
    (1104, x86_64_cr3), (1105, x86_64_cr4), (1106, x86_64_cr5), (1107, x86_64_cr6),
    (1108, x86_64_cr7), (1109, x86_64_cr8), (1110, x86_64_cr9), (1111, x86_64_cr10),
    (1112, x86_64_cr11), (1113, x86_64_cr12), (1114, x86_64_cr13), (1115, x86_64_cr14),
    (1116, x86_64_cr15), (1117, x86_64_dr0), (1118, x86_64_dr1), (1119, x86_64_dr2),
    (1120, x86_64_dr3), (1121, x86_64_dr4), (1122, x86_64_dr5), (1123, x86_64_dr6),
    (1124, x86_64_dr7), (1125, x86_64_dr8), (1126, x86_64_dr9), (1127, x86_64_dr10),
    (1128, x86_64_dr11), (1129, x86_64_dr12), (1130, x86_64_dr13), (1131, x86_64_dr14),
    (1132, x86_64_dr15), (1133, x86_64_ymm0), (1134, x86_64_ymm1), (1135, x86_64_ymm2),
    (1136, x86_64_ymm3), (1137, x86_64_ymm4), (1138, x86_64_ymm5), (1139, x86_64_ymm6),
    (1140, x86_64_ymm7), (1141, x86_64_ymm8), (1142, x86_64_ymm9), (1143, x86_64_ymm10),
    (1144, x86_64_ymm11), (1145, x86_64_ymm12), (1146, x86_64_ymm13), (1147, x86_64_ymm14),
    (1148, x86_64_ymm15), (1149, x86_64_ymm16), (1150, x86_64_ymm17), (1151, x86_64_ymm18),
    (1152, x86_64_ymm19), (1153, x86_64_ymm20), (1154, x86_64_ymm21), (1155, x86_64_ymm22),
    (1156, x86_64_ymm23), (1157, x86_64_ymm24), (1158, x86_64_ymm25), (1159, x86_64_ymm26),
    (1160, x86_64_ymm27), (1161, x86_64_ymm28), (1162, x86_64_ymm29), (1163, x86_64_ymm30),
    (1164, x86_64_ymm31), (1165, x86_64_zmm0), (1166, x86_64_zmm1), (1167, x86_64_zmm2),
    (1168, x86_64_zmm3), (1169, x86_64_zmm4), (1170, x86_64_zmm5), (1171, x86_64_zmm6),
    (1172, x86_64_zmm7), (1173, x86_64_zmm8), (1174, x86_64_zmm9), (1175, x86_64_zmm10),
    (1176, x86_64_zmm11), (1177, x86_64_zmm12), (1178, x86_64_zmm13), (1179, x86_64_zmm14),
    (1180, x86_64_zmm15)]"

definition x86_64_DwarfEncToReg3 :: "(int \<times> MachRegister) list" where
  "x86_64_DwarfEncToReg3 = [
    (1181, x86_64_zmm16), (1182, x86_64_zmm17), (1183, x86_64_zmm18), (1184, x86_64_zmm19),
    (1185, x86_64_zmm20), (1186, x86_64_zmm21), (1187, x86_64_zmm22), (1188, x86_64_zmm23),
    (1189, x86_64_zmm24), (1190, x86_64_zmm25), (1191, x86_64_zmm26), (1192, x86_64_zmm27),
    (1193, x86_64_zmm28), (1194, x86_64_zmm29), (1195, x86_64_zmm30), (1196, x86_64_zmm31),
    (1197, x86_64_orax), (1198, x86_64_tr0), (1199, x86_64_tr1), (1200, x86_64_tr2),
    (1201, x86_64_tr3), (1202, x86_64_tr4), (1203, x86_64_tr5), (1204, x86_64_tr6),
    (1205, x86_64_tr7)]"

definition x86_64_DwarfEncToReg :: "(int \<times> MachRegister) list" where
  "x86_64_DwarfEncToReg = x86_64_DwarfEncToReg1 @ x86_64_DwarfEncToReg2 @ x86_64_DwarfEncToReg3"

definition x86_64_getDwarfEnc1 :: "(MachRegister \<times> int) list" where
  "x86_64_getDwarfEnc1 = [
    (x86_64_rax, 0), (x86_64_rdx, 1), (x86_64_rcx, 2), (x86_64_rbx, 3), (x86_64_rsi, 4),
    (x86_64_rdi, 5), (x86_64_rbp, 6), (x86_64_rsp, 7), (x86_64_r8, 8), (x86_64_r9, 9),
    (x86_64_r10, 10), (x86_64_r11, 11), (x86_64_r12, 12), (x86_64_r13, 13), (x86_64_r14, 14),
    (x86_64_r15, 15), (x86_64_rip, 16), (x86_64_xmm0, 17), (x86_64_xmm1, 18), (x86_64_xmm2, 19),
    (x86_64_xmm3, 20), (x86_64_xmm4, 21), (x86_64_xmm5, 22), (x86_64_xmm6, 23),
    (x86_64_xmm7, 24), (x86_64_xmm8, 25), (x86_64_xmm9, 26), (x86_64_xmm10, 27),
    (x86_64_xmm11, 28), (x86_64_xmm12, 29), (x86_64_xmm13, 30), (x86_64_xmm14, 31),
    (x86_64_xmm15, 32), (x86_64_st0, 33), (x86_64_st1, 34), (x86_64_st2, 35), (x86_64_st3, 36),
    (x86_64_st4, 37), (x86_64_st5, 38), (x86_64_st6, 39), (x86_64_st7, 40), (x86_64_mm0, 41),
    (x86_64_mm1, 42), (x86_64_mm2, 43), (x86_64_mm3, 44), (x86_64_mm4, 45), (x86_64_mm5, 46),
    (x86_64_mm6, 47), (x86_64_mm7, 48), (x86_64_flags, 49), (x86_64_es, 50), (x86_64_cs, 51),
    (x86_64_ss, 52), (x86_64_ds, 53), (x86_64_fs, 54), (x86_64_gs, 55), (x86_64_fsbase, 58),
    (x86_64_gsbase, 59), (x86_64_tr, 62), (x86_64_ldtr, 63), (x86_64_mxcsr, 64),
    (x86_64_fcw, 65), (x86_64_fsw, 66), (x86_64_xmm16, 67), (x86_64_xmm17, 68),
    (x86_64_xmm18, 69), (x86_64_xmm19, 70), (x86_64_xmm20, 71), (x86_64_xmm21, 72),
    (x86_64_xmm22, 73), (x86_64_xmm23, 74), (x86_64_xmm24, 75), (x86_64_xmm25, 76),
    (x86_64_xmm26, 77), (x86_64_xmm27, 78), (x86_64_xmm28, 79), (x86_64_xmm29, 80),
    (x86_64_xmm30, 81), (x86_64_xmm31, 82), (x86_64_k0, 118), (x86_64_k1, 119),
    (x86_64_k2, 120), (x86_64_k3, 121), (x86_64_k4, 122), (x86_64_k5, 123), (x86_64_k6, 124),
    (x86_64_k7, 125), (x86_64_eax, 1024), (x86_64_ax, 1025), (x86_64_ah, 1026),
    (x86_64_al, 1027), (x86_64_ecx, 1028), (x86_64_cx, 1029), (x86_64_ch, 1030),
    (x86_64_cl, 1031), (x86_64_edx, 1032), (x86_64_dx, 1033), (x86_64_dh, 1034),
    (x86_64_dl, 1035)]"

definition x86_64_getDwarfEnc2 :: "(MachRegister \<times> int) list" where
  "x86_64_getDwarfEnc2 = [
    (x86_64_ebx, 1036), (x86_64_bx, 1037), (x86_64_bh, 1038), (x86_64_bl, 1039),
    (x86_64_esp, 1040), (x86_64_sp, 1041), (x86_64_spl, 1042), (x86_64_ebp, 1043),
    (x86_64_bp, 1044), (x86_64_bpl, 1045), (x86_64_esi, 1046), (x86_64_si, 1047),
    (x86_64_sil, 1048), (x86_64_edi, 1049), (x86_64_di, 1050), (x86_64_dil, 1051),
    (x86_64_r8b, 1052), (x86_64_r8w, 1053), (x86_64_r8d, 1054), (x86_64_r9b, 1055),
    (x86_64_r9w, 1056), (x86_64_r9d, 1057), (x86_64_r10b, 1058), (x86_64_r10w, 1059),
    (x86_64_r10d, 1060), (x86_64_r11b, 1061), (x86_64_r11w, 1062), (x86_64_r11d, 1063),
    (x86_64_r12b, 1064), (x86_64_r12w, 1065), (x86_64_r12d, 1066), (x86_64_r13b, 1067),
    (x86_64_r13w, 1068), (x86_64_r13d, 1069), (x86_64_r14b, 1070), (x86_64_r14w, 1071),
    (x86_64_r14d, 1072), (x86_64_r15b, 1073), (x86_64_r15w, 1074), (x86_64_r15d, 1075),
    (x86_64_eip, 1076), (x86_64_cf, 1077), (x86_64_flag1, 1078), (x86_64_pf, 1079),
    (x86_64_flag3, 1080), (x86_64_af, 1081), (x86_64_flag5, 1082), (x86_64_zf, 1083),
    (x86_64_sf, 1084), (x86_64_tf, 1085), (x86_64_if, 1086), (x86_64_df, 1087),
    (x86_64_of, 1088), (x86_64_flagc, 1089), (x86_64_flagd, 1090), (x86_64_nt, 1091),
    (x86_64_flagf, 1092), (x86_64_rf, 1093), (x86_64_vm, 1094), (x86_64_ac, 1095),
    (x86_64_vif, 1096), (x86_64_vip, 1097), (x86_64_id, 1098), (x86_64_gdtr, 1099),
    (x86_64_idtr, 1100), (x86_64_cr0, 1101), (x86_64_cr1, 1102), (x86_64_cr2, 1103),
    (x86_64_cr3, 1104), (x86_64_cr4, 1105), (x86_64_cr5, 1106), (x86_64_cr6, 1107),
    (x86_64_cr7, 1108), (x86_64_cr8, 1109), (x86_64_cr9, 1110), (x86_64_cr10, 1111),
    (x86_64_cr11, 1112), (x86_64_cr12, 1113), (x86_64_cr13, 1114), (x86_64_cr14, 1115),
    (x86_64_cr15, 1116), (x86_64_dr0, 1117), (x86_64_dr1, 1118), (x86_64_dr2, 1119),
    (x86_64_dr3, 1120), (x86_64_dr4, 1121), (x86_64_dr5, 1122), (x86_64_dr6, 1123),
    (x86_64_dr7, 1124), (x86_64_dr8, 1125), (x86_64_dr9, 1126), (x86_64_dr10, 1127),
    (x86_64_dr11, 1128), (x86_64_dr12, 1129), (x86_64_dr13, 1130), (x86_64_dr14, 1131),
    (x86_64_dr15, 1132), (x86_64_ymm0, 1133), (x86_64_ymm1, 1134), (x86_64_ymm2, 1135),
    (x86_64_ymm3, 1136), (x86_64_ymm4, 1137), (x86_64_ymm5, 1138), (x86_64_ymm6, 1139),
    (x86_64_ymm7, 1140), (x86_64_ymm8, 1141), (x86_64_ymm9, 1142), (x86_64_ymm10, 1143),
    (x86_64_ymm11, 1144), (x86_64_ymm12, 1145), (x86_64_ymm13, 1146), (x86_64_ymm14, 1147),
    (x86_64_ymm15, 1148), (x86_64_ymm16, 1149), (x86_64_ymm17, 1150), (x86_64_ymm18, 1151),
    (x86_64_ymm19, 1152), (x86_64_ymm20, 1153), (x86_64_ymm21, 1154), (x86_64_ymm22, 1155),
    (x86_64_ymm23, 1156), (x86_64_ymm24, 1157), (x86_64_ymm25, 1158), (x86_64_ymm26, 1159),
    (x86_64_ymm27, 1160), (x86_64_ymm28, 1161), (x86_64_ymm29, 1162), (x86_64_ymm30, 1163),
    (x86_64_ymm31, 1164), (x86_64_zmm0, 1165), (x86_64_zmm1, 1166), (x86_64_zmm2, 1167),
    (x86_64_zmm3, 1168), (x86_64_zmm4, 1169), (x86_64_zmm5, 1170), (x86_64_zmm6, 1171),
    (x86_64_zmm7, 1172), (x86_64_zmm8, 1173), (x86_64_zmm9, 1174), (x86_64_zmm10, 1175),
    (x86_64_zmm11, 1176), (x86_64_zmm12, 1177), (x86_64_zmm13, 1178), (x86_64_zmm14, 1179),
    (x86_64_zmm15, 1180)]"

definition x86_64_getDwarfEnc3 :: "(MachRegister \<times> int) list" where
  "x86_64_getDwarfEnc3 = [
    (x86_64_zmm16, 1181), (x86_64_zmm17, 1182), (x86_64_zmm18, 1183), (x86_64_zmm19, 1184),
    (x86_64_zmm20, 1185), (x86_64_zmm21, 1186), (x86_64_zmm22, 1187), (x86_64_zmm23, 1188),
    (x86_64_zmm24, 1189), (x86_64_zmm25, 1190), (x86_64_zmm26, 1191), (x86_64_zmm27, 1192),
    (x86_64_zmm28, 1193), (x86_64_zmm29, 1194), (x86_64_zmm30, 1195), (x86_64_zmm31, 1196),
    (x86_64_orax, 1197), (x86_64_tr0, 1198), (x86_64_tr1, 1199), (x86_64_tr2, 1200),
    (x86_64_tr3, 1201), (x86_64_tr4, 1202), (x86_64_tr5, 1203), (x86_64_tr6, 1204),
    (x86_64_tr7, 1205)]"

definition x86_64_getDwarfEnc :: "(MachRegister \<times> int) list" where
  "x86_64_getDwarfEnc = x86_64_getDwarfEnc1 @ x86_64_getDwarfEnc2 @ x86_64_getDwarfEnc3"

end
