(* ===== verification/Reg_Tables_RISC.thy ===== *)
theory Reg_Tables_RISC
  imports Reg_Base
begin

text \<open>
  The register tables of \<^verbatim>\<open>common/h/registers/ppc32_regs.h\<close>,
  \<^verbatim>\<open>ppc64_regs.h\<close> and \<^verbatim>\<open>aarch64_regs.h\<close>, one constant per \<^verbatim>\<open>DEF_REGISTER\<close>,
  and the switch tables of the DWARF encodings for the three architectures. The source has two
  \<^verbatim>\<open>switch\<close> statements in a row for each of them in \<^verbatim>\<open>DwarfEncToReg\<close>: the tables
  are \<open>_1\<close> and \<open>_2\<close>.
\<close>

section \<open>Registers of ppc32\<close>

abbreviation ppc32_GPR :: MachRegister where "ppc32_GPR \<equiv> 0x00010000"
abbreviation ppc32_FPR :: MachRegister where "ppc32_FPR \<equiv> 0x00020000"
abbreviation ppc32_FSR :: MachRegister where "ppc32_FSR \<equiv> 0x00040000"
abbreviation ppc32_SPR :: MachRegister where "ppc32_SPR \<equiv> 0x00080000"

abbreviation ppc32_r0 :: MachRegister where "ppc32_r0 \<equiv> 0 OR ppc32_GPR OR Arch_ppc32"
abbreviation ppc32_r1 :: MachRegister where "ppc32_r1 \<equiv> 1 OR ppc32_GPR OR Arch_ppc32"
abbreviation ppc32_r2 :: MachRegister where "ppc32_r2 \<equiv> 2 OR ppc32_GPR OR Arch_ppc32"
abbreviation ppc32_r3 :: MachRegister where "ppc32_r3 \<equiv> 3 OR ppc32_GPR OR Arch_ppc32"
abbreviation ppc32_r4 :: MachRegister where "ppc32_r4 \<equiv> 4 OR ppc32_GPR OR Arch_ppc32"
abbreviation ppc32_r5 :: MachRegister where "ppc32_r5 \<equiv> 5 OR ppc32_GPR OR Arch_ppc32"
abbreviation ppc32_r6 :: MachRegister where "ppc32_r6 \<equiv> 6 OR ppc32_GPR OR Arch_ppc32"
abbreviation ppc32_r7 :: MachRegister where "ppc32_r7 \<equiv> 7 OR ppc32_GPR OR Arch_ppc32"
abbreviation ppc32_r8 :: MachRegister where "ppc32_r8 \<equiv> 8 OR ppc32_GPR OR Arch_ppc32"
abbreviation ppc32_r9 :: MachRegister where "ppc32_r9 \<equiv> 9 OR ppc32_GPR OR Arch_ppc32"
abbreviation ppc32_r10 :: MachRegister where "ppc32_r10 \<equiv> 10 OR ppc32_GPR OR Arch_ppc32"
abbreviation ppc32_r11 :: MachRegister where "ppc32_r11 \<equiv> 11 OR ppc32_GPR OR Arch_ppc32"
abbreviation ppc32_r12 :: MachRegister where "ppc32_r12 \<equiv> 12 OR ppc32_GPR OR Arch_ppc32"
abbreviation ppc32_r13 :: MachRegister where "ppc32_r13 \<equiv> 13 OR ppc32_GPR OR Arch_ppc32"
abbreviation ppc32_r14 :: MachRegister where "ppc32_r14 \<equiv> 14 OR ppc32_GPR OR Arch_ppc32"
abbreviation ppc32_r15 :: MachRegister where "ppc32_r15 \<equiv> 15 OR ppc32_GPR OR Arch_ppc32"
abbreviation ppc32_r16 :: MachRegister where "ppc32_r16 \<equiv> 16 OR ppc32_GPR OR Arch_ppc32"
abbreviation ppc32_r17 :: MachRegister where "ppc32_r17 \<equiv> 17 OR ppc32_GPR OR Arch_ppc32"
abbreviation ppc32_r18 :: MachRegister where "ppc32_r18 \<equiv> 18 OR ppc32_GPR OR Arch_ppc32"
abbreviation ppc32_r19 :: MachRegister where "ppc32_r19 \<equiv> 19 OR ppc32_GPR OR Arch_ppc32"
abbreviation ppc32_r20 :: MachRegister where "ppc32_r20 \<equiv> 20 OR ppc32_GPR OR Arch_ppc32"
abbreviation ppc32_r21 :: MachRegister where "ppc32_r21 \<equiv> 21 OR ppc32_GPR OR Arch_ppc32"
abbreviation ppc32_r22 :: MachRegister where "ppc32_r22 \<equiv> 22 OR ppc32_GPR OR Arch_ppc32"
abbreviation ppc32_r23 :: MachRegister where "ppc32_r23 \<equiv> 23 OR ppc32_GPR OR Arch_ppc32"
abbreviation ppc32_r24 :: MachRegister where "ppc32_r24 \<equiv> 24 OR ppc32_GPR OR Arch_ppc32"
abbreviation ppc32_r25 :: MachRegister where "ppc32_r25 \<equiv> 25 OR ppc32_GPR OR Arch_ppc32"
abbreviation ppc32_r26 :: MachRegister where "ppc32_r26 \<equiv> 26 OR ppc32_GPR OR Arch_ppc32"
abbreviation ppc32_r27 :: MachRegister where "ppc32_r27 \<equiv> 27 OR ppc32_GPR OR Arch_ppc32"
abbreviation ppc32_r28 :: MachRegister where "ppc32_r28 \<equiv> 28 OR ppc32_GPR OR Arch_ppc32"
abbreviation ppc32_r29 :: MachRegister where "ppc32_r29 \<equiv> 29 OR ppc32_GPR OR Arch_ppc32"
abbreviation ppc32_r30 :: MachRegister where "ppc32_r30 \<equiv> 30 OR ppc32_GPR OR Arch_ppc32"
abbreviation ppc32_r31 :: MachRegister where "ppc32_r31 \<equiv> 31 OR ppc32_GPR OR Arch_ppc32"
abbreviation ppc32_fpr0 :: MachRegister where "ppc32_fpr0 \<equiv> 0 OR ppc32_FPR OR Arch_ppc32"
abbreviation ppc32_fpr1 :: MachRegister where "ppc32_fpr1 \<equiv> 1 OR ppc32_FPR OR Arch_ppc32"
abbreviation ppc32_fpr2 :: MachRegister where "ppc32_fpr2 \<equiv> 2 OR ppc32_FPR OR Arch_ppc32"
abbreviation ppc32_fpr3 :: MachRegister where "ppc32_fpr3 \<equiv> 3 OR ppc32_FPR OR Arch_ppc32"
abbreviation ppc32_fpr4 :: MachRegister where "ppc32_fpr4 \<equiv> 4 OR ppc32_FPR OR Arch_ppc32"
abbreviation ppc32_fpr5 :: MachRegister where "ppc32_fpr5 \<equiv> 5 OR ppc32_FPR OR Arch_ppc32"
abbreviation ppc32_fpr6 :: MachRegister where "ppc32_fpr6 \<equiv> 6 OR ppc32_FPR OR Arch_ppc32"
abbreviation ppc32_fpr7 :: MachRegister where "ppc32_fpr7 \<equiv> 7 OR ppc32_FPR OR Arch_ppc32"
abbreviation ppc32_fpr8 :: MachRegister where "ppc32_fpr8 \<equiv> 8 OR ppc32_FPR OR Arch_ppc32"
abbreviation ppc32_fpr9 :: MachRegister where "ppc32_fpr9 \<equiv> 9 OR ppc32_FPR OR Arch_ppc32"
abbreviation ppc32_fpr10 :: MachRegister where "ppc32_fpr10 \<equiv> 10 OR ppc32_FPR OR Arch_ppc32"
abbreviation ppc32_fpr11 :: MachRegister where "ppc32_fpr11 \<equiv> 11 OR ppc32_FPR OR Arch_ppc32"
abbreviation ppc32_fpr12 :: MachRegister where "ppc32_fpr12 \<equiv> 12 OR ppc32_FPR OR Arch_ppc32"
abbreviation ppc32_fpr13 :: MachRegister where "ppc32_fpr13 \<equiv> 13 OR ppc32_FPR OR Arch_ppc32"
abbreviation ppc32_fpr14 :: MachRegister where "ppc32_fpr14 \<equiv> 14 OR ppc32_FPR OR Arch_ppc32"
abbreviation ppc32_fpr15 :: MachRegister where "ppc32_fpr15 \<equiv> 15 OR ppc32_FPR OR Arch_ppc32"
abbreviation ppc32_fpr16 :: MachRegister where "ppc32_fpr16 \<equiv> 16 OR ppc32_FPR OR Arch_ppc32"
abbreviation ppc32_fpr17 :: MachRegister where "ppc32_fpr17 \<equiv> 17 OR ppc32_FPR OR Arch_ppc32"
abbreviation ppc32_fpr18 :: MachRegister where "ppc32_fpr18 \<equiv> 18 OR ppc32_FPR OR Arch_ppc32"
abbreviation ppc32_fpr19 :: MachRegister where "ppc32_fpr19 \<equiv> 19 OR ppc32_FPR OR Arch_ppc32"
abbreviation ppc32_fpr20 :: MachRegister where "ppc32_fpr20 \<equiv> 20 OR ppc32_FPR OR Arch_ppc32"
abbreviation ppc32_fpr21 :: MachRegister where "ppc32_fpr21 \<equiv> 21 OR ppc32_FPR OR Arch_ppc32"
abbreviation ppc32_fpr22 :: MachRegister where "ppc32_fpr22 \<equiv> 22 OR ppc32_FPR OR Arch_ppc32"
abbreviation ppc32_fpr23 :: MachRegister where "ppc32_fpr23 \<equiv> 23 OR ppc32_FPR OR Arch_ppc32"
abbreviation ppc32_fpr24 :: MachRegister where "ppc32_fpr24 \<equiv> 24 OR ppc32_FPR OR Arch_ppc32"
abbreviation ppc32_fpr25 :: MachRegister where "ppc32_fpr25 \<equiv> 25 OR ppc32_FPR OR Arch_ppc32"
abbreviation ppc32_fpr26 :: MachRegister where "ppc32_fpr26 \<equiv> 26 OR ppc32_FPR OR Arch_ppc32"
abbreviation ppc32_fpr27 :: MachRegister where "ppc32_fpr27 \<equiv> 27 OR ppc32_FPR OR Arch_ppc32"
abbreviation ppc32_fpr28 :: MachRegister where "ppc32_fpr28 \<equiv> 28 OR ppc32_FPR OR Arch_ppc32"
abbreviation ppc32_fpr29 :: MachRegister where "ppc32_fpr29 \<equiv> 29 OR ppc32_FPR OR Arch_ppc32"
abbreviation ppc32_fpr30 :: MachRegister where "ppc32_fpr30 \<equiv> 30 OR ppc32_FPR OR Arch_ppc32"
abbreviation ppc32_fpr31 :: MachRegister where "ppc32_fpr31 \<equiv> 31 OR ppc32_FPR OR Arch_ppc32"
abbreviation ppc32_fsr0 :: MachRegister where "ppc32_fsr0 \<equiv> 0 OR ppc32_FSR OR Arch_ppc32"
abbreviation ppc32_fsr1 :: MachRegister where "ppc32_fsr1 \<equiv> 1 OR ppc32_FSR OR Arch_ppc32"
abbreviation ppc32_fsr2 :: MachRegister where "ppc32_fsr2 \<equiv> 2 OR ppc32_FSR OR Arch_ppc32"
abbreviation ppc32_fsr3 :: MachRegister where "ppc32_fsr3 \<equiv> 3 OR ppc32_FSR OR Arch_ppc32"
abbreviation ppc32_fsr4 :: MachRegister where "ppc32_fsr4 \<equiv> 4 OR ppc32_FSR OR Arch_ppc32"
abbreviation ppc32_fsr5 :: MachRegister where "ppc32_fsr5 \<equiv> 5 OR ppc32_FSR OR Arch_ppc32"
abbreviation ppc32_fsr6 :: MachRegister where "ppc32_fsr6 \<equiv> 6 OR ppc32_FSR OR Arch_ppc32"
abbreviation ppc32_fsr7 :: MachRegister where "ppc32_fsr7 \<equiv> 7 OR ppc32_FSR OR Arch_ppc32"
abbreviation ppc32_fsr8 :: MachRegister where "ppc32_fsr8 \<equiv> 8 OR ppc32_FSR OR Arch_ppc32"
abbreviation ppc32_fsr9 :: MachRegister where "ppc32_fsr9 \<equiv> 9 OR ppc32_FSR OR Arch_ppc32"
abbreviation ppc32_fsr10 :: MachRegister where "ppc32_fsr10 \<equiv> 10 OR ppc32_FSR OR Arch_ppc32"
abbreviation ppc32_fsr11 :: MachRegister where "ppc32_fsr11 \<equiv> 11 OR ppc32_FSR OR Arch_ppc32"
abbreviation ppc32_fsr12 :: MachRegister where "ppc32_fsr12 \<equiv> 12 OR ppc32_FSR OR Arch_ppc32"
abbreviation ppc32_fsr13 :: MachRegister where "ppc32_fsr13 \<equiv> 13 OR ppc32_FSR OR Arch_ppc32"
abbreviation ppc32_fsr14 :: MachRegister where "ppc32_fsr14 \<equiv> 14 OR ppc32_FSR OR Arch_ppc32"
abbreviation ppc32_fsr15 :: MachRegister where "ppc32_fsr15 \<equiv> 15 OR ppc32_FSR OR Arch_ppc32"
abbreviation ppc32_fsr16 :: MachRegister where "ppc32_fsr16 \<equiv> 16 OR ppc32_FSR OR Arch_ppc32"
abbreviation ppc32_fsr17 :: MachRegister where "ppc32_fsr17 \<equiv> 17 OR ppc32_FSR OR Arch_ppc32"
abbreviation ppc32_fsr18 :: MachRegister where "ppc32_fsr18 \<equiv> 18 OR ppc32_FSR OR Arch_ppc32"
abbreviation ppc32_fsr19 :: MachRegister where "ppc32_fsr19 \<equiv> 19 OR ppc32_FSR OR Arch_ppc32"
abbreviation ppc32_fsr20 :: MachRegister where "ppc32_fsr20 \<equiv> 20 OR ppc32_FSR OR Arch_ppc32"
abbreviation ppc32_fsr21 :: MachRegister where "ppc32_fsr21 \<equiv> 21 OR ppc32_FSR OR Arch_ppc32"
abbreviation ppc32_fsr22 :: MachRegister where "ppc32_fsr22 \<equiv> 22 OR ppc32_FSR OR Arch_ppc32"
abbreviation ppc32_fsr23 :: MachRegister where "ppc32_fsr23 \<equiv> 23 OR ppc32_FSR OR Arch_ppc32"
abbreviation ppc32_fsr24 :: MachRegister where "ppc32_fsr24 \<equiv> 24 OR ppc32_FSR OR Arch_ppc32"
abbreviation ppc32_fsr25 :: MachRegister where "ppc32_fsr25 \<equiv> 25 OR ppc32_FSR OR Arch_ppc32"
abbreviation ppc32_fsr26 :: MachRegister where "ppc32_fsr26 \<equiv> 26 OR ppc32_FSR OR Arch_ppc32"
abbreviation ppc32_fsr27 :: MachRegister where "ppc32_fsr27 \<equiv> 27 OR ppc32_FSR OR Arch_ppc32"
abbreviation ppc32_fsr28 :: MachRegister where "ppc32_fsr28 \<equiv> 28 OR ppc32_FSR OR Arch_ppc32"
abbreviation ppc32_fsr29 :: MachRegister where "ppc32_fsr29 \<equiv> 29 OR ppc32_FSR OR Arch_ppc32"
abbreviation ppc32_fsr30 :: MachRegister where "ppc32_fsr30 \<equiv> 30 OR ppc32_FSR OR Arch_ppc32"
abbreviation ppc32_fsr31 :: MachRegister where "ppc32_fsr31 \<equiv> 31 OR ppc32_FSR OR Arch_ppc32"
abbreviation ppc32_mq :: MachRegister where "ppc32_mq \<equiv> 0 OR ppc32_SPR OR Arch_ppc32"
abbreviation ppc32_xer :: MachRegister where "ppc32_xer \<equiv> 1 OR ppc32_SPR OR Arch_ppc32"
abbreviation ppc32_lr :: MachRegister where "ppc32_lr \<equiv> 8 OR ppc32_SPR OR Arch_ppc32"
abbreviation ppc32_ctr :: MachRegister where "ppc32_ctr \<equiv> 9 OR ppc32_SPR OR Arch_ppc32"
abbreviation ppc32_amr :: MachRegister where "ppc32_amr \<equiv> 13 OR ppc32_SPR OR Arch_ppc32"
abbreviation ppc32_dscr :: MachRegister where "ppc32_dscr \<equiv> 17 OR ppc32_SPR OR Arch_ppc32"
abbreviation ppc32_dsisr :: MachRegister where "ppc32_dsisr \<equiv> 18 OR ppc32_SPR OR Arch_ppc32"
abbreviation ppc32_dar :: MachRegister where "ppc32_dar \<equiv> 19 OR ppc32_SPR OR Arch_ppc32"
abbreviation ppc32_dec :: MachRegister where "ppc32_dec \<equiv> 22 OR ppc32_SPR OR Arch_ppc32"
abbreviation ppc32_sdr1 :: MachRegister where "ppc32_sdr1 \<equiv> 25 OR ppc32_SPR OR Arch_ppc32"
abbreviation ppc32_srr0 :: MachRegister where "ppc32_srr0 \<equiv> 26 OR ppc32_SPR OR Arch_ppc32"
abbreviation ppc32_srr1 :: MachRegister where "ppc32_srr1 \<equiv> 27 OR ppc32_SPR OR Arch_ppc32"
abbreviation ppc32_cfar :: MachRegister where "ppc32_cfar \<equiv> 28 OR ppc32_SPR OR Arch_ppc32"
abbreviation ppc32_amr_pri :: MachRegister where "ppc32_amr_pri \<equiv> 29 OR ppc32_SPR OR Arch_ppc32"
abbreviation ppc32_pid :: MachRegister where "ppc32_pid \<equiv> 48 OR ppc32_SPR OR Arch_ppc32"
abbreviation ppc32_gdecar :: MachRegister where "ppc32_gdecar \<equiv> 53 OR ppc32_SPR OR Arch_ppc32"
abbreviation ppc32_decar :: MachRegister where "ppc32_decar \<equiv> 54 OR ppc32_SPR OR Arch_ppc32"
abbreviation ppc32_mcivpr :: MachRegister where "ppc32_mcivpr \<equiv> 55 OR ppc32_SPR OR Arch_ppc32"
abbreviation ppc32_lper :: MachRegister where "ppc32_lper \<equiv> 56 OR ppc32_SPR OR Arch_ppc32"
abbreviation ppc32_lperu :: MachRegister where "ppc32_lperu \<equiv> 57 OR ppc32_SPR OR Arch_ppc32"
abbreviation ppc32_csrr0 :: MachRegister where "ppc32_csrr0 \<equiv> 58 OR ppc32_SPR OR Arch_ppc32"
abbreviation ppc32_csrr1 :: MachRegister where "ppc32_csrr1 \<equiv> 59 OR ppc32_SPR OR Arch_ppc32"
abbreviation ppc32_gtsrwr :: MachRegister where "ppc32_gtsrwr \<equiv> 60 OR ppc32_SPR OR Arch_ppc32"
abbreviation ppc32_esr :: MachRegister where "ppc32_esr \<equiv> 62 OR ppc32_SPR OR Arch_ppc32"
abbreviation ppc32_vrsave :: MachRegister where "ppc32_vrsave \<equiv> 256 OR ppc32_SPR OR Arch_ppc32"
abbreviation ppc32_sprg0 :: MachRegister where "ppc32_sprg0 \<equiv> 272 OR ppc32_SPR OR Arch_ppc32"
abbreviation ppc32_sprg1 :: MachRegister where "ppc32_sprg1 \<equiv> 273 OR ppc32_SPR OR Arch_ppc32"
abbreviation ppc32_sprg2 :: MachRegister where "ppc32_sprg2 \<equiv> 274 OR ppc32_SPR OR Arch_ppc32"
abbreviation ppc32_sprg3 :: MachRegister where "ppc32_sprg3 \<equiv> 275 OR ppc32_SPR OR Arch_ppc32"
abbreviation ppc32_sprg4 :: MachRegister where "ppc32_sprg4 \<equiv> 276 OR ppc32_SPR OR Arch_ppc32"
abbreviation ppc32_sprg5 :: MachRegister where "ppc32_sprg5 \<equiv> 277 OR ppc32_SPR OR Arch_ppc32"
abbreviation ppc32_sprg6 :: MachRegister where "ppc32_sprg6 \<equiv> 278 OR ppc32_SPR OR Arch_ppc32"
abbreviation ppc32_sprg7 :: MachRegister where "ppc32_sprg7 \<equiv> 279 OR ppc32_SPR OR Arch_ppc32"
abbreviation ppc32_sprg3_ro :: MachRegister where "ppc32_sprg3_ro \<equiv> 259 OR ppc32_SPR OR Arch_ppc32"
abbreviation ppc32_sprg4_ro :: MachRegister where "ppc32_sprg4_ro \<equiv> 260 OR ppc32_SPR OR Arch_ppc32"
abbreviation ppc32_sprg5_ro :: MachRegister where "ppc32_sprg5_ro \<equiv> 261 OR ppc32_SPR OR Arch_ppc32"
abbreviation ppc32_sprg6_ro :: MachRegister where "ppc32_sprg6_ro \<equiv> 262 OR ppc32_SPR OR Arch_ppc32"
abbreviation ppc32_sprg7_ro :: MachRegister where "ppc32_sprg7_ro \<equiv> 263 OR ppc32_SPR OR Arch_ppc32"
abbreviation ppc32_ear :: MachRegister where "ppc32_ear \<equiv> 282 OR ppc32_SPR OR Arch_ppc32"
abbreviation ppc32_tbl_wo :: MachRegister where "ppc32_tbl_wo \<equiv> 284 OR ppc32_SPR OR Arch_ppc32"
abbreviation ppc32_tbl_ro :: MachRegister where "ppc32_tbl_ro \<equiv> 268 OR ppc32_SPR OR Arch_ppc32"
abbreviation ppc32_tbu_wo :: MachRegister where "ppc32_tbu_wo \<equiv> 285 OR ppc32_SPR OR Arch_ppc32"
abbreviation ppc32_tbu_ro :: MachRegister where "ppc32_tbu_ro \<equiv> 269 OR ppc32_SPR OR Arch_ppc32"
abbreviation ppc32_pvr :: MachRegister where "ppc32_pvr \<equiv> 287 OR ppc32_SPR OR Arch_ppc32"
abbreviation ppc32_ibat0u :: MachRegister where "ppc32_ibat0u \<equiv> 528 OR ppc32_SPR OR Arch_ppc32"
abbreviation ppc32_ibat0l :: MachRegister where "ppc32_ibat0l \<equiv> 529 OR ppc32_SPR OR Arch_ppc32"
abbreviation ppc32_ibat1u :: MachRegister where "ppc32_ibat1u \<equiv> 530 OR ppc32_SPR OR Arch_ppc32"
abbreviation ppc32_ibat1l :: MachRegister where "ppc32_ibat1l \<equiv> 531 OR ppc32_SPR OR Arch_ppc32"
abbreviation ppc32_ibat2u :: MachRegister where "ppc32_ibat2u \<equiv> 532 OR ppc32_SPR OR Arch_ppc32"
abbreviation ppc32_ibat2l :: MachRegister where "ppc32_ibat2l \<equiv> 533 OR ppc32_SPR OR Arch_ppc32"
abbreviation ppc32_ibat3u :: MachRegister where "ppc32_ibat3u \<equiv> 534 OR ppc32_SPR OR Arch_ppc32"
abbreviation ppc32_ibat3l :: MachRegister where "ppc32_ibat3l \<equiv> 535 OR ppc32_SPR OR Arch_ppc32"
abbreviation ppc32_dbat0u :: MachRegister where "ppc32_dbat0u \<equiv> 536 OR ppc32_SPR OR Arch_ppc32"
abbreviation ppc32_dbat0l :: MachRegister where "ppc32_dbat0l \<equiv> 537 OR ppc32_SPR OR Arch_ppc32"
abbreviation ppc32_dbat1u :: MachRegister where "ppc32_dbat1u \<equiv> 538 OR ppc32_SPR OR Arch_ppc32"
abbreviation ppc32_dbat1l :: MachRegister where "ppc32_dbat1l \<equiv> 539 OR ppc32_SPR OR Arch_ppc32"
abbreviation ppc32_dbat2u :: MachRegister where "ppc32_dbat2u \<equiv> 540 OR ppc32_SPR OR Arch_ppc32"
abbreviation ppc32_dbat2l :: MachRegister where "ppc32_dbat2l \<equiv> 541 OR ppc32_SPR OR Arch_ppc32"
abbreviation ppc32_dbat3u :: MachRegister where "ppc32_dbat3u \<equiv> 542 OR ppc32_SPR OR Arch_ppc32"
abbreviation ppc32_dbat3l :: MachRegister where "ppc32_dbat3l \<equiv> 543 OR ppc32_SPR OR Arch_ppc32"
abbreviation ppc32_pc :: MachRegister where "ppc32_pc \<equiv> 600 OR ppc32_SPR OR Arch_ppc32"
abbreviation ppc32_fpscw :: MachRegister where "ppc32_fpscw \<equiv> 601 OR ppc32_SPR OR Arch_ppc32"
abbreviation ppc32_fpscw0 :: MachRegister where "ppc32_fpscw0 \<equiv> 602 OR ppc32_SPR OR Arch_ppc32"
abbreviation ppc32_fpscw1 :: MachRegister where "ppc32_fpscw1 \<equiv> 603 OR ppc32_SPR OR Arch_ppc32"
abbreviation ppc32_fpscw2 :: MachRegister where "ppc32_fpscw2 \<equiv> 604 OR ppc32_SPR OR Arch_ppc32"
abbreviation ppc32_fpscw3 :: MachRegister where "ppc32_fpscw3 \<equiv> 605 OR ppc32_SPR OR Arch_ppc32"
abbreviation ppc32_fpscw4 :: MachRegister where "ppc32_fpscw4 \<equiv> 606 OR ppc32_SPR OR Arch_ppc32"
abbreviation ppc32_fpscw5 :: MachRegister where "ppc32_fpscw5 \<equiv> 607 OR ppc32_SPR OR Arch_ppc32"
abbreviation ppc32_fpscw6 :: MachRegister where "ppc32_fpscw6 \<equiv> 608 OR ppc32_SPR OR Arch_ppc32"
abbreviation ppc32_fpscw7 :: MachRegister where "ppc32_fpscw7 \<equiv> 609 OR ppc32_SPR OR Arch_ppc32"
abbreviation ppc32_msr :: MachRegister where "ppc32_msr \<equiv> 610 OR ppc32_SPR OR Arch_ppc32"
abbreviation ppc32_ivpr :: MachRegister where "ppc32_ivpr \<equiv> 611 OR ppc32_SPR OR Arch_ppc32"
abbreviation ppc32_ivor8 :: MachRegister where "ppc32_ivor8 \<equiv> 612 OR ppc32_SPR OR Arch_ppc32"
abbreviation ppc32_seg0 :: MachRegister where "ppc32_seg0 \<equiv> 613 OR ppc32_SPR OR Arch_ppc32"
abbreviation ppc32_seg1 :: MachRegister where "ppc32_seg1 \<equiv> 614 OR ppc32_SPR OR Arch_ppc32"
abbreviation ppc32_seg2 :: MachRegister where "ppc32_seg2 \<equiv> 615 OR ppc32_SPR OR Arch_ppc32"
abbreviation ppc32_seg3 :: MachRegister where "ppc32_seg3 \<equiv> 616 OR ppc32_SPR OR Arch_ppc32"
abbreviation ppc32_seg4 :: MachRegister where "ppc32_seg4 \<equiv> 617 OR ppc32_SPR OR Arch_ppc32"
abbreviation ppc32_seg5 :: MachRegister where "ppc32_seg5 \<equiv> 618 OR ppc32_SPR OR Arch_ppc32"
abbreviation ppc32_seg6 :: MachRegister where "ppc32_seg6 \<equiv> 619 OR ppc32_SPR OR Arch_ppc32"
abbreviation ppc32_seg7 :: MachRegister where "ppc32_seg7 \<equiv> 620 OR ppc32_SPR OR Arch_ppc32"
abbreviation ppc32_cr0 :: MachRegister where "ppc32_cr0 \<equiv> 621 OR ppc32_SPR OR Arch_ppc32"
abbreviation ppc32_cr1 :: MachRegister where "ppc32_cr1 \<equiv> 622 OR ppc32_SPR OR Arch_ppc32"
abbreviation ppc32_cr2 :: MachRegister where "ppc32_cr2 \<equiv> 623 OR ppc32_SPR OR Arch_ppc32"
abbreviation ppc32_cr3 :: MachRegister where "ppc32_cr3 \<equiv> 624 OR ppc32_SPR OR Arch_ppc32"
abbreviation ppc32_cr4 :: MachRegister where "ppc32_cr4 \<equiv> 625 OR ppc32_SPR OR Arch_ppc32"
abbreviation ppc32_cr5 :: MachRegister where "ppc32_cr5 \<equiv> 626 OR ppc32_SPR OR Arch_ppc32"
abbreviation ppc32_cr6 :: MachRegister where "ppc32_cr6 \<equiv> 627 OR ppc32_SPR OR Arch_ppc32"
abbreviation ppc32_cr7 :: MachRegister where "ppc32_cr7 \<equiv> 628 OR ppc32_SPR OR Arch_ppc32"
abbreviation ppc32_cr :: MachRegister where "ppc32_cr \<equiv> 629 OR ppc32_SPR OR Arch_ppc32"
abbreviation ppc32_or3 :: MachRegister where "ppc32_or3 \<equiv> 630 OR ppc32_SPR OR Arch_ppc32"
abbreviation ppc32_trap :: MachRegister where "ppc32_trap \<equiv> 631 OR ppc32_SPR OR Arch_ppc32"
abbreviation ppc32_cr0l :: MachRegister where "ppc32_cr0l \<equiv> 700 OR ppc32_SPR OR Arch_ppc32"
abbreviation ppc32_cr0g :: MachRegister where "ppc32_cr0g \<equiv> 701 OR ppc32_SPR OR Arch_ppc32"
abbreviation ppc32_cr0e :: MachRegister where "ppc32_cr0e \<equiv> 702 OR ppc32_SPR OR Arch_ppc32"
abbreviation ppc32_cr0s :: MachRegister where "ppc32_cr0s \<equiv> 703 OR ppc32_SPR OR Arch_ppc32"
abbreviation ppc32_cr1l :: MachRegister where "ppc32_cr1l \<equiv> 704 OR ppc32_SPR OR Arch_ppc32"
abbreviation ppc32_cr1g :: MachRegister where "ppc32_cr1g \<equiv> 705 OR ppc32_SPR OR Arch_ppc32"
abbreviation ppc32_cr1e :: MachRegister where "ppc32_cr1e \<equiv> 706 OR ppc32_SPR OR Arch_ppc32"
abbreviation ppc32_cr1s :: MachRegister where "ppc32_cr1s \<equiv> 707 OR ppc32_SPR OR Arch_ppc32"
abbreviation ppc32_cr2l :: MachRegister where "ppc32_cr2l \<equiv> 708 OR ppc32_SPR OR Arch_ppc32"
abbreviation ppc32_cr2g :: MachRegister where "ppc32_cr2g \<equiv> 709 OR ppc32_SPR OR Arch_ppc32"
abbreviation ppc32_cr2e :: MachRegister where "ppc32_cr2e \<equiv> 710 OR ppc32_SPR OR Arch_ppc32"
abbreviation ppc32_cr2s :: MachRegister where "ppc32_cr2s \<equiv> 711 OR ppc32_SPR OR Arch_ppc32"
abbreviation ppc32_cr3l :: MachRegister where "ppc32_cr3l \<equiv> 712 OR ppc32_SPR OR Arch_ppc32"
abbreviation ppc32_cr3g :: MachRegister where "ppc32_cr3g \<equiv> 713 OR ppc32_SPR OR Arch_ppc32"
abbreviation ppc32_cr3e :: MachRegister where "ppc32_cr3e \<equiv> 714 OR ppc32_SPR OR Arch_ppc32"
abbreviation ppc32_cr3s :: MachRegister where "ppc32_cr3s \<equiv> 715 OR ppc32_SPR OR Arch_ppc32"
abbreviation ppc32_cr4l :: MachRegister where "ppc32_cr4l \<equiv> 716 OR ppc32_SPR OR Arch_ppc32"
abbreviation ppc32_cr4g :: MachRegister where "ppc32_cr4g \<equiv> 717 OR ppc32_SPR OR Arch_ppc32"
abbreviation ppc32_cr4e :: MachRegister where "ppc32_cr4e \<equiv> 718 OR ppc32_SPR OR Arch_ppc32"
abbreviation ppc32_cr4s :: MachRegister where "ppc32_cr4s \<equiv> 719 OR ppc32_SPR OR Arch_ppc32"
abbreviation ppc32_cr5l :: MachRegister where "ppc32_cr5l \<equiv> 720 OR ppc32_SPR OR Arch_ppc32"
abbreviation ppc32_cr5g :: MachRegister where "ppc32_cr5g \<equiv> 721 OR ppc32_SPR OR Arch_ppc32"
abbreviation ppc32_cr5e :: MachRegister where "ppc32_cr5e \<equiv> 722 OR ppc32_SPR OR Arch_ppc32"
abbreviation ppc32_cr5s :: MachRegister where "ppc32_cr5s \<equiv> 723 OR ppc32_SPR OR Arch_ppc32"
abbreviation ppc32_cr6l :: MachRegister where "ppc32_cr6l \<equiv> 724 OR ppc32_SPR OR Arch_ppc32"
abbreviation ppc32_cr6g :: MachRegister where "ppc32_cr6g \<equiv> 725 OR ppc32_SPR OR Arch_ppc32"
abbreviation ppc32_cr6e :: MachRegister where "ppc32_cr6e \<equiv> 726 OR ppc32_SPR OR Arch_ppc32"
abbreviation ppc32_cr6s :: MachRegister where "ppc32_cr6s \<equiv> 727 OR ppc32_SPR OR Arch_ppc32"
abbreviation ppc32_cr7l :: MachRegister where "ppc32_cr7l \<equiv> 728 OR ppc32_SPR OR Arch_ppc32"
abbreviation ppc32_cr7g :: MachRegister where "ppc32_cr7g \<equiv> 729 OR ppc32_SPR OR Arch_ppc32"
abbreviation ppc32_cr7e :: MachRegister where "ppc32_cr7e \<equiv> 730 OR ppc32_SPR OR Arch_ppc32"
abbreviation ppc32_cr7s :: MachRegister where "ppc32_cr7s \<equiv> 731 OR ppc32_SPR OR Arch_ppc32"
abbreviation ppc32_ppr :: MachRegister where "ppc32_ppr \<equiv> 896 OR ppc32_SPR OR Arch_ppc32"
abbreviation ppc32_ppr32 :: MachRegister where "ppc32_ppr32 \<equiv> 898 OR ppc32_SPR OR Arch_ppc32"

definition ppc32_regs1 :: "MachRegister list" where
  "ppc32_regs1 = [
    ppc32_r0, ppc32_r1, ppc32_r2, ppc32_r3, ppc32_r4, ppc32_r5, ppc32_r6, ppc32_r7, ppc32_r8,
    ppc32_r9, ppc32_r10, ppc32_r11, ppc32_r12, ppc32_r13, ppc32_r14, ppc32_r15, ppc32_r16,
    ppc32_r17, ppc32_r18, ppc32_r19, ppc32_r20, ppc32_r21, ppc32_r22, ppc32_r23, ppc32_r24,
    ppc32_r25, ppc32_r26, ppc32_r27, ppc32_r28, ppc32_r29, ppc32_r30, ppc32_r31, ppc32_fpr0,
    ppc32_fpr1, ppc32_fpr2, ppc32_fpr3, ppc32_fpr4, ppc32_fpr5, ppc32_fpr6, ppc32_fpr7,
    ppc32_fpr8, ppc32_fpr9, ppc32_fpr10, ppc32_fpr11, ppc32_fpr12, ppc32_fpr13, ppc32_fpr14,
    ppc32_fpr15, ppc32_fpr16, ppc32_fpr17, ppc32_fpr18, ppc32_fpr19, ppc32_fpr20, ppc32_fpr21,
    ppc32_fpr22, ppc32_fpr23, ppc32_fpr24, ppc32_fpr25, ppc32_fpr26, ppc32_fpr27, ppc32_fpr28,
    ppc32_fpr29, ppc32_fpr30, ppc32_fpr31, ppc32_fsr0, ppc32_fsr1, ppc32_fsr2, ppc32_fsr3,
    ppc32_fsr4, ppc32_fsr5, ppc32_fsr6, ppc32_fsr7, ppc32_fsr8, ppc32_fsr9, ppc32_fsr10,
    ppc32_fsr11, ppc32_fsr12, ppc32_fsr13, ppc32_fsr14, ppc32_fsr15, ppc32_fsr16, ppc32_fsr17,
    ppc32_fsr18, ppc32_fsr19, ppc32_fsr20, ppc32_fsr21, ppc32_fsr22, ppc32_fsr23, ppc32_fsr24,
    ppc32_fsr25, ppc32_fsr26, ppc32_fsr27, ppc32_fsr28, ppc32_fsr29, ppc32_fsr30, ppc32_fsr31,
    ppc32_mq, ppc32_xer, ppc32_lr, ppc32_ctr, ppc32_amr, ppc32_dscr, ppc32_dsisr, ppc32_dar,
    ppc32_dec, ppc32_sdr1, ppc32_srr0, ppc32_srr1, ppc32_cfar, ppc32_amr_pri, ppc32_pid,
    ppc32_gdecar, ppc32_decar, ppc32_mcivpr, ppc32_lper, ppc32_lperu, ppc32_csrr0, ppc32_csrr1,
    ppc32_gtsrwr, ppc32_esr, ppc32_vrsave]"

definition ppc32_regs2 :: "MachRegister list" where
  "ppc32_regs2 = [
    ppc32_sprg0, ppc32_sprg1, ppc32_sprg2, ppc32_sprg3, ppc32_sprg4, ppc32_sprg5, ppc32_sprg6,
    ppc32_sprg7, ppc32_sprg3_ro, ppc32_sprg4_ro, ppc32_sprg5_ro, ppc32_sprg6_ro, ppc32_sprg7_ro,
    ppc32_ear, ppc32_tbl_wo, ppc32_tbl_ro, ppc32_tbu_wo, ppc32_tbu_ro, ppc32_pvr, ppc32_ibat0u,
    ppc32_ibat0l, ppc32_ibat1u, ppc32_ibat1l, ppc32_ibat2u, ppc32_ibat2l, ppc32_ibat3u,
    ppc32_ibat3l, ppc32_dbat0u, ppc32_dbat0l, ppc32_dbat1u, ppc32_dbat1l, ppc32_dbat2u,
    ppc32_dbat2l, ppc32_dbat3u, ppc32_dbat3l, ppc32_pc, ppc32_fpscw, ppc32_fpscw0, ppc32_fpscw1,
    ppc32_fpscw2, ppc32_fpscw3, ppc32_fpscw4, ppc32_fpscw5, ppc32_fpscw6, ppc32_fpscw7,
    ppc32_msr, ppc32_ivpr, ppc32_ivor8, ppc32_seg0, ppc32_seg1, ppc32_seg2, ppc32_seg3,
    ppc32_seg4, ppc32_seg5, ppc32_seg6, ppc32_seg7, ppc32_cr0, ppc32_cr1, ppc32_cr2, ppc32_cr3,
    ppc32_cr4, ppc32_cr5, ppc32_cr6, ppc32_cr7, ppc32_cr, ppc32_or3, ppc32_trap, ppc32_cr0l,
    ppc32_cr0g, ppc32_cr0e, ppc32_cr0s, ppc32_cr1l, ppc32_cr1g, ppc32_cr1e, ppc32_cr1s,
    ppc32_cr2l, ppc32_cr2g, ppc32_cr2e, ppc32_cr2s, ppc32_cr3l, ppc32_cr3g, ppc32_cr3e,
    ppc32_cr3s, ppc32_cr4l, ppc32_cr4g, ppc32_cr4e, ppc32_cr4s, ppc32_cr5l, ppc32_cr5g,
    ppc32_cr5e, ppc32_cr5s, ppc32_cr6l, ppc32_cr6g, ppc32_cr6e, ppc32_cr6s, ppc32_cr7l,
    ppc32_cr7g, ppc32_cr7e, ppc32_cr7s, ppc32_ppr, ppc32_ppr32]"

definition ppc32_regs :: "MachRegister list" where
  "ppc32_regs = ppc32_regs1 @ ppc32_regs2"

section \<open>Registers of ppc64\<close>

abbreviation ppc64_GPR :: MachRegister where "ppc64_GPR \<equiv> 0x00010000"
abbreviation ppc64_FPR :: MachRegister where "ppc64_FPR \<equiv> 0x00020000"
abbreviation ppc64_FSR :: MachRegister where "ppc64_FSR \<equiv> 0x00040000"
abbreviation ppc64_SPR :: MachRegister where "ppc64_SPR \<equiv> 0x00080000"
abbreviation ppc64_VSR :: MachRegister where "ppc64_VSR \<equiv> 0x00000000"

abbreviation ppc64_r0 :: MachRegister where "ppc64_r0 \<equiv> 0 OR ppc64_GPR OR Arch_ppc64"
abbreviation ppc64_r1 :: MachRegister where "ppc64_r1 \<equiv> 1 OR ppc64_GPR OR Arch_ppc64"
abbreviation ppc64_r2 :: MachRegister where "ppc64_r2 \<equiv> 2 OR ppc64_GPR OR Arch_ppc64"
abbreviation ppc64_r3 :: MachRegister where "ppc64_r3 \<equiv> 3 OR ppc64_GPR OR Arch_ppc64"
abbreviation ppc64_r4 :: MachRegister where "ppc64_r4 \<equiv> 4 OR ppc64_GPR OR Arch_ppc64"
abbreviation ppc64_r5 :: MachRegister where "ppc64_r5 \<equiv> 5 OR ppc64_GPR OR Arch_ppc64"
abbreviation ppc64_r6 :: MachRegister where "ppc64_r6 \<equiv> 6 OR ppc64_GPR OR Arch_ppc64"
abbreviation ppc64_r7 :: MachRegister where "ppc64_r7 \<equiv> 7 OR ppc64_GPR OR Arch_ppc64"
abbreviation ppc64_r8 :: MachRegister where "ppc64_r8 \<equiv> 8 OR ppc64_GPR OR Arch_ppc64"
abbreviation ppc64_r9 :: MachRegister where "ppc64_r9 \<equiv> 9 OR ppc64_GPR OR Arch_ppc64"
abbreviation ppc64_r10 :: MachRegister where "ppc64_r10 \<equiv> 10 OR ppc64_GPR OR Arch_ppc64"
abbreviation ppc64_r11 :: MachRegister where "ppc64_r11 \<equiv> 11 OR ppc64_GPR OR Arch_ppc64"
abbreviation ppc64_r12 :: MachRegister where "ppc64_r12 \<equiv> 12 OR ppc64_GPR OR Arch_ppc64"
abbreviation ppc64_r13 :: MachRegister where "ppc64_r13 \<equiv> 13 OR ppc64_GPR OR Arch_ppc64"
abbreviation ppc64_r14 :: MachRegister where "ppc64_r14 \<equiv> 14 OR ppc64_GPR OR Arch_ppc64"
abbreviation ppc64_r15 :: MachRegister where "ppc64_r15 \<equiv> 15 OR ppc64_GPR OR Arch_ppc64"
abbreviation ppc64_r16 :: MachRegister where "ppc64_r16 \<equiv> 16 OR ppc64_GPR OR Arch_ppc64"
abbreviation ppc64_r17 :: MachRegister where "ppc64_r17 \<equiv> 17 OR ppc64_GPR OR Arch_ppc64"
abbreviation ppc64_r18 :: MachRegister where "ppc64_r18 \<equiv> 18 OR ppc64_GPR OR Arch_ppc64"
abbreviation ppc64_r19 :: MachRegister where "ppc64_r19 \<equiv> 19 OR ppc64_GPR OR Arch_ppc64"
abbreviation ppc64_r20 :: MachRegister where "ppc64_r20 \<equiv> 20 OR ppc64_GPR OR Arch_ppc64"
abbreviation ppc64_r21 :: MachRegister where "ppc64_r21 \<equiv> 21 OR ppc64_GPR OR Arch_ppc64"
abbreviation ppc64_r22 :: MachRegister where "ppc64_r22 \<equiv> 22 OR ppc64_GPR OR Arch_ppc64"
abbreviation ppc64_r23 :: MachRegister where "ppc64_r23 \<equiv> 23 OR ppc64_GPR OR Arch_ppc64"
abbreviation ppc64_r24 :: MachRegister where "ppc64_r24 \<equiv> 24 OR ppc64_GPR OR Arch_ppc64"
abbreviation ppc64_r25 :: MachRegister where "ppc64_r25 \<equiv> 25 OR ppc64_GPR OR Arch_ppc64"
abbreviation ppc64_r26 :: MachRegister where "ppc64_r26 \<equiv> 26 OR ppc64_GPR OR Arch_ppc64"
abbreviation ppc64_r27 :: MachRegister where "ppc64_r27 \<equiv> 27 OR ppc64_GPR OR Arch_ppc64"
abbreviation ppc64_r28 :: MachRegister where "ppc64_r28 \<equiv> 28 OR ppc64_GPR OR Arch_ppc64"
abbreviation ppc64_r29 :: MachRegister where "ppc64_r29 \<equiv> 29 OR ppc64_GPR OR Arch_ppc64"
abbreviation ppc64_r30 :: MachRegister where "ppc64_r30 \<equiv> 30 OR ppc64_GPR OR Arch_ppc64"
abbreviation ppc64_r31 :: MachRegister where "ppc64_r31 \<equiv> 31 OR ppc64_GPR OR Arch_ppc64"
abbreviation ppc64_fpr0 :: MachRegister where "ppc64_fpr0 \<equiv> 0 OR ppc64_FPR OR Arch_ppc64"
abbreviation ppc64_fpr1 :: MachRegister where "ppc64_fpr1 \<equiv> 1 OR ppc64_FPR OR Arch_ppc64"
abbreviation ppc64_fpr2 :: MachRegister where "ppc64_fpr2 \<equiv> 2 OR ppc64_FPR OR Arch_ppc64"
abbreviation ppc64_fpr3 :: MachRegister where "ppc64_fpr3 \<equiv> 3 OR ppc64_FPR OR Arch_ppc64"
abbreviation ppc64_fpr4 :: MachRegister where "ppc64_fpr4 \<equiv> 4 OR ppc64_FPR OR Arch_ppc64"
abbreviation ppc64_fpr5 :: MachRegister where "ppc64_fpr5 \<equiv> 5 OR ppc64_FPR OR Arch_ppc64"
abbreviation ppc64_fpr6 :: MachRegister where "ppc64_fpr6 \<equiv> 6 OR ppc64_FPR OR Arch_ppc64"
abbreviation ppc64_fpr7 :: MachRegister where "ppc64_fpr7 \<equiv> 7 OR ppc64_FPR OR Arch_ppc64"
abbreviation ppc64_fpr8 :: MachRegister where "ppc64_fpr8 \<equiv> 8 OR ppc64_FPR OR Arch_ppc64"
abbreviation ppc64_fpr9 :: MachRegister where "ppc64_fpr9 \<equiv> 9 OR ppc64_FPR OR Arch_ppc64"
abbreviation ppc64_fpr10 :: MachRegister where "ppc64_fpr10 \<equiv> 10 OR ppc64_FPR OR Arch_ppc64"
abbreviation ppc64_fpr11 :: MachRegister where "ppc64_fpr11 \<equiv> 11 OR ppc64_FPR OR Arch_ppc64"
abbreviation ppc64_fpr12 :: MachRegister where "ppc64_fpr12 \<equiv> 12 OR ppc64_FPR OR Arch_ppc64"
abbreviation ppc64_fpr13 :: MachRegister where "ppc64_fpr13 \<equiv> 13 OR ppc64_FPR OR Arch_ppc64"
abbreviation ppc64_fpr14 :: MachRegister where "ppc64_fpr14 \<equiv> 14 OR ppc64_FPR OR Arch_ppc64"
abbreviation ppc64_fpr15 :: MachRegister where "ppc64_fpr15 \<equiv> 15 OR ppc64_FPR OR Arch_ppc64"
abbreviation ppc64_fpr16 :: MachRegister where "ppc64_fpr16 \<equiv> 16 OR ppc64_FPR OR Arch_ppc64"
abbreviation ppc64_fpr17 :: MachRegister where "ppc64_fpr17 \<equiv> 17 OR ppc64_FPR OR Arch_ppc64"
abbreviation ppc64_fpr18 :: MachRegister where "ppc64_fpr18 \<equiv> 18 OR ppc64_FPR OR Arch_ppc64"
abbreviation ppc64_fpr19 :: MachRegister where "ppc64_fpr19 \<equiv> 19 OR ppc64_FPR OR Arch_ppc64"
abbreviation ppc64_fpr20 :: MachRegister where "ppc64_fpr20 \<equiv> 20 OR ppc64_FPR OR Arch_ppc64"
abbreviation ppc64_fpr21 :: MachRegister where "ppc64_fpr21 \<equiv> 21 OR ppc64_FPR OR Arch_ppc64"
abbreviation ppc64_fpr22 :: MachRegister where "ppc64_fpr22 \<equiv> 22 OR ppc64_FPR OR Arch_ppc64"
abbreviation ppc64_fpr23 :: MachRegister where "ppc64_fpr23 \<equiv> 23 OR ppc64_FPR OR Arch_ppc64"
abbreviation ppc64_fpr24 :: MachRegister where "ppc64_fpr24 \<equiv> 24 OR ppc64_FPR OR Arch_ppc64"
abbreviation ppc64_fpr25 :: MachRegister where "ppc64_fpr25 \<equiv> 25 OR ppc64_FPR OR Arch_ppc64"
abbreviation ppc64_fpr26 :: MachRegister where "ppc64_fpr26 \<equiv> 26 OR ppc64_FPR OR Arch_ppc64"
abbreviation ppc64_fpr27 :: MachRegister where "ppc64_fpr27 \<equiv> 27 OR ppc64_FPR OR Arch_ppc64"
abbreviation ppc64_fpr28 :: MachRegister where "ppc64_fpr28 \<equiv> 28 OR ppc64_FPR OR Arch_ppc64"
abbreviation ppc64_fpr29 :: MachRegister where "ppc64_fpr29 \<equiv> 29 OR ppc64_FPR OR Arch_ppc64"
abbreviation ppc64_fpr30 :: MachRegister where "ppc64_fpr30 \<equiv> 30 OR ppc64_FPR OR Arch_ppc64"
abbreviation ppc64_fpr31 :: MachRegister where "ppc64_fpr31 \<equiv> 31 OR ppc64_FPR OR Arch_ppc64"
abbreviation ppc64_fsr0 :: MachRegister where "ppc64_fsr0 \<equiv> 0 OR ppc64_FSR OR Arch_ppc64"
abbreviation ppc64_fsr1 :: MachRegister where "ppc64_fsr1 \<equiv> 1 OR ppc64_FSR OR Arch_ppc64"
abbreviation ppc64_fsr2 :: MachRegister where "ppc64_fsr2 \<equiv> 2 OR ppc64_FSR OR Arch_ppc64"
abbreviation ppc64_fsr3 :: MachRegister where "ppc64_fsr3 \<equiv> 3 OR ppc64_FSR OR Arch_ppc64"
abbreviation ppc64_fsr4 :: MachRegister where "ppc64_fsr4 \<equiv> 4 OR ppc64_FSR OR Arch_ppc64"
abbreviation ppc64_fsr5 :: MachRegister where "ppc64_fsr5 \<equiv> 5 OR ppc64_FSR OR Arch_ppc64"
abbreviation ppc64_fsr6 :: MachRegister where "ppc64_fsr6 \<equiv> 6 OR ppc64_FSR OR Arch_ppc64"
abbreviation ppc64_fsr7 :: MachRegister where "ppc64_fsr7 \<equiv> 7 OR ppc64_FSR OR Arch_ppc64"
abbreviation ppc64_fsr8 :: MachRegister where "ppc64_fsr8 \<equiv> 8 OR ppc64_FSR OR Arch_ppc64"
abbreviation ppc64_fsr9 :: MachRegister where "ppc64_fsr9 \<equiv> 9 OR ppc64_FSR OR Arch_ppc64"
abbreviation ppc64_fsr10 :: MachRegister where "ppc64_fsr10 \<equiv> 10 OR ppc64_FSR OR Arch_ppc64"
abbreviation ppc64_fsr11 :: MachRegister where "ppc64_fsr11 \<equiv> 11 OR ppc64_FSR OR Arch_ppc64"
abbreviation ppc64_fsr12 :: MachRegister where "ppc64_fsr12 \<equiv> 12 OR ppc64_FSR OR Arch_ppc64"
abbreviation ppc64_fsr13 :: MachRegister where "ppc64_fsr13 \<equiv> 13 OR ppc64_FSR OR Arch_ppc64"
abbreviation ppc64_fsr14 :: MachRegister where "ppc64_fsr14 \<equiv> 14 OR ppc64_FSR OR Arch_ppc64"
abbreviation ppc64_fsr15 :: MachRegister where "ppc64_fsr15 \<equiv> 15 OR ppc64_FSR OR Arch_ppc64"
abbreviation ppc64_fsr16 :: MachRegister where "ppc64_fsr16 \<equiv> 16 OR ppc64_FSR OR Arch_ppc64"
abbreviation ppc64_fsr17 :: MachRegister where "ppc64_fsr17 \<equiv> 17 OR ppc64_FSR OR Arch_ppc64"
abbreviation ppc64_fsr18 :: MachRegister where "ppc64_fsr18 \<equiv> 18 OR ppc64_FSR OR Arch_ppc64"
abbreviation ppc64_fsr19 :: MachRegister where "ppc64_fsr19 \<equiv> 19 OR ppc64_FSR OR Arch_ppc64"
abbreviation ppc64_fsr20 :: MachRegister where "ppc64_fsr20 \<equiv> 20 OR ppc64_FSR OR Arch_ppc64"
abbreviation ppc64_fsr21 :: MachRegister where "ppc64_fsr21 \<equiv> 21 OR ppc64_FSR OR Arch_ppc64"
abbreviation ppc64_fsr22 :: MachRegister where "ppc64_fsr22 \<equiv> 22 OR ppc64_FSR OR Arch_ppc64"
abbreviation ppc64_fsr23 :: MachRegister where "ppc64_fsr23 \<equiv> 23 OR ppc64_FSR OR Arch_ppc64"
abbreviation ppc64_fsr24 :: MachRegister where "ppc64_fsr24 \<equiv> 24 OR ppc64_FSR OR Arch_ppc64"
abbreviation ppc64_fsr25 :: MachRegister where "ppc64_fsr25 \<equiv> 25 OR ppc64_FSR OR Arch_ppc64"
abbreviation ppc64_fsr26 :: MachRegister where "ppc64_fsr26 \<equiv> 26 OR ppc64_FSR OR Arch_ppc64"
abbreviation ppc64_fsr27 :: MachRegister where "ppc64_fsr27 \<equiv> 27 OR ppc64_FSR OR Arch_ppc64"
abbreviation ppc64_fsr28 :: MachRegister where "ppc64_fsr28 \<equiv> 28 OR ppc64_FSR OR Arch_ppc64"
abbreviation ppc64_fsr29 :: MachRegister where "ppc64_fsr29 \<equiv> 29 OR ppc64_FSR OR Arch_ppc64"
abbreviation ppc64_fsr30 :: MachRegister where "ppc64_fsr30 \<equiv> 30 OR ppc64_FSR OR Arch_ppc64"
abbreviation ppc64_fsr31 :: MachRegister where "ppc64_fsr31 \<equiv> 31 OR ppc64_FSR OR Arch_ppc64"
abbreviation ppc64_mq :: MachRegister where "ppc64_mq \<equiv> 0 OR ppc64_SPR OR Arch_ppc64"
abbreviation ppc64_xer :: MachRegister where "ppc64_xer \<equiv> 1 OR ppc64_SPR OR Arch_ppc64"
abbreviation ppc64_lr :: MachRegister where "ppc64_lr \<equiv> 8 OR ppc64_SPR OR Arch_ppc64"
abbreviation ppc64_ctr :: MachRegister where "ppc64_ctr \<equiv> 9 OR ppc64_SPR OR Arch_ppc64"
abbreviation ppc64_dsisr :: MachRegister where "ppc64_dsisr \<equiv> 18 OR ppc64_SPR OR Arch_ppc64"
abbreviation ppc64_dar :: MachRegister where "ppc64_dar \<equiv> 19 OR ppc64_SPR OR Arch_ppc64"
abbreviation ppc64_dec :: MachRegister where "ppc64_dec \<equiv> 22 OR ppc64_SPR OR Arch_ppc64"
abbreviation ppc64_sdr1 :: MachRegister where "ppc64_sdr1 \<equiv> 25 OR ppc64_SPR OR Arch_ppc64"
abbreviation ppc64_srr0 :: MachRegister where "ppc64_srr0 \<equiv> 26 OR ppc64_SPR OR Arch_ppc64"
abbreviation ppc64_srr1 :: MachRegister where "ppc64_srr1 \<equiv> 27 OR ppc64_SPR OR Arch_ppc64"
abbreviation ppc64_vrsave :: MachRegister where "ppc64_vrsave \<equiv> 256 OR ppc64_SPR OR Arch_ppc64"
abbreviation ppc64_sprg0 :: MachRegister where "ppc64_sprg0 \<equiv> 272 OR ppc64_SPR OR Arch_ppc64"
abbreviation ppc64_sprg1 :: MachRegister where "ppc64_sprg1 \<equiv> 273 OR ppc64_SPR OR Arch_ppc64"
abbreviation ppc64_sprg2 :: MachRegister where "ppc64_sprg2 \<equiv> 274 OR ppc64_SPR OR Arch_ppc64"
abbreviation ppc64_sprg3 :: MachRegister where "ppc64_sprg3 \<equiv> 275 OR ppc64_SPR OR Arch_ppc64"
abbreviation ppc64_sprg4 :: MachRegister where "ppc64_sprg4 \<equiv> 276 OR ppc64_SPR OR Arch_ppc64"
abbreviation ppc64_sprg5 :: MachRegister where "ppc64_sprg5 \<equiv> 277 OR ppc64_SPR OR Arch_ppc64"
abbreviation ppc64_sprg6 :: MachRegister where "ppc64_sprg6 \<equiv> 278 OR ppc64_SPR OR Arch_ppc64"
abbreviation ppc64_sprg7 :: MachRegister where "ppc64_sprg7 \<equiv> 279 OR ppc64_SPR OR Arch_ppc64"
abbreviation ppc64_sprg3_ro :: MachRegister where "ppc64_sprg3_ro \<equiv> 259 OR ppc64_SPR OR Arch_ppc64"
abbreviation ppc64_sprg4_ro :: MachRegister where "ppc64_sprg4_ro \<equiv> 260 OR ppc64_SPR OR Arch_ppc64"
abbreviation ppc64_sprg5_ro :: MachRegister where "ppc64_sprg5_ro \<equiv> 261 OR ppc64_SPR OR Arch_ppc64"
abbreviation ppc64_sprg6_ro :: MachRegister where "ppc64_sprg6_ro \<equiv> 262 OR ppc64_SPR OR Arch_ppc64"
abbreviation ppc64_sprg7_ro :: MachRegister where "ppc64_sprg7_ro \<equiv> 263 OR ppc64_SPR OR Arch_ppc64"
abbreviation ppc64_ear :: MachRegister where "ppc64_ear \<equiv> 282 OR ppc64_SPR OR Arch_ppc64"
abbreviation ppc64_tbl_wo :: MachRegister where "ppc64_tbl_wo \<equiv> 284 OR ppc64_SPR OR Arch_ppc64"
abbreviation ppc64_tbl_ro :: MachRegister where "ppc64_tbl_ro \<equiv> 268 OR ppc64_SPR OR Arch_ppc64"
abbreviation ppc64_tbu_wo :: MachRegister where "ppc64_tbu_wo \<equiv> 285 OR ppc64_SPR OR Arch_ppc64"
abbreviation ppc64_tbu_ro :: MachRegister where "ppc64_tbu_ro \<equiv> 269 OR ppc64_SPR OR Arch_ppc64"
abbreviation ppc64_pvr :: MachRegister where "ppc64_pvr \<equiv> 287 OR ppc64_SPR OR Arch_ppc64"
abbreviation ppc64_ibat0u :: MachRegister where "ppc64_ibat0u \<equiv> 528 OR ppc64_SPR OR Arch_ppc64"
abbreviation ppc64_ibat0l :: MachRegister where "ppc64_ibat0l \<equiv> 529 OR ppc64_SPR OR Arch_ppc64"
abbreviation ppc64_ibat1u :: MachRegister where "ppc64_ibat1u \<equiv> 530 OR ppc64_SPR OR Arch_ppc64"
abbreviation ppc64_ibat1l :: MachRegister where "ppc64_ibat1l \<equiv> 531 OR ppc64_SPR OR Arch_ppc64"
abbreviation ppc64_ibat2u :: MachRegister where "ppc64_ibat2u \<equiv> 532 OR ppc64_SPR OR Arch_ppc64"
abbreviation ppc64_ibat2l :: MachRegister where "ppc64_ibat2l \<equiv> 533 OR ppc64_SPR OR Arch_ppc64"
abbreviation ppc64_ibat3u :: MachRegister where "ppc64_ibat3u \<equiv> 534 OR ppc64_SPR OR Arch_ppc64"
abbreviation ppc64_ibat3l :: MachRegister where "ppc64_ibat3l \<equiv> 535 OR ppc64_SPR OR Arch_ppc64"
abbreviation ppc64_dbat0u :: MachRegister where "ppc64_dbat0u \<equiv> 536 OR ppc64_SPR OR Arch_ppc64"
abbreviation ppc64_dbat0l :: MachRegister where "ppc64_dbat0l \<equiv> 537 OR ppc64_SPR OR Arch_ppc64"
abbreviation ppc64_dbat1u :: MachRegister where "ppc64_dbat1u \<equiv> 538 OR ppc64_SPR OR Arch_ppc64"
abbreviation ppc64_dbat1l :: MachRegister where "ppc64_dbat1l \<equiv> 539 OR ppc64_SPR OR Arch_ppc64"
abbreviation ppc64_dbat2u :: MachRegister where "ppc64_dbat2u \<equiv> 540 OR ppc64_SPR OR Arch_ppc64"
abbreviation ppc64_dbat2l :: MachRegister where "ppc64_dbat2l \<equiv> 541 OR ppc64_SPR OR Arch_ppc64"
abbreviation ppc64_dbat3u :: MachRegister where "ppc64_dbat3u \<equiv> 542 OR ppc64_SPR OR Arch_ppc64"
abbreviation ppc64_dbat3l :: MachRegister where "ppc64_dbat3l \<equiv> 543 OR ppc64_SPR OR Arch_ppc64"
abbreviation ppc64_pc :: MachRegister where "ppc64_pc \<equiv> 600 OR ppc64_SPR OR Arch_ppc64"
abbreviation ppc64_fpscw :: MachRegister where "ppc64_fpscw \<equiv> 601 OR ppc64_SPR OR Arch_ppc64"
abbreviation ppc64_fpscw0 :: MachRegister where "ppc64_fpscw0 \<equiv> 602 OR ppc64_SPR OR Arch_ppc64"
abbreviation ppc64_fpscw1 :: MachRegister where "ppc64_fpscw1 \<equiv> 603 OR ppc64_SPR OR Arch_ppc64"
abbreviation ppc64_fpscw2 :: MachRegister where "ppc64_fpscw2 \<equiv> 604 OR ppc64_SPR OR Arch_ppc64"
abbreviation ppc64_fpscw3 :: MachRegister where "ppc64_fpscw3 \<equiv> 605 OR ppc64_SPR OR Arch_ppc64"
abbreviation ppc64_fpscw4 :: MachRegister where "ppc64_fpscw4 \<equiv> 606 OR ppc64_SPR OR Arch_ppc64"
abbreviation ppc64_fpscw5 :: MachRegister where "ppc64_fpscw5 \<equiv> 607 OR ppc64_SPR OR Arch_ppc64"
abbreviation ppc64_fpscw6 :: MachRegister where "ppc64_fpscw6 \<equiv> 608 OR ppc64_SPR OR Arch_ppc64"
abbreviation ppc64_fpscw7 :: MachRegister where "ppc64_fpscw7 \<equiv> 609 OR ppc64_SPR OR Arch_ppc64"
abbreviation ppc64_msr :: MachRegister where "ppc64_msr \<equiv> 610 OR ppc64_SPR OR Arch_ppc64"
abbreviation ppc64_ivpr :: MachRegister where "ppc64_ivpr \<equiv> 611 OR ppc64_SPR OR Arch_ppc64"
abbreviation ppc64_ivor8 :: MachRegister where "ppc64_ivor8 \<equiv> 612 OR ppc64_SPR OR Arch_ppc64"
abbreviation ppc64_seg0 :: MachRegister where "ppc64_seg0 \<equiv> 613 OR ppc64_SPR OR Arch_ppc64"
abbreviation ppc64_seg1 :: MachRegister where "ppc64_seg1 \<equiv> 614 OR ppc64_SPR OR Arch_ppc64"
abbreviation ppc64_seg2 :: MachRegister where "ppc64_seg2 \<equiv> 615 OR ppc64_SPR OR Arch_ppc64"
abbreviation ppc64_seg3 :: MachRegister where "ppc64_seg3 \<equiv> 616 OR ppc64_SPR OR Arch_ppc64"
abbreviation ppc64_seg4 :: MachRegister where "ppc64_seg4 \<equiv> 617 OR ppc64_SPR OR Arch_ppc64"
abbreviation ppc64_seg5 :: MachRegister where "ppc64_seg5 \<equiv> 618 OR ppc64_SPR OR Arch_ppc64"
abbreviation ppc64_seg6 :: MachRegister where "ppc64_seg6 \<equiv> 619 OR ppc64_SPR OR Arch_ppc64"
abbreviation ppc64_seg7 :: MachRegister where "ppc64_seg7 \<equiv> 620 OR ppc64_SPR OR Arch_ppc64"
abbreviation ppc64_cr0 :: MachRegister where "ppc64_cr0 \<equiv> 621 OR ppc64_SPR OR Arch_ppc64"
abbreviation ppc64_cr1 :: MachRegister where "ppc64_cr1 \<equiv> 622 OR ppc64_SPR OR Arch_ppc64"
abbreviation ppc64_cr2 :: MachRegister where "ppc64_cr2 \<equiv> 623 OR ppc64_SPR OR Arch_ppc64"
abbreviation ppc64_cr3 :: MachRegister where "ppc64_cr3 \<equiv> 624 OR ppc64_SPR OR Arch_ppc64"
abbreviation ppc64_cr4 :: MachRegister where "ppc64_cr4 \<equiv> 625 OR ppc64_SPR OR Arch_ppc64"
abbreviation ppc64_cr5 :: MachRegister where "ppc64_cr5 \<equiv> 626 OR ppc64_SPR OR Arch_ppc64"
abbreviation ppc64_cr6 :: MachRegister where "ppc64_cr6 \<equiv> 627 OR ppc64_SPR OR Arch_ppc64"
abbreviation ppc64_cr7 :: MachRegister where "ppc64_cr7 \<equiv> 628 OR ppc64_SPR OR Arch_ppc64"
abbreviation ppc64_cr :: MachRegister where "ppc64_cr \<equiv> 629 OR ppc64_SPR OR Arch_ppc64"
abbreviation ppc64_or3 :: MachRegister where "ppc64_or3 \<equiv> 630 OR ppc64_SPR OR Arch_ppc64"
abbreviation ppc64_trap :: MachRegister where "ppc64_trap \<equiv> 631 OR ppc64_SPR OR Arch_ppc64"
abbreviation ppc64_cr0l :: MachRegister where "ppc64_cr0l \<equiv> 700 OR ppc64_SPR OR Arch_ppc64"
abbreviation ppc64_cr0g :: MachRegister where "ppc64_cr0g \<equiv> 701 OR ppc64_SPR OR Arch_ppc64"
abbreviation ppc64_cr0e :: MachRegister where "ppc64_cr0e \<equiv> 702 OR ppc64_SPR OR Arch_ppc64"
abbreviation ppc64_cr0s :: MachRegister where "ppc64_cr0s \<equiv> 703 OR ppc64_SPR OR Arch_ppc64"
abbreviation ppc64_cr1l :: MachRegister where "ppc64_cr1l \<equiv> 704 OR ppc64_SPR OR Arch_ppc64"
abbreviation ppc64_cr1g :: MachRegister where "ppc64_cr1g \<equiv> 705 OR ppc64_SPR OR Arch_ppc64"
abbreviation ppc64_cr1e :: MachRegister where "ppc64_cr1e \<equiv> 706 OR ppc64_SPR OR Arch_ppc64"
abbreviation ppc64_cr1s :: MachRegister where "ppc64_cr1s \<equiv> 707 OR ppc64_SPR OR Arch_ppc64"
abbreviation ppc64_cr2l :: MachRegister where "ppc64_cr2l \<equiv> 708 OR ppc64_SPR OR Arch_ppc64"
abbreviation ppc64_cr2g :: MachRegister where "ppc64_cr2g \<equiv> 709 OR ppc64_SPR OR Arch_ppc64"
abbreviation ppc64_cr2e :: MachRegister where "ppc64_cr2e \<equiv> 710 OR ppc64_SPR OR Arch_ppc64"
abbreviation ppc64_cr2s :: MachRegister where "ppc64_cr2s \<equiv> 711 OR ppc64_SPR OR Arch_ppc64"
abbreviation ppc64_cr3l :: MachRegister where "ppc64_cr3l \<equiv> 712 OR ppc64_SPR OR Arch_ppc64"
abbreviation ppc64_cr3g :: MachRegister where "ppc64_cr3g \<equiv> 713 OR ppc64_SPR OR Arch_ppc64"
abbreviation ppc64_cr3e :: MachRegister where "ppc64_cr3e \<equiv> 714 OR ppc64_SPR OR Arch_ppc64"
abbreviation ppc64_cr3s :: MachRegister where "ppc64_cr3s \<equiv> 715 OR ppc64_SPR OR Arch_ppc64"
abbreviation ppc64_cr4l :: MachRegister where "ppc64_cr4l \<equiv> 716 OR ppc64_SPR OR Arch_ppc64"
abbreviation ppc64_cr4g :: MachRegister where "ppc64_cr4g \<equiv> 717 OR ppc64_SPR OR Arch_ppc64"
abbreviation ppc64_cr4e :: MachRegister where "ppc64_cr4e \<equiv> 718 OR ppc64_SPR OR Arch_ppc64"
abbreviation ppc64_cr4s :: MachRegister where "ppc64_cr4s \<equiv> 719 OR ppc64_SPR OR Arch_ppc64"
abbreviation ppc64_cr5l :: MachRegister where "ppc64_cr5l \<equiv> 720 OR ppc64_SPR OR Arch_ppc64"
abbreviation ppc64_cr5g :: MachRegister where "ppc64_cr5g \<equiv> 721 OR ppc64_SPR OR Arch_ppc64"
abbreviation ppc64_cr5e :: MachRegister where "ppc64_cr5e \<equiv> 722 OR ppc64_SPR OR Arch_ppc64"
abbreviation ppc64_cr5s :: MachRegister where "ppc64_cr5s \<equiv> 723 OR ppc64_SPR OR Arch_ppc64"
abbreviation ppc64_cr6l :: MachRegister where "ppc64_cr6l \<equiv> 724 OR ppc64_SPR OR Arch_ppc64"
abbreviation ppc64_cr6g :: MachRegister where "ppc64_cr6g \<equiv> 725 OR ppc64_SPR OR Arch_ppc64"
abbreviation ppc64_cr6e :: MachRegister where "ppc64_cr6e \<equiv> 726 OR ppc64_SPR OR Arch_ppc64"
abbreviation ppc64_cr6s :: MachRegister where "ppc64_cr6s \<equiv> 727 OR ppc64_SPR OR Arch_ppc64"
abbreviation ppc64_cr7l :: MachRegister where "ppc64_cr7l \<equiv> 728 OR ppc64_SPR OR Arch_ppc64"
abbreviation ppc64_cr7g :: MachRegister where "ppc64_cr7g \<equiv> 729 OR ppc64_SPR OR Arch_ppc64"
abbreviation ppc64_cr7e :: MachRegister where "ppc64_cr7e \<equiv> 730 OR ppc64_SPR OR Arch_ppc64"
abbreviation ppc64_cr7s :: MachRegister where "ppc64_cr7s \<equiv> 731 OR ppc64_SPR OR Arch_ppc64"
abbreviation ppc64_ppr :: MachRegister where "ppc64_ppr \<equiv> 896 OR ppc64_SPR OR Arch_ppc64"
abbreviation ppc64_ppr32 :: MachRegister where "ppc64_ppr32 \<equiv> 898 OR ppc64_SPR OR Arch_ppc64"
abbreviation ppc64_vsr0 :: MachRegister where "ppc64_vsr0 \<equiv> 0 OR ppc64_VSR OR Arch_ppc64"
abbreviation ppc64_vsr1 :: MachRegister where "ppc64_vsr1 \<equiv> 1 OR ppc64_VSR OR Arch_ppc64"
abbreviation ppc64_vsr2 :: MachRegister where "ppc64_vsr2 \<equiv> 2 OR ppc64_VSR OR Arch_ppc64"
abbreviation ppc64_vsr3 :: MachRegister where "ppc64_vsr3 \<equiv> 3 OR ppc64_VSR OR Arch_ppc64"
abbreviation ppc64_vsr4 :: MachRegister where "ppc64_vsr4 \<equiv> 4 OR ppc64_VSR OR Arch_ppc64"
abbreviation ppc64_vsr5 :: MachRegister where "ppc64_vsr5 \<equiv> 5 OR ppc64_VSR OR Arch_ppc64"
abbreviation ppc64_vsr6 :: MachRegister where "ppc64_vsr6 \<equiv> 6 OR ppc64_VSR OR Arch_ppc64"
abbreviation ppc64_vsr7 :: MachRegister where "ppc64_vsr7 \<equiv> 7 OR ppc64_VSR OR Arch_ppc64"
abbreviation ppc64_vsr8 :: MachRegister where "ppc64_vsr8 \<equiv> 8 OR ppc64_VSR OR Arch_ppc64"
abbreviation ppc64_vsr9 :: MachRegister where "ppc64_vsr9 \<equiv> 9 OR ppc64_VSR OR Arch_ppc64"
abbreviation ppc64_vsr10 :: MachRegister where "ppc64_vsr10 \<equiv> 10 OR ppc64_VSR OR Arch_ppc64"
abbreviation ppc64_vsr11 :: MachRegister where "ppc64_vsr11 \<equiv> 11 OR ppc64_VSR OR Arch_ppc64"
abbreviation ppc64_vsr12 :: MachRegister where "ppc64_vsr12 \<equiv> 12 OR ppc64_VSR OR Arch_ppc64"
abbreviation ppc64_vsr13 :: MachRegister where "ppc64_vsr13 \<equiv> 13 OR ppc64_VSR OR Arch_ppc64"
abbreviation ppc64_vsr14 :: MachRegister where "ppc64_vsr14 \<equiv> 14 OR ppc64_VSR OR Arch_ppc64"
abbreviation ppc64_vsr15 :: MachRegister where "ppc64_vsr15 \<equiv> 15 OR ppc64_VSR OR Arch_ppc64"
abbreviation ppc64_vsr16 :: MachRegister where "ppc64_vsr16 \<equiv> 16 OR ppc64_VSR OR Arch_ppc64"
abbreviation ppc64_vsr17 :: MachRegister where "ppc64_vsr17 \<equiv> 17 OR ppc64_VSR OR Arch_ppc64"
abbreviation ppc64_vsr18 :: MachRegister where "ppc64_vsr18 \<equiv> 18 OR ppc64_VSR OR Arch_ppc64"
abbreviation ppc64_vsr19 :: MachRegister where "ppc64_vsr19 \<equiv> 19 OR ppc64_VSR OR Arch_ppc64"
abbreviation ppc64_vsr20 :: MachRegister where "ppc64_vsr20 \<equiv> 20 OR ppc64_VSR OR Arch_ppc64"
abbreviation ppc64_vsr21 :: MachRegister where "ppc64_vsr21 \<equiv> 21 OR ppc64_VSR OR Arch_ppc64"
abbreviation ppc64_vsr22 :: MachRegister where "ppc64_vsr22 \<equiv> 22 OR ppc64_VSR OR Arch_ppc64"
abbreviation ppc64_vsr23 :: MachRegister where "ppc64_vsr23 \<equiv> 23 OR ppc64_VSR OR Arch_ppc64"
abbreviation ppc64_vsr24 :: MachRegister where "ppc64_vsr24 \<equiv> 24 OR ppc64_VSR OR Arch_ppc64"
abbreviation ppc64_vsr25 :: MachRegister where "ppc64_vsr25 \<equiv> 25 OR ppc64_VSR OR Arch_ppc64"
abbreviation ppc64_vsr26 :: MachRegister where "ppc64_vsr26 \<equiv> 26 OR ppc64_VSR OR Arch_ppc64"
abbreviation ppc64_vsr27 :: MachRegister where "ppc64_vsr27 \<equiv> 27 OR ppc64_VSR OR Arch_ppc64"
abbreviation ppc64_vsr28 :: MachRegister where "ppc64_vsr28 \<equiv> 28 OR ppc64_VSR OR Arch_ppc64"
abbreviation ppc64_vsr29 :: MachRegister where "ppc64_vsr29 \<equiv> 29 OR ppc64_VSR OR Arch_ppc64"
abbreviation ppc64_vsr30 :: MachRegister where "ppc64_vsr30 \<equiv> 30 OR ppc64_VSR OR Arch_ppc64"
abbreviation ppc64_vsr31 :: MachRegister where "ppc64_vsr31 \<equiv> 31 OR ppc64_VSR OR Arch_ppc64"
abbreviation ppc64_vsr32 :: MachRegister where "ppc64_vsr32 \<equiv> 32 OR ppc64_VSR OR Arch_ppc64"
abbreviation ppc64_vsr33 :: MachRegister where "ppc64_vsr33 \<equiv> 33 OR ppc64_VSR OR Arch_ppc64"
abbreviation ppc64_vsr34 :: MachRegister where "ppc64_vsr34 \<equiv> 34 OR ppc64_VSR OR Arch_ppc64"
abbreviation ppc64_vsr35 :: MachRegister where "ppc64_vsr35 \<equiv> 35 OR ppc64_VSR OR Arch_ppc64"
abbreviation ppc64_vsr36 :: MachRegister where "ppc64_vsr36 \<equiv> 36 OR ppc64_VSR OR Arch_ppc64"
abbreviation ppc64_vsr37 :: MachRegister where "ppc64_vsr37 \<equiv> 37 OR ppc64_VSR OR Arch_ppc64"
abbreviation ppc64_vsr38 :: MachRegister where "ppc64_vsr38 \<equiv> 38 OR ppc64_VSR OR Arch_ppc64"
abbreviation ppc64_vsr39 :: MachRegister where "ppc64_vsr39 \<equiv> 39 OR ppc64_VSR OR Arch_ppc64"
abbreviation ppc64_vsr40 :: MachRegister where "ppc64_vsr40 \<equiv> 40 OR ppc64_VSR OR Arch_ppc64"
abbreviation ppc64_vsr41 :: MachRegister where "ppc64_vsr41 \<equiv> 41 OR ppc64_VSR OR Arch_ppc64"
abbreviation ppc64_vsr42 :: MachRegister where "ppc64_vsr42 \<equiv> 42 OR ppc64_VSR OR Arch_ppc64"
abbreviation ppc64_vsr43 :: MachRegister where "ppc64_vsr43 \<equiv> 43 OR ppc64_VSR OR Arch_ppc64"
abbreviation ppc64_vsr44 :: MachRegister where "ppc64_vsr44 \<equiv> 44 OR ppc64_VSR OR Arch_ppc64"
abbreviation ppc64_vsr45 :: MachRegister where "ppc64_vsr45 \<equiv> 45 OR ppc64_VSR OR Arch_ppc64"
abbreviation ppc64_vsr46 :: MachRegister where "ppc64_vsr46 \<equiv> 46 OR ppc64_VSR OR Arch_ppc64"
abbreviation ppc64_vsr47 :: MachRegister where "ppc64_vsr47 \<equiv> 47 OR ppc64_VSR OR Arch_ppc64"
abbreviation ppc64_vsr48 :: MachRegister where "ppc64_vsr48 \<equiv> 48 OR ppc64_VSR OR Arch_ppc64"
abbreviation ppc64_vsr49 :: MachRegister where "ppc64_vsr49 \<equiv> 49 OR ppc64_VSR OR Arch_ppc64"
abbreviation ppc64_vsr50 :: MachRegister where "ppc64_vsr50 \<equiv> 50 OR ppc64_VSR OR Arch_ppc64"
abbreviation ppc64_vsr51 :: MachRegister where "ppc64_vsr51 \<equiv> 51 OR ppc64_VSR OR Arch_ppc64"
abbreviation ppc64_vsr52 :: MachRegister where "ppc64_vsr52 \<equiv> 52 OR ppc64_VSR OR Arch_ppc64"
abbreviation ppc64_vsr53 :: MachRegister where "ppc64_vsr53 \<equiv> 53 OR ppc64_VSR OR Arch_ppc64"
abbreviation ppc64_vsr54 :: MachRegister where "ppc64_vsr54 \<equiv> 54 OR ppc64_VSR OR Arch_ppc64"
abbreviation ppc64_vsr55 :: MachRegister where "ppc64_vsr55 \<equiv> 55 OR ppc64_VSR OR Arch_ppc64"
abbreviation ppc64_vsr56 :: MachRegister where "ppc64_vsr56 \<equiv> 56 OR ppc64_VSR OR Arch_ppc64"
abbreviation ppc64_vsr57 :: MachRegister where "ppc64_vsr57 \<equiv> 57 OR ppc64_VSR OR Arch_ppc64"
abbreviation ppc64_vsr58 :: MachRegister where "ppc64_vsr58 \<equiv> 58 OR ppc64_VSR OR Arch_ppc64"
abbreviation ppc64_vsr59 :: MachRegister where "ppc64_vsr59 \<equiv> 59 OR ppc64_VSR OR Arch_ppc64"
abbreviation ppc64_vsr60 :: MachRegister where "ppc64_vsr60 \<equiv> 60 OR ppc64_VSR OR Arch_ppc64"
abbreviation ppc64_vsr61 :: MachRegister where "ppc64_vsr61 \<equiv> 61 OR ppc64_VSR OR Arch_ppc64"
abbreviation ppc64_vsr62 :: MachRegister where "ppc64_vsr62 \<equiv> 62 OR ppc64_VSR OR Arch_ppc64"
abbreviation ppc64_vsr63 :: MachRegister where "ppc64_vsr63 \<equiv> 63 OR ppc64_VSR OR Arch_ppc64"

definition ppc64_regs1 :: "MachRegister list" where
  "ppc64_regs1 = [
    ppc64_r0, ppc64_r1, ppc64_r2, ppc64_r3, ppc64_r4, ppc64_r5, ppc64_r6, ppc64_r7, ppc64_r8,
    ppc64_r9, ppc64_r10, ppc64_r11, ppc64_r12, ppc64_r13, ppc64_r14, ppc64_r15, ppc64_r16,
    ppc64_r17, ppc64_r18, ppc64_r19, ppc64_r20, ppc64_r21, ppc64_r22, ppc64_r23, ppc64_r24,
    ppc64_r25, ppc64_r26, ppc64_r27, ppc64_r28, ppc64_r29, ppc64_r30, ppc64_r31, ppc64_fpr0,
    ppc64_fpr1, ppc64_fpr2, ppc64_fpr3, ppc64_fpr4, ppc64_fpr5, ppc64_fpr6, ppc64_fpr7,
    ppc64_fpr8, ppc64_fpr9, ppc64_fpr10, ppc64_fpr11, ppc64_fpr12, ppc64_fpr13, ppc64_fpr14,
    ppc64_fpr15, ppc64_fpr16, ppc64_fpr17, ppc64_fpr18, ppc64_fpr19, ppc64_fpr20, ppc64_fpr21,
    ppc64_fpr22, ppc64_fpr23, ppc64_fpr24, ppc64_fpr25, ppc64_fpr26, ppc64_fpr27, ppc64_fpr28,
    ppc64_fpr29, ppc64_fpr30, ppc64_fpr31, ppc64_fsr0, ppc64_fsr1, ppc64_fsr2, ppc64_fsr3,
    ppc64_fsr4, ppc64_fsr5, ppc64_fsr6, ppc64_fsr7, ppc64_fsr8, ppc64_fsr9, ppc64_fsr10,
    ppc64_fsr11, ppc64_fsr12, ppc64_fsr13, ppc64_fsr14, ppc64_fsr15, ppc64_fsr16, ppc64_fsr17,
    ppc64_fsr18, ppc64_fsr19, ppc64_fsr20, ppc64_fsr21, ppc64_fsr22, ppc64_fsr23, ppc64_fsr24,
    ppc64_fsr25, ppc64_fsr26, ppc64_fsr27, ppc64_fsr28, ppc64_fsr29, ppc64_fsr30, ppc64_fsr31,
    ppc64_mq, ppc64_xer, ppc64_lr, ppc64_ctr, ppc64_dsisr, ppc64_dar, ppc64_dec, ppc64_sdr1,
    ppc64_srr0, ppc64_srr1, ppc64_vrsave, ppc64_sprg0, ppc64_sprg1, ppc64_sprg2, ppc64_sprg3,
    ppc64_sprg4, ppc64_sprg5, ppc64_sprg6, ppc64_sprg7, ppc64_sprg3_ro, ppc64_sprg4_ro,
    ppc64_sprg5_ro, ppc64_sprg6_ro, ppc64_sprg7_ro, ppc64_ear, ppc64_tbl_wo, ppc64_tbl_ro,
    ppc64_tbu_wo]"

definition ppc64_regs2 :: "MachRegister list" where
  "ppc64_regs2 = [
    ppc64_tbu_ro, ppc64_pvr, ppc64_ibat0u, ppc64_ibat0l, ppc64_ibat1u, ppc64_ibat1l,
    ppc64_ibat2u, ppc64_ibat2l, ppc64_ibat3u, ppc64_ibat3l, ppc64_dbat0u, ppc64_dbat0l,
    ppc64_dbat1u, ppc64_dbat1l, ppc64_dbat2u, ppc64_dbat2l, ppc64_dbat3u, ppc64_dbat3l,
    ppc64_pc, ppc64_fpscw, ppc64_fpscw0, ppc64_fpscw1, ppc64_fpscw2, ppc64_fpscw3, ppc64_fpscw4,
    ppc64_fpscw5, ppc64_fpscw6, ppc64_fpscw7, ppc64_msr, ppc64_ivpr, ppc64_ivor8, ppc64_seg0,
    ppc64_seg1, ppc64_seg2, ppc64_seg3, ppc64_seg4, ppc64_seg5, ppc64_seg6, ppc64_seg7,
    ppc64_cr0, ppc64_cr1, ppc64_cr2, ppc64_cr3, ppc64_cr4, ppc64_cr5, ppc64_cr6, ppc64_cr7,
    ppc64_cr, ppc64_or3, ppc64_trap, ppc64_cr0l, ppc64_cr0g, ppc64_cr0e, ppc64_cr0s, ppc64_cr1l,
    ppc64_cr1g, ppc64_cr1e, ppc64_cr1s, ppc64_cr2l, ppc64_cr2g, ppc64_cr2e, ppc64_cr2s,
    ppc64_cr3l, ppc64_cr3g, ppc64_cr3e, ppc64_cr3s, ppc64_cr4l, ppc64_cr4g, ppc64_cr4e,
    ppc64_cr4s, ppc64_cr5l, ppc64_cr5g, ppc64_cr5e, ppc64_cr5s, ppc64_cr6l, ppc64_cr6g,
    ppc64_cr6e, ppc64_cr6s, ppc64_cr7l, ppc64_cr7g, ppc64_cr7e, ppc64_cr7s, ppc64_ppr,
    ppc64_ppr32, ppc64_vsr0, ppc64_vsr1, ppc64_vsr2, ppc64_vsr3, ppc64_vsr4, ppc64_vsr5,
    ppc64_vsr6, ppc64_vsr7, ppc64_vsr8, ppc64_vsr9, ppc64_vsr10, ppc64_vsr11, ppc64_vsr12,
    ppc64_vsr13, ppc64_vsr14, ppc64_vsr15, ppc64_vsr16, ppc64_vsr17, ppc64_vsr18, ppc64_vsr19,
    ppc64_vsr20, ppc64_vsr21, ppc64_vsr22, ppc64_vsr23, ppc64_vsr24, ppc64_vsr25, ppc64_vsr26,
    ppc64_vsr27, ppc64_vsr28, ppc64_vsr29, ppc64_vsr30, ppc64_vsr31, ppc64_vsr32, ppc64_vsr33,
    ppc64_vsr34, ppc64_vsr35, ppc64_vsr36, ppc64_vsr37, ppc64_vsr38, ppc64_vsr39]"

definition ppc64_regs3 :: "MachRegister list" where
  "ppc64_regs3 = [
    ppc64_vsr40, ppc64_vsr41, ppc64_vsr42, ppc64_vsr43, ppc64_vsr44, ppc64_vsr45, ppc64_vsr46,
    ppc64_vsr47, ppc64_vsr48, ppc64_vsr49, ppc64_vsr50, ppc64_vsr51, ppc64_vsr52, ppc64_vsr53,
    ppc64_vsr54, ppc64_vsr55, ppc64_vsr56, ppc64_vsr57, ppc64_vsr58, ppc64_vsr59, ppc64_vsr60,
    ppc64_vsr61, ppc64_vsr62, ppc64_vsr63]"

definition ppc64_regs :: "MachRegister list" where
  "ppc64_regs = ppc64_regs1 @ ppc64_regs2 @ ppc64_regs3"

section \<open>Registers of aarch64\<close>

abbreviation aarch64_GPR :: MachRegister where "aarch64_GPR \<equiv> 0x00010000"
abbreviation aarch64_FPR :: MachRegister where "aarch64_FPR \<equiv> 0x00020000"
abbreviation aarch64_FLAG :: MachRegister where "aarch64_FLAG \<equiv> 0x00030000"
abbreviation aarch64_FSR :: MachRegister where "aarch64_FSR \<equiv> 0x00040000"
abbreviation aarch64_SPR :: MachRegister where "aarch64_SPR \<equiv> 0x00080000"
abbreviation aarch64_SYSREG :: MachRegister where "aarch64_SYSREG \<equiv> 0x00100000"
abbreviation aarch64_BIT :: MachRegister where "aarch64_BIT \<equiv> 0x00008000"
abbreviation aarch64_B_REG :: MachRegister where "aarch64_B_REG \<equiv> 0x00000100"
abbreviation aarch64_W_REG :: MachRegister where "aarch64_W_REG \<equiv> 0x00000300"
abbreviation aarch64_D_REG :: MachRegister where "aarch64_D_REG \<equiv> 0x00000f00"
abbreviation aarch64_FULL :: MachRegister where "aarch64_FULL \<equiv> 0x00000000"
abbreviation aarch64_Q_REG :: MachRegister where "aarch64_Q_REG \<equiv> 0x00000400"
abbreviation aarch64_HQ_REG :: MachRegister where "aarch64_HQ_REG \<equiv> 0x00000500"
abbreviation aarch64_N_FLAG :: MachRegister where "aarch64_N_FLAG \<equiv> 31"
abbreviation aarch64_Z_FLAG :: MachRegister where "aarch64_Z_FLAG \<equiv> 30"
abbreviation aarch64_C_FLAG :: MachRegister where "aarch64_C_FLAG \<equiv> 29"
abbreviation aarch64_V_FLAG :: MachRegister where "aarch64_V_FLAG \<equiv> 28"

abbreviation aarch64_x0 :: MachRegister where
  "aarch64_x0 \<equiv> 0 OR aarch64_FULL OR aarch64_GPR OR Arch_aarch64"
abbreviation aarch64_w0 :: MachRegister where
  "aarch64_w0 \<equiv> 0 OR aarch64_D_REG OR aarch64_GPR OR Arch_aarch64"
abbreviation aarch64_x1 :: MachRegister where
  "aarch64_x1 \<equiv> 1 OR aarch64_FULL OR aarch64_GPR OR Arch_aarch64"
abbreviation aarch64_w1 :: MachRegister where
  "aarch64_w1 \<equiv> 1 OR aarch64_D_REG OR aarch64_GPR OR Arch_aarch64"
abbreviation aarch64_x2 :: MachRegister where
  "aarch64_x2 \<equiv> 2 OR aarch64_FULL OR aarch64_GPR OR Arch_aarch64"
abbreviation aarch64_w2 :: MachRegister where
  "aarch64_w2 \<equiv> 2 OR aarch64_D_REG OR aarch64_GPR OR Arch_aarch64"
abbreviation aarch64_x3 :: MachRegister where
  "aarch64_x3 \<equiv> 3 OR aarch64_FULL OR aarch64_GPR OR Arch_aarch64"
abbreviation aarch64_w3 :: MachRegister where
  "aarch64_w3 \<equiv> 3 OR aarch64_D_REG OR aarch64_GPR OR Arch_aarch64"
abbreviation aarch64_x4 :: MachRegister where
  "aarch64_x4 \<equiv> 4 OR aarch64_FULL OR aarch64_GPR OR Arch_aarch64"
abbreviation aarch64_w4 :: MachRegister where
  "aarch64_w4 \<equiv> 4 OR aarch64_D_REG OR aarch64_GPR OR Arch_aarch64"
abbreviation aarch64_x5 :: MachRegister where
  "aarch64_x5 \<equiv> 5 OR aarch64_FULL OR aarch64_GPR OR Arch_aarch64"
abbreviation aarch64_w5 :: MachRegister where
  "aarch64_w5 \<equiv> 5 OR aarch64_D_REG OR aarch64_GPR OR Arch_aarch64"
abbreviation aarch64_x6 :: MachRegister where
  "aarch64_x6 \<equiv> 6 OR aarch64_FULL OR aarch64_GPR OR Arch_aarch64"
abbreviation aarch64_w6 :: MachRegister where
  "aarch64_w6 \<equiv> 6 OR aarch64_D_REG OR aarch64_GPR OR Arch_aarch64"
abbreviation aarch64_x7 :: MachRegister where
  "aarch64_x7 \<equiv> 7 OR aarch64_FULL OR aarch64_GPR OR Arch_aarch64"
abbreviation aarch64_w7 :: MachRegister where
  "aarch64_w7 \<equiv> 7 OR aarch64_D_REG OR aarch64_GPR OR Arch_aarch64"
abbreviation aarch64_x8 :: MachRegister where
  "aarch64_x8 \<equiv> 8 OR aarch64_FULL OR aarch64_GPR OR Arch_aarch64"
abbreviation aarch64_w8 :: MachRegister where
  "aarch64_w8 \<equiv> 8 OR aarch64_D_REG OR aarch64_GPR OR Arch_aarch64"
abbreviation aarch64_x9 :: MachRegister where
  "aarch64_x9 \<equiv> 9 OR aarch64_FULL OR aarch64_GPR OR Arch_aarch64"
abbreviation aarch64_w9 :: MachRegister where
  "aarch64_w9 \<equiv> 9 OR aarch64_D_REG OR aarch64_GPR OR Arch_aarch64"
abbreviation aarch64_x10 :: MachRegister where
  "aarch64_x10 \<equiv> 10 OR aarch64_FULL OR aarch64_GPR OR Arch_aarch64"
abbreviation aarch64_w10 :: MachRegister where
  "aarch64_w10 \<equiv> 10 OR aarch64_D_REG OR aarch64_GPR OR Arch_aarch64"
abbreviation aarch64_x11 :: MachRegister where
  "aarch64_x11 \<equiv> 11 OR aarch64_FULL OR aarch64_GPR OR Arch_aarch64"
abbreviation aarch64_w11 :: MachRegister where
  "aarch64_w11 \<equiv> 11 OR aarch64_D_REG OR aarch64_GPR OR Arch_aarch64"
abbreviation aarch64_x12 :: MachRegister where
  "aarch64_x12 \<equiv> 12 OR aarch64_FULL OR aarch64_GPR OR Arch_aarch64"
abbreviation aarch64_w12 :: MachRegister where
  "aarch64_w12 \<equiv> 12 OR aarch64_D_REG OR aarch64_GPR OR Arch_aarch64"
abbreviation aarch64_x13 :: MachRegister where
  "aarch64_x13 \<equiv> 13 OR aarch64_FULL OR aarch64_GPR OR Arch_aarch64"
abbreviation aarch64_w13 :: MachRegister where
  "aarch64_w13 \<equiv> 13 OR aarch64_D_REG OR aarch64_GPR OR Arch_aarch64"
abbreviation aarch64_x14 :: MachRegister where
  "aarch64_x14 \<equiv> 14 OR aarch64_FULL OR aarch64_GPR OR Arch_aarch64"
abbreviation aarch64_w14 :: MachRegister where
  "aarch64_w14 \<equiv> 14 OR aarch64_D_REG OR aarch64_GPR OR Arch_aarch64"
abbreviation aarch64_x15 :: MachRegister where
  "aarch64_x15 \<equiv> 15 OR aarch64_FULL OR aarch64_GPR OR Arch_aarch64"
abbreviation aarch64_w15 :: MachRegister where
  "aarch64_w15 \<equiv> 15 OR aarch64_D_REG OR aarch64_GPR OR Arch_aarch64"
abbreviation aarch64_x16 :: MachRegister where
  "aarch64_x16 \<equiv> 16 OR aarch64_FULL OR aarch64_GPR OR Arch_aarch64"
abbreviation aarch64_w16 :: MachRegister where
  "aarch64_w16 \<equiv> 16 OR aarch64_D_REG OR aarch64_GPR OR Arch_aarch64"
abbreviation aarch64_x17 :: MachRegister where
  "aarch64_x17 \<equiv> 17 OR aarch64_FULL OR aarch64_GPR OR Arch_aarch64"
abbreviation aarch64_w17 :: MachRegister where
  "aarch64_w17 \<equiv> 17 OR aarch64_D_REG OR aarch64_GPR OR Arch_aarch64"
abbreviation aarch64_x18 :: MachRegister where
  "aarch64_x18 \<equiv> 18 OR aarch64_FULL OR aarch64_GPR OR Arch_aarch64"
abbreviation aarch64_w18 :: MachRegister where
  "aarch64_w18 \<equiv> 18 OR aarch64_D_REG OR aarch64_GPR OR Arch_aarch64"
abbreviation aarch64_x19 :: MachRegister where
  "aarch64_x19 \<equiv> 19 OR aarch64_FULL OR aarch64_GPR OR Arch_aarch64"
abbreviation aarch64_w19 :: MachRegister where
  "aarch64_w19 \<equiv> 19 OR aarch64_D_REG OR aarch64_GPR OR Arch_aarch64"
abbreviation aarch64_x20 :: MachRegister where
  "aarch64_x20 \<equiv> 20 OR aarch64_FULL OR aarch64_GPR OR Arch_aarch64"
abbreviation aarch64_w20 :: MachRegister where
  "aarch64_w20 \<equiv> 20 OR aarch64_D_REG OR aarch64_GPR OR Arch_aarch64"
abbreviation aarch64_x21 :: MachRegister where
  "aarch64_x21 \<equiv> 21 OR aarch64_FULL OR aarch64_GPR OR Arch_aarch64"
abbreviation aarch64_w21 :: MachRegister where
  "aarch64_w21 \<equiv> 21 OR aarch64_D_REG OR aarch64_GPR OR Arch_aarch64"
abbreviation aarch64_x22 :: MachRegister where
  "aarch64_x22 \<equiv> 22 OR aarch64_FULL OR aarch64_GPR OR Arch_aarch64"
abbreviation aarch64_w22 :: MachRegister where
  "aarch64_w22 \<equiv> 22 OR aarch64_D_REG OR aarch64_GPR OR Arch_aarch64"
abbreviation aarch64_x23 :: MachRegister where
  "aarch64_x23 \<equiv> 23 OR aarch64_FULL OR aarch64_GPR OR Arch_aarch64"
abbreviation aarch64_w23 :: MachRegister where
  "aarch64_w23 \<equiv> 23 OR aarch64_D_REG OR aarch64_GPR OR Arch_aarch64"
abbreviation aarch64_x24 :: MachRegister where
  "aarch64_x24 \<equiv> 24 OR aarch64_FULL OR aarch64_GPR OR Arch_aarch64"
abbreviation aarch64_w24 :: MachRegister where
  "aarch64_w24 \<equiv> 24 OR aarch64_D_REG OR aarch64_GPR OR Arch_aarch64"
abbreviation aarch64_x25 :: MachRegister where
  "aarch64_x25 \<equiv> 25 OR aarch64_FULL OR aarch64_GPR OR Arch_aarch64"
abbreviation aarch64_w25 :: MachRegister where
  "aarch64_w25 \<equiv> 25 OR aarch64_D_REG OR aarch64_GPR OR Arch_aarch64"
abbreviation aarch64_x26 :: MachRegister where
  "aarch64_x26 \<equiv> 26 OR aarch64_FULL OR aarch64_GPR OR Arch_aarch64"
abbreviation aarch64_w26 :: MachRegister where
  "aarch64_w26 \<equiv> 26 OR aarch64_D_REG OR aarch64_GPR OR Arch_aarch64"
abbreviation aarch64_x27 :: MachRegister where
  "aarch64_x27 \<equiv> 27 OR aarch64_FULL OR aarch64_GPR OR Arch_aarch64"
abbreviation aarch64_w27 :: MachRegister where
  "aarch64_w27 \<equiv> 27 OR aarch64_D_REG OR aarch64_GPR OR Arch_aarch64"
abbreviation aarch64_x28 :: MachRegister where
  "aarch64_x28 \<equiv> 28 OR aarch64_FULL OR aarch64_GPR OR Arch_aarch64"
abbreviation aarch64_w28 :: MachRegister where
  "aarch64_w28 \<equiv> 28 OR aarch64_D_REG OR aarch64_GPR OR Arch_aarch64"
abbreviation aarch64_x29 :: MachRegister where
  "aarch64_x29 \<equiv> 29 OR aarch64_FULL OR aarch64_GPR OR Arch_aarch64"
abbreviation aarch64_w29 :: MachRegister where
  "aarch64_w29 \<equiv> 29 OR aarch64_D_REG OR aarch64_GPR OR Arch_aarch64"
abbreviation aarch64_x30 :: MachRegister where
  "aarch64_x30 \<equiv> 30 OR aarch64_FULL OR aarch64_GPR OR Arch_aarch64"
abbreviation aarch64_w30 :: MachRegister where
  "aarch64_w30 \<equiv> 30 OR aarch64_D_REG OR aarch64_GPR OR Arch_aarch64"
abbreviation aarch64_q0 :: MachRegister where
  "aarch64_q0 \<equiv> 0 OR aarch64_Q_REG OR aarch64_FPR OR Arch_aarch64"
abbreviation aarch64_q1 :: MachRegister where
  "aarch64_q1 \<equiv> 1 OR aarch64_Q_REG OR aarch64_FPR OR Arch_aarch64"
abbreviation aarch64_q2 :: MachRegister where
  "aarch64_q2 \<equiv> 2 OR aarch64_Q_REG OR aarch64_FPR OR Arch_aarch64"
abbreviation aarch64_q3 :: MachRegister where
  "aarch64_q3 \<equiv> 3 OR aarch64_Q_REG OR aarch64_FPR OR Arch_aarch64"
abbreviation aarch64_q4 :: MachRegister where
  "aarch64_q4 \<equiv> 4 OR aarch64_Q_REG OR aarch64_FPR OR Arch_aarch64"
abbreviation aarch64_q5 :: MachRegister where
  "aarch64_q5 \<equiv> 5 OR aarch64_Q_REG OR aarch64_FPR OR Arch_aarch64"
abbreviation aarch64_q6 :: MachRegister where
  "aarch64_q6 \<equiv> 6 OR aarch64_Q_REG OR aarch64_FPR OR Arch_aarch64"
abbreviation aarch64_q7 :: MachRegister where
  "aarch64_q7 \<equiv> 7 OR aarch64_Q_REG OR aarch64_FPR OR Arch_aarch64"
abbreviation aarch64_q8 :: MachRegister where
  "aarch64_q8 \<equiv> 8 OR aarch64_Q_REG OR aarch64_FPR OR Arch_aarch64"
abbreviation aarch64_q9 :: MachRegister where
  "aarch64_q9 \<equiv> 9 OR aarch64_Q_REG OR aarch64_FPR OR Arch_aarch64"
abbreviation aarch64_q10 :: MachRegister where
  "aarch64_q10 \<equiv> 10 OR aarch64_Q_REG OR aarch64_FPR OR Arch_aarch64"
abbreviation aarch64_q11 :: MachRegister where
  "aarch64_q11 \<equiv> 11 OR aarch64_Q_REG OR aarch64_FPR OR Arch_aarch64"
abbreviation aarch64_q12 :: MachRegister where
  "aarch64_q12 \<equiv> 12 OR aarch64_Q_REG OR aarch64_FPR OR Arch_aarch64"
abbreviation aarch64_q13 :: MachRegister where
  "aarch64_q13 \<equiv> 13 OR aarch64_Q_REG OR aarch64_FPR OR Arch_aarch64"
abbreviation aarch64_q14 :: MachRegister where
  "aarch64_q14 \<equiv> 14 OR aarch64_Q_REG OR aarch64_FPR OR Arch_aarch64"
abbreviation aarch64_q15 :: MachRegister where
  "aarch64_q15 \<equiv> 15 OR aarch64_Q_REG OR aarch64_FPR OR Arch_aarch64"
abbreviation aarch64_q16 :: MachRegister where
  "aarch64_q16 \<equiv> 16 OR aarch64_Q_REG OR aarch64_FPR OR Arch_aarch64"
abbreviation aarch64_q17 :: MachRegister where
  "aarch64_q17 \<equiv> 17 OR aarch64_Q_REG OR aarch64_FPR OR Arch_aarch64"
abbreviation aarch64_q18 :: MachRegister where
  "aarch64_q18 \<equiv> 18 OR aarch64_Q_REG OR aarch64_FPR OR Arch_aarch64"
abbreviation aarch64_q19 :: MachRegister where
  "aarch64_q19 \<equiv> 19 OR aarch64_Q_REG OR aarch64_FPR OR Arch_aarch64"
abbreviation aarch64_q20 :: MachRegister where
  "aarch64_q20 \<equiv> 20 OR aarch64_Q_REG OR aarch64_FPR OR Arch_aarch64"
abbreviation aarch64_q21 :: MachRegister where
  "aarch64_q21 \<equiv> 21 OR aarch64_Q_REG OR aarch64_FPR OR Arch_aarch64"
abbreviation aarch64_q22 :: MachRegister where
  "aarch64_q22 \<equiv> 22 OR aarch64_Q_REG OR aarch64_FPR OR Arch_aarch64"
abbreviation aarch64_q23 :: MachRegister where
  "aarch64_q23 \<equiv> 23 OR aarch64_Q_REG OR aarch64_FPR OR Arch_aarch64"
abbreviation aarch64_q24 :: MachRegister where
  "aarch64_q24 \<equiv> 24 OR aarch64_Q_REG OR aarch64_FPR OR Arch_aarch64"
abbreviation aarch64_q25 :: MachRegister where
  "aarch64_q25 \<equiv> 25 OR aarch64_Q_REG OR aarch64_FPR OR Arch_aarch64"
abbreviation aarch64_q26 :: MachRegister where
  "aarch64_q26 \<equiv> 26 OR aarch64_Q_REG OR aarch64_FPR OR Arch_aarch64"
abbreviation aarch64_q27 :: MachRegister where
  "aarch64_q27 \<equiv> 27 OR aarch64_Q_REG OR aarch64_FPR OR Arch_aarch64"
abbreviation aarch64_q28 :: MachRegister where
  "aarch64_q28 \<equiv> 28 OR aarch64_Q_REG OR aarch64_FPR OR Arch_aarch64"
abbreviation aarch64_q29 :: MachRegister where
  "aarch64_q29 \<equiv> 29 OR aarch64_Q_REG OR aarch64_FPR OR Arch_aarch64"
abbreviation aarch64_q30 :: MachRegister where
  "aarch64_q30 \<equiv> 30 OR aarch64_Q_REG OR aarch64_FPR OR Arch_aarch64"
abbreviation aarch64_q31 :: MachRegister where
  "aarch64_q31 \<equiv> 31 OR aarch64_Q_REG OR aarch64_FPR OR Arch_aarch64"
abbreviation aarch64_hq0 :: MachRegister where
  "aarch64_hq0 \<equiv> 0 OR aarch64_HQ_REG OR aarch64_FPR OR Arch_aarch64"
abbreviation aarch64_hq1 :: MachRegister where
  "aarch64_hq1 \<equiv> 1 OR aarch64_HQ_REG OR aarch64_FPR OR Arch_aarch64"
abbreviation aarch64_hq2 :: MachRegister where
  "aarch64_hq2 \<equiv> 2 OR aarch64_HQ_REG OR aarch64_FPR OR Arch_aarch64"
abbreviation aarch64_hq3 :: MachRegister where
  "aarch64_hq3 \<equiv> 3 OR aarch64_HQ_REG OR aarch64_FPR OR Arch_aarch64"
abbreviation aarch64_hq4 :: MachRegister where
  "aarch64_hq4 \<equiv> 4 OR aarch64_HQ_REG OR aarch64_FPR OR Arch_aarch64"
abbreviation aarch64_hq5 :: MachRegister where
  "aarch64_hq5 \<equiv> 5 OR aarch64_HQ_REG OR aarch64_FPR OR Arch_aarch64"
abbreviation aarch64_hq6 :: MachRegister where
  "aarch64_hq6 \<equiv> 6 OR aarch64_HQ_REG OR aarch64_FPR OR Arch_aarch64"
abbreviation aarch64_hq7 :: MachRegister where
  "aarch64_hq7 \<equiv> 7 OR aarch64_HQ_REG OR aarch64_FPR OR Arch_aarch64"
abbreviation aarch64_hq8 :: MachRegister where
  "aarch64_hq8 \<equiv> 8 OR aarch64_HQ_REG OR aarch64_FPR OR Arch_aarch64"
abbreviation aarch64_hq9 :: MachRegister where
  "aarch64_hq9 \<equiv> 9 OR aarch64_HQ_REG OR aarch64_FPR OR Arch_aarch64"
abbreviation aarch64_hq10 :: MachRegister where
  "aarch64_hq10 \<equiv> 10 OR aarch64_HQ_REG OR aarch64_FPR OR Arch_aarch64"
abbreviation aarch64_hq11 :: MachRegister where
  "aarch64_hq11 \<equiv> 11 OR aarch64_HQ_REG OR aarch64_FPR OR Arch_aarch64"
abbreviation aarch64_hq12 :: MachRegister where
  "aarch64_hq12 \<equiv> 12 OR aarch64_HQ_REG OR aarch64_FPR OR Arch_aarch64"
abbreviation aarch64_hq13 :: MachRegister where
  "aarch64_hq13 \<equiv> 13 OR aarch64_HQ_REG OR aarch64_FPR OR Arch_aarch64"
abbreviation aarch64_hq14 :: MachRegister where
  "aarch64_hq14 \<equiv> 14 OR aarch64_HQ_REG OR aarch64_FPR OR Arch_aarch64"
abbreviation aarch64_hq15 :: MachRegister where
  "aarch64_hq15 \<equiv> 15 OR aarch64_HQ_REG OR aarch64_FPR OR Arch_aarch64"
abbreviation aarch64_hq16 :: MachRegister where
  "aarch64_hq16 \<equiv> 16 OR aarch64_HQ_REG OR aarch64_FPR OR Arch_aarch64"
abbreviation aarch64_hq17 :: MachRegister where
  "aarch64_hq17 \<equiv> 17 OR aarch64_HQ_REG OR aarch64_FPR OR Arch_aarch64"
abbreviation aarch64_hq18 :: MachRegister where
  "aarch64_hq18 \<equiv> 18 OR aarch64_HQ_REG OR aarch64_FPR OR Arch_aarch64"
abbreviation aarch64_hq19 :: MachRegister where
  "aarch64_hq19 \<equiv> 19 OR aarch64_HQ_REG OR aarch64_FPR OR Arch_aarch64"
abbreviation aarch64_hq20 :: MachRegister where
  "aarch64_hq20 \<equiv> 20 OR aarch64_HQ_REG OR aarch64_FPR OR Arch_aarch64"
abbreviation aarch64_hq21 :: MachRegister where
  "aarch64_hq21 \<equiv> 21 OR aarch64_HQ_REG OR aarch64_FPR OR Arch_aarch64"
abbreviation aarch64_hq22 :: MachRegister where
  "aarch64_hq22 \<equiv> 22 OR aarch64_HQ_REG OR aarch64_FPR OR Arch_aarch64"
abbreviation aarch64_hq23 :: MachRegister where
  "aarch64_hq23 \<equiv> 23 OR aarch64_HQ_REG OR aarch64_FPR OR Arch_aarch64"
abbreviation aarch64_hq24 :: MachRegister where
  "aarch64_hq24 \<equiv> 24 OR aarch64_HQ_REG OR aarch64_FPR OR Arch_aarch64"
abbreviation aarch64_hq25 :: MachRegister where
  "aarch64_hq25 \<equiv> 25 OR aarch64_HQ_REG OR aarch64_FPR OR Arch_aarch64"
abbreviation aarch64_hq26 :: MachRegister where
  "aarch64_hq26 \<equiv> 26 OR aarch64_HQ_REG OR aarch64_FPR OR Arch_aarch64"
abbreviation aarch64_hq27 :: MachRegister where
  "aarch64_hq27 \<equiv> 27 OR aarch64_HQ_REG OR aarch64_FPR OR Arch_aarch64"
abbreviation aarch64_hq28 :: MachRegister where
  "aarch64_hq28 \<equiv> 28 OR aarch64_HQ_REG OR aarch64_FPR OR Arch_aarch64"
abbreviation aarch64_hq29 :: MachRegister where
  "aarch64_hq29 \<equiv> 29 OR aarch64_HQ_REG OR aarch64_FPR OR Arch_aarch64"
abbreviation aarch64_hq30 :: MachRegister where
  "aarch64_hq30 \<equiv> 30 OR aarch64_HQ_REG OR aarch64_FPR OR Arch_aarch64"
abbreviation aarch64_hq31 :: MachRegister where
  "aarch64_hq31 \<equiv> 31 OR aarch64_HQ_REG OR aarch64_FPR OR Arch_aarch64"
abbreviation aarch64_d0 :: MachRegister where
  "aarch64_d0 \<equiv> 0 OR aarch64_FULL OR aarch64_FPR OR Arch_aarch64"
abbreviation aarch64_d1 :: MachRegister where
  "aarch64_d1 \<equiv> 1 OR aarch64_FULL OR aarch64_FPR OR Arch_aarch64"
abbreviation aarch64_d2 :: MachRegister where
  "aarch64_d2 \<equiv> 2 OR aarch64_FULL OR aarch64_FPR OR Arch_aarch64"
abbreviation aarch64_d3 :: MachRegister where
  "aarch64_d3 \<equiv> 3 OR aarch64_FULL OR aarch64_FPR OR Arch_aarch64"
abbreviation aarch64_d4 :: MachRegister where
  "aarch64_d4 \<equiv> 4 OR aarch64_FULL OR aarch64_FPR OR Arch_aarch64"
abbreviation aarch64_d5 :: MachRegister where
  "aarch64_d5 \<equiv> 5 OR aarch64_FULL OR aarch64_FPR OR Arch_aarch64"
abbreviation aarch64_d6 :: MachRegister where
  "aarch64_d6 \<equiv> 6 OR aarch64_FULL OR aarch64_FPR OR Arch_aarch64"
abbreviation aarch64_d7 :: MachRegister where
  "aarch64_d7 \<equiv> 7 OR aarch64_FULL OR aarch64_FPR OR Arch_aarch64"
abbreviation aarch64_d8 :: MachRegister where
  "aarch64_d8 \<equiv> 8 OR aarch64_FULL OR aarch64_FPR OR Arch_aarch64"
abbreviation aarch64_d9 :: MachRegister where
  "aarch64_d9 \<equiv> 9 OR aarch64_FULL OR aarch64_FPR OR Arch_aarch64"
abbreviation aarch64_d10 :: MachRegister where
  "aarch64_d10 \<equiv> 10 OR aarch64_FULL OR aarch64_FPR OR Arch_aarch64"
abbreviation aarch64_d11 :: MachRegister where
  "aarch64_d11 \<equiv> 11 OR aarch64_FULL OR aarch64_FPR OR Arch_aarch64"
abbreviation aarch64_d12 :: MachRegister where
  "aarch64_d12 \<equiv> 12 OR aarch64_FULL OR aarch64_FPR OR Arch_aarch64"
abbreviation aarch64_d13 :: MachRegister where
  "aarch64_d13 \<equiv> 13 OR aarch64_FULL OR aarch64_FPR OR Arch_aarch64"
abbreviation aarch64_d14 :: MachRegister where
  "aarch64_d14 \<equiv> 14 OR aarch64_FULL OR aarch64_FPR OR Arch_aarch64"
abbreviation aarch64_d15 :: MachRegister where
  "aarch64_d15 \<equiv> 15 OR aarch64_FULL OR aarch64_FPR OR Arch_aarch64"
abbreviation aarch64_d16 :: MachRegister where
  "aarch64_d16 \<equiv> 16 OR aarch64_FULL OR aarch64_FPR OR Arch_aarch64"
abbreviation aarch64_d17 :: MachRegister where
  "aarch64_d17 \<equiv> 17 OR aarch64_FULL OR aarch64_FPR OR Arch_aarch64"
abbreviation aarch64_d18 :: MachRegister where
  "aarch64_d18 \<equiv> 18 OR aarch64_FULL OR aarch64_FPR OR Arch_aarch64"
abbreviation aarch64_d19 :: MachRegister where
  "aarch64_d19 \<equiv> 19 OR aarch64_FULL OR aarch64_FPR OR Arch_aarch64"
abbreviation aarch64_d20 :: MachRegister where
  "aarch64_d20 \<equiv> 20 OR aarch64_FULL OR aarch64_FPR OR Arch_aarch64"
abbreviation aarch64_d21 :: MachRegister where
  "aarch64_d21 \<equiv> 21 OR aarch64_FULL OR aarch64_FPR OR Arch_aarch64"
abbreviation aarch64_d22 :: MachRegister where
  "aarch64_d22 \<equiv> 22 OR aarch64_FULL OR aarch64_FPR OR Arch_aarch64"
abbreviation aarch64_d23 :: MachRegister where
  "aarch64_d23 \<equiv> 23 OR aarch64_FULL OR aarch64_FPR OR Arch_aarch64"
abbreviation aarch64_d24 :: MachRegister where
  "aarch64_d24 \<equiv> 24 OR aarch64_FULL OR aarch64_FPR OR Arch_aarch64"
abbreviation aarch64_d25 :: MachRegister where
  "aarch64_d25 \<equiv> 25 OR aarch64_FULL OR aarch64_FPR OR Arch_aarch64"
abbreviation aarch64_d26 :: MachRegister where
  "aarch64_d26 \<equiv> 26 OR aarch64_FULL OR aarch64_FPR OR Arch_aarch64"
abbreviation aarch64_d27 :: MachRegister where
  "aarch64_d27 \<equiv> 27 OR aarch64_FULL OR aarch64_FPR OR Arch_aarch64"
abbreviation aarch64_d28 :: MachRegister where
  "aarch64_d28 \<equiv> 28 OR aarch64_FULL OR aarch64_FPR OR Arch_aarch64"
abbreviation aarch64_d29 :: MachRegister where
  "aarch64_d29 \<equiv> 29 OR aarch64_FULL OR aarch64_FPR OR Arch_aarch64"
abbreviation aarch64_d30 :: MachRegister where
  "aarch64_d30 \<equiv> 30 OR aarch64_FULL OR aarch64_FPR OR Arch_aarch64"
abbreviation aarch64_d31 :: MachRegister where
  "aarch64_d31 \<equiv> 31 OR aarch64_FULL OR aarch64_FPR OR Arch_aarch64"
abbreviation aarch64_s0 :: MachRegister where
  "aarch64_s0 \<equiv> 0 OR aarch64_D_REG OR aarch64_FPR OR Arch_aarch64"
abbreviation aarch64_s1 :: MachRegister where
  "aarch64_s1 \<equiv> 1 OR aarch64_D_REG OR aarch64_FPR OR Arch_aarch64"
abbreviation aarch64_s2 :: MachRegister where
  "aarch64_s2 \<equiv> 2 OR aarch64_D_REG OR aarch64_FPR OR Arch_aarch64"
abbreviation aarch64_s3 :: MachRegister where
  "aarch64_s3 \<equiv> 3 OR aarch64_D_REG OR aarch64_FPR OR Arch_aarch64"
abbreviation aarch64_s4 :: MachRegister where
  "aarch64_s4 \<equiv> 4 OR aarch64_D_REG OR aarch64_FPR OR Arch_aarch64"
abbreviation aarch64_s5 :: MachRegister where
  "aarch64_s5 \<equiv> 5 OR aarch64_D_REG OR aarch64_FPR OR Arch_aarch64"
abbreviation aarch64_s6 :: MachRegister where
  "aarch64_s6 \<equiv> 6 OR aarch64_D_REG OR aarch64_FPR OR Arch_aarch64"
abbreviation aarch64_s7 :: MachRegister where
  "aarch64_s7 \<equiv> 7 OR aarch64_D_REG OR aarch64_FPR OR Arch_aarch64"
abbreviation aarch64_s8 :: MachRegister where
  "aarch64_s8 \<equiv> 8 OR aarch64_D_REG OR aarch64_FPR OR Arch_aarch64"
abbreviation aarch64_s9 :: MachRegister where
  "aarch64_s9 \<equiv> 9 OR aarch64_D_REG OR aarch64_FPR OR Arch_aarch64"
abbreviation aarch64_s10 :: MachRegister where
  "aarch64_s10 \<equiv> 10 OR aarch64_D_REG OR aarch64_FPR OR Arch_aarch64"
abbreviation aarch64_s11 :: MachRegister where
  "aarch64_s11 \<equiv> 11 OR aarch64_D_REG OR aarch64_FPR OR Arch_aarch64"
abbreviation aarch64_s12 :: MachRegister where
  "aarch64_s12 \<equiv> 12 OR aarch64_D_REG OR aarch64_FPR OR Arch_aarch64"
abbreviation aarch64_s13 :: MachRegister where
  "aarch64_s13 \<equiv> 13 OR aarch64_D_REG OR aarch64_FPR OR Arch_aarch64"
abbreviation aarch64_s14 :: MachRegister where
  "aarch64_s14 \<equiv> 14 OR aarch64_D_REG OR aarch64_FPR OR Arch_aarch64"
abbreviation aarch64_s15 :: MachRegister where
  "aarch64_s15 \<equiv> 15 OR aarch64_D_REG OR aarch64_FPR OR Arch_aarch64"
abbreviation aarch64_s16 :: MachRegister where
  "aarch64_s16 \<equiv> 16 OR aarch64_D_REG OR aarch64_FPR OR Arch_aarch64"
abbreviation aarch64_s17 :: MachRegister where
  "aarch64_s17 \<equiv> 17 OR aarch64_D_REG OR aarch64_FPR OR Arch_aarch64"
abbreviation aarch64_s18 :: MachRegister where
  "aarch64_s18 \<equiv> 18 OR aarch64_D_REG OR aarch64_FPR OR Arch_aarch64"
abbreviation aarch64_s19 :: MachRegister where
  "aarch64_s19 \<equiv> 19 OR aarch64_D_REG OR aarch64_FPR OR Arch_aarch64"
abbreviation aarch64_s20 :: MachRegister where
  "aarch64_s20 \<equiv> 20 OR aarch64_D_REG OR aarch64_FPR OR Arch_aarch64"
abbreviation aarch64_s21 :: MachRegister where
  "aarch64_s21 \<equiv> 21 OR aarch64_D_REG OR aarch64_FPR OR Arch_aarch64"
abbreviation aarch64_s22 :: MachRegister where
  "aarch64_s22 \<equiv> 22 OR aarch64_D_REG OR aarch64_FPR OR Arch_aarch64"
abbreviation aarch64_s23 :: MachRegister where
  "aarch64_s23 \<equiv> 23 OR aarch64_D_REG OR aarch64_FPR OR Arch_aarch64"
abbreviation aarch64_s24 :: MachRegister where
  "aarch64_s24 \<equiv> 24 OR aarch64_D_REG OR aarch64_FPR OR Arch_aarch64"
abbreviation aarch64_s25 :: MachRegister where
  "aarch64_s25 \<equiv> 25 OR aarch64_D_REG OR aarch64_FPR OR Arch_aarch64"
abbreviation aarch64_s26 :: MachRegister where
  "aarch64_s26 \<equiv> 26 OR aarch64_D_REG OR aarch64_FPR OR Arch_aarch64"
abbreviation aarch64_s27 :: MachRegister where
  "aarch64_s27 \<equiv> 27 OR aarch64_D_REG OR aarch64_FPR OR Arch_aarch64"
abbreviation aarch64_s28 :: MachRegister where
  "aarch64_s28 \<equiv> 28 OR aarch64_D_REG OR aarch64_FPR OR Arch_aarch64"
abbreviation aarch64_s29 :: MachRegister where
  "aarch64_s29 \<equiv> 29 OR aarch64_D_REG OR aarch64_FPR OR Arch_aarch64"
abbreviation aarch64_s30 :: MachRegister where
  "aarch64_s30 \<equiv> 30 OR aarch64_D_REG OR aarch64_FPR OR Arch_aarch64"
abbreviation aarch64_s31 :: MachRegister where
  "aarch64_s31 \<equiv> 31 OR aarch64_D_REG OR aarch64_FPR OR Arch_aarch64"
abbreviation aarch64_h0 :: MachRegister where
  "aarch64_h0 \<equiv> 0 OR aarch64_W_REG OR aarch64_FPR OR Arch_aarch64"
abbreviation aarch64_h1 :: MachRegister where
  "aarch64_h1 \<equiv> 1 OR aarch64_W_REG OR aarch64_FPR OR Arch_aarch64"
abbreviation aarch64_h2 :: MachRegister where
  "aarch64_h2 \<equiv> 2 OR aarch64_W_REG OR aarch64_FPR OR Arch_aarch64"
abbreviation aarch64_h3 :: MachRegister where
  "aarch64_h3 \<equiv> 3 OR aarch64_W_REG OR aarch64_FPR OR Arch_aarch64"
abbreviation aarch64_h4 :: MachRegister where
  "aarch64_h4 \<equiv> 4 OR aarch64_W_REG OR aarch64_FPR OR Arch_aarch64"
abbreviation aarch64_h5 :: MachRegister where
  "aarch64_h5 \<equiv> 5 OR aarch64_W_REG OR aarch64_FPR OR Arch_aarch64"
abbreviation aarch64_h6 :: MachRegister where
  "aarch64_h6 \<equiv> 6 OR aarch64_W_REG OR aarch64_FPR OR Arch_aarch64"
abbreviation aarch64_h7 :: MachRegister where
  "aarch64_h7 \<equiv> 7 OR aarch64_W_REG OR aarch64_FPR OR Arch_aarch64"
abbreviation aarch64_h8 :: MachRegister where
  "aarch64_h8 \<equiv> 8 OR aarch64_W_REG OR aarch64_FPR OR Arch_aarch64"
abbreviation aarch64_h9 :: MachRegister where
  "aarch64_h9 \<equiv> 9 OR aarch64_W_REG OR aarch64_FPR OR Arch_aarch64"
abbreviation aarch64_h10 :: MachRegister where
  "aarch64_h10 \<equiv> 10 OR aarch64_W_REG OR aarch64_FPR OR Arch_aarch64"
abbreviation aarch64_h11 :: MachRegister where
  "aarch64_h11 \<equiv> 11 OR aarch64_W_REG OR aarch64_FPR OR Arch_aarch64"
abbreviation aarch64_h12 :: MachRegister where
  "aarch64_h12 \<equiv> 12 OR aarch64_W_REG OR aarch64_FPR OR Arch_aarch64"
abbreviation aarch64_h13 :: MachRegister where
  "aarch64_h13 \<equiv> 13 OR aarch64_W_REG OR aarch64_FPR OR Arch_aarch64"
abbreviation aarch64_h14 :: MachRegister where
  "aarch64_h14 \<equiv> 14 OR aarch64_W_REG OR aarch64_FPR OR Arch_aarch64"
abbreviation aarch64_h15 :: MachRegister where
  "aarch64_h15 \<equiv> 15 OR aarch64_W_REG OR aarch64_FPR OR Arch_aarch64"
abbreviation aarch64_h16 :: MachRegister where
  "aarch64_h16 \<equiv> 16 OR aarch64_W_REG OR aarch64_FPR OR Arch_aarch64"
abbreviation aarch64_h17 :: MachRegister where
  "aarch64_h17 \<equiv> 17 OR aarch64_W_REG OR aarch64_FPR OR Arch_aarch64"
abbreviation aarch64_h18 :: MachRegister where
  "aarch64_h18 \<equiv> 18 OR aarch64_W_REG OR aarch64_FPR OR Arch_aarch64"
abbreviation aarch64_h19 :: MachRegister where
  "aarch64_h19 \<equiv> 19 OR aarch64_W_REG OR aarch64_FPR OR Arch_aarch64"
abbreviation aarch64_h20 :: MachRegister where
  "aarch64_h20 \<equiv> 20 OR aarch64_W_REG OR aarch64_FPR OR Arch_aarch64"
abbreviation aarch64_h21 :: MachRegister where
  "aarch64_h21 \<equiv> 21 OR aarch64_W_REG OR aarch64_FPR OR Arch_aarch64"
abbreviation aarch64_h22 :: MachRegister where
  "aarch64_h22 \<equiv> 22 OR aarch64_W_REG OR aarch64_FPR OR Arch_aarch64"
abbreviation aarch64_h23 :: MachRegister where
  "aarch64_h23 \<equiv> 23 OR aarch64_W_REG OR aarch64_FPR OR Arch_aarch64"
abbreviation aarch64_h24 :: MachRegister where
  "aarch64_h24 \<equiv> 24 OR aarch64_W_REG OR aarch64_FPR OR Arch_aarch64"
abbreviation aarch64_h25 :: MachRegister where
  "aarch64_h25 \<equiv> 25 OR aarch64_W_REG OR aarch64_FPR OR Arch_aarch64"
abbreviation aarch64_h26 :: MachRegister where
  "aarch64_h26 \<equiv> 26 OR aarch64_W_REG OR aarch64_FPR OR Arch_aarch64"
abbreviation aarch64_h27 :: MachRegister where
  "aarch64_h27 \<equiv> 27 OR aarch64_W_REG OR aarch64_FPR OR Arch_aarch64"
abbreviation aarch64_h28 :: MachRegister where
  "aarch64_h28 \<equiv> 28 OR aarch64_W_REG OR aarch64_FPR OR Arch_aarch64"
abbreviation aarch64_h29 :: MachRegister where
  "aarch64_h29 \<equiv> 29 OR aarch64_W_REG OR aarch64_FPR OR Arch_aarch64"
abbreviation aarch64_h30 :: MachRegister where
  "aarch64_h30 \<equiv> 30 OR aarch64_W_REG OR aarch64_FPR OR Arch_aarch64"
abbreviation aarch64_h31 :: MachRegister where
  "aarch64_h31 \<equiv> 31 OR aarch64_W_REG OR aarch64_FPR OR Arch_aarch64"
abbreviation aarch64_b0 :: MachRegister where
  "aarch64_b0 \<equiv> 0 OR aarch64_B_REG OR aarch64_FPR OR Arch_aarch64"
abbreviation aarch64_b1 :: MachRegister where
  "aarch64_b1 \<equiv> 1 OR aarch64_B_REG OR aarch64_FPR OR Arch_aarch64"
abbreviation aarch64_b2 :: MachRegister where
  "aarch64_b2 \<equiv> 2 OR aarch64_B_REG OR aarch64_FPR OR Arch_aarch64"
abbreviation aarch64_b3 :: MachRegister where
  "aarch64_b3 \<equiv> 3 OR aarch64_B_REG OR aarch64_FPR OR Arch_aarch64"
abbreviation aarch64_b4 :: MachRegister where
  "aarch64_b4 \<equiv> 4 OR aarch64_B_REG OR aarch64_FPR OR Arch_aarch64"
abbreviation aarch64_b5 :: MachRegister where
  "aarch64_b5 \<equiv> 5 OR aarch64_B_REG OR aarch64_FPR OR Arch_aarch64"
abbreviation aarch64_b6 :: MachRegister where
  "aarch64_b6 \<equiv> 6 OR aarch64_B_REG OR aarch64_FPR OR Arch_aarch64"
abbreviation aarch64_b7 :: MachRegister where
  "aarch64_b7 \<equiv> 7 OR aarch64_B_REG OR aarch64_FPR OR Arch_aarch64"
abbreviation aarch64_b8 :: MachRegister where
  "aarch64_b8 \<equiv> 8 OR aarch64_B_REG OR aarch64_FPR OR Arch_aarch64"
abbreviation aarch64_b9 :: MachRegister where
  "aarch64_b9 \<equiv> 9 OR aarch64_B_REG OR aarch64_FPR OR Arch_aarch64"
abbreviation aarch64_b10 :: MachRegister where
  "aarch64_b10 \<equiv> 10 OR aarch64_B_REG OR aarch64_FPR OR Arch_aarch64"
abbreviation aarch64_b11 :: MachRegister where
  "aarch64_b11 \<equiv> 11 OR aarch64_B_REG OR aarch64_FPR OR Arch_aarch64"
abbreviation aarch64_b12 :: MachRegister where
  "aarch64_b12 \<equiv> 12 OR aarch64_B_REG OR aarch64_FPR OR Arch_aarch64"
abbreviation aarch64_b13 :: MachRegister where
  "aarch64_b13 \<equiv> 13 OR aarch64_B_REG OR aarch64_FPR OR Arch_aarch64"
abbreviation aarch64_b14 :: MachRegister where
  "aarch64_b14 \<equiv> 14 OR aarch64_B_REG OR aarch64_FPR OR Arch_aarch64"
abbreviation aarch64_b15 :: MachRegister where
  "aarch64_b15 \<equiv> 15 OR aarch64_B_REG OR aarch64_FPR OR Arch_aarch64"
abbreviation aarch64_b16 :: MachRegister where
  "aarch64_b16 \<equiv> 16 OR aarch64_B_REG OR aarch64_FPR OR Arch_aarch64"
abbreviation aarch64_b17 :: MachRegister where
  "aarch64_b17 \<equiv> 17 OR aarch64_B_REG OR aarch64_FPR OR Arch_aarch64"
abbreviation aarch64_b18 :: MachRegister where
  "aarch64_b18 \<equiv> 18 OR aarch64_B_REG OR aarch64_FPR OR Arch_aarch64"
abbreviation aarch64_b19 :: MachRegister where
  "aarch64_b19 \<equiv> 19 OR aarch64_B_REG OR aarch64_FPR OR Arch_aarch64"
abbreviation aarch64_b20 :: MachRegister where
  "aarch64_b20 \<equiv> 20 OR aarch64_B_REG OR aarch64_FPR OR Arch_aarch64"
abbreviation aarch64_b21 :: MachRegister where
  "aarch64_b21 \<equiv> 21 OR aarch64_B_REG OR aarch64_FPR OR Arch_aarch64"
abbreviation aarch64_b22 :: MachRegister where
  "aarch64_b22 \<equiv> 22 OR aarch64_B_REG OR aarch64_FPR OR Arch_aarch64"
abbreviation aarch64_b23 :: MachRegister where
  "aarch64_b23 \<equiv> 23 OR aarch64_B_REG OR aarch64_FPR OR Arch_aarch64"
abbreviation aarch64_b24 :: MachRegister where
  "aarch64_b24 \<equiv> 24 OR aarch64_B_REG OR aarch64_FPR OR Arch_aarch64"
abbreviation aarch64_b25 :: MachRegister where
  "aarch64_b25 \<equiv> 25 OR aarch64_B_REG OR aarch64_FPR OR Arch_aarch64"
abbreviation aarch64_b26 :: MachRegister where
  "aarch64_b26 \<equiv> 26 OR aarch64_B_REG OR aarch64_FPR OR Arch_aarch64"
abbreviation aarch64_b27 :: MachRegister where
  "aarch64_b27 \<equiv> 27 OR aarch64_B_REG OR aarch64_FPR OR Arch_aarch64"
abbreviation aarch64_b28 :: MachRegister where
  "aarch64_b28 \<equiv> 28 OR aarch64_B_REG OR aarch64_FPR OR Arch_aarch64"
abbreviation aarch64_b29 :: MachRegister where
  "aarch64_b29 \<equiv> 29 OR aarch64_B_REG OR aarch64_FPR OR Arch_aarch64"
abbreviation aarch64_b30 :: MachRegister where
  "aarch64_b30 \<equiv> 30 OR aarch64_B_REG OR aarch64_FPR OR Arch_aarch64"
abbreviation aarch64_b31 :: MachRegister where
  "aarch64_b31 \<equiv> 31 OR aarch64_B_REG OR aarch64_FPR OR Arch_aarch64"
abbreviation aarch64_tlbi_vale3is :: MachRegister where
  "aarch64_tlbi_vale3is \<equiv> 0 OR aarch64_FULL OR aarch64_SYSREG OR Arch_aarch64"
abbreviation aarch64_id_aa64pfr1_el1 :: MachRegister where
  "aarch64_id_aa64pfr1_el1 \<equiv> 1 OR aarch64_FULL OR aarch64_SYSREG OR Arch_aarch64"
abbreviation aarch64_sder32_el3 :: MachRegister where
  "aarch64_sder32_el3 \<equiv> 2 OR aarch64_D_REG OR aarch64_SYSREG OR Arch_aarch64"
abbreviation aarch64_icc_ctlr_el3 :: MachRegister where
  "aarch64_icc_ctlr_el3 \<equiv> 3 OR aarch64_D_REG OR aarch64_SYSREG OR Arch_aarch64"
abbreviation aarch64_dacr32_el2 :: MachRegister where
  "aarch64_dacr32_el2 \<equiv> 4 OR aarch64_D_REG OR aarch64_SYSREG OR Arch_aarch64"
abbreviation aarch64_ich_vtr_el2 :: MachRegister where
  "aarch64_ich_vtr_el2 \<equiv> 5 OR aarch64_D_REG OR aarch64_SYSREG OR Arch_aarch64"
abbreviation aarch64_icc_dir_el1 :: MachRegister where
  "aarch64_icc_dir_el1 \<equiv> 6 OR aarch64_D_REG OR aarch64_SYSREG OR Arch_aarch64"
abbreviation aarch64_tlbi_ipas2le1 :: MachRegister where
  "aarch64_tlbi_ipas2le1 \<equiv> 7 OR aarch64_FULL OR aarch64_SYSREG OR Arch_aarch64"
abbreviation aarch64_afsr0_el3 :: MachRegister where
  "aarch64_afsr0_el3 \<equiv> 9 OR aarch64_D_REG OR aarch64_SYSREG OR Arch_aarch64"
abbreviation aarch64_dczid_el0 :: MachRegister where
  "aarch64_dczid_el0 \<equiv> 10 OR aarch64_D_REG OR aarch64_SYSREG OR Arch_aarch64"
abbreviation aarch64_actlr_el1 :: MachRegister where
  "aarch64_actlr_el1 \<equiv> 11 OR aarch64_FULL OR aarch64_SYSREG OR Arch_aarch64"
abbreviation aarch64_sctlr_el3 :: MachRegister where
  "aarch64_sctlr_el3 \<equiv> 12 OR aarch64_D_REG OR aarch64_SYSREG OR Arch_aarch64"
abbreviation aarch64_sctlr_el2 :: MachRegister where
  "aarch64_sctlr_el2 \<equiv> 13 OR aarch64_D_REG OR aarch64_SYSREG OR Arch_aarch64"
abbreviation aarch64_at_s1e2r :: MachRegister where
  "aarch64_at_s1e2r \<equiv> 14 OR aarch64_FULL OR aarch64_SYSREG OR Arch_aarch64"
abbreviation aarch64_ic_iallu :: MachRegister where
  "aarch64_ic_iallu \<equiv> 15 OR aarch64_FULL OR aarch64_SYSREG OR Arch_aarch64"
abbreviation aarch64_icc_igrpen1_el3 :: MachRegister where
  "aarch64_icc_igrpen1_el3 \<equiv> 16 OR aarch64_D_REG OR aarch64_SYSREG OR Arch_aarch64"
abbreviation aarch64_pmceid0_el0 :: MachRegister where
  "aarch64_pmceid0_el0 \<equiv> 17 OR aarch64_D_REG OR aarch64_SYSREG OR Arch_aarch64"
abbreviation aarch64_tpidr_el0 :: MachRegister where
  "aarch64_tpidr_el0 \<equiv> 18 OR aarch64_FULL OR aarch64_SYSREG OR Arch_aarch64"
abbreviation aarch64_tlbi_ipas2le1is :: MachRegister where
  "aarch64_tlbi_ipas2le1is \<equiv> 19 OR aarch64_FULL OR aarch64_SYSREG OR Arch_aarch64"
abbreviation aarch64_contextidr_el1 :: MachRegister where
  "aarch64_contextidr_el1 \<equiv> 20 OR aarch64_D_REG OR aarch64_SYSREG OR Arch_aarch64"
abbreviation aarch64_id_mmfr2_el1 :: MachRegister where
  "aarch64_id_mmfr2_el1 \<equiv> 21 OR aarch64_D_REG OR aarch64_SYSREG OR Arch_aarch64"
abbreviation aarch64_pmevtyper0_el0 :: MachRegister where
  "aarch64_pmevtyper0_el0 \<equiv> 22 OR aarch64_D_REG OR aarch64_SYSREG OR Arch_aarch64"
abbreviation aarch64_pmevtyper1_el0 :: MachRegister where
  "aarch64_pmevtyper1_el0 \<equiv> 23 OR aarch64_D_REG OR aarch64_SYSREG OR Arch_aarch64"
abbreviation aarch64_pmevtyper2_el0 :: MachRegister where
  "aarch64_pmevtyper2_el0 \<equiv> 24 OR aarch64_D_REG OR aarch64_SYSREG OR Arch_aarch64"
abbreviation aarch64_pmevtyper3_el0 :: MachRegister where
  "aarch64_pmevtyper3_el0 \<equiv> 25 OR aarch64_D_REG OR aarch64_SYSREG OR Arch_aarch64"
abbreviation aarch64_pmevtyper4_el0 :: MachRegister where
  "aarch64_pmevtyper4_el0 \<equiv> 26 OR aarch64_D_REG OR aarch64_SYSREG OR Arch_aarch64"
abbreviation aarch64_pmevtyper5_el0 :: MachRegister where
  "aarch64_pmevtyper5_el0 \<equiv> 27 OR aarch64_D_REG OR aarch64_SYSREG OR Arch_aarch64"
abbreviation aarch64_pmevtyper6_el0 :: MachRegister where
  "aarch64_pmevtyper6_el0 \<equiv> 28 OR aarch64_D_REG OR aarch64_SYSREG OR Arch_aarch64"
abbreviation aarch64_pmevtyper7_el0 :: MachRegister where
  "aarch64_pmevtyper7_el0 \<equiv> 29 OR aarch64_D_REG OR aarch64_SYSREG OR Arch_aarch64"
abbreviation aarch64_pmevtyper8_el0 :: MachRegister where
  "aarch64_pmevtyper8_el0 \<equiv> 30 OR aarch64_D_REG OR aarch64_SYSREG OR Arch_aarch64"
abbreviation aarch64_pmevtyper9_el0 :: MachRegister where
  "aarch64_pmevtyper9_el0 \<equiv> 31 OR aarch64_D_REG OR aarch64_SYSREG OR Arch_aarch64"
abbreviation aarch64_pmevtyper10_el0 :: MachRegister where
  "aarch64_pmevtyper10_el0 \<equiv> 32 OR aarch64_D_REG OR aarch64_SYSREG OR Arch_aarch64"
abbreviation aarch64_pmevtyper11_el0 :: MachRegister where
  "aarch64_pmevtyper11_el0 \<equiv> 33 OR aarch64_D_REG OR aarch64_SYSREG OR Arch_aarch64"
abbreviation aarch64_pmevtyper12_el0 :: MachRegister where
  "aarch64_pmevtyper12_el0 \<equiv> 34 OR aarch64_D_REG OR aarch64_SYSREG OR Arch_aarch64"
abbreviation aarch64_pmevtyper13_el0 :: MachRegister where
  "aarch64_pmevtyper13_el0 \<equiv> 35 OR aarch64_D_REG OR aarch64_SYSREG OR Arch_aarch64"
abbreviation aarch64_pmevtyper14_el0 :: MachRegister where
  "aarch64_pmevtyper14_el0 \<equiv> 36 OR aarch64_D_REG OR aarch64_SYSREG OR Arch_aarch64"
abbreviation aarch64_pmevtyper15_el0 :: MachRegister where
  "aarch64_pmevtyper15_el0 \<equiv> 37 OR aarch64_D_REG OR aarch64_SYSREG OR Arch_aarch64"
abbreviation aarch64_pmevtyper16_el0 :: MachRegister where
  "aarch64_pmevtyper16_el0 \<equiv> 38 OR aarch64_D_REG OR aarch64_SYSREG OR Arch_aarch64"
abbreviation aarch64_pmevtyper17_el0 :: MachRegister where
  "aarch64_pmevtyper17_el0 \<equiv> 39 OR aarch64_D_REG OR aarch64_SYSREG OR Arch_aarch64"
abbreviation aarch64_pmevtyper18_el0 :: MachRegister where
  "aarch64_pmevtyper18_el0 \<equiv> 40 OR aarch64_D_REG OR aarch64_SYSREG OR Arch_aarch64"
abbreviation aarch64_pmevtyper19_el0 :: MachRegister where
  "aarch64_pmevtyper19_el0 \<equiv> 41 OR aarch64_D_REG OR aarch64_SYSREG OR Arch_aarch64"
abbreviation aarch64_pmevtyper20_el0 :: MachRegister where
  "aarch64_pmevtyper20_el0 \<equiv> 42 OR aarch64_D_REG OR aarch64_SYSREG OR Arch_aarch64"
abbreviation aarch64_pmevtyper21_el0 :: MachRegister where
  "aarch64_pmevtyper21_el0 \<equiv> 43 OR aarch64_D_REG OR aarch64_SYSREG OR Arch_aarch64"
abbreviation aarch64_pmevtyper22_el0 :: MachRegister where
  "aarch64_pmevtyper22_el0 \<equiv> 44 OR aarch64_D_REG OR aarch64_SYSREG OR Arch_aarch64"
abbreviation aarch64_pmevtyper23_el0 :: MachRegister where
  "aarch64_pmevtyper23_el0 \<equiv> 45 OR aarch64_D_REG OR aarch64_SYSREG OR Arch_aarch64"
abbreviation aarch64_pmevtyper24_el0 :: MachRegister where
  "aarch64_pmevtyper24_el0 \<equiv> 46 OR aarch64_D_REG OR aarch64_SYSREG OR Arch_aarch64"
abbreviation aarch64_pmevtyper25_el0 :: MachRegister where
  "aarch64_pmevtyper25_el0 \<equiv> 47 OR aarch64_D_REG OR aarch64_SYSREG OR Arch_aarch64"
abbreviation aarch64_pmevtyper26_el0 :: MachRegister where
  "aarch64_pmevtyper26_el0 \<equiv> 48 OR aarch64_D_REG OR aarch64_SYSREG OR Arch_aarch64"
abbreviation aarch64_pmevtyper27_el0 :: MachRegister where
  "aarch64_pmevtyper27_el0 \<equiv> 49 OR aarch64_D_REG OR aarch64_SYSREG OR Arch_aarch64"
abbreviation aarch64_pmevtyper28_el0 :: MachRegister where
  "aarch64_pmevtyper28_el0 \<equiv> 50 OR aarch64_D_REG OR aarch64_SYSREG OR Arch_aarch64"
abbreviation aarch64_pmevtyper29_el0 :: MachRegister where
  "aarch64_pmevtyper29_el0 \<equiv> 51 OR aarch64_D_REG OR aarch64_SYSREG OR Arch_aarch64"
abbreviation aarch64_pmevtyper30_el0 :: MachRegister where
  "aarch64_pmevtyper30_el0 \<equiv> 52 OR aarch64_D_REG OR aarch64_SYSREG OR Arch_aarch64"
abbreviation aarch64_mair_el1 :: MachRegister where
  "aarch64_mair_el1 \<equiv> 53 OR aarch64_FULL OR aarch64_SYSREG OR Arch_aarch64"
abbreviation aarch64_tlbi_vale2is :: MachRegister where
  "aarch64_tlbi_vale2is \<equiv> 54 OR aarch64_FULL OR aarch64_SYSREG OR Arch_aarch64"
abbreviation aarch64_ccsidr_el1 :: MachRegister where
  "aarch64_ccsidr_el1 \<equiv> 55 OR aarch64_D_REG OR aarch64_SYSREG OR Arch_aarch64"
abbreviation aarch64_spsr_irq :: MachRegister where
  "aarch64_spsr_irq \<equiv> 56 OR aarch64_D_REG OR aarch64_SYSREG OR Arch_aarch64"
abbreviation aarch64_elr_el3 :: MachRegister where
  "aarch64_elr_el3 \<equiv> 57 OR aarch64_FULL OR aarch64_SYSREG OR Arch_aarch64"
abbreviation aarch64_tlbi_alle3is :: MachRegister where
  "aarch64_tlbi_alle3is \<equiv> 58 OR aarch64_FULL OR aarch64_SYSREG OR Arch_aarch64"
abbreviation aarch64_sp_el0 :: MachRegister where
  "aarch64_sp_el0 \<equiv> 59 OR aarch64_FULL OR aarch64_SYSREG OR Arch_aarch64"
abbreviation aarch64_id_mmfr1_el1 :: MachRegister where
  "aarch64_id_mmfr1_el1 \<equiv> 60 OR aarch64_D_REG OR aarch64_SYSREG OR Arch_aarch64"
abbreviation aarch64_ic_ivau :: MachRegister where
  "aarch64_ic_ivau \<equiv> 61 OR aarch64_FULL OR aarch64_SYSREG OR Arch_aarch64"
abbreviation aarch64_icc_eoir0_el1 :: MachRegister where
  "aarch64_icc_eoir0_el1 \<equiv> 62 OR aarch64_D_REG OR aarch64_SYSREG OR Arch_aarch64"
abbreviation aarch64_icc_sgi0r_el1 :: MachRegister where
  "aarch64_icc_sgi0r_el1 \<equiv> 63 OR aarch64_FULL OR aarch64_SYSREG OR Arch_aarch64"
abbreviation aarch64_icc_sgi1r_el1 :: MachRegister where
  "aarch64_icc_sgi1r_el1 \<equiv> 64 OR aarch64_FULL OR aarch64_SYSREG OR Arch_aarch64"
abbreviation aarch64_tlbi_vae2 :: MachRegister where
  "aarch64_tlbi_vae2 \<equiv> 65 OR aarch64_FULL OR aarch64_SYSREG OR Arch_aarch64"
abbreviation aarch64_cntp_ctl_el0 :: MachRegister where
  "aarch64_cntp_ctl_el0 \<equiv> 66 OR aarch64_D_REG OR aarch64_SYSREG OR Arch_aarch64"
abbreviation aarch64_tpidr_el1 :: MachRegister where
  "aarch64_tpidr_el1 \<equiv> 67 OR aarch64_FULL OR aarch64_SYSREG OR Arch_aarch64"
abbreviation aarch64_dc_civac :: MachRegister where
  "aarch64_dc_civac \<equiv> 68 OR aarch64_FULL OR aarch64_SYSREG OR Arch_aarch64"
abbreviation aarch64_tlbi_ipas2e1is :: MachRegister where
  "aarch64_tlbi_ipas2e1is \<equiv> 69 OR aarch64_FULL OR aarch64_SYSREG OR Arch_aarch64"
abbreviation aarch64_cntv_cval_el0 :: MachRegister where
  "aarch64_cntv_cval_el0 \<equiv> 70 OR aarch64_FULL OR aarch64_SYSREG OR Arch_aarch64"
abbreviation aarch64_icc_bpr0_el1 :: MachRegister where
  "aarch64_icc_bpr0_el1 \<equiv> 71 OR aarch64_D_REG OR aarch64_SYSREG OR Arch_aarch64"
abbreviation aarch64_mdccsr_el0 :: MachRegister where
  "aarch64_mdccsr_el0 \<equiv> 72 OR aarch64_D_REG OR aarch64_SYSREG OR Arch_aarch64"
abbreviation aarch64_dbgclaimset_el1 :: MachRegister where
  "aarch64_dbgclaimset_el1 \<equiv> 73 OR aarch64_D_REG OR aarch64_SYSREG OR Arch_aarch64"
abbreviation aarch64_ich_ap0r0_el2 :: MachRegister where
  "aarch64_ich_ap0r0_el2 \<equiv> 74 OR aarch64_D_REG OR aarch64_SYSREG OR Arch_aarch64"
abbreviation aarch64_ich_ap0r1_el2 :: MachRegister where
  "aarch64_ich_ap0r1_el2 \<equiv> 75 OR aarch64_D_REG OR aarch64_SYSREG OR Arch_aarch64"
abbreviation aarch64_ich_ap0r2_el2 :: MachRegister where
  "aarch64_ich_ap0r2_el2 \<equiv> 76 OR aarch64_D_REG OR aarch64_SYSREG OR Arch_aarch64"
abbreviation aarch64_ich_ap0r3_el2 :: MachRegister where
  "aarch64_ich_ap0r3_el2 \<equiv> 77 OR aarch64_D_REG OR aarch64_SYSREG OR Arch_aarch64"
abbreviation aarch64_dc_ivac :: MachRegister where
  "aarch64_dc_ivac \<equiv> 78 OR aarch64_FULL OR aarch64_SYSREG OR Arch_aarch64"
abbreviation aarch64_ich_elrsr_el2 :: MachRegister where
  "aarch64_ich_elrsr_el2 \<equiv> 79 OR aarch64_D_REG OR aarch64_SYSREG OR Arch_aarch64"
abbreviation aarch64_ich_hcr_el2 :: MachRegister where
  "aarch64_ich_hcr_el2 \<equiv> 80 OR aarch64_D_REG OR aarch64_SYSREG OR Arch_aarch64"
abbreviation aarch64_vbar_el2 :: MachRegister where
  "aarch64_vbar_el2 \<equiv> 81 OR aarch64_FULL OR aarch64_SYSREG OR Arch_aarch64"
abbreviation aarch64_icc_asgi1r_el1 :: MachRegister where
  "aarch64_icc_asgi1r_el1 \<equiv> 82 OR aarch64_FULL OR aarch64_SYSREG OR Arch_aarch64"
abbreviation aarch64_id_aa64afr1_el1 :: MachRegister where
  "aarch64_id_aa64afr1_el1 \<equiv> 83 OR aarch64_FULL OR aarch64_SYSREG OR Arch_aarch64"
abbreviation aarch64_nzcv :: MachRegister where
  "aarch64_nzcv \<equiv> 84 OR aarch64_D_REG OR aarch64_SYSREG OR Arch_aarch64"
abbreviation aarch64_ttbr0_el1 :: MachRegister where
  "aarch64_ttbr0_el1 \<equiv> 85 OR aarch64_FULL OR aarch64_SYSREG OR Arch_aarch64"
abbreviation aarch64_actlr_el3 :: MachRegister where
  "aarch64_actlr_el3 \<equiv> 86 OR aarch64_FULL OR aarch64_SYSREG OR Arch_aarch64"
abbreviation aarch64_mdrar_el1 :: MachRegister where
  "aarch64_mdrar_el1 \<equiv> 87 OR aarch64_FULL OR aarch64_SYSREG OR Arch_aarch64"
abbreviation aarch64_rmr_el3 :: MachRegister where
  "aarch64_rmr_el3 \<equiv> 88 OR aarch64_D_REG OR aarch64_SYSREG OR Arch_aarch64"
abbreviation aarch64_cntkctl_el1 :: MachRegister where
  "aarch64_cntkctl_el1 \<equiv> 89 OR aarch64_D_REG OR aarch64_SYSREG OR Arch_aarch64"
abbreviation aarch64_rvbar_el3 :: MachRegister where
  "aarch64_rvbar_el3 \<equiv> 90 OR aarch64_FULL OR aarch64_SYSREG OR Arch_aarch64"
abbreviation aarch64_id_dfr0_el1 :: MachRegister where
  "aarch64_id_dfr0_el1 \<equiv> 91 OR aarch64_D_REG OR aarch64_SYSREG OR Arch_aarch64"
abbreviation aarch64_at_s1e1r :: MachRegister where
  "aarch64_at_s1e1r \<equiv> 92 OR aarch64_FULL OR aarch64_SYSREG OR Arch_aarch64"
abbreviation aarch64_icc_ap1r0_el1 :: MachRegister where
  "aarch64_icc_ap1r0_el1 \<equiv> 93 OR aarch64_D_REG OR aarch64_SYSREG OR Arch_aarch64"
abbreviation aarch64_icc_ap1r1_el1 :: MachRegister where
  "aarch64_icc_ap1r1_el1 \<equiv> 94 OR aarch64_D_REG OR aarch64_SYSREG OR Arch_aarch64"
abbreviation aarch64_icc_ap1r2_el1 :: MachRegister where
  "aarch64_icc_ap1r2_el1 \<equiv> 95 OR aarch64_D_REG OR aarch64_SYSREG OR Arch_aarch64"
abbreviation aarch64_icc_ap1r3_el1 :: MachRegister where
  "aarch64_icc_ap1r3_el1 \<equiv> 96 OR aarch64_D_REG OR aarch64_SYSREG OR Arch_aarch64"
abbreviation aarch64_icc_pmr_el1 :: MachRegister where
  "aarch64_icc_pmr_el1 \<equiv> 97 OR aarch64_D_REG OR aarch64_SYSREG OR Arch_aarch64"
abbreviation aarch64_pmceid1_el0 :: MachRegister where
  "aarch64_pmceid1_el0 \<equiv> 98 OR aarch64_D_REG OR aarch64_SYSREG OR Arch_aarch64"
abbreviation aarch64_dc_csw :: MachRegister where
  "aarch64_dc_csw \<equiv> 99 OR aarch64_FULL OR aarch64_SYSREG OR Arch_aarch64"
abbreviation aarch64_id_pfr1_el1 :: MachRegister where
  "aarch64_id_pfr1_el1 \<equiv> 100 OR aarch64_D_REG OR aarch64_SYSREG OR Arch_aarch64"
abbreviation aarch64_id_afr0_el1 :: MachRegister where
  "aarch64_id_afr0_el1 \<equiv> 101 OR aarch64_D_REG OR aarch64_SYSREG OR Arch_aarch64"
abbreviation aarch64_amair_el2 :: MachRegister where
  "aarch64_amair_el2 \<equiv> 102 OR aarch64_FULL OR aarch64_SYSREG OR Arch_aarch64"
abbreviation aarch64_pmovsset_el0 :: MachRegister where
  "aarch64_pmovsset_el0 \<equiv> 103 OR aarch64_D_REG OR aarch64_SYSREG OR Arch_aarch64"
abbreviation aarch64_tlbi_vmalle1 :: MachRegister where
  "aarch64_tlbi_vmalle1 \<equiv> 104 OR aarch64_FULL OR aarch64_SYSREG OR Arch_aarch64"
abbreviation aarch64_tlbi_vale2 :: MachRegister where
  "aarch64_tlbi_vale2 \<equiv> 105 OR aarch64_FULL OR aarch64_SYSREG OR Arch_aarch64"
abbreviation aarch64_at_s12e0w :: MachRegister where
  "aarch64_at_s12e0w \<equiv> 106 OR aarch64_FULL OR aarch64_SYSREG OR Arch_aarch64"
abbreviation aarch64_id_isar5_el1 :: MachRegister where
  "aarch64_id_isar5_el1 \<equiv> 107 OR aarch64_D_REG OR aarch64_SYSREG OR Arch_aarch64"
abbreviation aarch64_tcr_el1 :: MachRegister where
  "aarch64_tcr_el1 \<equiv> 108 OR aarch64_FULL OR aarch64_SYSREG OR Arch_aarch64"
abbreviation aarch64_pmevcntr0_el0 :: MachRegister where
  "aarch64_pmevcntr0_el0 \<equiv> 109 OR aarch64_D_REG OR aarch64_SYSREG OR Arch_aarch64"
abbreviation aarch64_pmevcntr1_el0 :: MachRegister where
  "aarch64_pmevcntr1_el0 \<equiv> 110 OR aarch64_D_REG OR aarch64_SYSREG OR Arch_aarch64"
abbreviation aarch64_pmevcntr2_el0 :: MachRegister where
  "aarch64_pmevcntr2_el0 \<equiv> 111 OR aarch64_D_REG OR aarch64_SYSREG OR Arch_aarch64"
abbreviation aarch64_pmevcntr3_el0 :: MachRegister where
  "aarch64_pmevcntr3_el0 \<equiv> 112 OR aarch64_D_REG OR aarch64_SYSREG OR Arch_aarch64"
abbreviation aarch64_pmevcntr4_el0 :: MachRegister where
  "aarch64_pmevcntr4_el0 \<equiv> 113 OR aarch64_D_REG OR aarch64_SYSREG OR Arch_aarch64"
abbreviation aarch64_pmevcntr5_el0 :: MachRegister where
  "aarch64_pmevcntr5_el0 \<equiv> 114 OR aarch64_D_REG OR aarch64_SYSREG OR Arch_aarch64"
abbreviation aarch64_pmevcntr6_el0 :: MachRegister where
  "aarch64_pmevcntr6_el0 \<equiv> 115 OR aarch64_D_REG OR aarch64_SYSREG OR Arch_aarch64"
abbreviation aarch64_pmevcntr7_el0 :: MachRegister where
  "aarch64_pmevcntr7_el0 \<equiv> 116 OR aarch64_D_REG OR aarch64_SYSREG OR Arch_aarch64"
abbreviation aarch64_pmevcntr8_el0 :: MachRegister where
  "aarch64_pmevcntr8_el0 \<equiv> 117 OR aarch64_D_REG OR aarch64_SYSREG OR Arch_aarch64"
abbreviation aarch64_pmevcntr9_el0 :: MachRegister where
  "aarch64_pmevcntr9_el0 \<equiv> 118 OR aarch64_D_REG OR aarch64_SYSREG OR Arch_aarch64"
abbreviation aarch64_pmevcntr10_el0 :: MachRegister where
  "aarch64_pmevcntr10_el0 \<equiv> 119 OR aarch64_D_REG OR aarch64_SYSREG OR Arch_aarch64"
abbreviation aarch64_pmevcntr11_el0 :: MachRegister where
  "aarch64_pmevcntr11_el0 \<equiv> 120 OR aarch64_D_REG OR aarch64_SYSREG OR Arch_aarch64"
abbreviation aarch64_pmevcntr12_el0 :: MachRegister where
  "aarch64_pmevcntr12_el0 \<equiv> 121 OR aarch64_D_REG OR aarch64_SYSREG OR Arch_aarch64"
abbreviation aarch64_pmevcntr13_el0 :: MachRegister where
  "aarch64_pmevcntr13_el0 \<equiv> 122 OR aarch64_D_REG OR aarch64_SYSREG OR Arch_aarch64"
abbreviation aarch64_pmevcntr14_el0 :: MachRegister where
  "aarch64_pmevcntr14_el0 \<equiv> 123 OR aarch64_D_REG OR aarch64_SYSREG OR Arch_aarch64"
abbreviation aarch64_pmevcntr15_el0 :: MachRegister where
  "aarch64_pmevcntr15_el0 \<equiv> 124 OR aarch64_D_REG OR aarch64_SYSREG OR Arch_aarch64"
abbreviation aarch64_pmevcntr16_el0 :: MachRegister where
  "aarch64_pmevcntr16_el0 \<equiv> 125 OR aarch64_D_REG OR aarch64_SYSREG OR Arch_aarch64"
abbreviation aarch64_pmevcntr17_el0 :: MachRegister where
  "aarch64_pmevcntr17_el0 \<equiv> 126 OR aarch64_D_REG OR aarch64_SYSREG OR Arch_aarch64"
abbreviation aarch64_pmevcntr18_el0 :: MachRegister where
  "aarch64_pmevcntr18_el0 \<equiv> 127 OR aarch64_D_REG OR aarch64_SYSREG OR Arch_aarch64"
abbreviation aarch64_pmevcntr19_el0 :: MachRegister where
  "aarch64_pmevcntr19_el0 \<equiv> 128 OR aarch64_D_REG OR aarch64_SYSREG OR Arch_aarch64"
abbreviation aarch64_pmevcntr20_el0 :: MachRegister where
  "aarch64_pmevcntr20_el0 \<equiv> 129 OR aarch64_D_REG OR aarch64_SYSREG OR Arch_aarch64"
abbreviation aarch64_pmevcntr21_el0 :: MachRegister where
  "aarch64_pmevcntr21_el0 \<equiv> 130 OR aarch64_D_REG OR aarch64_SYSREG OR Arch_aarch64"
abbreviation aarch64_pmevcntr22_el0 :: MachRegister where
  "aarch64_pmevcntr22_el0 \<equiv> 131 OR aarch64_D_REG OR aarch64_SYSREG OR Arch_aarch64"
abbreviation aarch64_pmevcntr23_el0 :: MachRegister where
  "aarch64_pmevcntr23_el0 \<equiv> 132 OR aarch64_D_REG OR aarch64_SYSREG OR Arch_aarch64"
abbreviation aarch64_pmevcntr24_el0 :: MachRegister where
  "aarch64_pmevcntr24_el0 \<equiv> 133 OR aarch64_D_REG OR aarch64_SYSREG OR Arch_aarch64"
abbreviation aarch64_pmevcntr25_el0 :: MachRegister where
  "aarch64_pmevcntr25_el0 \<equiv> 134 OR aarch64_D_REG OR aarch64_SYSREG OR Arch_aarch64"
abbreviation aarch64_pmevcntr26_el0 :: MachRegister where
  "aarch64_pmevcntr26_el0 \<equiv> 135 OR aarch64_D_REG OR aarch64_SYSREG OR Arch_aarch64"
abbreviation aarch64_pmevcntr27_el0 :: MachRegister where
  "aarch64_pmevcntr27_el0 \<equiv> 136 OR aarch64_D_REG OR aarch64_SYSREG OR Arch_aarch64"
abbreviation aarch64_pmevcntr28_el0 :: MachRegister where
  "aarch64_pmevcntr28_el0 \<equiv> 137 OR aarch64_D_REG OR aarch64_SYSREG OR Arch_aarch64"
abbreviation aarch64_pmevcntr29_el0 :: MachRegister where
  "aarch64_pmevcntr29_el0 \<equiv> 138 OR aarch64_D_REG OR aarch64_SYSREG OR Arch_aarch64"
abbreviation aarch64_pmevcntr30_el0 :: MachRegister where
  "aarch64_pmevcntr30_el0 \<equiv> 139 OR aarch64_D_REG OR aarch64_SYSREG OR Arch_aarch64"
abbreviation aarch64_dbgdtr_el0 :: MachRegister where
  "aarch64_dbgdtr_el0 \<equiv> 140 OR aarch64_FULL OR aarch64_SYSREG OR Arch_aarch64"
abbreviation aarch64_amair_el3 :: MachRegister where
  "aarch64_amair_el3 \<equiv> 141 OR aarch64_FULL OR aarch64_SYSREG OR Arch_aarch64"
abbreviation aarch64_rvbar_el1 :: MachRegister where
  "aarch64_rvbar_el1 \<equiv> 142 OR aarch64_FULL OR aarch64_SYSREG OR Arch_aarch64"
abbreviation aarch64_dc_cvau :: MachRegister where
  "aarch64_dc_cvau \<equiv> 143 OR aarch64_FULL OR aarch64_SYSREG OR Arch_aarch64"
abbreviation aarch64_afsr0_el2 :: MachRegister where
  "aarch64_afsr0_el2 \<equiv> 144 OR aarch64_D_REG OR aarch64_SYSREG OR Arch_aarch64"
abbreviation aarch64_icc_iar0_el1 :: MachRegister where
  "aarch64_icc_iar0_el1 \<equiv> 145 OR aarch64_D_REG OR aarch64_SYSREG OR Arch_aarch64"
abbreviation aarch64_icc_bpr1_el1 :: MachRegister where
  "aarch64_icc_bpr1_el1 \<equiv> 146 OR aarch64_D_REG OR aarch64_SYSREG OR Arch_aarch64"
abbreviation aarch64_dc_cisw :: MachRegister where
  "aarch64_dc_cisw \<equiv> 147 OR aarch64_FULL OR aarch64_SYSREG OR Arch_aarch64"
abbreviation aarch64_hpfar_el2 :: MachRegister where
  "aarch64_hpfar_el2 \<equiv> 148 OR aarch64_FULL OR aarch64_SYSREG OR Arch_aarch64"
abbreviation aarch64_spsr_abt :: MachRegister where
  "aarch64_spsr_abt \<equiv> 149 OR aarch64_D_REG OR aarch64_SYSREG OR Arch_aarch64"
abbreviation aarch64_csselr_el1 :: MachRegister where
  "aarch64_csselr_el1 \<equiv> 150 OR aarch64_D_REG OR aarch64_SYSREG OR Arch_aarch64"
abbreviation aarch64_pmintenclr_el1 :: MachRegister where
  "aarch64_pmintenclr_el1 \<equiv> 151 OR aarch64_D_REG OR aarch64_SYSREG OR Arch_aarch64"
abbreviation aarch64_tlbi_vaae1 :: MachRegister where
  "aarch64_tlbi_vaae1 \<equiv> 152 OR aarch64_FULL OR aarch64_SYSREG OR Arch_aarch64"
abbreviation aarch64_far_el2 :: MachRegister where
  "aarch64_far_el2 \<equiv> 153 OR aarch64_FULL OR aarch64_SYSREG OR Arch_aarch64"
abbreviation aarch64_currentel :: MachRegister where
  "aarch64_currentel \<equiv> 154 OR aarch64_D_REG OR aarch64_SYSREG OR Arch_aarch64"
abbreviation aarch64_dbgprcr_el1 :: MachRegister where
  "aarch64_dbgprcr_el1 \<equiv> 155 OR aarch64_D_REG OR aarch64_SYSREG OR Arch_aarch64"
abbreviation aarch64_tlbi_ipas2e1 :: MachRegister where
  "aarch64_tlbi_ipas2e1 \<equiv> 156 OR aarch64_FULL OR aarch64_SYSREG OR Arch_aarch64"
abbreviation aarch64_mair_el3 :: MachRegister where
  "aarch64_mair_el3 \<equiv> 157 OR aarch64_FULL OR aarch64_SYSREG OR Arch_aarch64"
abbreviation aarch64_ttbr1_el1 :: MachRegister where
  "aarch64_ttbr1_el1 \<equiv> 158 OR aarch64_FULL OR aarch64_SYSREG OR Arch_aarch64"
abbreviation aarch64_cntvct_el0 :: MachRegister where
  "aarch64_cntvct_el0 \<equiv> 159 OR aarch64_FULL OR aarch64_SYSREG OR Arch_aarch64"
abbreviation aarch64_tlbi_aside1is :: MachRegister where
  "aarch64_tlbi_aside1is \<equiv> 160 OR aarch64_FULL OR aarch64_SYSREG OR Arch_aarch64"
abbreviation aarch64_scr_el3 :: MachRegister where
  "aarch64_scr_el3 \<equiv> 161 OR aarch64_D_REG OR aarch64_SYSREG OR Arch_aarch64"
abbreviation aarch64_mvfr0_el1 :: MachRegister where
  "aarch64_mvfr0_el1 \<equiv> 162 OR aarch64_D_REG OR aarch64_SYSREG OR Arch_aarch64"
abbreviation aarch64_tlbi_alle1 :: MachRegister where
  "aarch64_tlbi_alle1 \<equiv> 163 OR aarch64_FULL OR aarch64_SYSREG OR Arch_aarch64"
abbreviation aarch64_pmovsclr_el0 :: MachRegister where
  "aarch64_pmovsclr_el0 \<equiv> 164 OR aarch64_D_REG OR aarch64_SYSREG OR Arch_aarch64"
abbreviation aarch64_mvfr1_el1 :: MachRegister where
  "aarch64_mvfr1_el1 \<equiv> 165 OR aarch64_D_REG OR aarch64_SYSREG OR Arch_aarch64"
abbreviation aarch64_tlbi_vaale1 :: MachRegister where
  "aarch64_tlbi_vaale1 \<equiv> 166 OR aarch64_FULL OR aarch64_SYSREG OR Arch_aarch64"
abbreviation aarch64_elr_el1 :: MachRegister where
  "aarch64_elr_el1 \<equiv> 167 OR aarch64_FULL OR aarch64_SYSREG OR Arch_aarch64"
abbreviation aarch64_rvbar_el2 :: MachRegister where
  "aarch64_rvbar_el2 \<equiv> 168 OR aarch64_FULL OR aarch64_SYSREG OR Arch_aarch64"
abbreviation aarch64_esr_el1 :: MachRegister where
  "aarch64_esr_el1 \<equiv> 169 OR aarch64_D_REG OR aarch64_SYSREG OR Arch_aarch64"
abbreviation aarch64_tlbi_aside1 :: MachRegister where
  "aarch64_tlbi_aside1 \<equiv> 170 OR aarch64_FULL OR aarch64_SYSREG OR Arch_aarch64"
abbreviation aarch64_osdtrrx_el1 :: MachRegister where
  "aarch64_osdtrrx_el1 \<equiv> 171 OR aarch64_D_REG OR aarch64_SYSREG OR Arch_aarch64"
abbreviation aarch64_pmcntenset_el0 :: MachRegister where
  "aarch64_pmcntenset_el0 \<equiv> 172 OR aarch64_D_REG OR aarch64_SYSREG OR Arch_aarch64"
abbreviation aarch64_dspsr_el0 :: MachRegister where
  "aarch64_dspsr_el0 \<equiv> 173 OR aarch64_D_REG OR aarch64_SYSREG OR Arch_aarch64"
abbreviation aarch64_dc_zva :: MachRegister where
  "aarch64_dc_zva \<equiv> 174 OR aarch64_FULL OR aarch64_SYSREG OR Arch_aarch64"
abbreviation aarch64_ich_misr_el2 :: MachRegister where
  "aarch64_ich_misr_el2 \<equiv> 175 OR aarch64_D_REG OR aarch64_SYSREG OR Arch_aarch64"
abbreviation aarch64_vbar_el1 :: MachRegister where
  "aarch64_vbar_el1 \<equiv> 176 OR aarch64_FULL OR aarch64_SYSREG OR Arch_aarch64"
abbreviation aarch64_id_isar1_el1 :: MachRegister where
  "aarch64_id_isar1_el1 \<equiv> 177 OR aarch64_D_REG OR aarch64_SYSREG OR Arch_aarch64"
abbreviation aarch64_cpacr_el1 :: MachRegister where
  "aarch64_cpacr_el1 \<equiv> 178 OR aarch64_D_REG OR aarch64_SYSREG OR Arch_aarch64"
abbreviation aarch64_par_el1 :: MachRegister where
  "aarch64_par_el1 \<equiv> 179 OR aarch64_FULL OR aarch64_SYSREG OR Arch_aarch64"
abbreviation aarch64_cnthp_ctl_el2 :: MachRegister where
  "aarch64_cnthp_ctl_el2 \<equiv> 180 OR aarch64_D_REG OR aarch64_SYSREG OR Arch_aarch64"
abbreviation aarch64_actlr_el2 :: MachRegister where
  "aarch64_actlr_el2 \<equiv> 181 OR aarch64_FULL OR aarch64_SYSREG OR Arch_aarch64"
abbreviation aarch64_spsr_fiq :: MachRegister where
  "aarch64_spsr_fiq \<equiv> 182 OR aarch64_D_REG OR aarch64_SYSREG OR Arch_aarch64"
abbreviation aarch64_id_aa64pfr0_el1 :: MachRegister where
  "aarch64_id_aa64pfr0_el1 \<equiv> 183 OR aarch64_FULL OR aarch64_SYSREG OR Arch_aarch64"
abbreviation aarch64_tpidr_el3 :: MachRegister where
  "aarch64_tpidr_el3 \<equiv> 184 OR aarch64_FULL OR aarch64_SYSREG OR Arch_aarch64"
abbreviation aarch64_at_s1e2w :: MachRegister where
  "aarch64_at_s1e2w \<equiv> 185 OR aarch64_FULL OR aarch64_SYSREG OR Arch_aarch64"
abbreviation aarch64_tlbi_alle2 :: MachRegister where
  "aarch64_tlbi_alle2 \<equiv> 186 OR aarch64_FULL OR aarch64_SYSREG OR Arch_aarch64"
abbreviation aarch64_id_isar4_el1 :: MachRegister where
  "aarch64_id_isar4_el1 \<equiv> 187 OR aarch64_D_REG OR aarch64_SYSREG OR Arch_aarch64"
abbreviation aarch64_dbgvcr32_el2 :: MachRegister where
  "aarch64_dbgvcr32_el2 \<equiv> 188 OR aarch64_D_REG OR aarch64_SYSREG OR Arch_aarch64"
abbreviation aarch64_hcr_el2 :: MachRegister where
  "aarch64_hcr_el2 \<equiv> 189 OR aarch64_FULL OR aarch64_SYSREG OR Arch_aarch64"
abbreviation aarch64_ich_eisr_el2 :: MachRegister where
  "aarch64_ich_eisr_el2 \<equiv> 190 OR aarch64_D_REG OR aarch64_SYSREG OR Arch_aarch64"
abbreviation aarch64_mdccint_el1 :: MachRegister where
  "aarch64_mdccint_el1 \<equiv> 191 OR aarch64_D_REG OR aarch64_SYSREG OR Arch_aarch64"
abbreviation aarch64_dlr_el0 :: MachRegister where
  "aarch64_dlr_el0 \<equiv> 192 OR aarch64_FULL OR aarch64_SYSREG OR Arch_aarch64"
abbreviation aarch64_tpidr_el2 :: MachRegister where
  "aarch64_tpidr_el2 \<equiv> 193 OR aarch64_FULL OR aarch64_SYSREG OR Arch_aarch64"
abbreviation aarch64_pmuserenr_el0 :: MachRegister where
  "aarch64_pmuserenr_el0 \<equiv> 194 OR aarch64_D_REG OR aarch64_SYSREG OR Arch_aarch64"
abbreviation aarch64_oseccr_el1 :: MachRegister where
  "aarch64_oseccr_el1 \<equiv> 195 OR aarch64_D_REG OR aarch64_SYSREG OR Arch_aarch64"
abbreviation aarch64_tlbi_vmalls12e1is :: MachRegister where
  "aarch64_tlbi_vmalls12e1is \<equiv> 196 OR aarch64_FULL OR aarch64_SYSREG OR Arch_aarch64"
abbreviation aarch64_mdscr_el1 :: MachRegister where
  "aarch64_mdscr_el1 \<equiv> 197 OR aarch64_D_REG OR aarch64_SYSREG OR Arch_aarch64"
abbreviation aarch64_ich_vmcr_el2 :: MachRegister where
  "aarch64_ich_vmcr_el2 \<equiv> 198 OR aarch64_D_REG OR aarch64_SYSREG OR Arch_aarch64"
abbreviation aarch64_far_el3 :: MachRegister where
  "aarch64_far_el3 \<equiv> 199 OR aarch64_FULL OR aarch64_SYSREG OR Arch_aarch64"
abbreviation aarch64_spsr_el2 :: MachRegister where
  "aarch64_spsr_el2 \<equiv> 200 OR aarch64_D_REG OR aarch64_SYSREG OR Arch_aarch64"
abbreviation aarch64_oslsr_el1 :: MachRegister where
  "aarch64_oslsr_el1 \<equiv> 201 OR aarch64_D_REG OR aarch64_SYSREG OR Arch_aarch64"
abbreviation aarch64_tlbi_vae1 :: MachRegister where
  "aarch64_tlbi_vae1 \<equiv> 202 OR aarch64_FULL OR aarch64_SYSREG OR Arch_aarch64"
abbreviation aarch64_daif :: MachRegister where
  "aarch64_daif \<equiv> 203 OR aarch64_D_REG OR aarch64_SYSREG OR Arch_aarch64"
abbreviation aarch64_far_el1 :: MachRegister where
  "aarch64_far_el1 \<equiv> 204 OR aarch64_FULL OR aarch64_SYSREG OR Arch_aarch64"
abbreviation aarch64_hstr_el2 :: MachRegister where
  "aarch64_hstr_el2 \<equiv> 205 OR aarch64_D_REG OR aarch64_SYSREG OR Arch_aarch64"
abbreviation aarch64_clidr_el1 :: MachRegister where
  "aarch64_clidr_el1 \<equiv> 206 OR aarch64_FULL OR aarch64_SYSREG OR Arch_aarch64"
abbreviation aarch64_vttbr_el2 :: MachRegister where
  "aarch64_vttbr_el2 \<equiv> 207 OR aarch64_FULL OR aarch64_SYSREG OR Arch_aarch64"
abbreviation aarch64_id_aa64afr0_el1 :: MachRegister where
  "aarch64_id_aa64afr0_el1 \<equiv> 208 OR aarch64_FULL OR aarch64_SYSREG OR Arch_aarch64"
abbreviation aarch64_icc_rpr_el1 :: MachRegister where
  "aarch64_icc_rpr_el1 \<equiv> 209 OR aarch64_D_REG OR aarch64_SYSREG OR Arch_aarch64"
abbreviation aarch64_cntps_ctl_el1 :: MachRegister where
  "aarch64_cntps_ctl_el1 \<equiv> 210 OR aarch64_D_REG OR aarch64_SYSREG OR Arch_aarch64"
abbreviation aarch64_afsr1_el1 :: MachRegister where
  "aarch64_afsr1_el1 \<equiv> 211 OR aarch64_D_REG OR aarch64_SYSREG OR Arch_aarch64"
abbreviation aarch64_spsel :: MachRegister where
  "aarch64_spsel \<equiv> 212 OR aarch64_D_REG OR aarch64_SYSREG OR Arch_aarch64"
abbreviation aarch64_pmcr_el0 :: MachRegister where
  "aarch64_pmcr_el0 \<equiv> 214 OR aarch64_D_REG OR aarch64_SYSREG OR Arch_aarch64"
abbreviation aarch64_tlbi_vaae1is :: MachRegister where
  "aarch64_tlbi_vaae1is \<equiv> 215 OR aarch64_FULL OR aarch64_SYSREG OR Arch_aarch64"
abbreviation aarch64_icc_sre_el1 :: MachRegister where
  "aarch64_icc_sre_el1 \<equiv> 216 OR aarch64_D_REG OR aarch64_SYSREG OR Arch_aarch64"
abbreviation aarch64_cntpct_el0 :: MachRegister where
  "aarch64_cntpct_el0 \<equiv> 217 OR aarch64_FULL OR aarch64_SYSREG OR Arch_aarch64"
abbreviation aarch64_tlbi_alle2is :: MachRegister where
  "aarch64_tlbi_alle2is \<equiv> 218 OR aarch64_FULL OR aarch64_SYSREG OR Arch_aarch64"
abbreviation aarch64_icc_igrpen1_el1 :: MachRegister where
  "aarch64_icc_igrpen1_el1 \<equiv> 219 OR aarch64_D_REG OR aarch64_SYSREG OR Arch_aarch64"
abbreviation aarch64_ifsr32_el2 :: MachRegister where
  "aarch64_ifsr32_el2 \<equiv> 220 OR aarch64_D_REG OR aarch64_SYSREG OR Arch_aarch64"
abbreviation aarch64_icc_igrpen0_el1 :: MachRegister where
  "aarch64_icc_igrpen0_el1 \<equiv> 221 OR aarch64_D_REG OR aarch64_SYSREG OR Arch_aarch64"
abbreviation aarch64_tpidrro_el0 :: MachRegister where
  "aarch64_tpidrro_el0 \<equiv> 222 OR aarch64_FULL OR aarch64_SYSREG OR Arch_aarch64"
abbreviation aarch64_hacr_el2 :: MachRegister where
  "aarch64_hacr_el2 \<equiv> 223 OR aarch64_D_REG OR aarch64_SYSREG OR Arch_aarch64"
abbreviation aarch64_at_s1e0w :: MachRegister where
  "aarch64_at_s1e0w \<equiv> 224 OR aarch64_FULL OR aarch64_SYSREG OR Arch_aarch64"
abbreviation aarch64_pmccfiltr_el0 :: MachRegister where
  "aarch64_pmccfiltr_el0 \<equiv> 225 OR aarch64_D_REG OR aarch64_SYSREG OR Arch_aarch64"
abbreviation aarch64_cnthp_tval_el2 :: MachRegister where
  "aarch64_cnthp_tval_el2 \<equiv> 226 OR aarch64_D_REG OR aarch64_SYSREG OR Arch_aarch64"
abbreviation aarch64_at_s12e0r :: MachRegister where
  "aarch64_at_s12e0r \<equiv> 227 OR aarch64_FULL OR aarch64_SYSREG OR Arch_aarch64"
abbreviation aarch64_cntvoff_el2 :: MachRegister where
  "aarch64_cntvoff_el2 \<equiv> 228 OR aarch64_FULL OR aarch64_SYSREG OR Arch_aarch64"
abbreviation aarch64_icc_sre_el2 :: MachRegister where
  "aarch64_icc_sre_el2 \<equiv> 229 OR aarch64_D_REG OR aarch64_SYSREG OR Arch_aarch64"
abbreviation aarch64_spsr_el1 :: MachRegister where
  "aarch64_spsr_el1 \<equiv> 230 OR aarch64_D_REG OR aarch64_SYSREG OR Arch_aarch64"
abbreviation aarch64_isr_el1 :: MachRegister where
  "aarch64_isr_el1 \<equiv> 231 OR aarch64_D_REG OR aarch64_SYSREG OR Arch_aarch64"
abbreviation aarch64_cnthctl_el2 :: MachRegister where
  "aarch64_cnthctl_el2 \<equiv> 232 OR aarch64_D_REG OR aarch64_SYSREG OR Arch_aarch64"
abbreviation aarch64_vtcr_el2 :: MachRegister where
  "aarch64_vtcr_el2 \<equiv> 233 OR aarch64_D_REG OR aarch64_SYSREG OR Arch_aarch64"
abbreviation aarch64_vmpidr_el2 :: MachRegister where
  "aarch64_vmpidr_el2 \<equiv> 234 OR aarch64_FULL OR aarch64_SYSREG OR Arch_aarch64"
abbreviation aarch64_pmswinc_el0 :: MachRegister where
  "aarch64_pmswinc_el0 \<equiv> 235 OR aarch64_D_REG OR aarch64_SYSREG OR Arch_aarch64"
abbreviation aarch64_id_mmfr0_el1 :: MachRegister where
  "aarch64_id_mmfr0_el1 \<equiv> 236 OR aarch64_D_REG OR aarch64_SYSREG OR Arch_aarch64"
abbreviation aarch64_cntp_cval_el0 :: MachRegister where
  "aarch64_cntp_cval_el0 \<equiv> 237 OR aarch64_FULL OR aarch64_SYSREG OR Arch_aarch64"
abbreviation aarch64_icc_hppir0_el1 :: MachRegister where
  "aarch64_icc_hppir0_el1 \<equiv> 238 OR aarch64_D_REG OR aarch64_SYSREG OR Arch_aarch64"
abbreviation aarch64_mdcr_el3 :: MachRegister where
  "aarch64_mdcr_el3 \<equiv> 239 OR aarch64_D_REG OR aarch64_SYSREG OR Arch_aarch64"
abbreviation aarch64_dbgwvr0_el1 :: MachRegister where
  "aarch64_dbgwvr0_el1 \<equiv> 240 OR aarch64_FULL OR aarch64_SYSREG OR Arch_aarch64"
abbreviation aarch64_dbgwvr1_el1 :: MachRegister where
  "aarch64_dbgwvr1_el1 \<equiv> 241 OR aarch64_FULL OR aarch64_SYSREG OR Arch_aarch64"
abbreviation aarch64_dbgwvr2_el1 :: MachRegister where
  "aarch64_dbgwvr2_el1 \<equiv> 242 OR aarch64_FULL OR aarch64_SYSREG OR Arch_aarch64"
abbreviation aarch64_dbgwvr3_el1 :: MachRegister where
  "aarch64_dbgwvr3_el1 \<equiv> 243 OR aarch64_FULL OR aarch64_SYSREG OR Arch_aarch64"
abbreviation aarch64_dbgwvr4_el1 :: MachRegister where
  "aarch64_dbgwvr4_el1 \<equiv> 244 OR aarch64_FULL OR aarch64_SYSREG OR Arch_aarch64"
abbreviation aarch64_dbgwvr5_el1 :: MachRegister where
  "aarch64_dbgwvr5_el1 \<equiv> 245 OR aarch64_FULL OR aarch64_SYSREG OR Arch_aarch64"
abbreviation aarch64_dbgwvr6_el1 :: MachRegister where
  "aarch64_dbgwvr6_el1 \<equiv> 246 OR aarch64_FULL OR aarch64_SYSREG OR Arch_aarch64"
abbreviation aarch64_dbgwvr7_el1 :: MachRegister where
  "aarch64_dbgwvr7_el1 \<equiv> 247 OR aarch64_FULL OR aarch64_SYSREG OR Arch_aarch64"
abbreviation aarch64_dbgwvr8_el1 :: MachRegister where
  "aarch64_dbgwvr8_el1 \<equiv> 248 OR aarch64_FULL OR aarch64_SYSREG OR Arch_aarch64"
abbreviation aarch64_dbgwvr9_el1 :: MachRegister where
  "aarch64_dbgwvr9_el1 \<equiv> 249 OR aarch64_FULL OR aarch64_SYSREG OR Arch_aarch64"
abbreviation aarch64_dbgwvr10_el1 :: MachRegister where
  "aarch64_dbgwvr10_el1 \<equiv> 250 OR aarch64_FULL OR aarch64_SYSREG OR Arch_aarch64"
abbreviation aarch64_dbgwvr11_el1 :: MachRegister where
  "aarch64_dbgwvr11_el1 \<equiv> 251 OR aarch64_FULL OR aarch64_SYSREG OR Arch_aarch64"
abbreviation aarch64_dbgwvr12_el1 :: MachRegister where
  "aarch64_dbgwvr12_el1 \<equiv> 252 OR aarch64_FULL OR aarch64_SYSREG OR Arch_aarch64"
abbreviation aarch64_dbgwvr13_el1 :: MachRegister where
  "aarch64_dbgwvr13_el1 \<equiv> 253 OR aarch64_FULL OR aarch64_SYSREG OR Arch_aarch64"
abbreviation aarch64_dbgwvr14_el1 :: MachRegister where
  "aarch64_dbgwvr14_el1 \<equiv> 254 OR aarch64_FULL OR aarch64_SYSREG OR Arch_aarch64"
abbreviation aarch64_dbgwvr15_el1 :: MachRegister where
  "aarch64_dbgwvr15_el1 \<equiv> 255 OR aarch64_FULL OR aarch64_SYSREG OR Arch_aarch64"
abbreviation aarch64_dbgauthstatus_el1 :: MachRegister where
  "aarch64_dbgauthstatus_el1 \<equiv> 256 OR aarch64_D_REG OR aarch64_SYSREG OR Arch_aarch64"
abbreviation aarch64_dbgdtrtx_el0 :: MachRegister where
  "aarch64_dbgdtrtx_el0 \<equiv> 257 OR aarch64_D_REG OR aarch64_SYSREG OR Arch_aarch64"
abbreviation aarch64_icc_eoir1_el1 :: MachRegister where
  "aarch64_icc_eoir1_el1 \<equiv> 258 OR aarch64_D_REG OR aarch64_SYSREG OR Arch_aarch64"
abbreviation aarch64_elr_el2 :: MachRegister where
  "aarch64_elr_el2 \<equiv> 259 OR aarch64_FULL OR aarch64_SYSREG OR Arch_aarch64"
abbreviation aarch64_dbgbvr0_el1 :: MachRegister where
  "aarch64_dbgbvr0_el1 \<equiv> 260 OR aarch64_FULL OR aarch64_SYSREG OR Arch_aarch64"
abbreviation aarch64_dbgbvr1_el1 :: MachRegister where
  "aarch64_dbgbvr1_el1 \<equiv> 261 OR aarch64_FULL OR aarch64_SYSREG OR Arch_aarch64"
abbreviation aarch64_dbgbvr2_el1 :: MachRegister where
  "aarch64_dbgbvr2_el1 \<equiv> 262 OR aarch64_FULL OR aarch64_SYSREG OR Arch_aarch64"
abbreviation aarch64_dbgbvr3_el1 :: MachRegister where
  "aarch64_dbgbvr3_el1 \<equiv> 263 OR aarch64_FULL OR aarch64_SYSREG OR Arch_aarch64"
abbreviation aarch64_dbgbvr4_el1 :: MachRegister where
  "aarch64_dbgbvr4_el1 \<equiv> 264 OR aarch64_FULL OR aarch64_SYSREG OR Arch_aarch64"
abbreviation aarch64_dbgbvr5_el1 :: MachRegister where
  "aarch64_dbgbvr5_el1 \<equiv> 265 OR aarch64_FULL OR aarch64_SYSREG OR Arch_aarch64"
abbreviation aarch64_dbgbvr6_el1 :: MachRegister where
  "aarch64_dbgbvr6_el1 \<equiv> 266 OR aarch64_FULL OR aarch64_SYSREG OR Arch_aarch64"
abbreviation aarch64_dbgbvr7_el1 :: MachRegister where
  "aarch64_dbgbvr7_el1 \<equiv> 267 OR aarch64_FULL OR aarch64_SYSREG OR Arch_aarch64"
abbreviation aarch64_dbgbvr8_el1 :: MachRegister where
  "aarch64_dbgbvr8_el1 \<equiv> 268 OR aarch64_FULL OR aarch64_SYSREG OR Arch_aarch64"
abbreviation aarch64_dbgbvr9_el1 :: MachRegister where
  "aarch64_dbgbvr9_el1 \<equiv> 269 OR aarch64_FULL OR aarch64_SYSREG OR Arch_aarch64"
abbreviation aarch64_dbgbvr10_el1 :: MachRegister where
  "aarch64_dbgbvr10_el1 \<equiv> 270 OR aarch64_FULL OR aarch64_SYSREG OR Arch_aarch64"
abbreviation aarch64_dbgbvr11_el1 :: MachRegister where
  "aarch64_dbgbvr11_el1 \<equiv> 271 OR aarch64_FULL OR aarch64_SYSREG OR Arch_aarch64"
abbreviation aarch64_dbgbvr12_el1 :: MachRegister where
  "aarch64_dbgbvr12_el1 \<equiv> 272 OR aarch64_FULL OR aarch64_SYSREG OR Arch_aarch64"
abbreviation aarch64_dbgbvr13_el1 :: MachRegister where
  "aarch64_dbgbvr13_el1 \<equiv> 273 OR aarch64_FULL OR aarch64_SYSREG OR Arch_aarch64"
abbreviation aarch64_dbgbvr14_el1 :: MachRegister where
  "aarch64_dbgbvr14_el1 \<equiv> 274 OR aarch64_FULL OR aarch64_SYSREG OR Arch_aarch64"
abbreviation aarch64_dbgbvr15_el1 :: MachRegister where
  "aarch64_dbgbvr15_el1 \<equiv> 275 OR aarch64_FULL OR aarch64_SYSREG OR Arch_aarch64"
abbreviation aarch64_ic_ialluis :: MachRegister where
  "aarch64_ic_ialluis \<equiv> 276 OR aarch64_FULL OR aarch64_SYSREG OR Arch_aarch64"
abbreviation aarch64_tcr_el3 :: MachRegister where
  "aarch64_tcr_el3 \<equiv> 277 OR aarch64_D_REG OR aarch64_SYSREG OR Arch_aarch64"
abbreviation aarch64_aidr_el1 :: MachRegister where
  "aarch64_aidr_el1 \<equiv> 278 OR aarch64_D_REG OR aarch64_SYSREG OR Arch_aarch64"
abbreviation aarch64_cntfrq_el0 :: MachRegister where
  "aarch64_cntfrq_el0 \<equiv> 279 OR aarch64_D_REG OR aarch64_SYSREG OR Arch_aarch64"
abbreviation aarch64_tlbi_vae3 :: MachRegister where
  "aarch64_tlbi_vae3 \<equiv> 280 OR aarch64_FULL OR aarch64_SYSREG OR Arch_aarch64"
abbreviation aarch64_tlbi_vmalls12e1 :: MachRegister where
  "aarch64_tlbi_vmalls12e1 \<equiv> 281 OR aarch64_FULL OR aarch64_SYSREG OR Arch_aarch64"
abbreviation aarch64_esr_el2 :: MachRegister where
  "aarch64_esr_el2 \<equiv> 282 OR aarch64_D_REG OR aarch64_SYSREG OR Arch_aarch64"
abbreviation aarch64_vbar_el3 :: MachRegister where
  "aarch64_vbar_el3 \<equiv> 283 OR aarch64_FULL OR aarch64_SYSREG OR Arch_aarch64"
abbreviation aarch64_dbgwcr0_el1 :: MachRegister where
  "aarch64_dbgwcr0_el1 \<equiv> 284 OR aarch64_D_REG OR aarch64_SYSREG OR Arch_aarch64"
abbreviation aarch64_dbgwcr1_el1 :: MachRegister where
  "aarch64_dbgwcr1_el1 \<equiv> 285 OR aarch64_D_REG OR aarch64_SYSREG OR Arch_aarch64"
abbreviation aarch64_dbgwcr2_el1 :: MachRegister where
  "aarch64_dbgwcr2_el1 \<equiv> 286 OR aarch64_D_REG OR aarch64_SYSREG OR Arch_aarch64"
abbreviation aarch64_dbgwcr3_el1 :: MachRegister where
  "aarch64_dbgwcr3_el1 \<equiv> 287 OR aarch64_D_REG OR aarch64_SYSREG OR Arch_aarch64"
abbreviation aarch64_dbgwcr4_el1 :: MachRegister where
  "aarch64_dbgwcr4_el1 \<equiv> 288 OR aarch64_D_REG OR aarch64_SYSREG OR Arch_aarch64"
abbreviation aarch64_dbgwcr5_el1 :: MachRegister where
  "aarch64_dbgwcr5_el1 \<equiv> 289 OR aarch64_D_REG OR aarch64_SYSREG OR Arch_aarch64"
abbreviation aarch64_dbgwcr6_el1 :: MachRegister where
  "aarch64_dbgwcr6_el1 \<equiv> 290 OR aarch64_D_REG OR aarch64_SYSREG OR Arch_aarch64"
abbreviation aarch64_dbgwcr7_el1 :: MachRegister where
  "aarch64_dbgwcr7_el1 \<equiv> 291 OR aarch64_D_REG OR aarch64_SYSREG OR Arch_aarch64"
abbreviation aarch64_dbgwcr8_el1 :: MachRegister where
  "aarch64_dbgwcr8_el1 \<equiv> 292 OR aarch64_D_REG OR aarch64_SYSREG OR Arch_aarch64"
abbreviation aarch64_dbgwcr9_el1 :: MachRegister where
  "aarch64_dbgwcr9_el1 \<equiv> 293 OR aarch64_D_REG OR aarch64_SYSREG OR Arch_aarch64"
abbreviation aarch64_dbgwcr10_el1 :: MachRegister where
  "aarch64_dbgwcr10_el1 \<equiv> 294 OR aarch64_D_REG OR aarch64_SYSREG OR Arch_aarch64"
abbreviation aarch64_dbgwcr11_el1 :: MachRegister where
  "aarch64_dbgwcr11_el1 \<equiv> 295 OR aarch64_D_REG OR aarch64_SYSREG OR Arch_aarch64"
abbreviation aarch64_dbgwcr12_el1 :: MachRegister where
  "aarch64_dbgwcr12_el1 \<equiv> 296 OR aarch64_D_REG OR aarch64_SYSREG OR Arch_aarch64"
abbreviation aarch64_dbgwcr13_el1 :: MachRegister where
  "aarch64_dbgwcr13_el1 \<equiv> 297 OR aarch64_D_REG OR aarch64_SYSREG OR Arch_aarch64"
abbreviation aarch64_dbgwcr14_el1 :: MachRegister where
  "aarch64_dbgwcr14_el1 \<equiv> 298 OR aarch64_D_REG OR aarch64_SYSREG OR Arch_aarch64"
abbreviation aarch64_dbgwcr15_el1 :: MachRegister where
  "aarch64_dbgwcr15_el1 \<equiv> 299 OR aarch64_D_REG OR aarch64_SYSREG OR Arch_aarch64"
abbreviation aarch64_rmr_el1 :: MachRegister where
  "aarch64_rmr_el1 \<equiv> 300 OR aarch64_D_REG OR aarch64_SYSREG OR Arch_aarch64"
abbreviation aarch64_midr_el1 :: MachRegister where
  "aarch64_midr_el1 \<equiv> 301 OR aarch64_D_REG OR aarch64_SYSREG OR Arch_aarch64"
abbreviation aarch64_dc_isw :: MachRegister where
  "aarch64_dc_isw \<equiv> 302 OR aarch64_FULL OR aarch64_SYSREG OR Arch_aarch64"
abbreviation aarch64_id_isar0_el1 :: MachRegister where
  "aarch64_id_isar0_el1 \<equiv> 303 OR aarch64_D_REG OR aarch64_SYSREG OR Arch_aarch64"
abbreviation aarch64_ctr_el0 :: MachRegister where
  "aarch64_ctr_el0 \<equiv> 304 OR aarch64_D_REG OR aarch64_SYSREG OR Arch_aarch64"
abbreviation aarch64_sp_el1 :: MachRegister where
  "aarch64_sp_el1 \<equiv> 305 OR aarch64_FULL OR aarch64_SYSREG OR Arch_aarch64"
abbreviation aarch64_cntv_tval_el0 :: MachRegister where
  "aarch64_cntv_tval_el0 \<equiv> 306 OR aarch64_D_REG OR aarch64_SYSREG OR Arch_aarch64"
abbreviation aarch64_tlbi_vae3is :: MachRegister where
  "aarch64_tlbi_vae3is \<equiv> 307 OR aarch64_FULL OR aarch64_SYSREG OR Arch_aarch64"
abbreviation aarch64_afsr1_el3 :: MachRegister where
  "aarch64_afsr1_el3 \<equiv> 308 OR aarch64_D_REG OR aarch64_SYSREG OR Arch_aarch64"
abbreviation aarch64_id_mmfr4_el1 :: MachRegister where
  "aarch64_id_mmfr4_el1 \<equiv> 309 OR aarch64_D_REG OR aarch64_SYSREG OR Arch_aarch64"
abbreviation aarch64_ttbr0_el3 :: MachRegister where
  "aarch64_ttbr0_el3 \<equiv> 310 OR aarch64_FULL OR aarch64_SYSREG OR Arch_aarch64"
abbreviation aarch64_spsr_und :: MachRegister where
  "aarch64_spsr_und \<equiv> 311 OR aarch64_D_REG OR aarch64_SYSREG OR Arch_aarch64"
abbreviation aarch64_tlbi_vae2is :: MachRegister where
  "aarch64_tlbi_vae2is \<equiv> 312 OR aarch64_FULL OR aarch64_SYSREG OR Arch_aarch64"
abbreviation aarch64_at_s1e3w :: MachRegister where
  "aarch64_at_s1e3w \<equiv> 313 OR aarch64_FULL OR aarch64_SYSREG OR Arch_aarch64"
abbreviation aarch64_osdlr_el1 :: MachRegister where
  "aarch64_osdlr_el1 \<equiv> 314 OR aarch64_D_REG OR aarch64_SYSREG OR Arch_aarch64"
abbreviation aarch64_ich_lr0_el2 :: MachRegister where
  "aarch64_ich_lr0_el2 \<equiv> 315 OR aarch64_FULL OR aarch64_SYSREG OR Arch_aarch64"
abbreviation aarch64_ich_lr1_el2 :: MachRegister where
  "aarch64_ich_lr1_el2 \<equiv> 316 OR aarch64_FULL OR aarch64_SYSREG OR Arch_aarch64"
abbreviation aarch64_ich_lr2_el2 :: MachRegister where
  "aarch64_ich_lr2_el2 \<equiv> 317 OR aarch64_FULL OR aarch64_SYSREG OR Arch_aarch64"
abbreviation aarch64_ich_lr3_el2 :: MachRegister where
  "aarch64_ich_lr3_el2 \<equiv> 318 OR aarch64_FULL OR aarch64_SYSREG OR Arch_aarch64"
abbreviation aarch64_ich_lr4_el2 :: MachRegister where
  "aarch64_ich_lr4_el2 \<equiv> 319 OR aarch64_FULL OR aarch64_SYSREG OR Arch_aarch64"
abbreviation aarch64_ich_lr5_el2 :: MachRegister where
  "aarch64_ich_lr5_el2 \<equiv> 320 OR aarch64_FULL OR aarch64_SYSREG OR Arch_aarch64"
abbreviation aarch64_ich_lr6_el2 :: MachRegister where
  "aarch64_ich_lr6_el2 \<equiv> 321 OR aarch64_FULL OR aarch64_SYSREG OR Arch_aarch64"
abbreviation aarch64_ich_lr7_el2 :: MachRegister where
  "aarch64_ich_lr7_el2 \<equiv> 322 OR aarch64_FULL OR aarch64_SYSREG OR Arch_aarch64"
abbreviation aarch64_ich_lr8_el2 :: MachRegister where
  "aarch64_ich_lr8_el2 \<equiv> 323 OR aarch64_FULL OR aarch64_SYSREG OR Arch_aarch64"
abbreviation aarch64_ich_lr9_el2 :: MachRegister where
  "aarch64_ich_lr9_el2 \<equiv> 324 OR aarch64_FULL OR aarch64_SYSREG OR Arch_aarch64"
abbreviation aarch64_ich_lr10_el2 :: MachRegister where
  "aarch64_ich_lr10_el2 \<equiv> 325 OR aarch64_FULL OR aarch64_SYSREG OR Arch_aarch64"
abbreviation aarch64_ich_lr11_el2 :: MachRegister where
  "aarch64_ich_lr11_el2 \<equiv> 326 OR aarch64_FULL OR aarch64_SYSREG OR Arch_aarch64"
abbreviation aarch64_ich_lr12_el2 :: MachRegister where
  "aarch64_ich_lr12_el2 \<equiv> 327 OR aarch64_FULL OR aarch64_SYSREG OR Arch_aarch64"
abbreviation aarch64_ich_lr13_el2 :: MachRegister where
  "aarch64_ich_lr13_el2 \<equiv> 328 OR aarch64_FULL OR aarch64_SYSREG OR Arch_aarch64"
abbreviation aarch64_ich_lr14_el2 :: MachRegister where
  "aarch64_ich_lr14_el2 \<equiv> 329 OR aarch64_FULL OR aarch64_SYSREG OR Arch_aarch64"
abbreviation aarch64_ich_lr15_el2 :: MachRegister where
  "aarch64_ich_lr15_el2 \<equiv> 330 OR aarch64_FULL OR aarch64_SYSREG OR Arch_aarch64"
abbreviation aarch64_dbgclaimclr_el1 :: MachRegister where
  "aarch64_dbgclaimclr_el1 \<equiv> 331 OR aarch64_D_REG OR aarch64_SYSREG OR Arch_aarch64"
abbreviation aarch64_tlbi_vmalle1is :: MachRegister where
  "aarch64_tlbi_vmalle1is \<equiv> 332 OR aarch64_FULL OR aarch64_SYSREG OR Arch_aarch64"
abbreviation aarch64_id_aa64mmfr1_el1 :: MachRegister where
  "aarch64_id_aa64mmfr1_el1 \<equiv> 333 OR aarch64_FULL OR aarch64_SYSREG OR Arch_aarch64"
abbreviation aarch64_pmccntr_el0 :: MachRegister where
  "aarch64_pmccntr_el0 \<equiv> 334 OR aarch64_FULL OR aarch64_SYSREG OR Arch_aarch64"
abbreviation aarch64_esr_el3 :: MachRegister where
  "aarch64_esr_el3 \<equiv> 335 OR aarch64_D_REG OR aarch64_SYSREG OR Arch_aarch64"
abbreviation aarch64_cptr_el3 :: MachRegister where
  "aarch64_cptr_el3 \<equiv> 336 OR aarch64_D_REG OR aarch64_SYSREG OR Arch_aarch64"
abbreviation aarch64_cntp_tval_el0 :: MachRegister where
  "aarch64_cntp_tval_el0 \<equiv> 337 OR aarch64_D_REG OR aarch64_SYSREG OR Arch_aarch64"
abbreviation aarch64_tcr_el2 :: MachRegister where
  "aarch64_tcr_el2 \<equiv> 338 OR aarch64_D_REG OR aarch64_SYSREG OR Arch_aarch64"
abbreviation aarch64_dc_cvac :: MachRegister where
  "aarch64_dc_cvac \<equiv> 339 OR aarch64_FULL OR aarch64_SYSREG OR Arch_aarch64"
abbreviation aarch64_tlbi_vaale1is :: MachRegister where
  "aarch64_tlbi_vaale1is \<equiv> 340 OR aarch64_FULL OR aarch64_SYSREG OR Arch_aarch64"
abbreviation aarch64_pmintenset_el1 :: MachRegister where
  "aarch64_pmintenset_el1 \<equiv> 341 OR aarch64_D_REG OR aarch64_SYSREG OR Arch_aarch64"
abbreviation aarch64_dbgbcr0_el1 :: MachRegister where
  "aarch64_dbgbcr0_el1 \<equiv> 342 OR aarch64_D_REG OR aarch64_SYSREG OR Arch_aarch64"
abbreviation aarch64_dbgbcr1_el1 :: MachRegister where
  "aarch64_dbgbcr1_el1 \<equiv> 343 OR aarch64_D_REG OR aarch64_SYSREG OR Arch_aarch64"
abbreviation aarch64_dbgbcr2_el1 :: MachRegister where
  "aarch64_dbgbcr2_el1 \<equiv> 344 OR aarch64_D_REG OR aarch64_SYSREG OR Arch_aarch64"
abbreviation aarch64_dbgbcr3_el1 :: MachRegister where
  "aarch64_dbgbcr3_el1 \<equiv> 345 OR aarch64_D_REG OR aarch64_SYSREG OR Arch_aarch64"
abbreviation aarch64_dbgbcr4_el1 :: MachRegister where
  "aarch64_dbgbcr4_el1 \<equiv> 346 OR aarch64_D_REG OR aarch64_SYSREG OR Arch_aarch64"
abbreviation aarch64_dbgbcr5_el1 :: MachRegister where
  "aarch64_dbgbcr5_el1 \<equiv> 347 OR aarch64_D_REG OR aarch64_SYSREG OR Arch_aarch64"
abbreviation aarch64_dbgbcr6_el1 :: MachRegister where
  "aarch64_dbgbcr6_el1 \<equiv> 348 OR aarch64_D_REG OR aarch64_SYSREG OR Arch_aarch64"
abbreviation aarch64_dbgbcr7_el1 :: MachRegister where
  "aarch64_dbgbcr7_el1 \<equiv> 349 OR aarch64_D_REG OR aarch64_SYSREG OR Arch_aarch64"
abbreviation aarch64_dbgbcr8_el1 :: MachRegister where
  "aarch64_dbgbcr8_el1 \<equiv> 350 OR aarch64_D_REG OR aarch64_SYSREG OR Arch_aarch64"
abbreviation aarch64_dbgbcr9_el1 :: MachRegister where
  "aarch64_dbgbcr9_el1 \<equiv> 351 OR aarch64_D_REG OR aarch64_SYSREG OR Arch_aarch64"
abbreviation aarch64_dbgbcr10_el1 :: MachRegister where
  "aarch64_dbgbcr10_el1 \<equiv> 352 OR aarch64_D_REG OR aarch64_SYSREG OR Arch_aarch64"
abbreviation aarch64_dbgbcr11_el1 :: MachRegister where
  "aarch64_dbgbcr11_el1 \<equiv> 353 OR aarch64_D_REG OR aarch64_SYSREG OR Arch_aarch64"
abbreviation aarch64_dbgbcr12_el1 :: MachRegister where
  "aarch64_dbgbcr12_el1 \<equiv> 354 OR aarch64_D_REG OR aarch64_SYSREG OR Arch_aarch64"
abbreviation aarch64_dbgbcr13_el1 :: MachRegister where
  "aarch64_dbgbcr13_el1 \<equiv> 355 OR aarch64_D_REG OR aarch64_SYSREG OR Arch_aarch64"
abbreviation aarch64_dbgbcr14_el1 :: MachRegister where
  "aarch64_dbgbcr14_el1 \<equiv> 356 OR aarch64_D_REG OR aarch64_SYSREG OR Arch_aarch64"
abbreviation aarch64_dbgbcr15_el1 :: MachRegister where
  "aarch64_dbgbcr15_el1 \<equiv> 357 OR aarch64_D_REG OR aarch64_SYSREG OR Arch_aarch64"
abbreviation aarch64_pmselr_el0 :: MachRegister where
  "aarch64_pmselr_el0 \<equiv> 358 OR aarch64_D_REG OR aarch64_SYSREG OR Arch_aarch64"
abbreviation aarch64_tlbi_alle1is :: MachRegister where
  "aarch64_tlbi_alle1is \<equiv> 359 OR aarch64_FULL OR aarch64_SYSREG OR Arch_aarch64"
abbreviation aarch64_icc_hppir1_el1 :: MachRegister where
  "aarch64_icc_hppir1_el1 \<equiv> 360 OR aarch64_D_REG OR aarch64_SYSREG OR Arch_aarch64"
abbreviation aarch64_tlbi_vae1is :: MachRegister where
  "aarch64_tlbi_vae1is \<equiv> 361 OR aarch64_FULL OR aarch64_SYSREG OR Arch_aarch64"
abbreviation aarch64_mdcr_el2 :: MachRegister where
  "aarch64_mdcr_el2 \<equiv> 362 OR aarch64_D_REG OR aarch64_SYSREG OR Arch_aarch64"
abbreviation aarch64_at_s12e1w :: MachRegister where
  "aarch64_at_s12e1w \<equiv> 363 OR aarch64_FULL OR aarch64_SYSREG OR Arch_aarch64"
abbreviation aarch64_vpidr_el2 :: MachRegister where
  "aarch64_vpidr_el2 \<equiv> 364 OR aarch64_D_REG OR aarch64_SYSREG OR Arch_aarch64"
abbreviation aarch64_id_aa64dfr0_el1 :: MachRegister where
  "aarch64_id_aa64dfr0_el1 \<equiv> 365 OR aarch64_FULL OR aarch64_SYSREG OR Arch_aarch64"
abbreviation aarch64_id_isar2_el1 :: MachRegister where
  "aarch64_id_isar2_el1 \<equiv> 366 OR aarch64_D_REG OR aarch64_SYSREG OR Arch_aarch64"
abbreviation aarch64_ttbr0_el2 :: MachRegister where
  "aarch64_ttbr0_el2 \<equiv> 367 OR aarch64_FULL OR aarch64_SYSREG OR Arch_aarch64"
abbreviation aarch64_icc_ap0r0_el1 :: MachRegister where
  "aarch64_icc_ap0r0_el1 \<equiv> 368 OR aarch64_D_REG OR aarch64_SYSREG OR Arch_aarch64"
abbreviation aarch64_icc_ap0r1_el1 :: MachRegister where
  "aarch64_icc_ap0r1_el1 \<equiv> 369 OR aarch64_D_REG OR aarch64_SYSREG OR Arch_aarch64"
abbreviation aarch64_icc_ap0r2_el1 :: MachRegister where
  "aarch64_icc_ap0r2_el1 \<equiv> 370 OR aarch64_D_REG OR aarch64_SYSREG OR Arch_aarch64"
abbreviation aarch64_icc_ap0r3_el1 :: MachRegister where
  "aarch64_icc_ap0r3_el1 \<equiv> 371 OR aarch64_D_REG OR aarch64_SYSREG OR Arch_aarch64"
abbreviation aarch64_dbgdtrrx_el0 :: MachRegister where
  "aarch64_dbgdtrrx_el0 \<equiv> 372 OR aarch64_D_REG OR aarch64_SYSREG OR Arch_aarch64"
abbreviation aarch64_fpexc32_el2 :: MachRegister where
  "aarch64_fpexc32_el2 \<equiv> 373 OR aarch64_D_REG OR aarch64_SYSREG OR Arch_aarch64"
abbreviation aarch64_pmxevtyper_el0 :: MachRegister where
  "aarch64_pmxevtyper_el0 \<equiv> 374 OR aarch64_D_REG OR aarch64_SYSREG OR Arch_aarch64"
abbreviation aarch64_oslar_el1 :: MachRegister where
  "aarch64_oslar_el1 \<equiv> 375 OR aarch64_D_REG OR aarch64_SYSREG OR Arch_aarch64"
abbreviation aarch64_id_pfr0_el1 :: MachRegister where
  "aarch64_id_pfr0_el1 \<equiv> 376 OR aarch64_D_REG OR aarch64_SYSREG OR Arch_aarch64"
abbreviation aarch64_id_mmfr3_el1 :: MachRegister where
  "aarch64_id_mmfr3_el1 \<equiv> 377 OR aarch64_D_REG OR aarch64_SYSREG OR Arch_aarch64"
abbreviation aarch64_osdtrtx_el1 :: MachRegister where
  "aarch64_osdtrtx_el1 \<equiv> 378 OR aarch64_D_REG OR aarch64_SYSREG OR Arch_aarch64"
abbreviation aarch64_id_aa64isar0_el1 :: MachRegister where
  "aarch64_id_aa64isar0_el1 \<equiv> 379 OR aarch64_FULL OR aarch64_SYSREG OR Arch_aarch64"
abbreviation aarch64_mvfr2_el1 :: MachRegister where
  "aarch64_mvfr2_el1 \<equiv> 380 OR aarch64_D_REG OR aarch64_SYSREG OR Arch_aarch64"
abbreviation aarch64_pmcntenclr_el0 :: MachRegister where
  "aarch64_pmcntenclr_el0 \<equiv> 381 OR aarch64_D_REG OR aarch64_SYSREG OR Arch_aarch64"
abbreviation aarch64_ich_ap1r0_el2 :: MachRegister where
  "aarch64_ich_ap1r0_el2 \<equiv> 382 OR aarch64_D_REG OR aarch64_SYSREG OR Arch_aarch64"
abbreviation aarch64_ich_ap1r1_el2 :: MachRegister where
  "aarch64_ich_ap1r1_el2 \<equiv> 383 OR aarch64_D_REG OR aarch64_SYSREG OR Arch_aarch64"
abbreviation aarch64_ich_ap1r2_el2 :: MachRegister where
  "aarch64_ich_ap1r2_el2 \<equiv> 384 OR aarch64_D_REG OR aarch64_SYSREG OR Arch_aarch64"
abbreviation aarch64_ich_ap1r3_el2 :: MachRegister where
  "aarch64_ich_ap1r3_el2 \<equiv> 385 OR aarch64_D_REG OR aarch64_SYSREG OR Arch_aarch64"
abbreviation aarch64_id_aa64mmfr0_el1 :: MachRegister where
  "aarch64_id_aa64mmfr0_el1 \<equiv> 386 OR aarch64_FULL OR aarch64_SYSREG OR Arch_aarch64"
abbreviation aarch64_tlbi_vale3 :: MachRegister where
  "aarch64_tlbi_vale3 \<equiv> 387 OR aarch64_FULL OR aarch64_SYSREG OR Arch_aarch64"
abbreviation aarch64_revidr_el1 :: MachRegister where
  "aarch64_revidr_el1 \<equiv> 388 OR aarch64_D_REG OR aarch64_SYSREG OR Arch_aarch64"
abbreviation aarch64_mair_el2 :: MachRegister where
  "aarch64_mair_el2 \<equiv> 389 OR aarch64_FULL OR aarch64_SYSREG OR Arch_aarch64"
abbreviation aarch64_sctlr_el1 :: MachRegister where
  "aarch64_sctlr_el1 \<equiv> 390 OR aarch64_D_REG OR aarch64_SYSREG OR Arch_aarch64"
abbreviation aarch64_at_s1e0r :: MachRegister where
  "aarch64_at_s1e0r \<equiv> 391 OR aarch64_FULL OR aarch64_SYSREG OR Arch_aarch64"
abbreviation aarch64_cptr_el2 :: MachRegister where
  "aarch64_cptr_el2 \<equiv> 392 OR aarch64_D_REG OR aarch64_SYSREG OR Arch_aarch64"
abbreviation aarch64_at_s12e1r :: MachRegister where
  "aarch64_at_s12e1r \<equiv> 393 OR aarch64_FULL OR aarch64_SYSREG OR Arch_aarch64"
abbreviation aarch64_pmxevcntr_el0 :: MachRegister where
  "aarch64_pmxevcntr_el0 \<equiv> 394 OR aarch64_D_REG OR aarch64_SYSREG OR Arch_aarch64"
abbreviation aarch64_afsr0_el1 :: MachRegister where
  "aarch64_afsr0_el1 \<equiv> 395 OR aarch64_D_REG OR aarch64_SYSREG OR Arch_aarch64"
abbreviation aarch64_at_s1e1w :: MachRegister where
  "aarch64_at_s1e1w \<equiv> 396 OR aarch64_FULL OR aarch64_SYSREG OR Arch_aarch64"
abbreviation aarch64_id_isar3_el1 :: MachRegister where
  "aarch64_id_isar3_el1 \<equiv> 397 OR aarch64_D_REG OR aarch64_SYSREG OR Arch_aarch64"
abbreviation aarch64_afsr1_el2 :: MachRegister where
  "aarch64_afsr1_el2 \<equiv> 398 OR aarch64_D_REG OR aarch64_SYSREG OR Arch_aarch64"
abbreviation aarch64_tlbi_vale1is :: MachRegister where
  "aarch64_tlbi_vale1is \<equiv> 399 OR aarch64_FULL OR aarch64_SYSREG OR Arch_aarch64"
abbreviation aarch64_sp_el2 :: MachRegister where
  "aarch64_sp_el2 \<equiv> 400 OR aarch64_FULL OR aarch64_SYSREG OR Arch_aarch64"
abbreviation aarch64_cntps_cval_el1 :: MachRegister where
  "aarch64_cntps_cval_el1 \<equiv> 401 OR aarch64_FULL OR aarch64_SYSREG OR Arch_aarch64"
abbreviation aarch64_cntps_tval_el1 :: MachRegister where
  "aarch64_cntps_tval_el1 \<equiv> 402 OR aarch64_D_REG OR aarch64_SYSREG OR Arch_aarch64"
abbreviation aarch64_icc_ctlr_el1 :: MachRegister where
  "aarch64_icc_ctlr_el1 \<equiv> 403 OR aarch64_D_REG OR aarch64_SYSREG OR Arch_aarch64"
abbreviation aarch64_cntv_ctl_el0 :: MachRegister where
  "aarch64_cntv_ctl_el0 \<equiv> 404 OR aarch64_D_REG OR aarch64_SYSREG OR Arch_aarch64"
abbreviation aarch64_rmr_el2 :: MachRegister where
  "aarch64_rmr_el2 \<equiv> 405 OR aarch64_D_REG OR aarch64_SYSREG OR Arch_aarch64"
abbreviation aarch64_id_aa64dfr1_el1 :: MachRegister where
  "aarch64_id_aa64dfr1_el1 \<equiv> 406 OR aarch64_FULL OR aarch64_SYSREG OR Arch_aarch64"
abbreviation aarch64_cnthp_cval_el2 :: MachRegister where
  "aarch64_cnthp_cval_el2 \<equiv> 407 OR aarch64_FULL OR aarch64_SYSREG OR Arch_aarch64"
abbreviation aarch64_at_s1e3r :: MachRegister where
  "aarch64_at_s1e3r \<equiv> 408 OR aarch64_FULL OR aarch64_SYSREG OR Arch_aarch64"
abbreviation aarch64_id_aa64isar1_el1 :: MachRegister where
  "aarch64_id_aa64isar1_el1 \<equiv> 409 OR aarch64_FULL OR aarch64_SYSREG OR Arch_aarch64"
abbreviation aarch64_mpidr_el1 :: MachRegister where
  "aarch64_mpidr_el1 \<equiv> 410 OR aarch64_FULL OR aarch64_SYSREG OR Arch_aarch64"
abbreviation aarch64_amair_el1 :: MachRegister where
  "aarch64_amair_el1 \<equiv> 411 OR aarch64_FULL OR aarch64_SYSREG OR Arch_aarch64"
abbreviation aarch64_tlbi_alle3 :: MachRegister where
  "aarch64_tlbi_alle3 \<equiv> 412 OR aarch64_FULL OR aarch64_SYSREG OR Arch_aarch64"
abbreviation aarch64_spsr_el3 :: MachRegister where
  "aarch64_spsr_el3 \<equiv> 413 OR aarch64_D_REG OR aarch64_SYSREG OR Arch_aarch64"
abbreviation aarch64_tlbi_vale1 :: MachRegister where
  "aarch64_tlbi_vale1 \<equiv> 414 OR aarch64_FULL OR aarch64_SYSREG OR Arch_aarch64"
abbreviation aarch64_icc_sre_el3 :: MachRegister where
  "aarch64_icc_sre_el3 \<equiv> 415 OR aarch64_D_REG OR aarch64_SYSREG OR Arch_aarch64"
abbreviation aarch64_icc_iar1_el1 :: MachRegister where
  "aarch64_icc_iar1_el1 \<equiv> 416 OR aarch64_D_REG OR aarch64_SYSREG OR Arch_aarch64"
abbreviation aarch64_IMPLEMENTATION_DEFINED_SYSREG :: MachRegister where
  "aarch64_IMPLEMENTATION_DEFINED_SYSREG \<equiv> 417 OR aarch64_D_REG OR aarch64_SYSREG OR Arch_aarch64"
abbreviation aarch64_sp :: MachRegister where
  "aarch64_sp \<equiv> 31 OR aarch64_FULL OR aarch64_SPR OR Arch_aarch64"
abbreviation aarch64_wsp :: MachRegister where
  "aarch64_wsp \<equiv> 0 OR aarch64_D_REG OR aarch64_SPR OR Arch_aarch64"
abbreviation aarch64_pc :: MachRegister where
  "aarch64_pc \<equiv> 32 OR aarch64_FULL OR aarch64_SPR OR Arch_aarch64"
abbreviation aarch64_pstate :: MachRegister where
  "aarch64_pstate \<equiv> 2 OR aarch64_D_REG OR aarch64_SPR OR Arch_aarch64"
abbreviation aarch64_xzr :: MachRegister where
  "aarch64_xzr \<equiv> 3 OR aarch64_FULL OR aarch64_SPR OR Arch_aarch64"
abbreviation aarch64_n :: MachRegister where
  "aarch64_n \<equiv> aarch64_N_FLAG OR aarch64_BIT OR aarch64_FLAG OR Arch_aarch64"
abbreviation aarch64_z :: MachRegister where
  "aarch64_z \<equiv> aarch64_Z_FLAG OR aarch64_BIT OR aarch64_FLAG OR Arch_aarch64"
abbreviation aarch64_c :: MachRegister where
  "aarch64_c \<equiv> aarch64_C_FLAG OR aarch64_BIT OR aarch64_FLAG OR Arch_aarch64"
abbreviation aarch64_v :: MachRegister where
  "aarch64_v \<equiv> aarch64_V_FLAG OR aarch64_BIT OR aarch64_FLAG OR Arch_aarch64"
abbreviation aarch64_wzr :: MachRegister where
  "aarch64_wzr \<equiv> 3 OR aarch64_D_REG OR aarch64_SPR OR Arch_aarch64"
abbreviation aarch64_fpcr :: MachRegister where
  "aarch64_fpcr \<equiv> 4 OR aarch64_D_REG OR aarch64_SPR OR Arch_aarch64"
abbreviation aarch64_fpsr :: MachRegister where
  "aarch64_fpsr \<equiv> 5 OR aarch64_D_REG OR aarch64_SPR OR Arch_aarch64"

definition aarch64_regs1 :: "MachRegister list" where
  "aarch64_regs1 = [
    aarch64_x0, aarch64_w0, aarch64_x1, aarch64_w1, aarch64_x2, aarch64_w2, aarch64_x3,
    aarch64_w3, aarch64_x4, aarch64_w4, aarch64_x5, aarch64_w5, aarch64_x6, aarch64_w6,
    aarch64_x7, aarch64_w7, aarch64_x8, aarch64_w8, aarch64_x9, aarch64_w9, aarch64_x10,
    aarch64_w10, aarch64_x11, aarch64_w11, aarch64_x12, aarch64_w12, aarch64_x13, aarch64_w13,
    aarch64_x14, aarch64_w14, aarch64_x15, aarch64_w15, aarch64_x16, aarch64_w16, aarch64_x17,
    aarch64_w17, aarch64_x18, aarch64_w18, aarch64_x19, aarch64_w19, aarch64_x20, aarch64_w20,
    aarch64_x21, aarch64_w21, aarch64_x22, aarch64_w22, aarch64_x23, aarch64_w23, aarch64_x24,
    aarch64_w24, aarch64_x25, aarch64_w25, aarch64_x26, aarch64_w26, aarch64_x27, aarch64_w27,
    aarch64_x28, aarch64_w28, aarch64_x29, aarch64_w29, aarch64_x30, aarch64_w30, aarch64_q0,
    aarch64_q1, aarch64_q2, aarch64_q3, aarch64_q4, aarch64_q5, aarch64_q6, aarch64_q7,
    aarch64_q8, aarch64_q9, aarch64_q10, aarch64_q11, aarch64_q12, aarch64_q13, aarch64_q14,
    aarch64_q15, aarch64_q16, aarch64_q17, aarch64_q18, aarch64_q19, aarch64_q20, aarch64_q21,
    aarch64_q22, aarch64_q23, aarch64_q24, aarch64_q25, aarch64_q26, aarch64_q27, aarch64_q28,
    aarch64_q29, aarch64_q30, aarch64_q31, aarch64_hq0, aarch64_hq1, aarch64_hq2, aarch64_hq3,
    aarch64_hq4, aarch64_hq5, aarch64_hq6, aarch64_hq7, aarch64_hq8, aarch64_hq9, aarch64_hq10,
    aarch64_hq11, aarch64_hq12, aarch64_hq13, aarch64_hq14, aarch64_hq15, aarch64_hq16,
    aarch64_hq17, aarch64_hq18, aarch64_hq19, aarch64_hq20, aarch64_hq21, aarch64_hq22,
    aarch64_hq23, aarch64_hq24, aarch64_hq25]"

definition aarch64_regs2 :: "MachRegister list" where
  "aarch64_regs2 = [
    aarch64_hq26, aarch64_hq27, aarch64_hq28, aarch64_hq29, aarch64_hq30, aarch64_hq31,
    aarch64_d0, aarch64_d1, aarch64_d2, aarch64_d3, aarch64_d4, aarch64_d5, aarch64_d6,
    aarch64_d7, aarch64_d8, aarch64_d9, aarch64_d10, aarch64_d11, aarch64_d12, aarch64_d13,
    aarch64_d14, aarch64_d15, aarch64_d16, aarch64_d17, aarch64_d18, aarch64_d19, aarch64_d20,
    aarch64_d21, aarch64_d22, aarch64_d23, aarch64_d24, aarch64_d25, aarch64_d26, aarch64_d27,
    aarch64_d28, aarch64_d29, aarch64_d30, aarch64_d31, aarch64_s0, aarch64_s1, aarch64_s2,
    aarch64_s3, aarch64_s4, aarch64_s5, aarch64_s6, aarch64_s7, aarch64_s8, aarch64_s9,
    aarch64_s10, aarch64_s11, aarch64_s12, aarch64_s13, aarch64_s14, aarch64_s15, aarch64_s16,
    aarch64_s17, aarch64_s18, aarch64_s19, aarch64_s20, aarch64_s21, aarch64_s22, aarch64_s23,
    aarch64_s24, aarch64_s25, aarch64_s26, aarch64_s27, aarch64_s28, aarch64_s29, aarch64_s30,
    aarch64_s31, aarch64_h0, aarch64_h1, aarch64_h2, aarch64_h3, aarch64_h4, aarch64_h5,
    aarch64_h6, aarch64_h7, aarch64_h8, aarch64_h9, aarch64_h10, aarch64_h11, aarch64_h12,
    aarch64_h13, aarch64_h14, aarch64_h15, aarch64_h16, aarch64_h17, aarch64_h18, aarch64_h19,
    aarch64_h20, aarch64_h21, aarch64_h22, aarch64_h23, aarch64_h24, aarch64_h25, aarch64_h26,
    aarch64_h27, aarch64_h28, aarch64_h29, aarch64_h30, aarch64_h31, aarch64_b0, aarch64_b1,
    aarch64_b2, aarch64_b3, aarch64_b4, aarch64_b5, aarch64_b6, aarch64_b7, aarch64_b8,
    aarch64_b9, aarch64_b10, aarch64_b11, aarch64_b12, aarch64_b13, aarch64_b14]"

definition aarch64_regs3 :: "MachRegister list" where
  "aarch64_regs3 = [
    aarch64_b15, aarch64_b16, aarch64_b17, aarch64_b18, aarch64_b19, aarch64_b20, aarch64_b21,
    aarch64_b22, aarch64_b23, aarch64_b24, aarch64_b25, aarch64_b26, aarch64_b27, aarch64_b28,
    aarch64_b29, aarch64_b30, aarch64_b31, aarch64_tlbi_vale3is, aarch64_id_aa64pfr1_el1,
    aarch64_sder32_el3, aarch64_icc_ctlr_el3, aarch64_dacr32_el2, aarch64_ich_vtr_el2,
    aarch64_icc_dir_el1, aarch64_tlbi_ipas2le1, aarch64_afsr0_el3, aarch64_dczid_el0,
    aarch64_actlr_el1, aarch64_sctlr_el3, aarch64_sctlr_el2, aarch64_at_s1e2r, aarch64_ic_iallu,
    aarch64_icc_igrpen1_el3, aarch64_pmceid0_el0, aarch64_tpidr_el0, aarch64_tlbi_ipas2le1is,
    aarch64_contextidr_el1, aarch64_id_mmfr2_el1, aarch64_pmevtyper0_el0,
    aarch64_pmevtyper1_el0, aarch64_pmevtyper2_el0, aarch64_pmevtyper3_el0,
    aarch64_pmevtyper4_el0, aarch64_pmevtyper5_el0, aarch64_pmevtyper6_el0,
    aarch64_pmevtyper7_el0, aarch64_pmevtyper8_el0, aarch64_pmevtyper9_el0,
    aarch64_pmevtyper10_el0, aarch64_pmevtyper11_el0, aarch64_pmevtyper12_el0,
    aarch64_pmevtyper13_el0, aarch64_pmevtyper14_el0, aarch64_pmevtyper15_el0,
    aarch64_pmevtyper16_el0, aarch64_pmevtyper17_el0, aarch64_pmevtyper18_el0,
    aarch64_pmevtyper19_el0, aarch64_pmevtyper20_el0, aarch64_pmevtyper21_el0,
    aarch64_pmevtyper22_el0, aarch64_pmevtyper23_el0, aarch64_pmevtyper24_el0,
    aarch64_pmevtyper25_el0, aarch64_pmevtyper26_el0, aarch64_pmevtyper27_el0,
    aarch64_pmevtyper28_el0, aarch64_pmevtyper29_el0, aarch64_pmevtyper30_el0, aarch64_mair_el1,
    aarch64_tlbi_vale2is, aarch64_ccsidr_el1, aarch64_spsr_irq, aarch64_elr_el3,
    aarch64_tlbi_alle3is, aarch64_sp_el0, aarch64_id_mmfr1_el1, aarch64_ic_ivau,
    aarch64_icc_eoir0_el1, aarch64_icc_sgi0r_el1, aarch64_icc_sgi1r_el1, aarch64_tlbi_vae2,
    aarch64_cntp_ctl_el0, aarch64_tpidr_el1, aarch64_dc_civac, aarch64_tlbi_ipas2e1is,
    aarch64_cntv_cval_el0, aarch64_icc_bpr0_el1, aarch64_mdccsr_el0, aarch64_dbgclaimset_el1,
    aarch64_ich_ap0r0_el2, aarch64_ich_ap0r1_el2, aarch64_ich_ap0r2_el2, aarch64_ich_ap0r3_el2,
    aarch64_dc_ivac, aarch64_ich_elrsr_el2, aarch64_ich_hcr_el2, aarch64_vbar_el2,
    aarch64_icc_asgi1r_el1, aarch64_id_aa64afr1_el1, aarch64_nzcv, aarch64_ttbr0_el1,
    aarch64_actlr_el3, aarch64_mdrar_el1, aarch64_rmr_el3, aarch64_cntkctl_el1,
    aarch64_rvbar_el3, aarch64_id_dfr0_el1, aarch64_at_s1e1r, aarch64_icc_ap1r0_el1,
    aarch64_icc_ap1r1_el1, aarch64_icc_ap1r2_el1, aarch64_icc_ap1r3_el1, aarch64_icc_pmr_el1,
    aarch64_pmceid1_el0, aarch64_dc_csw, aarch64_id_pfr1_el1, aarch64_id_afr0_el1,
    aarch64_amair_el2, aarch64_pmovsset_el0, aarch64_tlbi_vmalle1, aarch64_tlbi_vale2,
    aarch64_at_s12e0w, aarch64_id_isar5_el1]"

definition aarch64_regs4 :: "MachRegister list" where
  "aarch64_regs4 = [
    aarch64_tcr_el1, aarch64_pmevcntr0_el0, aarch64_pmevcntr1_el0, aarch64_pmevcntr2_el0,
    aarch64_pmevcntr3_el0, aarch64_pmevcntr4_el0, aarch64_pmevcntr5_el0, aarch64_pmevcntr6_el0,
    aarch64_pmevcntr7_el0, aarch64_pmevcntr8_el0, aarch64_pmevcntr9_el0, aarch64_pmevcntr10_el0,
    aarch64_pmevcntr11_el0, aarch64_pmevcntr12_el0, aarch64_pmevcntr13_el0,
    aarch64_pmevcntr14_el0, aarch64_pmevcntr15_el0, aarch64_pmevcntr16_el0,
    aarch64_pmevcntr17_el0, aarch64_pmevcntr18_el0, aarch64_pmevcntr19_el0,
    aarch64_pmevcntr20_el0, aarch64_pmevcntr21_el0, aarch64_pmevcntr22_el0,
    aarch64_pmevcntr23_el0, aarch64_pmevcntr24_el0, aarch64_pmevcntr25_el0,
    aarch64_pmevcntr26_el0, aarch64_pmevcntr27_el0, aarch64_pmevcntr28_el0,
    aarch64_pmevcntr29_el0, aarch64_pmevcntr30_el0, aarch64_dbgdtr_el0, aarch64_amair_el3,
    aarch64_rvbar_el1, aarch64_dc_cvau, aarch64_afsr0_el2, aarch64_icc_iar0_el1,
    aarch64_icc_bpr1_el1, aarch64_dc_cisw, aarch64_hpfar_el2, aarch64_spsr_abt,
    aarch64_csselr_el1, aarch64_pmintenclr_el1, aarch64_tlbi_vaae1, aarch64_far_el2,
    aarch64_currentel, aarch64_dbgprcr_el1, aarch64_tlbi_ipas2e1, aarch64_mair_el3,
    aarch64_ttbr1_el1, aarch64_cntvct_el0, aarch64_tlbi_aside1is, aarch64_scr_el3,
    aarch64_mvfr0_el1, aarch64_tlbi_alle1, aarch64_pmovsclr_el0, aarch64_mvfr1_el1,
    aarch64_tlbi_vaale1, aarch64_elr_el1, aarch64_rvbar_el2, aarch64_esr_el1,
    aarch64_tlbi_aside1, aarch64_osdtrrx_el1, aarch64_pmcntenset_el0, aarch64_dspsr_el0,
    aarch64_dc_zva, aarch64_ich_misr_el2, aarch64_vbar_el1, aarch64_id_isar1_el1,
    aarch64_cpacr_el1, aarch64_par_el1, aarch64_cnthp_ctl_el2, aarch64_actlr_el2,
    aarch64_spsr_fiq, aarch64_id_aa64pfr0_el1, aarch64_tpidr_el3, aarch64_at_s1e2w,
    aarch64_tlbi_alle2, aarch64_id_isar4_el1, aarch64_dbgvcr32_el2, aarch64_hcr_el2,
    aarch64_ich_eisr_el2, aarch64_mdccint_el1, aarch64_dlr_el0, aarch64_tpidr_el2,
    aarch64_pmuserenr_el0, aarch64_oseccr_el1, aarch64_tlbi_vmalls12e1is, aarch64_mdscr_el1,
    aarch64_ich_vmcr_el2, aarch64_far_el3, aarch64_spsr_el2, aarch64_oslsr_el1,
    aarch64_tlbi_vae1, aarch64_daif, aarch64_far_el1, aarch64_hstr_el2, aarch64_clidr_el1,
    aarch64_vttbr_el2, aarch64_id_aa64afr0_el1, aarch64_icc_rpr_el1, aarch64_cntps_ctl_el1,
    aarch64_afsr1_el1, aarch64_spsel, aarch64_pmcr_el0, aarch64_tlbi_vaae1is,
    aarch64_icc_sre_el1, aarch64_cntpct_el0, aarch64_tlbi_alle2is, aarch64_icc_igrpen1_el1,
    aarch64_ifsr32_el2, aarch64_icc_igrpen0_el1, aarch64_tpidrro_el0, aarch64_hacr_el2,
    aarch64_at_s1e0w, aarch64_pmccfiltr_el0, aarch64_cnthp_tval_el2, aarch64_at_s12e0r,
    aarch64_cntvoff_el2, aarch64_icc_sre_el2, aarch64_spsr_el1, aarch64_isr_el1,
    aarch64_cnthctl_el2, aarch64_vtcr_el2]"

definition aarch64_regs5 :: "MachRegister list" where
  "aarch64_regs5 = [
    aarch64_vmpidr_el2, aarch64_pmswinc_el0, aarch64_id_mmfr0_el1, aarch64_cntp_cval_el0,
    aarch64_icc_hppir0_el1, aarch64_mdcr_el3, aarch64_dbgwvr0_el1, aarch64_dbgwvr1_el1,
    aarch64_dbgwvr2_el1, aarch64_dbgwvr3_el1, aarch64_dbgwvr4_el1, aarch64_dbgwvr5_el1,
    aarch64_dbgwvr6_el1, aarch64_dbgwvr7_el1, aarch64_dbgwvr8_el1, aarch64_dbgwvr9_el1,
    aarch64_dbgwvr10_el1, aarch64_dbgwvr11_el1, aarch64_dbgwvr12_el1, aarch64_dbgwvr13_el1,
    aarch64_dbgwvr14_el1, aarch64_dbgwvr15_el1, aarch64_dbgauthstatus_el1, aarch64_dbgdtrtx_el0,
    aarch64_icc_eoir1_el1, aarch64_elr_el2, aarch64_dbgbvr0_el1, aarch64_dbgbvr1_el1,
    aarch64_dbgbvr2_el1, aarch64_dbgbvr3_el1, aarch64_dbgbvr4_el1, aarch64_dbgbvr5_el1,
    aarch64_dbgbvr6_el1, aarch64_dbgbvr7_el1, aarch64_dbgbvr8_el1, aarch64_dbgbvr9_el1,
    aarch64_dbgbvr10_el1, aarch64_dbgbvr11_el1, aarch64_dbgbvr12_el1, aarch64_dbgbvr13_el1,
    aarch64_dbgbvr14_el1, aarch64_dbgbvr15_el1, aarch64_ic_ialluis, aarch64_tcr_el3,
    aarch64_aidr_el1, aarch64_cntfrq_el0, aarch64_tlbi_vae3, aarch64_tlbi_vmalls12e1,
    aarch64_esr_el2, aarch64_vbar_el3, aarch64_dbgwcr0_el1, aarch64_dbgwcr1_el1,
    aarch64_dbgwcr2_el1, aarch64_dbgwcr3_el1, aarch64_dbgwcr4_el1, aarch64_dbgwcr5_el1,
    aarch64_dbgwcr6_el1, aarch64_dbgwcr7_el1, aarch64_dbgwcr8_el1, aarch64_dbgwcr9_el1,
    aarch64_dbgwcr10_el1, aarch64_dbgwcr11_el1, aarch64_dbgwcr12_el1, aarch64_dbgwcr13_el1,
    aarch64_dbgwcr14_el1, aarch64_dbgwcr15_el1, aarch64_rmr_el1, aarch64_midr_el1,
    aarch64_dc_isw, aarch64_id_isar0_el1, aarch64_ctr_el0, aarch64_sp_el1,
    aarch64_cntv_tval_el0, aarch64_tlbi_vae3is, aarch64_afsr1_el3, aarch64_id_mmfr4_el1,
    aarch64_ttbr0_el3, aarch64_spsr_und, aarch64_tlbi_vae2is, aarch64_at_s1e3w,
    aarch64_osdlr_el1, aarch64_ich_lr0_el2, aarch64_ich_lr1_el2, aarch64_ich_lr2_el2,
    aarch64_ich_lr3_el2, aarch64_ich_lr4_el2, aarch64_ich_lr5_el2, aarch64_ich_lr6_el2,
    aarch64_ich_lr7_el2, aarch64_ich_lr8_el2, aarch64_ich_lr9_el2, aarch64_ich_lr10_el2,
    aarch64_ich_lr11_el2, aarch64_ich_lr12_el2, aarch64_ich_lr13_el2, aarch64_ich_lr14_el2,
    aarch64_ich_lr15_el2, aarch64_dbgclaimclr_el1, aarch64_tlbi_vmalle1is,
    aarch64_id_aa64mmfr1_el1, aarch64_pmccntr_el0, aarch64_esr_el3, aarch64_cptr_el3,
    aarch64_cntp_tval_el0, aarch64_tcr_el2, aarch64_dc_cvac, aarch64_tlbi_vaale1is,
    aarch64_pmintenset_el1, aarch64_dbgbcr0_el1, aarch64_dbgbcr1_el1, aarch64_dbgbcr2_el1,
    aarch64_dbgbcr3_el1, aarch64_dbgbcr4_el1, aarch64_dbgbcr5_el1, aarch64_dbgbcr6_el1,
    aarch64_dbgbcr7_el1, aarch64_dbgbcr8_el1, aarch64_dbgbcr9_el1, aarch64_dbgbcr10_el1,
    aarch64_dbgbcr11_el1, aarch64_dbgbcr12_el1, aarch64_dbgbcr13_el1, aarch64_dbgbcr14_el1,
    aarch64_dbgbcr15_el1, aarch64_pmselr_el0]"

definition aarch64_regs6 :: "MachRegister list" where
  "aarch64_regs6 = [
    aarch64_tlbi_alle1is, aarch64_icc_hppir1_el1, aarch64_tlbi_vae1is, aarch64_mdcr_el2,
    aarch64_at_s12e1w, aarch64_vpidr_el2, aarch64_id_aa64dfr0_el1, aarch64_id_isar2_el1,
    aarch64_ttbr0_el2, aarch64_icc_ap0r0_el1, aarch64_icc_ap0r1_el1, aarch64_icc_ap0r2_el1,
    aarch64_icc_ap0r3_el1, aarch64_dbgdtrrx_el0, aarch64_fpexc32_el2, aarch64_pmxevtyper_el0,
    aarch64_oslar_el1, aarch64_id_pfr0_el1, aarch64_id_mmfr3_el1, aarch64_osdtrtx_el1,
    aarch64_id_aa64isar0_el1, aarch64_mvfr2_el1, aarch64_pmcntenclr_el0, aarch64_ich_ap1r0_el2,
    aarch64_ich_ap1r1_el2, aarch64_ich_ap1r2_el2, aarch64_ich_ap1r3_el2,
    aarch64_id_aa64mmfr0_el1, aarch64_tlbi_vale3, aarch64_revidr_el1, aarch64_mair_el2,
    aarch64_sctlr_el1, aarch64_at_s1e0r, aarch64_cptr_el2, aarch64_at_s12e1r,
    aarch64_pmxevcntr_el0, aarch64_afsr0_el1, aarch64_at_s1e1w, aarch64_id_isar3_el1,
    aarch64_afsr1_el2, aarch64_tlbi_vale1is, aarch64_sp_el2, aarch64_cntps_cval_el1,
    aarch64_cntps_tval_el1, aarch64_icc_ctlr_el1, aarch64_cntv_ctl_el0, aarch64_rmr_el2,
    aarch64_id_aa64dfr1_el1, aarch64_cnthp_cval_el2, aarch64_at_s1e3r, aarch64_id_aa64isar1_el1,
    aarch64_mpidr_el1, aarch64_amair_el1, aarch64_tlbi_alle3, aarch64_spsr_el3,
    aarch64_tlbi_vale1, aarch64_icc_sre_el3, aarch64_icc_iar1_el1,
    aarch64_IMPLEMENTATION_DEFINED_SYSREG, aarch64_sp, aarch64_wsp, aarch64_pc, aarch64_pstate,
    aarch64_xzr, aarch64_n, aarch64_z, aarch64_c, aarch64_v, aarch64_wzr, aarch64_fpcr,
    aarch64_fpsr]"

definition aarch64_regs :: "MachRegister list" where
  "aarch64_regs = aarch64_regs1 @ aarch64_regs2 @ aarch64_regs3 @ aarch64_regs4 @ aarch64_regs5 @ aarch64_regs6"

section \<open>DWARF encodings\<close>

definition ppc32_DwarfEncToReg_1 :: "(int \<times> MachRegister) list" where
  "ppc32_DwarfEncToReg_1 = [
    (0, ppc32_r0), (1, ppc32_r1), (2, ppc32_r2), (3, ppc32_r3), (4, ppc32_r4), (5, ppc32_r5),
    (6, ppc32_r6), (7, ppc32_r7), (8, ppc32_r8), (9, ppc32_r9), (10, ppc32_r10),
    (11, ppc32_r11), (12, ppc32_r12), (13, ppc32_r13), (14, ppc32_r14), (15, ppc32_r15),
    (16, ppc32_r16), (17, ppc32_r17), (18, ppc32_r18), (19, ppc32_r19), (20, ppc32_r20),
    (21, ppc32_r21), (22, ppc32_r22), (23, ppc32_r23), (24, ppc32_r24), (25, ppc32_r25),
    (26, ppc32_r26), (27, ppc32_r27), (28, ppc32_r28), (29, ppc32_r29), (30, ppc32_r30),
    (31, ppc32_r31), (32, ppc32_fpr0), (33, ppc32_fpr1), (34, ppc32_fpr2), (35, ppc32_fpr3),
    (36, ppc32_fpr4), (37, ppc32_fpr5), (38, ppc32_fpr6), (39, ppc32_fpr7), (40, ppc32_fpr8),
    (41, ppc32_fpr9), (42, ppc32_fpr10), (43, ppc32_fpr11), (44, ppc32_fpr12),
    (45, ppc32_fpr13), (46, ppc32_fpr14), (47, ppc32_fpr15), (48, ppc32_fpr16),
    (49, ppc32_fpr17), (50, ppc32_fpr18), (51, ppc32_fpr19), (52, ppc32_fpr20),
    (53, ppc32_fpr21), (54, ppc32_fpr22), (55, ppc32_fpr23), (56, ppc32_fpr24),
    (57, ppc32_fpr25), (58, ppc32_fpr26), (59, ppc32_fpr27), (60, ppc32_fpr28),
    (61, ppc32_fpr29), (62, ppc32_fpr30), (63, ppc32_fpr31), (64, ppc32_cr), (65, InvalidReg)]"

definition ppc32_DwarfEncToReg_2 :: "(int \<times> MachRegister) list" where
  "ppc32_DwarfEncToReg_2 = [
    (100, ppc32_mq), (101, ppc32_xer), (102, InvalidReg), (103, InvalidReg), (104, InvalidReg),
    (105, InvalidReg), (106, InvalidReg), (107, InvalidReg), (108, ppc32_lr), (109, ppc32_ctr)]"

definition ppc32_getDwarfEnc :: "(MachRegister \<times> int) list" where
  "ppc32_getDwarfEnc = [
    (ppc32_r0, 0), (ppc32_r1, 1), (ppc32_r2, 2), (ppc32_r3, 3), (ppc32_r4, 4), (ppc32_r5, 5),
    (ppc32_r6, 6), (ppc32_r7, 7), (ppc32_r8, 8), (ppc32_r9, 9), (ppc32_r10, 10),
    (ppc32_r11, 11), (ppc32_r12, 12), (ppc32_r13, 13), (ppc32_r14, 14), (ppc32_r15, 15),
    (ppc32_r16, 16), (ppc32_r17, 17), (ppc32_r18, 18), (ppc32_r19, 19), (ppc32_r20, 20),
    (ppc32_r21, 21), (ppc32_r22, 22), (ppc32_r23, 23), (ppc32_r24, 24), (ppc32_r25, 25),
    (ppc32_r26, 26), (ppc32_r27, 27), (ppc32_r28, 28), (ppc32_r29, 29), (ppc32_r30, 30),
    (ppc32_r31, 31), (ppc32_fpr0, 32), (ppc32_fpr1, 33), (ppc32_fpr2, 34), (ppc32_fpr3, 35),
    (ppc32_fpr4, 36), (ppc32_fpr5, 37), (ppc32_fpr6, 38), (ppc32_fpr7, 39), (ppc32_fpr8, 40),
    (ppc32_fpr9, 41), (ppc32_fpr10, 42), (ppc32_fpr11, 43), (ppc32_fpr12, 44),
    (ppc32_fpr13, 45), (ppc32_fpr14, 46), (ppc32_fpr15, 47), (ppc32_fpr16, 48),
    (ppc32_fpr17, 49), (ppc32_fpr18, 50), (ppc32_fpr19, 51), (ppc32_fpr20, 52),
    (ppc32_fpr21, 53), (ppc32_fpr22, 54), (ppc32_fpr23, 55), (ppc32_fpr24, 56),
    (ppc32_fpr25, 57), (ppc32_fpr26, 58), (ppc32_fpr27, 59), (ppc32_fpr28, 60),
    (ppc32_fpr29, 61), (ppc32_fpr30, 62), (ppc32_fpr31, 63), (ppc32_cr, 64), (ppc32_mq, 100),
    (ppc32_xer, 101), (ppc32_lr, 108), (ppc32_ctr, 109)]"

definition ppc64_DwarfEncToReg_1 :: "(int \<times> MachRegister) list" where
  "ppc64_DwarfEncToReg_1 = [
    (0, ppc64_r0), (1, ppc64_r1), (2, ppc64_r2), (3, ppc64_r3), (4, ppc64_r4), (5, ppc64_r5),
    (6, ppc64_r6), (7, ppc64_r7), (8, ppc64_r8), (9, ppc64_r9), (10, ppc64_r10),
    (11, ppc64_r11), (12, ppc64_r12), (13, ppc64_r13), (14, ppc64_r14), (15, ppc64_r15),
    (16, ppc64_r16), (17, ppc64_r17), (18, ppc64_r18), (19, ppc64_r19), (20, ppc64_r20),
    (21, ppc64_r21), (22, ppc64_r22), (23, ppc64_r23), (24, ppc64_r24), (25, ppc64_r25),
    (26, ppc64_r26), (27, ppc64_r27), (28, ppc64_r28), (29, ppc64_r29), (30, ppc64_r30),
    (31, ppc64_r31), (32, ppc64_fpr0), (33, ppc64_fpr1), (34, ppc64_fpr2), (35, ppc64_fpr3),
    (36, ppc64_fpr4), (37, ppc64_fpr5), (38, ppc64_fpr6), (39, ppc64_fpr7), (40, ppc64_fpr8),
    (41, ppc64_fpr9), (42, ppc64_fpr10), (43, ppc64_fpr11), (44, ppc64_fpr12),
    (45, ppc64_fpr13), (46, ppc64_fpr14), (47, ppc64_fpr15), (48, ppc64_fpr16),
    (49, ppc64_fpr17), (50, ppc64_fpr18), (51, ppc64_fpr19), (52, ppc64_fpr20),
    (53, ppc64_fpr21), (54, ppc64_fpr22), (55, ppc64_fpr23), (56, ppc64_fpr24),
    (57, ppc64_fpr25), (58, ppc64_fpr26), (59, ppc64_fpr27), (60, ppc64_fpr28),
    (61, ppc64_fpr29), (62, ppc64_fpr30), (63, ppc64_fpr31), (64, ppc64_cr), (65, InvalidReg)]"

definition ppc64_DwarfEncToReg_2 :: "(int \<times> MachRegister) list" where
  "ppc64_DwarfEncToReg_2 = [
    (100, ppc64_mq), (101, ppc64_xer), (102, InvalidReg), (103, InvalidReg), (104, InvalidReg),
    (105, InvalidReg), (106, InvalidReg), (107, InvalidReg), (108, ppc64_lr), (109, ppc64_ctr)]"

definition ppc64_getDwarfEnc :: "(MachRegister \<times> int) list" where
  "ppc64_getDwarfEnc = [
    (ppc64_r0, 0), (ppc64_r1, 1), (ppc64_r2, 2), (ppc64_r3, 3), (ppc64_r4, 4), (ppc64_r5, 5),
    (ppc64_r6, 6), (ppc64_r7, 7), (ppc64_r8, 8), (ppc64_r9, 9), (ppc64_r10, 10),
    (ppc64_r11, 11), (ppc64_r12, 12), (ppc64_r13, 13), (ppc64_r14, 14), (ppc64_r15, 15),
    (ppc64_r16, 16), (ppc64_r17, 17), (ppc64_r18, 18), (ppc64_r19, 19), (ppc64_r20, 20),
    (ppc64_r21, 21), (ppc64_r22, 22), (ppc64_r23, 23), (ppc64_r24, 24), (ppc64_r25, 25),
    (ppc64_r26, 26), (ppc64_r27, 27), (ppc64_r28, 28), (ppc64_r29, 29), (ppc64_r30, 30),
    (ppc64_r31, 31), (ppc64_fpr0, 32), (ppc64_fpr1, 33), (ppc64_fpr2, 34), (ppc64_fpr3, 35),
    (ppc64_fpr4, 36), (ppc64_fpr5, 37), (ppc64_fpr6, 38), (ppc64_fpr7, 39), (ppc64_fpr8, 40),
    (ppc64_fpr9, 41), (ppc64_fpr10, 42), (ppc64_fpr11, 43), (ppc64_fpr12, 44),
    (ppc64_fpr13, 45), (ppc64_fpr14, 46), (ppc64_fpr15, 47), (ppc64_fpr16, 48),
    (ppc64_fpr17, 49), (ppc64_fpr18, 50), (ppc64_fpr19, 51), (ppc64_fpr20, 52),
    (ppc64_fpr21, 53), (ppc64_fpr22, 54), (ppc64_fpr23, 55), (ppc64_fpr24, 56),
    (ppc64_fpr25, 57), (ppc64_fpr26, 58), (ppc64_fpr27, 59), (ppc64_fpr28, 60),
    (ppc64_fpr29, 61), (ppc64_fpr30, 62), (ppc64_fpr31, 63), (ppc64_cr, 64), (ppc64_mq, 100),
    (ppc64_xer, 101), (ppc64_lr, 108), (ppc64_ctr, 109)]"

definition aarch64_DwarfEncToReg_1 :: "(int \<times> MachRegister) list" where
  "aarch64_DwarfEncToReg_1 = [
    (0, aarch64_x0), (1, aarch64_x1), (2, aarch64_x2), (3, aarch64_x3), (4, aarch64_x4),
    (5, aarch64_x5), (6, aarch64_x6), (7, aarch64_x7), (8, aarch64_x8), (9, aarch64_x9),
    (10, aarch64_x10), (11, aarch64_x11), (12, aarch64_x12), (13, aarch64_x13),
    (14, aarch64_x14), (15, aarch64_x15), (16, aarch64_x16), (17, aarch64_x17),
    (18, aarch64_x18), (19, aarch64_x19), (20, aarch64_x20), (21, aarch64_x21),
    (22, aarch64_x22), (23, aarch64_x23), (24, aarch64_x24), (25, aarch64_x25),
    (26, aarch64_x26), (27, aarch64_x27), (28, aarch64_x28), (29, aarch64_x29),
    (30, aarch64_x30), (31, aarch64_sp), (32, InvalidReg)]"

definition aarch64_DwarfEncToReg_2 :: "(int \<times> MachRegister) list" where
  "aarch64_DwarfEncToReg_2 = [
    (64, aarch64_q0), (65, aarch64_q1), (66, aarch64_q2), (67, aarch64_q3), (68, aarch64_q4),
    (69, aarch64_q5), (70, aarch64_q6), (71, aarch64_q7), (72, aarch64_q8), (73, aarch64_q9),
    (74, aarch64_q10), (75, aarch64_q11), (76, aarch64_q12), (77, aarch64_q13),
    (78, aarch64_q14), (79, aarch64_q15), (80, aarch64_q16), (81, aarch64_q17),
    (82, aarch64_q18), (83, aarch64_q19), (84, aarch64_q20), (85, aarch64_q21),
    (86, aarch64_q22), (87, aarch64_q23), (88, aarch64_q24), (89, aarch64_q25),
    (90, aarch64_q26), (91, aarch64_q27), (92, aarch64_q28), (93, aarch64_q29),
    (94, aarch64_q30), (95, aarch64_q31)]"

definition aarch64_getDwarfEnc :: "(MachRegister \<times> int) list" where
  "aarch64_getDwarfEnc = [
    (aarch64_x0, 0), (aarch64_x1, 1), (aarch64_x2, 2), (aarch64_x3, 3), (aarch64_x4, 4),
    (aarch64_x5, 5), (aarch64_x6, 6), (aarch64_x7, 7), (aarch64_x8, 8), (aarch64_x9, 9),
    (aarch64_x10, 10), (aarch64_x11, 11), (aarch64_x12, 12), (aarch64_x13, 13),
    (aarch64_x14, 14), (aarch64_x15, 15), (aarch64_x16, 16), (aarch64_x17, 17),
    (aarch64_x18, 18), (aarch64_x19, 19), (aarch64_x20, 20), (aarch64_x21, 21),
    (aarch64_x22, 22), (aarch64_x23, 23), (aarch64_x24, 24), (aarch64_x25, 25),
    (aarch64_x26, 26), (aarch64_x27, 27), (aarch64_x28, 28), (aarch64_x29, 29),
    (aarch64_x30, 30), (aarch64_sp, 31), (aarch64_q0, 64), (aarch64_q1, 65), (aarch64_q2, 66),
    (aarch64_q3, 67), (aarch64_q4, 68), (aarch64_q5, 69), (aarch64_q6, 70), (aarch64_q7, 71),
    (aarch64_q8, 72), (aarch64_q9, 73), (aarch64_q10, 74), (aarch64_q11, 75), (aarch64_q12, 76),
    (aarch64_q13, 77), (aarch64_q14, 78), (aarch64_q15, 79), (aarch64_q16, 80),
    (aarch64_q17, 81), (aarch64_q18, 82), (aarch64_q19, 83), (aarch64_q20, 84),
    (aarch64_q21, 85), (aarch64_q22, 86), (aarch64_q23, 87), (aarch64_q24, 88),
    (aarch64_q25, 89), (aarch64_q26, 90), (aarch64_q27, 91), (aarch64_q28, 92),
    (aarch64_q29, 93), (aarch64_q30, 94), (aarch64_q31, 95)]"

end
