(* ===== verification/Mach_Register.thy ===== *)
theory Mach_Register
  imports Reg_Tables_X86 Reg_Tables_RISC
begin

text \<open>
  The operations of \<^verbatim>\<open>class MachRegister\<close>
  (\<^verbatim>\<open>common/src/registers/MachRegister.C\<close>): the fields of the encoding, base registers
  and sizes, the registers with a role (program counter, stack pointer, \<dots>), and the conversion
  to and from DWARF register numbers. A failed \<^verbatim>\<open>assert\<close> is the result \<open>None\<close>. The three
  AMD GPU architectures use the same category and size constants, written once here.
\<close>

abbreviation amdgpu_SGPR :: MachRegister where "amdgpu_SGPR \<equiv> 0x00010000"
abbreviation amdgpu_VGPR :: MachRegister where "amdgpu_VGPR \<equiv> 0x00060000"
abbreviation amdgpu_HWR :: MachRegister where "amdgpu_HWR \<equiv> 0x000C0000"
abbreviation amdgpu_PC :: MachRegister where "amdgpu_PC \<equiv> 0x000F0000"
abbreviation amdgpu_BITS_32 :: MachRegister where "amdgpu_BITS_32 \<equiv> 0x00000B00"
abbreviation amdgpu_BITS_48 :: MachRegister where "amdgpu_BITS_48 \<equiv> 0x00000C00"

definition amdgpu_s0 :: "Architecture \<Rightarrow> MachRegister" where
  "amdgpu_s0 arch = 0 OR amdgpu_BITS_32 OR amdgpu_SGPR OR arch"

definition amdgpu_v0 :: "Architecture \<Rightarrow> MachRegister" where
  "amdgpu_v0 arch = 0 OR amdgpu_BITS_32 OR amdgpu_VGPR OR arch"

definition amdgpu_pc_all :: "Architecture \<Rightarrow> MachRegister" where
  "amdgpu_pc_all arch = 0 OR amdgpu_BITS_48 OR amdgpu_PC OR arch"

definition is_amdgpu :: "Architecture \<Rightarrow> bool" where
  "is_amdgpu arch \<longleftrightarrow>
     arch = Arch_amdgpu_gfx908 \<or> arch = Arch_amdgpu_gfx90a \<or> arch = Arch_amdgpu_gfx940"

section \<open>The fields of a register\<close>

definition regClass :: "MachRegister \<Rightarrow> MachRegister" where
  "regClass reg = reg AND 0x00ff0000"

definition getArchitecture :: "MachRegister \<Rightarrow> Architecture" where
  "getArchitecture reg = reg AND 0xff000000"

definition isValid :: "MachRegister \<Rightarrow> bool" where
  "isValid reg \<longleftrightarrow> reg \<noteq> InvalidReg"

definition MachRegister_less :: "MachRegister \<Rightarrow> MachRegister \<Rightarrow> bool" where
  "MachRegister_less a b \<longleftrightarrow> sint a < sint b"

definition getBaseRegister :: "MachRegister \<Rightarrow> MachRegister" where
  "getBaseRegister reg =
     (let category = reg AND 0x00ff0000; arch = getArchitecture reg in
      if arch = Arch_x86 then
        (if category = x86_GPR then reg AND 0xffff00ff
         else if category = x86_FLAG then x86_flags
         else if category = x86_MMX then (reg AND NOT 0x00ff0000) OR x86_X87
         else if category = x86_XMM then (reg AND NOT 0x00ff0000) OR x86_ZMM
         else if category = x86_YMM then (reg AND NOT 0x00ff0000) OR x86_ZMM
         else reg)
      else if arch = Arch_x86_64 then
        (if category = x86_64_GPR then reg AND 0xffff00ff
         else if category = x86_64_FLAG then x86_64_flags
         else if category = x86_64_MMX then (reg AND NOT 0x00ff0000) OR x86_64_X87
         else if category = x86_64_XMM then (reg AND NOT 0x00ff0000) OR x86_64_ZMM
         else if category = x86_64_YMM then (reg AND NOT 0x00ff0000) OR x86_64_ZMM
         else reg)
      else if arch = Arch_ppc32 \<or> arch = Arch_ppc64 \<or> arch = Arch_none then reg
      else if is_amdgpu arch then
        (if category = amdgpu_SGPR then (reg AND 0x000000ff) OR amdgpu_s0 arch
         else if category = amdgpu_VGPR then (reg AND 0x000000ff) OR amdgpu_v0 arch
         else reg)
      else if arch = Arch_aarch32 \<or> arch = Arch_aarch64 \<or> arch = Arch_intelGen9 \<or>
              arch = Arch_cuda then reg
      else InvalidReg)"

definition x86_size :: "MachRegister \<Rightarrow> nat" where
  "x86_size sub =
     (if sub = x86_FULL then 4
      else if sub = x86_BIT then 0
      else if sub = x86_L_REG \<or> sub = x86_H_REG then 1
      else if sub = x86_W_REG then 2
      else if sub = x86_FPDBL then 10
      else if sub = x86_MMS then 8
      else if sub = x86_XMMS then 16
      else if sub = x86_YMMS then 32
      else if sub = x86_ZMMS then 64
      else if sub = x86_KMSKS then 8
      else 0)"

definition x86_64_size :: "MachRegister \<Rightarrow> nat" where
  "x86_64_size sub =
     (if sub = x86_64_L_REG \<or> sub = x86_64_H_REG then 1
      else if sub = x86_64_W_REG then 2
      else if sub = x86_64_D_REG then 4
      else if sub = x86_64_FULL then 8
      else if sub = x86_64_MMS then 8
      else if sub = x86_64_XMMS then 16
      else if sub = x86_64_FPDBL then 10
      else if sub = x86_64_BIT then 0
      else if sub = x86_64_YMMS then 32
      else if sub = x86_64_ZMMS then 64
      else if sub = x86_64_KMSKS then 8
      else 0)"

definition amdgpu_size :: "MachRegister \<Rightarrow> nat option" where
  "amdgpu_size reg =
     (let c = reg AND 0x00ff0000; bits = reg AND 0x00007f00 in
      if c = amdgpu_SGPR \<or> c = amdgpu_VGPR then Some 4
      else if bits \<in> {0x100, 0x200, 0x300, 0x400, 0x500, 0x600, 0x700} then Some 1
      else if bits \<in> {0x800, 0x900, 0xA00} then Some 2
      else if bits = amdgpu_BITS_32 then Some 4
      else if bits = amdgpu_BITS_48 then Some 6
      else if bits = 0xD00 then Some 8
      else if bits = 0xE00 then Some 16
      else if bits = 0xF00 then Some 32
      else if bits = 0x1000 then Some 64
      else None)"

definition aarch64_size :: "MachRegister \<Rightarrow> nat option" where
  "aarch64_size reg =
     (let c = reg AND 0x00ff0000; sub = reg AND 0x0000ff00 in
      if c = aarch64_FPR then
        (if sub = aarch64_B_REG then Some 1
         else if sub = aarch64_W_REG then Some 2
         else if sub = aarch64_D_REG then Some 4
         else if sub = aarch64_FULL \<or> sub = aarch64_HQ_REG then Some 8
         else if sub = aarch64_Q_REG then Some 16
         else None)
      else if c = aarch64_GPR \<or> c = aarch64_SPR \<or> c = aarch64_SYSREG \<or> c = aarch64_FLAG then
        (if sub = aarch64_FULL then Some 8
         else if sub = aarch64_D_REG then Some 4
         else Some 0)
      else Some 4)"

definition MachRegister_size :: "MachRegister \<Rightarrow> nat option" where
  "MachRegister_size reg =
     (let arch = getArchitecture reg; c = reg AND 0x00ff0000 in
      if arch = Arch_x86 then Some (x86_size (reg AND 0x0000ff00))
      else if arch = Arch_x86_64 then Some (x86_64_size (reg AND 0x0000ff00))
      else if arch = Arch_ppc32 then Some (if c = ppc32_FPR \<or> c = ppc32_FSR then 8 else 4)
      else if arch = Arch_ppc64 then Some (if c = aarch64_FPR then 16 else 8)
      else if arch = Arch_aarch32 then None
      else if arch = Arch_cuda then Some 8
      else if is_amdgpu arch then amdgpu_size reg
      else if arch = Arch_aarch64 then aarch64_size reg
      else if arch = Arch_intelGen9 then None
      else Some 0)"

section \<open>Registers with a role\<close>

definition getPC :: "Architecture \<Rightarrow> MachRegister" where
  "getPC arch =
     (if arch = Arch_x86 then x86_eip
      else if arch = Arch_x86_64 then x86_64_rip
      else if arch = Arch_ppc32 then ppc32_pc
      else if arch = Arch_ppc64 then ppc64_pc
      else if arch = Arch_aarch64 then aarch64_pc
      else if arch = Arch_cuda then 256 OR Arch_cuda
      else if is_amdgpu arch then amdgpu_pc_all arch
      else InvalidReg)"

definition getReturnAddress :: "Architecture \<Rightarrow> MachRegister option" where
  "getReturnAddress arch =
     (if arch = Arch_aarch64 then Some (aarch64_x30)
      else if arch = Arch_none then Some InvalidReg
      else if arch = Arch_x86 \<or> arch = Arch_x86_64 \<or> arch = Arch_ppc32 \<or> arch = Arch_ppc64 \<or>
              arch = Arch_aarch32 \<or> arch = Arch_cuda \<or> is_amdgpu arch \<or> arch = Arch_intelGen9
      then None
      else Some InvalidReg)"

definition getFramePointer :: "Architecture \<Rightarrow> MachRegister" where
  "getFramePointer arch =
     (if arch = Arch_x86 then x86_ebp
      else if arch = Arch_x86_64 then x86_64_rbp
      else if arch = Arch_ppc32 then ppc32_r1
      else if arch = Arch_ppc64 then ppc64_r1
      else if arch = Arch_aarch64 then aarch64_x29
      else InvalidReg)"

definition getStackPointer :: "Architecture \<Rightarrow> MachRegister" where
  "getStackPointer arch =
     (if arch = Arch_x86 then x86_esp
      else if arch = Arch_x86_64 then x86_64_rsp
      else if arch = Arch_ppc32 then ppc32_r1
      else if arch = Arch_ppc64 then ppc64_r1
      else if arch = Arch_aarch64 then aarch64_sp
      else InvalidReg)"

definition getSyscallNumberReg :: "Architecture \<Rightarrow> MachRegister" where
  "getSyscallNumberReg arch =
     (if arch = Arch_x86 then x86_eax
      else if arch = Arch_x86_64 then x86_64_rax
      else if arch = Arch_ppc32 then ppc32_r0
      else if arch = Arch_ppc64 then ppc64_r0
      else if arch = Arch_aarch64 then aarch64_x8
      else InvalidReg)"

definition getSyscallNumberOReg :: "Architecture \<Rightarrow> MachRegister option" where
  "getSyscallNumberOReg arch =
     (if arch = Arch_x86 then Some (x86_oeax)
      else if arch = Arch_x86_64 then Some (x86_64_orax)
      else if arch = Arch_ppc32 then Some (ppc32_r0)
      else if arch = Arch_ppc64 then Some (ppc64_r0)
      else if arch = Arch_aarch64 then Some (aarch64_x8)
      else if arch = Arch_none then Some InvalidReg
      else None)"

definition getSyscallReturnValueReg :: "Architecture \<Rightarrow> MachRegister" where
  "getSyscallReturnValueReg arch =
     (if arch = Arch_x86 then x86_eax
      else if arch = Arch_x86_64 then x86_64_rax
      else if arch = Arch_ppc32 then ppc32_r3
      else if arch = Arch_ppc64 then ppc64_r3
      else if arch = Arch_aarch64 then aarch64_x0
      else InvalidReg)"

definition getArchRegFromAbstractReg :: "MachRegister \<Rightarrow> Architecture \<Rightarrow> MachRegister option" where
  "getArchRegFromAbstractReg abs_reg arch =
     (if arch = Arch_aarch64 then
        (if abs_reg = ReturnAddr then Some (aarch64_x30)
         else if abs_reg = FrameBase then Some (aarch64_x29)
         else if abs_reg = StackTop then Some (aarch64_sp)
         else if abs_reg = CFA then None
         else Some abs_reg)
      else None)"

definition getZeroFlag :: "Architecture \<Rightarrow> MachRegister" where
  "getZeroFlag arch =
     (if arch = Arch_x86 then x86_zf
      else if arch = Arch_x86_64 then x86_64_zf
      else if arch = Arch_ppc32 then ppc32_cr0e
      else if arch = Arch_ppc64 then ppc64_cr0e
      else if arch = Arch_aarch64 then aarch64_z
      else InvalidReg)"

definition isPC :: "MachRegister \<Rightarrow> bool" where
  "isPC reg \<longleftrightarrow> reg \<noteq> InvalidReg \<and> reg = getPC (getArchitecture reg)"

definition isFramePointer :: "MachRegister \<Rightarrow> bool" where
  "isFramePointer reg \<longleftrightarrow> reg \<noteq> InvalidReg \<and>
     (reg = FrameBase \<or> reg = getFramePointer (getArchitecture reg))"

definition isStackPointer :: "MachRegister \<Rightarrow> bool" where
  "isStackPointer reg \<longleftrightarrow> reg \<noteq> InvalidReg \<and>
     (reg = StackTop \<or> reg = getStackPointer (getArchitecture reg))"

definition isSyscallNumberReg :: "MachRegister \<Rightarrow> bool" where
  "isSyscallNumberReg reg \<longleftrightarrow> reg \<noteq> InvalidReg \<and> reg = getSyscallNumberReg (getArchitecture reg)"

definition isSyscallReturnValueReg :: "MachRegister \<Rightarrow> bool" where
  "isSyscallReturnValueReg reg \<longleftrightarrow>
     reg \<noteq> InvalidReg \<and> reg = getSyscallReturnValueReg (getArchitecture reg)"

definition isFlag :: "MachRegister \<Rightarrow> bool option" where
  "isFlag reg =
     (let regC = regClass reg; arch = getArchitecture reg; baseID = reg AND 0x0000ffff in
      if arch = Arch_x86 then Some (regC = x86_FLAG)
      else if arch = Arch_x86_64 then Some (regC = x86_64_FLAG)
      else if arch = Arch_aarch64 then Some (regC = aarch64_FLAG)
      else if arch = Arch_ppc32 \<or> arch = Arch_ppc64 then
        Some ((baseID \<le> 731 \<and> baseID \<ge> 700) \<or> (baseID \<le> 629 \<and> baseID \<ge> 621))
      else if is_amdgpu arch then Some (reg AND 0x0000f000 \<noteq> 0)
      else if arch = Arch_cuda then Some False
      else None)"

definition isZeroFlag :: "MachRegister \<Rightarrow> bool" where
  "isZeroFlag reg =
     (let arch = getArchitecture reg; baseID = reg AND 0x0000ffff in
      if reg = InvalidReg then False
      else if arch = Arch_ppc32 \<or> arch = Arch_ppc64 then
        (baseID \<le> 731 \<and> baseID \<ge> 700 \<and> baseID mod 4 = 2) \<or> (baseID \<le> 628 \<and> baseID \<ge> 621)
      else reg = getZeroFlag arch)"

section \<open>DWARF register numbers\<close>

text \<open>A \<^verbatim>\<open>switch\<close> on an encoding: the register of the first row, or the default.\<close>

definition switch_reg :: "(int \<times> MachRegister) list \<Rightarrow> int \<Rightarrow> MachRegister" where
  "switch_reg t e = (case map_of t e of Some r \<Rightarrow> r | None \<Rightarrow> InvalidReg)"

definition switch_enc :: "(MachRegister \<times> int) list \<Rightarrow> MachRegister \<Rightarrow> int" where
  "switch_enc t r = (case map_of t r of Some e \<Rightarrow> e | None \<Rightarrow> - 1)"

text \<open>
  For the RISC architectures the \<^verbatim>\<open>default\<close> of the first \<^verbatim>\<open>switch\<close> returns, so that the
  second one is never reached.
\<close>

definition DwarfEncToReg :: "int \<Rightarrow> Architecture \<Rightarrow> MachRegister option" where
  "DwarfEncToReg encoding arch =
     (if arch = Arch_x86 then Some (switch_reg x86_DwarfEncToReg encoding)
      else if arch = Arch_x86_64 then Some (switch_reg x86_64_DwarfEncToReg encoding)
      else if arch = Arch_ppc32 then Some (switch_reg ppc32_DwarfEncToReg_1 encoding)
      else if arch = Arch_ppc64 then Some (switch_reg ppc64_DwarfEncToReg_1 encoding)
      else if arch = Arch_aarch64 then
        Some (switch_reg aarch64_DwarfEncToReg_1 encoding)
      else if arch = Arch_cuda \<or> is_amdgpu arch \<or> arch = Arch_intelGen9 \<or> arch = Arch_none
      then Some InvalidReg
      else None)"

definition getDwarfEnc :: "MachRegister \<Rightarrow> int option" where
  "getDwarfEnc reg =
     (let arch = getArchitecture reg in
      if arch = Arch_x86 then Some (switch_enc x86_getDwarfEnc reg)
      else if arch = Arch_x86_64 then Some (switch_enc x86_64_getDwarfEnc reg)
      else if arch = Arch_ppc32 then Some (switch_enc ppc32_getDwarfEnc reg)
      else if arch = Arch_ppc64 then Some (switch_enc ppc64_getDwarfEnc reg)
      else if arch = Arch_aarch64 then Some (switch_enc aarch64_getDwarfEnc reg)
      else None)"

definition getArchReg :: "nat \<Rightarrow> Architecture \<Rightarrow> MachRegister" where
  "getArchReg regNum arch =
     (if arch = Arch_aarch64 then
        (if regNum \<le> 30 then [aarch64_x0, aarch64_x1, aarch64_x2, aarch64_x3, aarch64_x4, aarch64_x5,
            aarch64_x6, aarch64_x7, aarch64_x8, aarch64_x9, aarch64_x10, aarch64_x11,
            aarch64_x12, aarch64_x13, aarch64_x14, aarch64_x15, aarch64_x16, aarch64_x17,
            aarch64_x18, aarch64_x19, aarch64_x20, aarch64_x21, aarch64_x22, aarch64_x23,
            aarch64_x24, aarch64_x25, aarch64_x26, aarch64_x27, aarch64_x28, aarch64_x29,
            aarch64_x30] ! regNum
         else if regNum = 100 then aarch64_sp
         else if regNum = 101 then aarch64_pc
         else if regNum = 102 then aarch64_pstate
         else if regNum = 103 then aarch64_xzr
         else InvalidReg)
      else InvalidReg)"

end
