(* ===== verification/Strided_Interval.thy ===== *)
theory Strided_Interval
  imports Dyn_Prelude
begin

text \<open>
  The value domain of the jump-table analysis: \<^verbatim>\<open>struct StridedInterval\<close> of
  \<^verbatim>\<open>parseAPI/src/BoundFactData.h\<close> and \<^verbatim>\<open>BoundFactData.C\<close>. A strided interval
  \<open>s[l,h]\<close> stands for the numbers \<open>l, l + s, l + 2s, \<dots>\<close> up to \<open>h\<close>; a negative stride is
  bottom (the empty set), stride 0 a constant. The operations are the code's, with 64-bit
  wrap-around at every sum and product; the lemmas say which of them are sound for the
  concretisation \<open>si_gamma\<close>, on which inputs, and where the code is not.
\<close>

record StridedInterval =
  stride :: int
  low :: int
  high :: int

definition SI_bottom :: StridedInterval where
  "SI_bottom = \<lparr>stride = -1, low = 0, high = 0\<rparr>"

definition SI_const :: "int \<Rightarrow> StridedInterval" where
  "SI_const x = \<lparr>stride = 0, low = x, high = x\<rparr>"

definition SI_range :: "int \<Rightarrow> int \<Rightarrow> int \<Rightarrow> StridedInterval" where
  "SI_range s l h = \<lparr>stride = uwrap32 s, low = l, high = h\<rparr>"

definition SI_top :: StridedInterval where
  "SI_top = SI_range 1 LLONG_MIN LLONG_MAX"

section \<open>Greatest common divisors\<close>

function GCD_loop :: "int \<Rightarrow> int \<Rightarrow> int \<Rightarrow> int" where
  "GCD_loop a b r = (if r \<noteq> 0 then GCD_loop b r (b smod r) else b)"
  by pat_completeness auto
termination
  by (relation "measure (\<lambda>(a, b, r). nat \<bar>r\<bar>)") (auto simp: abs_smod)

declare GCD_loop.simps [simp del]

definition SI_GCD :: "int \<Rightarrow> int \<Rightarrow> int" where
  "SI_GCD a b =
     (if a = 0 \<and> b = 0 then 0
      else if a = 0 then b
      else if b = 0 then a
      else GCD_loop a b (a smod b))"




section \<open>The operations of the domain\<close>

fun join_stride :: "int \<Rightarrow> int list \<Rightarrow> int" where
  "join_stride g (cur # nxt # vs) = join_stride (SI_GCD g (wrap64 (nxt - cur))) (nxt # vs)"
| "join_stride g vs = g"

definition join_values :: "StridedInterval \<Rightarrow> StridedInterval \<Rightarrow> int list" where
  "join_values a b = sort (remdups [low a, high a, low b, high b])"

definition SI_Join :: "StridedInterval \<Rightarrow> StridedInterval \<Rightarrow> StridedInterval" where
  "SI_Join a b =
     (if a = SI_top then a
      else if b = SI_top then SI_top
      else if stride a < 0 \<and> stride b < 0 then SI_bottom
      else if stride a < 0 then b
      else if stride b < 0 then a
      else let vals = join_values a b in
        if length vals \<noteq> 1 then
          \<lparr>stride = join_stride (SI_GCD (stride a) (stride b)) vals,
           low = hd vals, high = last vals\<rparr>
        else a)"







definition SI_Xor :: "StridedInterval \<Rightarrow> StridedInterval \<Rightarrow> StridedInterval" where
  "SI_Xor a b = SI_top"

definition SI_Mul :: "StridedInterval \<Rightarrow> StridedInterval \<Rightarrow> StridedInterval" where
  "SI_Mul a b =
     (if stride a = 0 \<or> stride b = 0 then
        (let r = (if stride a = 0
                  then \<lparr>stride = wrap64 (stride b * low a), low = wrap64 (low b * low a),
                        high = wrap64 (high b * low a)\<rparr>
                  else \<lparr>stride = wrap64 (stride a * low b), low = wrap64 (low a * low b),
                        high = wrap64 (high a * low b)\<rparr>)
         in if stride r < 0
            then \<lparr>stride = wrap64 (- stride r), low = high r, high = low r\<rparr> else r)
      else SI_top)"

text \<open>A division by the constant 0 is undefined behaviour in the code: no result.\<close>

definition SI_Div :: "StridedInterval \<Rightarrow> StridedInterval \<Rightarrow> StridedInterval option" where
  "SI_Div a b =
     (if stride b = 0 then
        (if low b = 0 then None
         else let l = wrap64 (low a sdiv low b); h = wrap64 (high a sdiv low b);
                  s = wrap64 (stride a sdiv low b)
              in Some \<lparr>stride = (if s = 0 \<and> l \<noteq> h then 1 else s), low = l, high = h\<rparr>)
      else Some SI_top)"

text \<open>
  \<^verbatim>\<open>1 << rhs.low\<close> is a shift of a 32-bit \<^verbatim>\<open>int\<close>, defined for a shift count from 0 to 31.
\<close>

definition shl1 :: "int \<Rightarrow> int option" where
  "shl1 n = (if 0 \<le> n \<and> n < 32 then Some (wrap32 (2 ^ nat n)) else None)"

definition SI_ShiftLeft :: "StridedInterval \<Rightarrow> StridedInterval \<Rightarrow> StridedInterval option" where
  "SI_ShiftLeft a b =
     (if stride b = 0 then map_option (\<lambda>c. SI_Mul a (SI_const c)) (shl1 (low b))
      else Some SI_top)"

definition SI_ShiftRight :: "StridedInterval \<Rightarrow> StridedInterval \<Rightarrow> StridedInterval option" where
  "SI_ShiftRight a b =
     (if stride b = 0 then Option.bind (shl1 (low b)) (\<lambda>c. SI_Div a (SI_const c))
      else Some SI_top)"

definition SI_less :: "StridedInterval \<Rightarrow> StridedInterval \<Rightarrow> bool" where
  "SI_less a b =
     (if stride a \<noteq> stride b then stride a < stride b
      else if low a \<noteq> low b then low a < low b
      else high a < high b)"



definition SI_DeleteElement :: "StridedInterval \<Rightarrow> int \<Rightarrow> StridedInterval" where
  "SI_DeleteElement a val =
     (let a1 = (if val = low a then a\<lparr>low := wrap64 (low a + stride a)\<rparr> else a)
      in if val = high a1 then a1\<lparr>low := wrap64 (low a1 - stride a1)\<rparr> else a1)"


definition SI_IsConst_val :: "StridedInterval \<Rightarrow> int \<Rightarrow> bool" where
  "SI_IsConst_val a v \<longleftrightarrow> stride a = 0 \<and> low a = v \<and> high a = v"

definition SI_IsConst :: "StridedInterval \<Rightarrow> bool" where
  "SI_IsConst a \<longleftrightarrow> stride a = 0"

section \<open>What a strided interval stands for\<close>

definition si_gamma :: "StridedInterval \<Rightarrow> int set" where
  "si_gamma a =
     (if stride a < 0 then {}
      else if stride a = 0 then {low a}
      else {x. low a \<le> x \<and> x \<le> high a \<and> stride a dvd (x - low a)})"

text \<open>
  Well-formed values: a constant has equal bounds, and the stride of a proper interval divides
  its width, so that both bounds belong to the progression.
\<close>

definition si_wf :: "StridedInterval \<Rightarrow> bool" where
  "si_wf a \<longleftrightarrow> fits64 (stride a) \<and> fits64 (low a) \<and> fits64 (high a) \<and>
     (stride a = 0 \<longrightarrow> low a = high a) \<and> (stride a > 0 \<longrightarrow> stride a dvd (high a - low a))"

lemmas si_mk_defs = SI_bottom_def SI_const_def SI_range_def SI_top_def

lemma si_gamma_neg [simp]: "stride a < 0 \<Longrightarrow> si_gamma a = {}"
  by (simp add: si_gamma_def)

lemma si_gamma_bottom [simp]: "si_gamma SI_bottom = {}"
  by (simp add: si_gamma_def SI_bottom_def)

lemma si_gamma_const [simp]: "si_gamma (SI_const c) = {c}"
  by (simp add: si_gamma_def SI_const_def)

lemma si_gamma_range1 [simp]: "si_gamma (SI_range 1 l h) = {l..h}"
  by (auto simp: si_gamma_def SI_range_def)

lemma si_gamma_top [simp]: "si_gamma SI_top = {x. fits64 x}"
  by (auto simp: SI_top_def fits64_def)

lemma si_wf_simps [simp]: "si_wf SI_bottom" "fits64 c \<Longrightarrow> si_wf (SI_const c)" "si_wf SI_top"
  by (simp_all add: si_wf_def si_mk_defs fits64_def LLONG_MIN_def LLONG_MAX_def)

lemma si_wf_range1 [simp]: "fits64 l \<Longrightarrow> fits64 h \<Longrightarrow> si_wf (SI_range 1 l h)"
  by (simp add: si_wf_def SI_range_def)

lemma si_gamma_fits: "si_wf a \<Longrightarrow> x \<in> si_gamma a \<Longrightarrow> fits64 x"
  by (auto simp: si_wf_def si_gamma_def fits64_def split: if_splits)

section \<open>The divisor computations\<close>

lemma abs_GCD_loop: "\<bar>GCD_loop a b r\<bar> = gcd b r"
proof (induction a b r rule: GCD_loop.induct)
  case (1 a b r)
  show ?case
  proof (cases "r = 0")
    case True
    then show ?thesis by (simp add: GCD_loop.simps[of a b 0])
  next
    case False
    with "1.IH" show ?thesis by (simp add: GCD_loop.simps[of a b r] gcd_smod)
  qed
qed

lemma GCD_loop_nonneg: "0 \<le> b \<Longrightarrow> 0 \<le> r \<Longrightarrow> 0 \<le> GCD_loop a b r"
proof (induction a b r rule: GCD_loop.induct)
  case (1 a b r)
  show ?case
  proof (cases "r = 0")
    case True
    with "1.prems" show ?thesis by (simp add: GCD_loop.simps[of a b 0])
  next
    case False
    with "1.prems" have "0 \<le> b smod r" by simp
    with False "1.IH" "1.prems" show ?thesis by (simp add: GCD_loop.simps[of a b r])
  qed
qed

lemma abs_SI_GCD: "\<bar>SI_GCD a b\<bar> = gcd a b"
  by (auto simp: SI_GCD_def abs_GCD_loop gcd_smod)

lemma SI_GCD_eq: "0 \<le> a \<Longrightarrow> 0 \<le> b \<Longrightarrow> SI_GCD a b = gcd a b"
proof -
  assume "0 \<le> a" "0 \<le> b"
  then have "0 \<le> SI_GCD a b"
    by (auto simp: SI_GCD_def intro!: GCD_loop_nonneg)
  then show ?thesis using abs_SI_GCD[of a b] by simp
qed

lemma join_stride_gcd:
  "\<lbrakk> sorted vs; vs \<noteq> []; fits64 (last vs - hd vs); 0 \<le> g \<rbrakk> \<Longrightarrow>
     0 \<le> join_stride g vs \<and> join_stride g vs dvd g \<and>
     (\<forall>x\<in>set vs. join_stride g vs dvd x - hd vs)"
proof (induction g vs rule: join_stride.induct)
  case (1 g a b vs)
  let ?r = "join_stride (SI_GCD g (wrap64 (b - a))) (b # vs)"
  from "1.prems" have ab: "a \<le> b" and bl: "b \<le> last (b # vs)" by auto
  with "1.prems"(3) have "fits64 (b - a)" "fits64 (last (b # vs) - b)"
    by (auto simp: fits64_def LLONG_MIN_def)
  with ab "1.prems"(4) have g: "SI_GCD g (wrap64 (b - a)) = gcd g (b - a)"
    by (simp add: SI_GCD_eq)
  from "1.prems" \<open>fits64 (last (b # vs) - b)\<close> g have IH:
    "0 \<le> ?r" "?r dvd gcd g (b - a)" "\<forall>x\<in>set (b # vs). ?r dvd x - b"
    using "1.IH" by auto
  have "?r dvd x - a" if "x \<in> set (b # vs)" for x
  proof -
    have "?r dvd (x - b) + (b - a)" using IH(2,3) that by (intro dvd_add) auto
    then show ?thesis by simp
  qed
  with IH show ?case by auto
qed auto

lemma join_stride_pos:
  "\<lbrakk> sorted vs; distinct vs; fits64 (last vs - hd vs); 0 \<le> g; 2 \<le> length vs \<rbrakk> \<Longrightarrow>
     0 < join_stride g vs"
proof -
  assume a: "sorted vs" "distinct vs" "fits64 (last vs - hd vs)" "0 \<le> g" "2 \<le> length vs"
  then obtain x y zs where vs: "vs = x # y # zs"
    by (cases vs; cases "tl vs") auto
  from a vs have "join_stride g vs dvd y - x" "0 \<le> join_stride g vs"
    using join_stride_gcd[of vs g] by auto
  moreover from a vs have "y - x \<noteq> 0" by auto
  ultimately show "0 < join_stride g vs" by (cases "join_stride g vs = 0") auto
qed

section \<open>Join\<close>

lemma join_values_props:
  shows "sorted (join_values a b)" "distinct (join_values a b)"
    "set (join_values a b) = {low a, high a, low b, high b}"
  by (auto simp: join_values_def)

lemma sorted_hd_last: "sorted vs \<Longrightarrow> x \<in> set vs \<Longrightarrow> hd vs \<le> x \<and> x \<le> last vs"
  by (induction vs) (auto simp: last_ConsR)

lemma si_gamma_dvdI:
  "\<lbrakk> 0 < stride r; x \<in> si_gamma a; low r \<le> low a; high a \<le> high r; stride a = 0 \<longrightarrow> low a \<le> high r;
     stride r dvd low a - low r; stride r dvd stride a \<rbrakk> \<Longrightarrow> x \<in> si_gamma r"
proof -
  assume a: "0 < stride r" "x \<in> si_gamma a" "low r \<le> low a" "high a \<le> high r"
    "stride a = 0 \<longrightarrow> low a \<le> high r" "stride r dvd low a - low r" "stride r dvd stride a"
  from a(2) have "stride a dvd x - low a"
    by (auto simp: si_gamma_def split: if_splits)
  with a have "stride r dvd (x - low a) + (low a - low r)"
    by (intro dvd_add) (auto intro: dvd_trans)
  with a show ?thesis by (auto simp: si_gamma_def split: if_splits)
qed

lemma SI_Join_proper:
  assumes "si_wf a" "si_wf b" "\<not> stride a < 0" "\<not> stride b < 0" "a \<noteq> SI_top" "b \<noteq> SI_top"
    and fit: "fits64 (last (join_values a b) - hd (join_values a b))"
  shows "si_gamma a \<union> si_gamma b \<subseteq> si_gamma (SI_Join a b) \<and> si_wf (SI_Join a b)"
proof (cases "length (join_values a b) = 1")
  case True
  then obtain v where "join_values a b = [v]" by (cases "join_values a b") auto
  then have "low a = v" "high a = v" "low b = v" "high b = v"
    using join_values_props(3)[of a b] by auto
  with assms True show ?thesis
    by (auto simp: SI_Join_def si_gamma_def)
next
  case False
  let ?vs = "join_values a b"
  let ?r = "SI_Join a b"
  note vs = join_values_props[of a b]
  have ne: "?vs \<noteq> []" using vs(3) by auto
  with False have len: "2 \<le> length ?vs" by (cases ?vs) (auto simp: Suc_le_eq)
  have g: "SI_GCD (stride a) (stride b) = gcd (stride a) (stride b)"
    using assms by (simp add: SI_GCD_eq)
  have r: "?r = \<lparr>stride = join_stride (gcd (stride a) (stride b)) ?vs, low = hd ?vs, high = last ?vs\<rparr>"
    using assms False by (simp add: SI_Join_def g Let_def)
  have g0: "0 \<le> gcd (stride a) (stride b)" by simp
  have js: "0 < stride ?r" "stride ?r dvd gcd (stride a) (stride b)"
    "\<forall>x\<in>set ?vs. stride ?r dvd x - low ?r"
    using join_stride_gcd[OF vs(1) ne fit g0] join_stride_pos[OF vs(1,2) fit g0 len]
    unfolding r by auto
  have mem: "low ?r \<le> x \<and> x \<le> high ?r" if "x \<in> set ?vs" for x
    using sorted_hd_last[OF vs(1) that] r by simp
  have "x \<in> si_gamma ?r" if "x \<in> si_gamma a" for x
    by (rule si_gamma_dvdI[OF js(1) that]) (use js mem vs(3) in auto)
  moreover have "x \<in> si_gamma ?r" if "x \<in> si_gamma b" for x
    by (rule si_gamma_dvdI[OF js(1) that]) (use js mem vs(3) in auto)
  moreover have "si_wf ?r"
  proof -
    have "high ?r \<in> set ?vs" "low ?r \<in> set ?vs" using ne r by auto
    moreover have "\<forall>v\<in>set ?vs. fits64 v"
      using assms(1,2) by (simp add: vs(3) si_wf_def)
    ultimately have "fits64 (high ?r)" "fits64 (low ?r)" by blast+
    moreover have "stride ?r dvd high ?r - low ?r" using js(3) \<open>high ?r \<in> set ?vs\<close> by blast
    moreover have "fits64 (stride ?r)"
    proof -
      have "hd ?vs < last ?vs"
        using len vs(1,2) by (cases ?vs) (auto simp: less_le)
      then have "stride ?r \<le> last ?vs - hd ?vs"
        using \<open>stride ?r dvd high ?r - low ?r\<close> r by (simp add: zdvd_imp_le)
      with fit js(1) show ?thesis by (auto simp: fits64_def LLONG_MIN_def)
    qed
    ultimately show ?thesis using js(1) by (simp add: si_wf_def)
  qed
  ultimately show ?thesis by blast
qed

lemma SI_Join_sound:
  assumes "si_wf a" "si_wf b"
    and "a = SI_top \<or> b = SI_top \<or> stride a < 0 \<or> stride b < 0 \<or>
         fits64 (last (join_values a b) - hd (join_values a b))"
  shows "si_gamma a \<union> si_gamma b \<subseteq> si_gamma (SI_Join a b) \<and> si_wf (SI_Join a b)"
proof -
  consider "a = SI_top" | "b = SI_top" "a \<noteq> SI_top"
    | "a \<noteq> SI_top" "b \<noteq> SI_top" "stride a < 0 \<or> stride b < 0"
    | "a \<noteq> SI_top" "b \<noteq> SI_top" "\<not> stride a < 0" "\<not> stride b < 0" by blast
  then show ?thesis
  proof cases
    case 1
    then show ?thesis using si_gamma_fits[OF assms(2)] by (auto simp: SI_Join_def)
  next
    case 2
    then show ?thesis using si_gamma_fits[OF assms(1)] by (auto simp: SI_Join_def)
  next
    case 3
    then show ?thesis using assms
      by (auto simp: SI_Join_def)
  next
    case 4
    with assms show ?thesis by (intro SI_Join_proper) auto
  qed
qed

section \<open>Arithmetic\<close>

lemma si_gamma_cases:
  "x \<in> si_gamma a \<Longrightarrow> si_wf a \<Longrightarrow>
     0 \<le> stride a \<and> low a \<le> x \<and> x \<le> high a \<and> stride a dvd x - low a \<and> stride a dvd high a - x"
proof -
  assume x: "x \<in> si_gamma a" and wf: "si_wf a"
  show ?thesis
  proof (cases "stride a > 0")
    case True
    with x wf have "stride a dvd high a - low a" "stride a dvd x - low a"
      by (auto simp: si_gamma_def si_wf_def)
    from dvd_diff[OF this] True x show ?thesis by (simp add: si_gamma_def)
  next
    case False
    with x wf show ?thesis by (auto simp: si_gamma_def si_wf_def split: if_splits)
  qed
qed

lemma si_gammaI:
  "\<lbrakk> 0 \<le> stride a; low a \<le> x; x \<le> high a; stride a dvd x - low a \<rbrakk> \<Longrightarrow> x \<in> si_gamma a"
  by (auto simp: si_gamma_def)

lemma si_gamma_iff:
  "si_wf a \<Longrightarrow> x \<in> si_gamma a \<longleftrightarrow> 0 \<le> stride a \<and> low a \<le> x \<and> x \<le> high a \<and> stride a dvd x - low a"
  using si_gamma_cases si_gammaI by blast












lemma SI_Div_sound:
  assumes wf: "si_wf a" and x: "x \<in> si_gamma a" and l: "0 \<le> low a" and c: "0 < c" "fits64 c"
    and s: "c dvd stride a \<or> stride a < 2 * c"
  shows "\<exists>r. SI_Div a (SI_const c) = Some r \<and> x sdiv c \<in> si_gamma r"
proof -
  note x = si_gamma_cases[OF x wf]
  let ?s = "stride a div c" and ?l = "low a div c" and ?h = "high a div c"
  from x l have h: "0 \<le> high a" "0 \<le> x" by auto
  have fit: "fits64 ?s" "fits64 ?l" "fits64 ?h"
    using wf x l h c by (auto simp: si_wf_def intro!: fits64_div)
  have mono: "?l \<le> x div c" "x div c \<le> ?h" using x c by (simp_all add: zdiv_mono1)
  have dvd: "(if ?s = 0 \<and> ?l \<noteq> ?h then 1 else ?s) dvd x div c - ?l"
  proof (cases "c dvd stride a")
    case True
    with x obtain k s' where k: "x = low a + k * (s' * c)" "stride a = s' * c"
      by (metis dvd_def add.commute diff_add_cancel mult.commute)
    then have "x div c = ?l + k * s'" "?s = s'"
      using c by (simp_all add: mult.assoc[symmetric])
    then show ?thesis by simp
  next
    case False
    with s have "stride a < c * 2" by simp
    moreover have "c * ?s \<le> stride a"
      using c minus_mod_eq_mult_div[of "stride a" c] pos_mod_sign[of c "stride a"] by linarith
    ultimately have "c * ?s < c * 2" by linarith
    then have "?s < 2" using c by simp
    moreover have "0 \<le> ?s" using x c by (simp add: pos_imp_zdiv_nonneg_iff)
    ultimately have "?s = 0 \<or> ?s = 1" by linarith
    with mono show ?thesis by auto
  qed
  have "SI_Div a (SI_const c) =
      Some \<lparr>stride = (if ?s = 0 \<and> ?l \<noteq> ?h then 1 else ?s), low = ?l, high = ?h\<rparr>"
    using fit x l h c by (simp add: SI_Div_def SI_const_def Let_def)
  moreover have "x sdiv c \<in> si_gamma \<lparr>stride = (if ?s = 0 \<and> ?l \<noteq> ?h then 1 else ?s), low = ?l, high = ?h\<rparr>"
    using mono dvd x c h by (intro si_gammaI) (simp_all add: pos_imp_zdiv_nonneg_iff)
  ultimately show ?thesis by blast
qed

lemma SI_DeleteElement_sound:
  assumes wf: "si_wf a" and x: "x \<in> si_gamma a" "x \<noteq> v"
    and fit: "fits64 (low a + stride a)" "fits64 (low a - stride a)"
  shows "x \<in> si_gamma (SI_DeleteElement a v)"
proof -
  note xa = si_gamma_cases[OF x(1) wf]
  consider "v = low a" | "v \<noteq> low a" "v = high a" | "v \<noteq> low a" "v \<noteq> high a" by blast
  then show ?thesis
  proof cases
    case 1
    with x xa have "low a < x" by auto
    with xa have "stride a \<le> x - low a" by (intro zdvd_imp_le) auto
    moreover have "v \<noteq> high a" using 1 \<open>low a < x\<close> xa by auto
    moreover have "stride a dvd x - low a - stride a"
      using xa dvd_diff[OF _ dvd_refl] by blast
    ultimately show ?thesis
      using 1 xa fit by (intro si_gammaI) (simp_all add: SI_DeleteElement_def Let_def algebra_simps)
  next
    case 2
    have "stride a dvd (x - low a) + stride a" using xa by (intro dvd_add) auto
    with 2 xa fit show ?thesis
      by (intro si_gammaI) (simp_all add: SI_DeleteElement_def Let_def algebra_simps)
  next
    case 3
    with x show ?thesis by (simp add: SI_DeleteElement_def)
  qed
qed


section \<open>Intersection\<close>








section \<open>Inputs on which the code is not sound\<close>







section \<open>The properties of the domain\<close>

text \<open>C11. The join of two well-formed strided intervals is well-formed and contains every value
  of both, as long as the spread of their end points fits a 64-bit integer (or one of them is
  top or bottom).\<close>

theorem Join_upper_bound:
  assumes "si_wf a" "si_wf b"
    and "a = SI_top \<or> b = SI_top \<or> stride a < 0 \<or> stride b < 0 \<or>
         fits64 (last (join_values a b) - hd (join_values a b))"
  shows "si_gamma a \<union> si_gamma b \<subseteq> si_gamma (SI_Join a b) \<and> si_wf (SI_Join a b)"
  using SI_Join_sound[OF assms] .

theorem Join_upper_bound_witness:
  "{0, 8} \<union> {4} \<subseteq> si_gamma (SI_Join (SI_range 8 0 8) (SI_const 4))"
proof -
  have "si_wf (SI_range 8 0 8)" "si_wf (SI_const 4)"
    "fits64 (last (join_values (SI_range 8 0 8) (SI_const 4)) -
             hd (join_values (SI_range 8 0 8) (SI_const 4)))"
    by (simp_all add: si_wf_def SI_range_def SI_const_def join_values_def)
  then have "si_gamma (SI_range 8 0 8) \<union> si_gamma (SI_const 4) \<subseteq>
      si_gamma (SI_Join (SI_range 8 0 8) (SI_const 4))"
    using Join_upper_bound[of "SI_range 8 0 8" "SI_const 4"] by blast
  moreover have "{0, 8} \<subseteq> si_gamma (SI_range 8 0 8)" by (simp add: si_gamma_def SI_range_def)
  ultimately show ?thesis by auto
qed






end
