(* ===== verification/Inferior_Heap.thy ===== *)
theory Inferior_Heap
  imports Dyn_Prelude "HOL-Library.Multiset"
begin

text \<open>
  The heap that Dyninst manages inside the mutatee: \<^verbatim>\<open>heapItem\<close> and \<^verbatim>\<open>inferiorHeap\<close> of
  \<^verbatim>\<open>dyninstAPI/src/infHeap.{h,C}\<close>, the allocation routines of
  \<^verbatim>\<open>AddressSpace\<close> (\<^verbatim>\<open>addressSpace.C\<close>) and the allocation loops of
  \<^verbatim>\<open>BinaryEdit\<close> and \<^verbatim>\<open>PCProcess\<close> that use them.

  Addresses and lengths are non-negative integers; sums wrap at 64 bits for addresses, at 32
  bits for lengths (\<^verbatim>\<open>unsigned\<close>) and counters (\<^verbatim>\<open>int\<close>). A failed assertion, and a read
  beyond the end of a vector, is the result \<open>None\<close>. The list of blocks waiting to be freed is
  never filled by the code and left out.
\<close>

unbundle bit_operations_syntax

datatype heapStatus = HEAPfree | HEAPallocated

type_synonym inferiorHeapType = int

definition uncopiedHeap :: inferiorHeapType where "uncopiedHeap = 4"
definition anyHeap :: inferiorHeapType where "anyHeap = 7"
definition lowmemHeap :: inferiorHeapType where "lowmemHeap = 4096"

record heapItem =
  addr :: int
  len :: int
  htype :: inferiorHeapType
  dynamic :: bool
  status :: heapStatus

record inferiorHeap =
  heapActive :: "int \<rightharpoonup> heapItem"
  heapFree :: "heapItem list"
  bufferPool :: "heapItem list"
  disabledListTotalMem :: int
  totalFreeMemAvailable :: int
  freed :: int

definition empty_heap :: inferiorHeap where
  "empty_heap = \<lparr>heapActive = Map.empty, heapFree = [], bufferPool = [],
     disabledListTotalMem = 0, totalFreeMemAvailable = 0, freed = 0\<rparr>"

text \<open>The copy made on a fork, and the reset on an exec.\<close>

definition heap_copy :: "inferiorHeap \<Rightarrow> inferiorHeap" where
  "heap_copy src = src\<lparr>freed := 0\<rparr>"

definition heap_clear :: "inferiorHeap \<Rightarrow> inferiorHeap" where
  "heap_clear hp = empty_heap"

definition initializeHeap :: "inferiorHeap \<Rightarrow> inferiorHeap" where
  "initializeHeap hp = hp\<lparr>heapActive := Map.empty, heapFree := [], disabledListTotalMem := 0,
     freed := 0, totalFreeMemAvailable := 0\<rparr>"

definition item_end :: "heapItem \<Rightarrow> int" where
  "item_end h = uwrap64 (addr h + len h)"

section \<open>Allocation and release\<close>

text \<open>
  The scan of \<^verbatim>\<open>inferiorFreeCompact\<close>: an absorbed block stays in the list with length 0 and
  is counted.
\<close>

fun compact_merge :: "heapItem list \<Rightarrow> (heapItem list \<times> nat) option" where
  "compact_merge (h1 # h2 # hs) =
     (if len h1 = 0 then None
      else if item_end h1 > addr h2 then None
      else if item_end h1 = addr h2 \<and> htype h1 = htype h2 then
        map_option (\<lambda>(l, n). (h1\<lparr>len := 0\<rparr> # l, Suc n))
          (compact_merge (h2\<lparr>addr := addr h1, len := uwrap32 (len h1 + len h2)\<rparr> # hs))
      else map_option (\<lambda>(l, n). (h1 # l, n)) (compact_merge (h2 # hs)))"
| "compact_merge hs = Some (hs, 0)"

definition inferiorFreeCompact :: "inferiorHeap \<Rightarrow> inferiorHeap option" where
  "inferiorFreeCompact hp =
     (let freeList = sort_key addr (heapFree hp) in
      case compact_merge freeList of
        None \<Rightarrow> None
      | Some (l, n) \<Rightarrow>
          if n = 0 then Some (hp\<lparr>heapFree := l\<rparr>)
          else let clean = filter (\<lambda>h. len h \<noteq> 0) l in
            if length clean = length freeList - n then Some (hp\<lparr>heapFree := clean\<rparr>) else None)"

definition fits_request :: "int \<Rightarrow> int \<Rightarrow> int \<Rightarrow> int \<Rightarrow> heapItem \<Rightarrow> bool" where
  "fits_request sz type lo hi h \<longleftrightarrow>
     addr h \<ge> lo \<and> uwrap64 (addr h + sz - 1) \<le> hi \<and> len h \<ge> sz \<and> htype h AND type \<noteq> 0"

fun findFree_loop ::
  "(heapItem \<Rightarrow> bool) \<Rightarrow> heapItem list \<Rightarrow> nat \<Rightarrow> nat option \<Rightarrow> heapItem list \<Rightarrow> nat option" where
  "findFree_loop ok freeList i best [] = best"
| "findFree_loop ok freeList i best (h # hs) =
     findFree_loop ok freeList (Suc i)
       (if ok h then
          (let b = (case best of None \<Rightarrow> i | Some b \<Rightarrow> b) in
           Some (if len h < len (freeList ! b) then i else b))
        else best) hs"

definition findFreeIndex :: "inferiorHeap \<Rightarrow> int \<Rightarrow> int \<Rightarrow> int \<Rightarrow> int \<Rightarrow> nat option" where
  "findFreeIndex hp sz type lo hi =
     findFree_loop (fits_request sz type lo hi) (heapFree hp) 0 None (heapFree hp)"

definition addHeap :: "inferiorHeap \<Rightarrow> heapItem \<Rightarrow> inferiorHeap" where
  "addHeap hp h =
     (let h2 = h\<lparr>status := HEAPfree\<rparr> in
      hp\<lparr>bufferPool := bufferPool hp @ [h],
         heapFree := sort_key addr (heapFree hp @ [h2]),
         totalFreeMemAvailable := wrap32 (totalFreeMemAvailable hp + len h2)\<rparr>)"

definition isInferiorAllocated :: "inferiorHeap \<Rightarrow> int \<Rightarrow> bool" where
  "isInferiorAllocated hp block \<longleftrightarrow> heapActive hp block \<noteq> None"

text \<open>The result is the address of the block, or 0 when no free block fits.\<close>

definition inferiorMallocInternal ::
  "inferiorHeap \<Rightarrow> int \<Rightarrow> int \<Rightarrow> int \<Rightarrow> int \<Rightarrow> (int \<times> inferiorHeap) option" where
  "inferiorMallocInternal hp sz lo hi type =
     (case findFreeIndex hp sz type lo hi of
        None \<Rightarrow> Some (0, hp)
      | Some i \<Rightarrow>
          (let h = heapFree hp ! i;
               fl = (if len h \<noteq> sz
                     then (heapFree hp)[i := h\<lparr>addr := uwrap64 (addr h + sz),
                                              len := uwrap32 (len h - sz)\<rparr>]
                     else butlast ((heapFree hp)[i := last (heapFree hp)]));
               hp' = hp\<lparr>heapFree := sort_key addr fl,
                        heapActive := (heapActive hp)(addr h \<mapsto> h\<lparr>len := sz, status := HEAPallocated\<rparr>),
                        totalFreeMemAvailable := wrap32 (totalFreeMemAvailable hp - sz)\<rparr>
           in if addr h = 0 then None else Some (addr h, hp')))"

definition inferiorFreeInternal :: "inferiorHeap \<Rightarrow> int \<Rightarrow> inferiorHeap" where
  "inferiorFreeInternal hp block =
     (case heapActive hp block of
        None \<Rightarrow> hp
      | Some h \<Rightarrow>
          hp\<lparr>heapActive := (heapActive hp)(block := None),
             heapFree := sort_key addr (heapFree hp @ [h\<lparr>status := HEAPfree\<rparr>]),
             totalFreeMemAvailable := wrap32 (totalFreeMemAvailable hp + len h),
             freed := wrap32 (freed hp + len h)\<rparr>)"

definition inferiorMallocAlign :: "int \<Rightarrow> int \<Rightarrow> int" where
  "inferiorMallocAlign width sz =
     (let alignment = width - 1 in uwrap32 (sz + alignment) AND NOT alignment)"

fun first_index :: "('a \<Rightarrow> bool) \<Rightarrow> 'a list \<Rightarrow> nat option" where
  "first_index P [] = None"
| "first_index P (x # xs) = (if P x then Some 0 else map_option Suc (first_index P xs))"

definition inferiorShrinkBlock ::
  "inferiorHeap \<Rightarrow> heapItem \<Rightarrow> int \<Rightarrow> int \<Rightarrow> (bool \<times> inferiorHeap) option" where
  "inferiorShrinkBlock hp h block newSize =
     (let freeStart = uwrap64 (block + newSize);
          succAddr = item_end h;
          shrink = wrap32 (len h - newSize);
          fl = (case first_index (\<lambda>t. addr t = succAddr) (heapFree hp) of
                  Some i \<Rightarrow>
                    (let s = heapFree hp ! i in
                     (heapFree hp)[i := s\<lparr>addr := uwrap64 (addr s - shrink),
                                         len := uwrap32 (len s + shrink)\<rparr>])
                | None \<Rightarrow>
                    sort_key addr (heapFree hp @
                      [\<lparr>addr = freeStart, len = shrink, htype = htype h, dynamic = dynamic h,
                        status = HEAPfree\<rparr>]))
      in if shrink \<le> 0 then None
         else Some (True, hp\<lparr>heapActive := (heapActive hp)(block \<mapsto> h\<lparr>len := newSize\<rparr>),
                             heapFree := fl,
                             totalFreeMemAvailable := wrap32 (totalFreeMemAvailable hp + shrink),
                             freed := wrap32 (freed hp + shrink)\<rparr>))"

definition inferiorExpandBlock ::
  "inferiorHeap \<Rightarrow> heapItem \<Rightarrow> int \<Rightarrow> (bool \<times> inferiorHeap) option" where
  "inferiorExpandBlock hp h newSize =
     (let succAddr = item_end h; expand = wrap32 (newSize - len h) in
      if expand \<le> 0 then None
      else case first_index (\<lambda>t. addr t = succAddr) (heapFree hp) of
        None \<Rightarrow> Some (False, hp)
      | Some i \<Rightarrow>
          (let s = heapFree hp ! i in
           if len s < expand then Some (False, hp)
           else
             (let s' = s\<lparr>addr := uwrap64 (succAddr + expand), len := uwrap32 (len s - expand)\<rparr>;
                  fl = (heapFree hp)[i := s'];
                  clean = filter (\<lambda>h1. len h1 \<noteq> 0) fl;
                  end' = length fl - 1;
                  hp' = hp\<lparr>totalFreeMemAvailable := wrap32 (totalFreeMemAvailable hp - expand)\<rparr>
              in if len s' \<noteq> 0 then Some (True, hp'\<lparr>heapFree := fl\<rparr>)
                 else if length clean < end' then None
                 else Some (True, hp'\<lparr>heapFree := take end' clean\<rparr>))))"


section \<open>Rewriting a binary: BinaryEdit\<close>

record BinaryEdit =
  be_heap :: inferiorHeap
  lowWaterMark :: int
  highWaterMark :: int

definition inferiorMallocStatic :: "BinaryEdit \<Rightarrow> int \<Rightarrow> BinaryEdit option" where
  "inferiorMallocStatic be sz =
     (if highWaterMark be = 0 then None
      else let newStart = highWaterMark be; hp = be_heap be;
               hp' = (case first_index (\<lambda>h. item_end h = newStart) (heapFree hp) of
                        Some i \<Rightarrow> hp\<lparr>heapFree := (heapFree hp)
                                     [i := (heapFree hp ! i)\<lparr>len := uwrap32 (len (heapFree hp ! i) + sz)\<rparr>]\<rparr>
                      | None \<Rightarrow> addHeap hp \<lparr>addr = newStart, len = sz, htype = anyHeap,
                                           dynamic = True, status = HEAPfree\<rparr>)
           in Some (be\<lparr>be_heap := hp', highWaterMark := uwrap64 (newStart + sz)\<rparr>))"

text \<open>
  The attempts of \<^verbatim>\<open>BinaryEdit::inferiorMalloc\<close>: as is, after compacting, after extending the
  static segment; the address space is unconstrained. The memory tracker that records the
  contents of the block is not part of the model.
\<close>

definition BinaryEdit_try :: "BinaryEdit \<Rightarrow> int \<Rightarrow> (int \<times> BinaryEdit) option" where
  "BinaryEdit_try be sz =
     map_option (\<lambda>(a, hp). (a, be\<lparr>be_heap := hp\<rparr>))
       (inferiorMallocInternal (be_heap be) sz 0 (2 ^ 64 - 1) anyHeap)"

definition BinaryEdit_inferiorMalloc :: "int \<Rightarrow> BinaryEdit \<Rightarrow> int \<Rightarrow> (int \<times> BinaryEdit) option" where
  "BinaryEdit_inferiorMalloc width be request =
     (let sz = inferiorMallocAlign width request in
      Option.bind (BinaryEdit_try be sz) (\<lambda>(a0, be0).
      if a0 \<noteq> 0 then Some (a0, be0)
      else Option.bind (inferiorFreeCompact (be_heap be0)) (\<lambda>hp1.
      Option.bind (BinaryEdit_try (be0\<lparr>be_heap := hp1\<rparr>) sz) (\<lambda>(a1, be1).
      if a1 \<noteq> 0 then Some (a1, be1)
      else Option.bind (inferiorMallocStatic be1 sz) (\<lambda>be2. BinaryEdit_try be2 sz)))))"

definition maxAllocedAddr :: "BinaryEdit \<Rightarrow> int list \<Rightarrow> (int \<times> BinaryEdit) option" where
  "maxAllocedAddr be keys =
     map_option (\<lambda>hp.
       (fold (\<lambda>k hi. case heapActive hp k of
                 None \<Rightarrow> hi
               | Some h \<Rightarrow> if item_end h > hi then item_end h else hi) keys (lowWaterMark be),
        be\<lparr>be_heap := hp\<rparr>))
       (inferiorFreeCompact (be_heap be))"

section \<open>A running process: PCProcess\<close>









section \<open>What a heap must look like\<close>

definition cells :: "heapItem \<Rightarrow> int set" where
  "cells h = {addr h ..< addr h + len h}"

definition item_ok :: "heapItem \<Rightarrow> bool" where
  "item_ok h \<longleftrightarrow> 0 < addr h \<and> 0 < len h \<and> len h < 2 ^ 32 \<and> addr h + len h < 2 ^ 64"

definition disjoint_items :: "heapItem set \<Rightarrow> bool" where
  "disjoint_items S \<longleftrightarrow> (\<forall>x\<in>S. \<forall>y\<in>S. x \<noteq> y \<longrightarrow> cells x \<inter> cells y = {})"

definition heap_items :: "inferiorHeap \<Rightarrow> heapItem set" where
  "heap_items hp = set (heapFree hp) \<union> ran (heapActive hp)"

text \<open>
  The invariant of the heap: blocks are non-empty and below the top of the address space, the
  free list has no duplicates, the table of active blocks is keyed by their addresses, and no
  two blocks, free or active, share a byte.
\<close>

definition heap_inv :: "inferiorHeap \<Rightarrow> bool" where
  "heap_inv hp \<longleftrightarrow>
     (\<forall>h\<in>set (heapFree hp). item_ok h \<and> status h = HEAPfree) \<and> distinct (heapFree hp) \<and>
     (\<forall>a h. heapActive hp a = Some h \<longrightarrow> item_ok h \<and> addr h = a \<and> status h = HEAPallocated) \<and>
     disjoint_items (heap_items hp)"

definition accounted :: "inferiorHeap \<Rightarrow> bool" where
  "accounted hp \<longleftrightarrow> totalFreeMemAvailable hp = wrap32 (\<Sum>h\<leftarrow>heapFree hp. len h)"

definition free_cells :: "inferiorHeap \<Rightarrow> int set" where
  "free_cells hp = (\<Union>h\<in>set (heapFree hp). cells h)"

definition active_cells :: "inferiorHeap \<Rightarrow> int set" where
  "active_cells hp = (\<Union>h\<in>ran (heapActive hp). cells h)"

lemma item_ok_start [simp]: "item_ok h \<Longrightarrow> addr h \<in> cells h"
  by (simp add: item_ok_def cells_def)

lemma item_end_ok [simp]: "item_ok h \<Longrightarrow> item_end h = addr h + len h"
  by (simp add: item_ok_def item_end_def)

lemma cells_status [simp]: "cells (h\<lparr>status := s\<rparr>) = cells h"
  by (simp add: cells_def)

lemma item_ok_status [simp]: "item_ok (h\<lparr>status := s\<rparr>) = item_ok h"
  by (simp add: item_ok_def)

lemma disjoint_itemsD:
  "disjoint_items S \<Longrightarrow> x \<in> S \<Longrightarrow> y \<in> S \<Longrightarrow> c \<in> cells x \<Longrightarrow> c \<in> cells y \<Longrightarrow> x = y"
  unfolding disjoint_items_def by (meson disjoint_iff)

lemma disjoint_itemsI:
  assumes "\<And>x y c. x \<in> S \<Longrightarrow> y \<in> S \<Longrightarrow> c \<in> cells x \<Longrightarrow> c \<in> cells y \<Longrightarrow> x = y"
  shows "disjoint_items S"
  unfolding disjoint_items_def using assms by (meson disjoint_iff)

lemma disjoint_items_replace:
  assumes S: "disjoint_items S" and H: "H \<subseteq> S" and T: "disjoint_items T"
    and sub: "(\<Union>x\<in>T. cells x) \<subseteq> (\<Union>x\<in>H. cells x)"
  shows "disjoint_items (S - H \<union> T)"
proof -
  have eq: "x = y" if "x \<in> S" "y \<in> S" "c \<in> cells x" "c \<in> cells y" for x y c
    using disjoint_itemsD[OF S that] .
  have mixed: "c \<notin> cells b" if "a \<in> S - H" "b \<in> T" "c \<in> cells a" for a b c
  proof
    assume "c \<in> cells b"
    with sub that(2) obtain h where h: "h \<in> H" "c \<in> cells h" by blast
    from h(1) H have "h \<in> S" by (rule rev_subsetD)
    with eq[of a h c] that h(2) have "a = h" by simp
    with h(1) that(1) show False by simp
  qed
  have "x = y" if "x \<in> S - H \<union> T" "y \<in> S - H \<union> T" "c \<in> cells x" "c \<in> cells y" for x y c
  proof (cases "x \<in> T")
    case True
    then have "y \<in> T" using mixed[of y x c] that by blast
    with True disjoint_itemsD[OF T] that show ?thesis by simp
  next
    case False
    then have "y \<notin> T" using mixed[of x y c] that by blast
    with False eq[of x y c] that show ?thesis by simp
  qed
  then show ?thesis by (rule disjoint_itemsI)
qed

lemma disjoint_items_insert:
  "disjoint_items S \<Longrightarrow> (\<forall>x\<in>S. cells x \<inter> cells h = {}) \<Longrightarrow> disjoint_items (insert h S)"
  by (auto simp: disjoint_items_def)

lemma disjoint_items_single [simp]: "disjoint_items {h}"
  by (simp add: disjoint_items_def)

section \<open>Lists\<close>

lemma mset_swap_remove:
  assumes "i < length xs"
  shows "mset (butlast (xs[i := last xs])) = mset xs - {#xs ! i#}"
proof -
  from assms obtain ys l where xs: "xs = ys @ [l]" by (cases xs rule: rev_exhaust) auto
  show ?thesis
  proof (cases "i < length ys")
    case True
    then show ?thesis by (simp add: xs list_update_append nth_append mset_update)
  next
    case False
    with assms xs have "i = length ys" by simp
    then show ?thesis by (simp add: xs list_update_append)
  qed
qed

lemma swap_remove:
  assumes "distinct xs" "i < length xs"
  shows "set (butlast (xs[i := last xs])) = set xs - {xs ! i}"
    and "distinct (butlast (xs[i := last xs]))"
proof -
  let ?r = "remove1 (xs ! i) xs"
  have m: "mset (butlast (xs[i := last xs])) = mset ?r" using assms by (simp add: mset_swap_remove)
  from mset_eq_setD[OF m] assms(1) show "set (butlast (xs[i := last xs])) = set xs - {xs ! i}"
    by simp
  from mset_eq_imp_distinct_iff[OF m] assms(1) show "distinct (butlast (xs[i := last xs]))"
    by (simp add: distinct_remove1)
qed

lemma first_index_Some:
  "first_index P xs = Some i \<Longrightarrow> i < length xs \<and> P (xs ! i) \<and> (\<forall>j<i. \<not> P (xs ! j))"
proof (induction xs arbitrary: i)
  case (Cons x xs)
  show ?case
  proof (cases "P x")
    case False
    with Cons.prems obtain k where "first_index P xs = Some k" "i = Suc k" by auto
    with Cons.IH[of k] False show ?thesis by (auto simp: less_Suc_eq_0_disj)
  qed (use Cons.prems in auto)
qed simp

lemma first_index_None: "first_index P xs = None \<longleftrightarrow> (\<forall>x\<in>set xs. \<not> P x)"
  by (induction xs) auto

lemma sum_list_mset: "mset xs = mset ys \<Longrightarrow> (\<Sum>x\<leftarrow>xs. f x :: int) = (\<Sum>x\<leftarrow>ys. f x)"
  by (metis mset_map sum_mset_sum_list)

lemma sum_list_sort_key [simp]: "(\<Sum>x\<leftarrow>sort_key k xs. f x :: int) = (\<Sum>x\<leftarrow>xs. f x)"
  by (rule sum_list_mset) simp

lemma sum_list_list_update:
  assumes "i < length xs"
  shows "(\<Sum>x\<leftarrow>xs[i := y]. f x :: int) = (\<Sum>x\<leftarrow>xs. f x) - f (xs ! i) + f y"
proof -
  have "mset (xs[i := y]) = mset (y # remove1 (xs ! i) xs)" using assms by (simp add: mset_update)
  then have "(\<Sum>x\<leftarrow>xs[i := y]. f x) = f y + (\<Sum>x\<leftarrow>remove1 (xs ! i) xs. f x)"
    using sum_list_mset[of "xs[i := y]" "y # remove1 (xs ! i) xs" f] by simp
  moreover have "(\<Sum>x\<leftarrow>xs. f x) = f (xs ! i) + (\<Sum>x\<leftarrow>remove1 (xs ! i) xs. f x)"
    using sum_list_map_remove1[of "xs ! i" xs f] assms by simp
  ultimately show ?thesis by simp
qed

lemma sum_list_swap_remove:
  assumes "i < length xs"
  shows "(\<Sum>x\<leftarrow>butlast (xs[i := last xs]). f x :: int) = (\<Sum>x\<leftarrow>xs. f x) - f (xs ! i)"
proof -
  have "mset (butlast (xs[i := last xs])) = mset (remove1 (xs ! i) xs)"
    using assms by (simp add: mset_swap_remove)
  from sum_list_mset[OF this] show ?thesis
    using sum_list_map_remove1[of "xs ! i" xs f] assms by simp
qed

lemma wrap32_add [simp]: "wrap32 (wrap32 x + y) = wrap32 (x + y)"
  using signed_take_bit_add[of 31 "signed_take_bit 31 x" y] signed_take_bit_add[of 31 x y]
  by (simp add: wrap32_def)

lemma wrap32_add_right [simp]: "wrap32 (y + wrap32 x) = wrap32 (y + x)"
  using wrap32_add[of x y] by (simp add: add.commute)

section \<open>Finding a block\<close>

lemma findFree_loop_best:
  "\<lbrakk> findFree_loop ok fl i best hs = r; i + length hs = length fl; drop i fl = hs;
     case best of None \<Rightarrow> \<forall>j<i. \<not> ok (fl ! j)
     | Some b \<Rightarrow> b < i \<and> ok (fl ! b) \<and> (\<forall>j<i. ok (fl ! j) \<longrightarrow> len (fl ! b) \<le> len (fl ! j)) \<rbrakk> \<Longrightarrow>
   case r of None \<Rightarrow> \<forall>j<length fl. \<not> ok (fl ! j)
   | Some b \<Rightarrow> b < length fl \<and> ok (fl ! b) \<and>
       (\<forall>j<length fl. ok (fl ! j) \<longrightarrow> len (fl ! b) \<le> len (fl ! j))"
proof (induction ok fl i best hs arbitrary: r rule: findFree_loop.induct)
  case (2 ok fl i best h hs)
  have h: "h = fl ! i" using nth_via_drop[OF "2.prems"(3)] by simp
  have "drop (Suc i) fl = tl (drop i fl)" by (simp add: drop_Suc tl_drop)
  with "2.prems"(3) have rest: "drop (Suc i) fl = hs" by simp
  let ?best = "if ok h then
      (let b = (case best of None \<Rightarrow> i | Some b \<Rightarrow> b) in
       Some (if len h < len (fl ! b) then i else b)) else best"
  have inv: "case ?best of None \<Rightarrow> \<forall>j<Suc i. \<not> ok (fl ! j)
     | Some b \<Rightarrow> b < Suc i \<and> ok (fl ! b) \<and> (\<forall>j<Suc i. ok (fl ! j) \<longrightarrow> len (fl ! b) \<le> len (fl ! j))"
    using "2.prems"(4) h by (cases best) (auto simp: Let_def less_Suc_eq)
  show ?case
    by (rule "2.IH"[of r]) (use "2.prems" rest inv in auto)
qed (auto split: option.splits)

lemma findFreeIndex_Some:
  assumes "findFreeIndex hp sz type lo hi = Some i"
  shows "i < length (heapFree hp)" "fits_request sz type lo hi (heapFree hp ! i)"
    "\<And>h. h \<in> set (heapFree hp) \<Longrightarrow> fits_request sz type lo hi h \<Longrightarrow> len (heapFree hp ! i) \<le> len h"
  using findFree_loop_best[OF assms[unfolded findFreeIndex_def]] by (auto simp: in_set_conv_nth)

lemma findFreeIndex_None:
  "findFreeIndex hp sz type lo hi = None \<Longrightarrow> h \<in> set (heapFree hp) \<Longrightarrow> \<not> fits_request sz type lo hi h"
  using findFree_loop_best[of "fits_request sz type lo hi" "heapFree hp" 0 None "heapFree hp" None]
  by (auto simp: in_set_conv_nth findFreeIndex_def)



section \<open>The operations keep the invariant\<close>

lemma heap_invD:
  assumes "heap_inv hp"
  shows "h \<in> set (heapFree hp) \<Longrightarrow> item_ok h" "h \<in> set (heapFree hp) \<Longrightarrow> status h = HEAPfree"
    "heapActive hp a = Some k \<Longrightarrow> item_ok k" "heapActive hp a = Some k \<Longrightarrow> addr k = a"
    "heapActive hp a = Some k \<Longrightarrow> status k = HEAPallocated" "distinct (heapFree hp)"
    "disjoint_items (heap_items hp)"
  using assms by (auto simp: heap_inv_def)

lemma heap_inv_free_active:
  "heap_inv hp \<Longrightarrow> h \<in> set (heapFree hp) \<Longrightarrow> heapActive hp (addr h) = None"
proof (rule ccontr)
  assume inv: "heap_inv hp" and h: "h \<in> set (heapFree hp)" and "heapActive hp (addr h) \<noteq> None"
  then obtain k where k: "heapActive hp (addr h) = Some k" by auto
  have "addr h \<in> cells h" "addr h \<in> cells k"
    using item_ok_start[OF heap_invD(1)[OF inv h]] item_ok_start[OF heap_invD(3)[OF inv k]]
    by (simp_all add: heap_invD(4)[OF inv k])
  moreover have "h \<in> heap_items hp" "k \<in> heap_items hp"
    using h ranI[of "heapActive hp", OF k] by (simp_all add: heap_items_def)
  ultimately have "h = k" using disjoint_itemsD[OF heap_invD(7)[OF inv]] by blast
  with heap_invD(2)[OF inv h] heap_invD(5)[OF inv k] show False by simp
qed

lemma heap_inv_free_not_active: "heap_inv hp \<Longrightarrow> h \<in> set (heapFree hp) \<Longrightarrow> h \<notin> ran (heapActive hp)"
proof
  assume inv: "heap_inv hp" and h: "h \<in> set (heapFree hp)" and "h \<in> ran (heapActive hp)"
  then obtain a where a: "heapActive hp a = Some h" by (auto simp: ran_def)
  with heap_invD(2)[OF inv h] heap_invD(5)[OF inv a] show False by simp
qed

lemma ran_del:
  assumes "m a = Some h" "\<forall>b. b \<noteq> a \<longrightarrow> m b \<noteq> Some h"
  shows "ran (m(a := None)) = ran m - {h}"
proof (rule set_eqI)
  fix x
  show "x \<in> ran (m(a := None)) \<longleftrightarrow> x \<in> ran m - {h}"
  proof
    assume "x \<in> ran (m(a := None))"
    then obtain b where "b \<noteq> a" "m b = Some x" by (auto simp: ran_def split: if_splits)
    with assms(2) show "x \<in> ran m - {h}" by (auto intro: ranI)
  next
    assume "x \<in> ran m - {h}"
    then obtain b where b: "m b = Some x" "x \<noteq> h" by (auto simp: ran_def)
    with assms(1) have "b \<noteq> a" by auto
    with b show "x \<in> ran (m(a := None))" by (auto intro!: ranI[of _ b])
  qed
qed

lemma heap_inv_ran_del:
  assumes "heap_inv hp" "heapActive hp a = Some h"
  shows "ran ((heapActive hp)(a := None)) = ran (heapActive hp) - {h}"
proof (rule ran_del[of "heapActive hp", OF assms(2)])
  show "\<forall>b. b \<noteq> a \<longrightarrow> heapActive hp b \<noteq> Some h"
    using heap_invD(4)[OF assms(1)] heap_invD(4)[OF assms] by metis
qed

text \<open>The block that \<open>inferiorMallocInternal\<close> cuts off a free block, and what remains of it.\<close>

definition malloc_rest :: "heapItem \<Rightarrow> int \<Rightarrow> heapItem" where
  "malloc_rest h sz = h\<lparr>addr := addr h + sz, len := len h - sz\<rparr>"

definition malloc_block :: "heapItem \<Rightarrow> int \<Rightarrow> heapItem" where
  "malloc_block h sz = h\<lparr>len := sz, status := HEAPallocated\<rparr>"

lemma free_update:
  assumes inv: "heap_inv hp" and i: "i < length (heapFree hp)"
    and c: "c \<in> cells (heapFree hp ! i)" "c \<in> cells x"
  shows "set ((heapFree hp)[i := x]) = insert x (set (heapFree hp) - {heapFree hp ! i})"
    and "distinct ((heapFree hp)[i := x])"
proof -
  note d = heap_invD(6)[OF inv]
  show "set ((heapFree hp)[i := x]) = insert x (set (heapFree hp) - {heapFree hp ! i})"
    using set_update_distinct[OF d i] .
  have "x = heapFree hp ! i" if "x \<in> set (heapFree hp)"
  proof -
    have "x \<in> heap_items hp" "heapFree hp ! i \<in> heap_items hp"
      using that i by (simp_all add: heap_items_def)
    then show ?thesis using disjoint_itemsD[OF heap_invD(7)[OF inv]] c by blast
  qed
  then show "distinct ((heapFree hp)[i := x])" using distinct_list_update[OF d] by blast
qed

lemma malloc_free_set:
  assumes inv: "heap_inv hp" and i: "i < length (heapFree hp)" and h: "h = heapFree hp ! i"
    and sz: "0 < sz" "sz \<le> len h"
  defines "fl \<equiv> if len h \<noteq> sz then (heapFree hp)[i := malloc_rest h sz]
                 else butlast ((heapFree hp)[i := last (heapFree hp)])"
  shows "set fl = set (heapFree hp) - {h} \<union> (if len h \<noteq> sz then {malloc_rest h sz} else {})"
    and "distinct fl" and "(\<Sum>x\<leftarrow>fl. len x) = (\<Sum>x\<leftarrow>heapFree hp. len x) - sz"
proof -
  have hin: "h \<in> set (heapFree hp)" using i h by simp
  note d = heap_invD(6)[OF inv]
  have "set fl = set (heapFree hp) - {h} \<union> (if len h \<noteq> sz then {malloc_rest h sz} else {}) \<and>
      distinct fl"
  proof (cases "len h = sz")
    case True
    then have fl: "fl = butlast ((heapFree hp)[i := last (heapFree hp)])" by (simp add: fl_def)
    show ?thesis unfolding fl using swap_remove[OF d i] True by (simp add: h)
  next
    case False
    then have fl: "fl = (heapFree hp)[i := malloc_rest h sz]" by (simp add: fl_def)
    have "addr h + sz \<in> cells h" "addr h + sz \<in> cells (malloc_rest h sz)"
      using False sz by (simp_all add: cells_def malloc_rest_def)
    then have "set fl = insert (malloc_rest h sz) (set (heapFree hp) - {h}) \<and> distinct fl"
      unfolding fl h using free_update[OF inv i] by blast
    then show ?thesis using False by simp
  qed
  then show "set fl = set (heapFree hp) - {h} \<union> (if len h \<noteq> sz then {malloc_rest h sz} else {})"
    and "distinct fl" by blast+
  show "(\<Sum>x\<leftarrow>fl. len x) = (\<Sum>x\<leftarrow>heapFree hp. len x) - sz"
    using sum_list_list_update[OF i, of len "malloc_rest h sz"] sum_list_swap_remove[OF i, of len]
    unfolding fl_def h[symmetric] by (simp add: malloc_rest_def)
qed

lemma malloc_split:
  assumes "item_ok h" "0 < sz" "sz \<le> len h"
  shows "cells h = cells (malloc_block h sz) \<union> (if len h \<noteq> sz then cells (malloc_rest h sz) else {})"
    and "disjoint_items (insert (malloc_block h sz) (if len h \<noteq> sz then {malloc_rest h sz} else {}))"
    and "item_ok (malloc_block h sz)" and "len h \<noteq> sz \<Longrightarrow> item_ok (malloc_rest h sz)"
    and "cells (malloc_block h sz) = {addr h ..< addr h + sz}"
proof -
  show b: "cells (malloc_block h sz) = {addr h ..< addr h + sz}"
    by (simp add: cells_def malloc_block_def)
  have r: "cells (malloc_rest h sz) = {addr h + sz ..< addr h + len h}"
    by (simp add: cells_def malloc_rest_def)
  show "cells h = cells (malloc_block h sz) \<union> (if len h \<noteq> sz then cells (malloc_rest h sz) else {})"
    unfolding b r using assms(2,3) ivl_disj_un_two(3)[of "addr h" "addr h + sz" "addr h + len h"]
    by (simp add: cells_def[of h])
  have "cells (malloc_block h sz) \<inter> cells (malloc_rest h sz) = {}" unfolding b r by simp
  then show "disjoint_items (insert (malloc_block h sz) (if len h \<noteq> sz then {malloc_rest h sz} else {}))"
    by (cases "len h = sz") (simp_all add: disjoint_items_def Int_commute)
  show "item_ok (malloc_block h sz)" "len h \<noteq> sz \<Longrightarrow> item_ok (malloc_rest h sz)"
    using assms by (simp_all add: item_ok_def malloc_block_def malloc_rest_def)
qed

lemma inferiorMallocInternal_Some:
  assumes inv: "heap_inv hp" and i: "findFreeIndex hp sz type lo hi = Some i" and sz: "0 < sz"
  defines "h \<equiv> heapFree hp ! i"
  defines "fl \<equiv> if len h \<noteq> sz then (heapFree hp)[i := malloc_rest h sz]
                 else butlast ((heapFree hp)[i := last (heapFree hp)])"
  shows "h \<in> set (heapFree hp)" "fits_request sz type lo hi h" "sz \<le> len h"
    and "inferiorMallocInternal hp sz lo hi type =
      Some (addr h, hp\<lparr>heapFree := sort_key addr fl,
        heapActive := (heapActive hp)(addr h \<mapsto> malloc_block h sz),
        totalFreeMemAvailable := wrap32 (totalFreeMemAvailable hp - sz)\<rparr>)"
proof -
  note f = findFreeIndex_Some[OF i]
  show h: "h \<in> set (heapFree hp)" and fit: "fits_request sz type lo hi h"
    using f by (simp_all add: h_def)
  then show le: "sz \<le> len h" by (simp add: fits_request_def)
  have "uwrap64 (addr h + sz) = addr h + sz" "uwrap32 (len h - sz) = len h - sz" "addr h \<noteq> 0"
    using heap_invD(1)[OF inv h] le sz by (simp_all add: item_ok_def)
  with i show "inferiorMallocInternal hp sz lo hi type =
      Some (addr h, hp\<lparr>heapFree := sort_key addr fl,
        heapActive := (heapActive hp)(addr h \<mapsto> malloc_block h sz),
        totalFreeMemAvailable := wrap32 (totalFreeMemAvailable hp - sz)\<rparr>)"
    by (simp add: inferiorMallocInternal_def h_def[symmetric] fl_def malloc_rest_def
        malloc_block_def Let_def)
qed

lemma malloc_heap_items:
  assumes inv: "heap_inv hp" and i: "findFreeIndex hp sz type lo hi = Some i" and sz: "0 < sz"
    and m: "inferiorMallocInternal hp sz lo hi type = Some (a, hp')"
  defines "h \<equiv> heapFree hp ! i"
  defines "R \<equiv> if len h \<noteq> sz then {malloc_rest h sz} else {}"
  shows "set (heapFree hp') = set (heapFree hp) - {h} \<union> R" "distinct (heapFree hp')"
    "(\<Sum>x\<leftarrow>heapFree hp'. len x) = (\<Sum>x\<leftarrow>heapFree hp. len x) - sz"
    "heapActive hp' = (heapActive hp)(addr h \<mapsto> malloc_block h sz)" "a = addr h"
    "heap_items hp' = heap_items hp - {h} \<union> insert (malloc_block h sz) R"
    "totalFreeMemAvailable hp' = wrap32 (totalFreeMemAvailable hp - sz)"
proof -
  note s = inferiorMallocInternal_Some[OF inv i sz, folded h_def]
  have i': "i < length (heapFree hp)" using findFreeIndex_Some[OF i] by simp
  note f = malloc_free_set[OF inv i' refl sz s(3)[unfolded h_def], folded h_def]
  define fl where "fl = (if len h \<noteq> sz then (heapFree hp)[i := malloc_rest h sz]
                 else butlast ((heapFree hp)[i := last (heapFree hp)]))"
  note f' = f[folded fl_def R_def]
  have hp': "hp' = hp\<lparr>heapFree := sort_key addr fl,
        heapActive := (heapActive hp)(addr h \<mapsto> malloc_block h sz),
        totalFreeMemAvailable := wrap32 (totalFreeMemAvailable hp - sz)\<rparr>" and a: "a = addr h"
    using m unfolding s(4)[folded fl_def] by (metis option.inject prod.inject)+
  show "a = addr h" "heapActive hp' = (heapActive hp)(addr h \<mapsto> malloc_block h sz)"
    "totalFreeMemAvailable hp' = wrap32 (totalFreeMemAvailable hp - sz)"
    using a hp' by simp_all
  show fs: "set (heapFree hp') = set (heapFree hp) - {h} \<union> R" and "distinct (heapFree hp')"
    and "(\<Sum>x\<leftarrow>heapFree hp'. len x) = (\<Sum>x\<leftarrow>heapFree hp. len x) - sz"
    unfolding hp' using f' by simp_all
  have "ran (heapActive hp') = insert (malloc_block h sz) (ran (heapActive hp))"
    unfolding hp' using ran_map_upd[of "heapActive hp" "addr h" "malloc_block h sz"]
      heap_inv_free_active[OF inv s(1)] by simp
  with fs heap_inv_free_not_active[OF inv s(1)]
  show "heap_items hp' = heap_items hp - {h} \<union> insert (malloc_block h sz) R"
    unfolding heap_items_def by blast
qed

lemma inferiorMallocInternal_inv:
  assumes inv: "heap_inv hp" and sz: "0 < sz"
    and m: "inferiorMallocInternal hp sz lo hi type = Some (a, hp')"
  shows "heap_inv hp'"
proof (cases "findFreeIndex hp sz type lo hi")
  case None
  with m inv show ?thesis by (simp add: inferiorMallocInternal_def)
next
  case (Some i)
  define h where "h = heapFree hp ! i"
  note s = inferiorMallocInternal_Some[OF inv Some sz, folded h_def]
  note p = malloc_heap_items[OF inv Some sz m, folded h_def]
  note ok = heap_invD(1)[OF inv s(1)]
  note sp = malloc_split[OF ok sz s(3)]
  have "disjoint_items (heap_items hp')" unfolding p(6)
    by (rule disjoint_items_replace[OF heap_invD(7)[OF inv] _ sp(2)])
      (use s(1) sp(1) in \<open>simp_all add: heap_items_def\<close>)
  moreover have "item_ok x \<and> status x = HEAPfree" if x: "x \<in> set (heapFree hp')" for x
  proof (cases "x \<in> set (heapFree hp)")
    case False
    with x p(1) have "x \<in> (if len h \<noteq> sz then {malloc_rest h sz} else {})" by blast
    then have "x = malloc_rest h sz" "len h \<noteq> sz" by (simp_all split: if_splits)
    with sp(4) heap_invD(2)[OF inv s(1)] show ?thesis by (simp add: malloc_rest_def)
  qed (simp add: heap_invD(1,2)[OF inv])
  moreover have "item_ok k \<and> addr k = b \<and> status k = HEAPallocated"
    if k: "heapActive hp' b = Some k" for b k
  proof (cases "b = addr h")
    case True
    with k p(4) have "k = malloc_block h sz" by simp
    with sp(3) True show ?thesis by (simp add: malloc_block_def)
  next
    case False
    with k p(4) have k: "heapActive hp b = Some k" by simp
    show ?thesis using heap_invD(3,4,5)[OF inv k] by blast
  qed
  ultimately show ?thesis using p(2) unfolding heap_inv_def by blast
qed


lemma heap_invI:
  assumes "\<And>h. h \<in> set (heapFree hp) \<Longrightarrow> item_ok h \<and> status h = HEAPfree"
    and "distinct (heapFree hp)"
    and "\<And>a h. heapActive hp a = Some h \<Longrightarrow> item_ok h \<and> addr h = a \<and> status h = HEAPallocated"
    and "disjoint_items (heap_items hp)"
  shows "heap_inv hp"
  using assms unfolding heap_inv_def by blast

lemma inferiorMallocInternal_cells:
  assumes inv: "heap_inv hp" and sz: "0 < sz"
    and m: "inferiorMallocInternal hp sz lo hi type = Some (a, hp')"
  shows "a = 0 \<and> hp' = hp \<and> (\<forall>h\<in>set (heapFree hp). \<not> fits_request sz type lo hi h) \<or>
    a \<noteq> 0 \<and> lo \<le> a \<and> a + sz - 1 \<le> hi \<and> {a ..< a + sz} \<subseteq> free_cells hp \<and>
    free_cells hp' = free_cells hp - {a ..< a + sz} \<and>
    (\<exists>k. heapActive hp' = (heapActive hp)(a \<mapsto> k) \<and> cells k = {a ..< a + sz}) \<and>
    heapActive hp a = None"
proof (cases "findFreeIndex hp sz type lo hi")
  case None
  with m have "a = 0 \<and> hp' = hp" by (simp add: inferiorMallocInternal_def)
  with findFreeIndex_None[OF None] show ?thesis by blast
next
  case (Some i)
  define h where "h = heapFree hp ! i"
  note s = inferiorMallocInternal_Some[OF inv Some sz, folded h_def]
  note p = malloc_heap_items[OF inv Some sz m, folded h_def]
  note ok = heap_invD(1)[OF inv s(1)]
  note sp = malloc_split[OF ok sz s(3)]
  have a: "a = addr h" by (rule p(5))
  have "addr h \<noteq> 0" "lo \<le> addr h" "addr h + sz - 1 \<le> hi"
    using ok s(2,3) sz by (simp_all add: fits_request_def item_ok_def)
  note range = this
  have sub: "{a ..< a + sz} \<subseteq> free_cells hp"
    using sp(1,5) s(1) unfolding a free_cells_def by blast
  have fc: "free_cells hp' = free_cells hp - {a ..< a + sz}"
  proof -
    have split: "free_cells hp = (\<Union>x\<in>set (heapFree hp) - {h}. cells x) \<union> cells h"
      using s(1) unfolding free_cells_def by blast
    have "cells x \<inter> cells h = {}" if "x \<in> set (heapFree hp) - {h}" for x
      using heap_invD(7)[OF inv] that s(1) unfolding disjoint_items_def heap_items_def by blast
    then have out: "(\<Union>x\<in>set (heapFree hp) - {h}. cells x) \<inter> {a ..< a + sz} = {}"
      using sp(1,5) unfolding a by blast
    have "free_cells hp' = (\<Union>x\<in>set (heapFree hp) - {h}. cells x) \<union>
        (if len h \<noteq> sz then cells (malloc_rest h sz) else {})"
      unfolding free_cells_def p(1) by simp
    moreover have "cells (malloc_rest h sz) \<inter> {a ..< a + sz} = {}"
      unfolding a cells_def malloc_rest_def by simp
    ultimately show ?thesis unfolding split sp(1) sp(5) a[symmetric] using out
      by (cases "len h = sz") (simp_all, blast+)
  qed
  have act: "heapActive hp' = (heapActive hp)(a \<mapsto> malloc_block h sz)" unfolding a by (rule p(4))
  have none: "heapActive hp a = None" unfolding a by (rule heap_inv_free_active[OF inv s(1)])
  show ?thesis
    by (intro disjI2 conjI exI[of _ "malloc_block h sz"])
      (rule range[folded a] sub fc act sp(5)[folded a] none)+
qed

lemma inferiorMallocInternal_total:
  assumes inv: "heap_inv hp" and sz: "0 < sz"
  shows "\<exists>a hp'. inferiorMallocInternal hp sz lo hi type = Some (a, hp')"
proof (cases "findFreeIndex hp sz type lo hi")
  case None
  then show ?thesis by (simp add: inferiorMallocInternal_def)
next
  case (Some i)
  show ?thesis using inferiorMallocInternal_Some(4)[OF inv Some sz] by blast
qed

lemma inferiorMallocInternal_accounted:
  assumes inv: "heap_inv hp" and sz: "0 < sz" and acc: "accounted hp"
    and m: "inferiorMallocInternal hp sz lo hi type = Some (a, hp')"
  shows "accounted hp'"
proof (cases "findFreeIndex hp sz type lo hi")
  case None
  with m acc show ?thesis by (simp add: inferiorMallocInternal_def)
next
  case (Some i)
  show ?thesis
    using acc wrap32_add[of "\<Sum>x\<leftarrow>heapFree hp. len x" "- sz"]
    by (simp add: accounted_def malloc_heap_items(3,7)[OF inv Some sz m])
qed

lemma insert_free_inv:
  assumes inv: "heap_inv hp" and ok: "item_ok h" "status h = HEAPfree"
    and new: "\<forall>x\<in>heap_items hp'. cells x \<inter> cells h = {}"
    and hp': "heap_items hp' \<subseteq> heap_items hp" "set (heapFree hp') \<subseteq> set (heapFree hp)"
      "distinct (heapFree hp')" "\<And>b k. heapActive hp' b = Some k \<Longrightarrow> heapActive hp b = Some k"
  shows "heap_inv (hp'\<lparr>heapFree := sort_key addr (heapFree hp' @ [h])\<rparr>)"
proof (rule heap_invI)
  let ?hp = "hp'\<lparr>heapFree := sort_key addr (heapFree hp' @ [h])\<rparr>"
  have items: "heap_items ?hp = insert h (heap_items hp')" by (simp add: heap_items_def)
  have h: "h \<notin> heap_items hp'" using new item_ok_start[OF ok(1)] by blast
  show "item_ok x \<and> status x = HEAPfree" if "x \<in> set (heapFree ?hp)" for x
    using that ok hp'(2) heap_invD(1,2)[OF inv, of x] by (cases "x = h") auto
  show "distinct (heapFree ?hp)" using h hp'(3) by (simp add: heap_items_def)
  show "item_ok k \<and> addr k = a \<and> status k = HEAPallocated" if "heapActive ?hp a = Some k" for a k
    using that hp'(4)[of a k] heap_invD(3,4,5)[OF inv, of a k] by simp
  have "disjoint_items (heap_items hp')"
    using heap_invD(7)[OF inv] hp'(1) unfolding disjoint_items_def by blast
  from disjoint_items_insert[OF this new] show "disjoint_items (heap_items ?hp)" unfolding items .
qed

lemma heap_inv_cong:
  "heapFree hp = heapFree hp' \<Longrightarrow> heapActive hp = heapActive hp' \<Longrightarrow> heap_inv hp = heap_inv hp'"
  by (simp add: heap_inv_def heap_items_def)

lemma inferiorFreeInternal_inv:
  assumes inv: "heap_inv hp"
  shows "heap_inv (inferiorFreeInternal hp block)"
proof (cases "heapActive hp block")
  case None
  with inv show ?thesis by (simp add: inferiorFreeInternal_def)
next
  case (Some h)
  let ?hp = "hp\<lparr>heapActive := (heapActive hp)(block := None)\<rparr>" and ?h = "h\<lparr>status := HEAPfree\<rparr>"
  have hin: "h \<in> heap_items hp" using ranI[of "heapActive hp", OF Some] by (simp add: heap_items_def)
  have items: "heap_items ?hp \<subseteq> heap_items hp - {h}"
    using heap_inv_ran_del[OF inv Some] heap_inv_free_not_active[OF inv, of h]
      ranI[of "heapActive hp", OF Some] by (auto simp: heap_items_def)
  have new: "\<forall>x\<in>heap_items ?hp. cells x \<inter> cells ?h = {}"
    using heap_invD(7)[OF inv] items hin unfolding disjoint_items_def cells_status by blast
  have "heap_inv (?hp\<lparr>heapFree := sort_key addr (heapFree ?hp @ [?h])\<rparr>)"
  proof (rule insert_free_inv[OF inv _ _ new])
    show "heapActive hp b = Some k" if "heapActive ?hp b = Some k" for b k
      using that by (simp split: if_splits)
  qed (use heap_invD(3)[OF inv Some] heap_invD(6)[OF inv] items in \<open>simp_all, blast\<close>)
  then show ?thesis
    by (rule heap_inv_cong[THEN iffD1, rotated 2]) (simp_all add: inferiorFreeInternal_def Some)
qed

lemma inferiorFreeInternal_cells:
  assumes inv: "heap_inv hp" and h: "heapActive hp block = Some h"
  shows "free_cells (inferiorFreeInternal hp block) = free_cells hp \<union> cells h"
    and "active_cells (inferiorFreeInternal hp block) = active_cells hp - cells h"
proof -
  show "free_cells (inferiorFreeInternal hp block) = free_cells hp \<union> cells h"
    by (simp add: free_cells_def inferiorFreeInternal_def h Un_commute)
  have "cells x \<inter> cells h = {}" if "x \<in> ran (heapActive hp) - {h}" for x
    using heap_invD(7)[OF inv] that ranI[of "heapActive hp", OF h]
    unfolding disjoint_items_def heap_items_def by blast
  then show "active_cells (inferiorFreeInternal hp block) = active_cells hp - cells h"
    using heap_inv_ran_del[OF inv h]
    by (simp add: active_cells_def inferiorFreeInternal_def h) blast
qed

lemma inferiorFreeInternal_accounted:
  "accounted hp \<Longrightarrow> accounted (inferiorFreeInternal hp block)"
  by (cases "heapActive hp block")
    (simp_all add: accounted_def inferiorFreeInternal_def algebra_simps)

lemma addHeap_inv:
  assumes inv: "heap_inv hp" and ok: "item_ok h" and new: "\<forall>x\<in>heap_items hp. cells x \<inter> cells h = {}"
  shows "heap_inv (addHeap hp h)"
proof -
  have "heap_inv (hp\<lparr>heapFree := sort_key addr (heapFree hp @ [h\<lparr>status := HEAPfree\<rparr>])\<rparr>)"
    using insert_free_inv[OF inv, of "h\<lparr>status := HEAPfree\<rparr>" hp] ok new heap_invD(6)[OF inv] by simp
  then show ?thesis
    by (rule heap_inv_cong[THEN iffD1, rotated 2]) (simp_all add: addHeap_def Let_def)
qed

lemma addHeap_accounted: "accounted hp \<Longrightarrow> accounted (addHeap hp h)"
  by (simp add: accounted_def addHeap_def Let_def algebra_simps)


section \<open>Resizing a block\<close>



lemma heap_inv_exchange:
  assumes inv: "heap_inv hp" and H: "H \<subseteq> heap_items hp"
    and T: "disjoint_items T" "(\<Union>x\<in>T. cells x) \<subseteq> (\<Union>x\<in>H. cells x)"
    and items: "heap_items hp' = heap_items hp - H \<union> T" and d: "distinct (heapFree hp')"
    and free: "\<And>x. x \<in> set (heapFree hp') \<Longrightarrow> x \<in> set (heapFree hp) \<or> item_ok x \<and> status x = HEAPfree"
    and act: "\<And>a k. heapActive hp' a = Some k \<Longrightarrow>
      heapActive hp a = Some k \<or> item_ok k \<and> addr k = a \<and> status k = HEAPallocated"
  shows "heap_inv hp'"
proof (rule heap_invI)
  show "item_ok x \<and> status x = HEAPfree" if "x \<in> set (heapFree hp')" for x
    using free[OF that] heap_invD(1,2)[OF inv, of x] by blast
  show "item_ok k \<and> addr k = a \<and> status k = HEAPallocated" if "heapActive hp' a = Some k" for a k
    using act[OF that] heap_invD(3,4,5)[OF inv, of a k] by blast
  show "disjoint_items (heap_items hp')"
    unfolding items by (rule disjoint_items_replace[OF heap_invD(7)[OF inv] H T])
qed (rule d)


text \<open>A block that is shrunk, and the free block that the rest joins or becomes.\<close>

definition shrink_block :: "heapItem \<Rightarrow> int \<Rightarrow> heapItem" where
  "shrink_block h n = h\<lparr>len := n\<rparr>"

definition shrink_succ :: "heapItem \<Rightarrow> int \<Rightarrow> heapItem" where
  "shrink_succ s d = s\<lparr>addr := addr s - d, len := len s + d\<rparr>"

definition shrink_tail :: "heapItem \<Rightarrow> int \<Rightarrow> heapItem" where
  "shrink_tail h n = \<lparr>addr = addr h + n, len = len h - n, htype = htype h, dynamic = dynamic h,
     status = HEAPfree\<rparr>"

definition shrink_heap :: "inferiorHeap \<Rightarrow> heapItem \<Rightarrow> int \<Rightarrow> heapItem list \<Rightarrow> inferiorHeap" where
  "shrink_heap hp h n fl = hp\<lparr>heapActive := (heapActive hp)(addr h \<mapsto> shrink_block h n),
     heapFree := fl, totalFreeMemAvailable := wrap32 (totalFreeMemAvailable hp + (len h - n)),
     freed := wrap32 (freed hp + (len h - n))\<rparr>"

definition shrink_ok :: "inferiorHeap \<Rightarrow> int \<Rightarrow> heapItem \<Rightarrow> int \<Rightarrow> bool" where
  "shrink_ok hp block h n \<longleftrightarrow> heapActive hp block = Some h \<and> 0 < n \<and> n < len h \<and>
     len h - n < 2 ^ 31 \<and> (\<forall>s\<in>set (heapFree hp). len s + len h < 2 ^ 32)"

lemma shrink_cells:
  "n \<le> len h \<Longrightarrow> 0 \<le> n \<Longrightarrow> cells (shrink_block h n) \<union> cells (shrink_tail h n) = cells h"
  "cells (shrink_block h n) \<inter> cells (shrink_tail h n) = {}"
  "addr s = addr h + len h \<Longrightarrow> n \<le> len h \<Longrightarrow> 0 \<le> len s \<Longrightarrow>
     cells (shrink_succ s (len h - n)) = cells (shrink_tail h n) \<union> cells s"
  by (auto simp: cells_def shrink_block_def shrink_tail_def shrink_succ_def)

lemma shrink_items:
  assumes "heap_inv hp" "shrink_ok hp block h n"
  shows "item_ok (shrink_block h n)" "item_ok (shrink_tail h n)" "addr h = block"
    "wrap32 (len h - n) = len h - n" "uwrap64 (block + n) = block + n"
    "s \<in> set (heapFree hp) \<Longrightarrow> addr s = addr h + len h \<Longrightarrow> item_ok (shrink_succ s (len h - n))"
proof -
  have h: "heapActive hp block = Some h" "0 < n" "n < len h" "len h - n < 2 ^ 31"
    using assms(2) by (simp_all add: shrink_ok_def)
  note ok = heap_invD(3,4)[OF assms(1) h(1)]
  show "item_ok (shrink_block h n)" "item_ok (shrink_tail h n)" "addr h = block"
    "wrap32 (len h - n) = len h - n" "uwrap64 (block + n) = block + n"
    using ok h by (simp_all add: item_ok_def shrink_block_def shrink_tail_def wrap32_def
        signed_take_bit_int_eq_self)
  show "item_ok (shrink_succ s (len h - n))" if s: "s \<in> set (heapFree hp)" "addr s = addr h + len h"
  proof -
    have "len s + len h < 2 ^ 32" using assms(2) s(1) by (simp add: shrink_ok_def)
    with heap_invD(1)[OF assms(1) s(1)] ok h s(2) show ?thesis
      by (simp add: item_ok_def shrink_succ_def)
  qed
qed

lemma shrink_eval:
  assumes "heap_inv hp" "shrink_ok hp block h n"
  shows "inferiorShrinkBlock hp h block n = Some (True, shrink_heap hp h n
    (case first_index (\<lambda>t. addr t = addr h + len h) (heapFree hp) of
       Some i \<Rightarrow> (heapFree hp)[i := shrink_succ (heapFree hp ! i) (len h - n)]
     | None \<Rightarrow> sort_key addr (heapFree hp @ [shrink_tail h n])))"
proof -
  note it = shrink_items[OF assms]
  have h: "heapActive hp block = Some h" "n < len h" using assms(2) by (simp_all add: shrink_ok_def)
  have e: "item_end h = addr h + len h" using heap_invD(3)[OF assms(1) h(1)] by simp
  show ?thesis
  proof (cases "first_index (\<lambda>t. addr t = addr h + len h) (heapFree hp)")
    case None
    then show ?thesis using it h
      by (simp add: inferiorShrinkBlock_def Let_def e shrink_heap_def shrink_tail_def shrink_block_def)
  next
    case (Some i)
    define s where "s = heapFree hp ! i"
    have i: "s \<in> set (heapFree hp)" "addr s = addr h + len h"
      using first_index_Some[OF Some] by (simp_all add: s_def)
    from it(6)[OF i] i(2) have "uwrap64 (addr s - (len h - n)) = addr s - (len h - n)"
      "uwrap32 (len s + (len h - n)) = len s + (len h - n)"
      by (simp_all add: item_ok_def shrink_succ_def)
    with Some it h show ?thesis
      by (simp add: inferiorShrinkBlock_def Let_def e shrink_heap_def shrink_succ_def
          shrink_block_def s_def[symmetric])
  qed
qed








lemma inferiorShrinkBlock_cells:
  assumes inv: "heap_inv hp" and ok: "shrink_ok hp block h n"
    and r: "inferiorShrinkBlock hp h block n = Some (b, hp')"
  shows "b \<and> heapActive hp' = (heapActive hp)(block \<mapsto> h\<lparr>len := n\<rparr>) \<and>
    free_cells hp' = free_cells hp \<union> {block + n ..< block + len h} \<and>
    (accounted hp \<longrightarrow> accounted hp')"
proof -
  note it = shrink_items[OF inv ok]
  have h: "0 < n" "n < len h" using ok by (simp_all add: shrink_ok_def)
  have ct: "cells (shrink_tail h n) = {block + n ..< block + len h}"
    by (simp add: cells_def shrink_tail_def it(3))
  show ?thesis
  proof (cases "first_index (\<lambda>t. addr t = addr h + len h) (heapFree hp)")
    case None
    have hp': "b" "hp' = shrink_heap hp h n (sort_key addr (heapFree hp @ [shrink_tail h n]))"
      using r shrink_eval[OF inv ok] None by simp_all
    then show ?thesis
      using ct it(3) by (simp add: shrink_heap_def free_cells_def Un_commute shrink_block_def
          accounted_def shrink_tail_def)
  next
    case (Some i)
    define s where "s = heapFree hp ! i"
    have i: "i < length (heapFree hp)" and s: "s \<in> set (heapFree hp)" "addr s = addr h + len h"
      using first_index_Some[OF Some] by (simp_all add: s_def)
    have hp': "b" "hp' = shrink_heap hp h n ((heapFree hp)[i := shrink_succ s (len h - n)])"
      using r shrink_eval[OF inv ok] Some by (simp_all add: s_def)
    have cs: "cells (shrink_succ s (len h - n)) = {block + n ..< block + len h} \<union> cells s"
      using shrink_cells(3)[OF s(2)] h heap_invD(1)[OF inv s(1)] ct by (simp add: item_ok_def)
    have "set ((heapFree hp)[i := shrink_succ s (len h - n)]) =
        insert (shrink_succ s (len h - n)) (set (heapFree hp) - {s})"
      using set_update_distinct[OF heap_invD(6)[OF inv] i] by (simp add: s_def)
    then have "free_cells hp' = free_cells hp \<union> {block + n ..< block + len h}"
      unfolding free_cells_def hp'(2) using cs s(1) by (simp add: shrink_heap_def) blast
    then show ?thesis
      using hp' it(3) sum_list_list_update[OF i, of len "shrink_succ s (len h - n)"]
      by (simp add: shrink_heap_def shrink_block_def accounted_def shrink_succ_def s_def)
  qed
qed


text \<open>
  Growing a block takes bytes from the free block that follows it, but leaves the length of the
  active block as it was: the bytes between the old and the new end belong to no block any more.
\<close>

definition expand_succ :: "heapItem \<Rightarrow> int \<Rightarrow> heapItem" where
  "expand_succ s d = s\<lparr>addr := addr s + d, len := len s - d\<rparr>"

definition expand_free :: "heapItem list \<Rightarrow> nat \<Rightarrow> int \<Rightarrow> heapItem list" where
  "expand_free fl i d =
     (if len (fl ! i) = d then filter (\<lambda>x. len x \<noteq> 0) (fl[i := expand_succ (fl ! i) d])
      else fl[i := expand_succ (fl ! i) d])"

lemma filter_nonzero_update:
  assumes d: "distinct fl" and ok: "\<forall>x\<in>set fl. len x \<noteq> 0" and i: "i < length fl" and z: "len y = 0"
  shows "set (filter (\<lambda>x. len x \<noteq> 0) (fl[i := y])) = set fl - {fl ! i}"
    and "length (filter (\<lambda>x. len x \<noteq> 0) (fl[i := y])) = length fl - 1"
    and "distinct (filter (\<lambda>x. len x \<noteq> 0) (fl[i := y]))"
proof -
  have y: "y \<notin> set fl" using ok z by blast
  have s: "set (fl[i := y]) = insert y (set fl - {fl ! i})" using set_update_distinct[OF d i] .
  show set: "set (filter (\<lambda>x. len x \<noteq> 0) (fl[i := y])) = set fl - {fl ! i}"
    using ok z by (simp add: s) blast
  show dist: "distinct (filter (\<lambda>x. len x \<noteq> 0) (fl[i := y]))"
    using distinct_list_update[OF d, of y i] y by simp
  have "length (filter (\<lambda>x. len x \<noteq> 0) (fl[i := y])) = card (set fl - {fl ! i})"
    using distinct_card[OF dist] set by simp
  then show "length (filter (\<lambda>x. len x \<noteq> 0) (fl[i := y])) = length fl - 1"
    using i distinct_card[OF d] by simp
qed

lemma heap_inv_nonzero: "heap_inv hp \<Longrightarrow> x \<in> set (heapFree hp) \<Longrightarrow> len x \<noteq> 0"
  using heap_invD(1)[of hp x] by (simp add: item_ok_def)

lemma expand_free_set:
  assumes inv: "heap_inv hp" and i: "i < length (heapFree hp)" and d: "0 < d" "d \<le> len (heapFree hp ! i)"
  shows "set (expand_free (heapFree hp) i d) = set (heapFree hp) - {heapFree hp ! i} \<union>
      (if len (heapFree hp ! i) = d then {} else {expand_succ (heapFree hp ! i) d})"
    and "distinct (expand_free (heapFree hp) i d)"
proof -
  let ?s = "heapFree hp ! i"
  have nz: "\<forall>x\<in>set (heapFree hp). len x \<noteq> 0"
    using heap_inv_nonzero[OF inv] by blast
  note dist = heap_invD(6)[OF inv]
  have "set (expand_free (heapFree hp) i d) = set (heapFree hp) - {?s} \<union>
      (if len ?s = d then {} else {expand_succ ?s d}) \<and> distinct (expand_free (heapFree hp) i d)"
  proof (cases "len ?s = d")
    case True
    then have "len (expand_succ ?s d) = 0" by (simp add: expand_succ_def)
    with filter_nonzero_update(1,3)[OF dist nz i this] True show ?thesis
      by (simp add: expand_free_def)
  next
    case False
    then have "addr ?s + d \<in> cells ?s" "addr ?s + d \<in> cells (expand_succ ?s d)"
      using d by (simp_all add: cells_def expand_succ_def)
    from free_update[OF inv i this] False show ?thesis by (simp add: expand_free_def)
  qed
  then show "set (expand_free (heapFree hp) i d) = set (heapFree hp) - {?s} \<union>
      (if len ?s = d then {} else {expand_succ ?s d})"
    and "distinct (expand_free (heapFree hp) i d)" by blast+
qed

definition expand_ok :: "inferiorHeap \<Rightarrow> int \<Rightarrow> heapItem \<Rightarrow> int \<Rightarrow> bool" where
  "expand_ok hp block h n \<longleftrightarrow> heapActive hp block = Some h \<and> len h < n \<and> n - len h < 2 ^ 31"

lemma expand_eval:
  assumes inv: "heap_inv hp" and ok: "expand_ok hp block h n"
  shows "inferiorExpandBlock hp h n =
    (case first_index (\<lambda>t. addr t = addr h + len h) (heapFree hp) of
       None \<Rightarrow> Some (False, hp)
     | Some i \<Rightarrow>
         if len (heapFree hp ! i) < n - len h then Some (False, hp)
         else Some (True, hp\<lparr>totalFreeMemAvailable := wrap32 (totalFreeMemAvailable hp - (n - len h)),
                            heapFree := expand_free (heapFree hp) i (n - len h)\<rparr>))"
proof -
  have h: "heapActive hp block = Some h" "len h < n" "n - len h < 2 ^ 31"
    using ok by (simp_all add: expand_ok_def)
  have e: "item_end h = addr h + len h" using heap_invD(3)[OF inv h(1)] by simp
  have w: "wrap32 (n - len h) = n - len h" using h by (simp add: wrap32_def signed_take_bit_int_eq_self)
  show ?thesis
  proof (cases "first_index (\<lambda>t. addr t = addr h + len h) (heapFree hp)")
    case None
    with h show ?thesis by (simp add: inferiorExpandBlock_def e w)
  next
    case (Some i)
    define s where "s = heapFree hp ! i"
    have i: "i < length (heapFree hp)" and s: "s \<in> set (heapFree hp)" "addr s = addr h + len h"
      using first_index_Some[OF Some] by (simp_all add: s_def)
    note sok = heap_invD(1)[OF inv s(1)]
    show ?thesis
    proof (cases "len s < n - len h")
      case True
      with Some h show ?thesis by (simp add: inferiorExpandBlock_def e w Let_def s_def)
    next
      case False
      have u: "uwrap64 (addr h + len h + (n - len h)) = addr s + (n - len h)"
        "uwrap32 (len s - (n - len h)) = len s - (n - len h)"
        using sok s(2) False h by (simp_all add: item_ok_def)
      have nz: "\<forall>x\<in>set (heapFree hp). len x \<noteq> 0"
        using heap_inv_nonzero[OF inv] by blast
      note f = filter_nonzero_update(2)[OF heap_invD(6)[OF inv] nz i, of "expand_succ s (n - len h)"]
      show ?thesis
      proof (cases "len s = n - len h")
        case True
        with f have "length (filter (\<lambda>x. len x \<noteq> 0) ((heapFree hp)[i := expand_succ s (n - len h)])) =
            length (heapFree hp) - 1" by (simp add: expand_succ_def)
        with Some False True u w h show ?thesis
          by (simp add: inferiorExpandBlock_def e Let_def s_def[symmetric] expand_free_def expand_succ_def)
      next
        case ne: False
        with Some False u w h show ?thesis
          by (simp add: inferiorExpandBlock_def e Let_def s_def[symmetric] expand_free_def expand_succ_def)
      qed
    qed
  qed
qed

lemma expand_free_cells:
  assumes inv: "heap_inv hp" and i: "i < length (heapFree hp)" and d: "0 < d" "d \<le> len (heapFree hp ! i)"
  shows "(\<Union>x\<in>set (expand_free (heapFree hp) i d). cells x) =
    free_cells hp - {addr (heapFree hp ! i) ..< addr (heapFree hp ! i) + d}"
proof -
  define s where "s = heapFree hp ! i"
  have s: "s \<in> set (heapFree hp)" using i by (simp add: s_def)
  have "cells x \<inter> cells s = {}" if "x \<in> set (heapFree hp) - {s}" for x
    using heap_invD(7)[OF inv] that s unfolding disjoint_items_def heap_items_def by blast
  then have o: "(\<Union>x\<in>set (heapFree hp) - {s}. cells x) \<inter> cells s = {}" by blast
  have f: "free_cells hp = (\<Union>x\<in>set (heapFree hp) - {s}. cells x) \<union> cells s"
    using s unfolding free_cells_def by blast
  have c: "(\<Union>x\<in>(if len s = d then {} else {expand_succ s d}). cells x) = cells s - {addr s ..< addr s + d}"
    "{addr s ..< addr s + d} \<subseteq> cells s"
    using d by (auto simp: cells_def expand_succ_def s_def)
  show ?thesis
    unfolding expand_free_set(1)[OF inv i d] s_def[symmetric] UN_Un c(1) f using o c(2) by blast
qed

lemma inferiorExpandBlock_inv:
  assumes inv: "heap_inv hp" and ok: "expand_ok hp block h n"
    and r: "inferiorExpandBlock hp h n = Some (b, hp')"
  shows "heap_inv hp' \<and> heapActive hp' = heapActive hp \<and>
    (\<not> b \<longrightarrow> hp' = hp) \<and>
    (b \<longrightarrow> {block + len h ..< block + n} \<subseteq> free_cells hp \<and>
      free_cells hp' = free_cells hp - {block + len h ..< block + n})"
proof -
  have h: "heapActive hp block = Some h" "len h < n" using ok by (simp_all add: expand_ok_def)
  note ad = heap_invD(4)[OF inv h(1)]
  note ev = r[unfolded expand_eval[OF inv ok]]
  show ?thesis
  proof (cases b)
    case False
    with ev inv show ?thesis by (simp split: option.splits if_splits)
  next
    case True
    then obtain i where i: "first_index (\<lambda>t. addr t = addr h + len h) (heapFree hp) = Some i"
        "\<not> len (heapFree hp ! i) < n - len h"
        "heapFree hp' = expand_free (heapFree hp) i (n - len h)" "heapActive hp' = heapActive hp"
      using ev by (simp split: option.splits if_splits) (metis inferiorHeap.select_convs(1,2)
          inferiorHeap.surjective inferiorHeap.update_convs(2,5))
    define s where "s = heapFree hp ! i"
    have il: "i < length (heapFree hp)" and s: "s \<in> set (heapFree hp)" "addr s = block + len h"
      using first_index_Some[OF i(1)] ad by (simp_all add: s_def)
    have d: "0 < n - len h" "n - len h \<le> len (heapFree hp ! i)" using h i(2) by simp_all
    note es = expand_free_set[OF inv il d, folded s_def]
    have fc: "free_cells hp' = free_cells hp - {block + len h ..< block + n}"
      using expand_free_cells[OF inv il d] i(3) s(2) by (simp add: free_cells_def s_def)
    have "{block + len h ..< block + n} \<subseteq> cells s"
      using d s(2) by (simp add: cells_def s_def)
    then have sub: "{block + len h ..< block + n} \<subseteq> free_cells hp"
      using s(1) unfolding free_cells_def by blast
    have "heap_inv hp'"
    proof (rule heap_inv_exchange[OF inv, of "{s}" "if len s = n - len h then {} else {expand_succ s (n - len h)}"])
      show "heap_items hp' = heap_items hp - {s} \<union> (if len s = n - len h then {} else {expand_succ s (n - len h)})"
        unfolding heap_items_def i(3,4) es(1) using heap_inv_free_not_active[OF inv s(1)] by blast
      show "\<Union> (cells ` (if len s = n - len h then {} else {expand_succ s (n - len h)})) \<subseteq> \<Union> (cells ` {s})"
        using d by (auto simp: cells_def expand_succ_def)
      show "x \<in> set (heapFree hp) \<or> item_ok x \<and> status x = HEAPfree" if "x \<in> set (heapFree hp')" for x
      proof -
        have "x \<in> set (heapFree hp) \<or> x = expand_succ s (n - len h) \<and> len s \<noteq> n - len h"
          using that unfolding i(3) es(1) by (auto split: if_splits)
        then show ?thesis
          using heap_invD(1,2)[OF inv s(1)] d by (auto simp: item_ok_def expand_succ_def s_def)
      qed
    qed (use s es(2) i(3,4) in \<open>simp_all add: heap_items_def disjoint_items_def\<close>)
    with fc sub i(4) True show ?thesis by blast
  qed
qed


section \<open>Compaction\<close>

definition chain :: "heapItem list \<Rightarrow> bool" where
  "chain = sorted_wrt (\<lambda>a b. addr a + len a \<le> addr b)"

definition mergeable :: "heapItem \<Rightarrow> heapItem \<Rightarrow> bool" where
  "mergeable a b \<longleftrightarrow> addr a + len a = addr b \<and> htype a = htype b"

definition nonzero :: "heapItem list \<Rightarrow> heapItem list" where
  "nonzero l = filter (\<lambda>h. len h \<noteq> 0) l"

lemma chainI:
  "\<lbrakk> sorted_wrt (\<lambda>a b. addr a \<le> addr b) l; distinct l;
     \<And>a b. a \<in> set l \<Longrightarrow> b \<in> set l \<Longrightarrow> a \<noteq> b \<Longrightarrow> addr a \<le> addr b \<Longrightarrow> addr a + len a \<le> addr b \<rbrakk> \<Longrightarrow>
   chain l"
proof (induction l)
  case (Cons x l)
  have "addr x + len x \<le> addr y" if y: "y \<in> set l" for y
  proof (rule Cons.prems(3))
    show "x \<noteq> y" using Cons.prems(2) y by (metis distinct.simps(2))
    show "addr x \<le> addr y" using Cons.prems(1) y by simp
  qed (use y in simp_all)
  moreover have "chain l"
  proof (rule Cons.IH)
    show "addr a + len a \<le> addr b" if "a \<in> set l" "b \<in> set l" "a \<noteq> b" "addr a \<le> addr b" for a b
      by (rule Cons.prems(3)) (use that in simp_all)
  qed (use Cons.prems(1,2) in simp_all)
  ultimately show ?case by (simp add: chain_def)
qed (simp add: chain_def)

lemma chain_sort:
  assumes "\<forall>h\<in>set fl. item_ok h" "distinct fl" "disjoint_items (set fl)"
  shows "chain (sort_key addr fl)"
proof (rule chainI)
  show "sorted_wrt (\<lambda>a b. addr a \<le> addr b) (sort_key addr fl)"
    using sorted_sort_key[of addr fl] by (simp add: sorted_map)
  show "addr a + len a \<le> addr b"
    if "a \<in> set (sort_key addr fl)" "b \<in> set (sort_key addr fl)" "a \<noteq> b" "addr a \<le> addr b" for a b
  proof -
    have "addr b \<notin> cells a"
      using disjoint_itemsD[OF assms(3), of a b "addr b"] item_ok_start[of b] assms(1) that by auto
    with that(4) show ?thesis by (simp add: cells_def)
  qed
qed (use assms(2) in simp)

text \<open>What the scan leaves: the same bytes, in order, in blocks none of which can be merged.\<close>

definition compacted :: "heapItem list \<Rightarrow> heapItem list \<Rightarrow> bool" where
  "compacted hs fl \<longleftrightarrow> chain fl \<and> (\<forall>h\<in>set fl. item_ok h \<and> status h = HEAPfree) \<and>
     (\<Union>h\<in>set fl. cells h) = (\<Union>h\<in>set hs. cells h) \<and>
     (\<Sum>h\<leftarrow>fl. len h) = (\<Sum>h\<leftarrow>hs. len h) \<and> successively (\<lambda>a b. \<not> mergeable a b) fl \<and>
     htype ` set fl \<subseteq> htype ` set hs \<and>
     (hs \<noteq> [] \<longrightarrow> fl \<noteq> [] \<and> addr (hd fl) = addr (hd hs) \<and> htype (hd fl) = htype (hd hs))"

lemma sum_list_len_nonneg: "\<forall>h\<in>set hs. item_ok h \<Longrightarrow> 0 \<le> (\<Sum>h\<leftarrow>hs. len h)"
  by (induction hs) (simp_all add: item_ok_def)

lemma compacted_Cons:
  assumes "compacted (h2 # hs) fl" "item_ok h1" "status h1 = HEAPfree" "\<not> mergeable h1 h2"
    and "addr h1 + len h1 \<le> addr h2" "chain (h2 # hs)" "\<forall>h\<in>set (h2 # hs). item_ok h"
  shows "compacted (h1 # h2 # hs) (h1 # fl)"
proof -
  obtain f fs where fl: "fl = f # fs" "addr f = addr h2" "htype f = htype h2"
    using assms(1) by (cases fl) (simp_all add: compacted_def)
  have ok: "\<forall>x\<in>set fl. item_ok x" and ch: "chain fl" using assms(1) by (simp_all add: compacted_def)
  have "addr f \<le> addr x" if "x \<in> set fl" for x
  proof (cases "x = f")
    case False
    with that fl have "x \<in> set fs" by simp
    with ch fl have "addr f + len f \<le> addr x" by (simp add: chain_def)
    moreover have "0 < len f" using ok fl by (simp add: item_ok_def)
    ultimately show ?thesis by linarith
  qed simp
  then have "addr h1 + len h1 \<le> addr x" if "x \<in> set fl" for x using that assms(5) fl(2) by fastforce
  with ch have "chain (h1 # fl)" by (simp add: chain_def)
  moreover have "\<not> mergeable h1 f" using assms(4) fl(2,3) by (simp add: mergeable_def)
  ultimately show ?thesis
    using assms(1-3) fl(1) by (simp add: compacted_def) blast
qed

lemma nonzero_short: "nonzero [] = []" "len h \<noteq> 0 \<Longrightarrow> nonzero [h] = [h]"
  by (simp_all add: nonzero_def)

lemma compact_merge_spec:
  "\<lbrakk> chain hs; \<forall>h\<in>set hs. item_ok h \<and> status h = HEAPfree; (\<Sum>h\<leftarrow>hs. len h) < 2 ^ 32 \<rbrakk> \<Longrightarrow>
   \<exists>l n. compact_merge hs = Some (l, n) \<and> compacted hs (nonzero l) \<and>
     length (nonzero l) + n = length hs \<and> (n = 0 \<longrightarrow> l = hs)"
proof (induction hs rule: compact_merge.induct)
  case (1 h1 h2 hs)
  have ok: "item_ok h1" "item_ok h2" "status h1 = HEAPfree" "status h2 = HEAPfree"
    "\<forall>h\<in>set hs. item_ok h \<and> status h = HEAPfree" and le: "addr h1 + len h1 \<le> addr h2"
    and ch: "chain (h2 # hs)" using "1.prems"(1,2) by (simp_all add: chain_def)
  have l1: "0 < len h1" "0 < len h2" using ok by (simp_all add: item_ok_def)
  have s0: "0 \<le> (\<Sum>h\<leftarrow>hs. len h)" using sum_list_len_nonneg[of hs] ok(5) by blast
  have e: "item_end h1 = addr h1 + len h1" using ok(1) by simp
  show ?case
  proof (cases "mergeable h1 h2")
    case True
    define m where "m = h2\<lparr>addr := addr h1, len := len h1 + len h2\<rparr>"
    have lt: "len h1 + len h2 < 2 ^ 32" using "1.prems"(3) s0 by simp
    have m: "item_ok m" "status m = HEAPfree" using True ok lt l1
      by (simp_all add: item_ok_def m_def mergeable_def)
    have cm: "cells m = cells h1 \<union> cells h2"
      using True l1 by (auto simp: cells_def m_def mergeable_def)
    have "addr m + len m = addr h2 + len h2" using True by (simp add: m_def mergeable_def)
    with ch have chm: "chain (m # hs)" by (simp add: chain_def)
    have "uwrap32 (len h1 + len h2) = len h1 + len h2" using lt l1 by simp
    then have eval: "compact_merge (h1 # h2 # hs) =
        map_option (\<lambda>(l, n). (h1\<lparr>len := 0\<rparr> # l, Suc n)) (compact_merge (m # hs))"
      using True l1 e by (simp add: mergeable_def m_def)
    have "\<exists>l n. compact_merge (m # hs) = Some (l, n) \<and> compacted (m # hs) (nonzero l) \<and>
        length (nonzero l) + n = length (m # hs) \<and> (n = 0 \<longrightarrow> l = m # hs)"
      using "1.IH"(1) True l1 e le chm m ok(5) "1.prems"(3) \<open>uwrap32 (len h1 + len h2) = len h1 + len h2\<close>
      by (simp add: mergeable_def m_def)
    then obtain l n where l: "compact_merge (m # hs) = Some (l, n)" "compacted (m # hs) (nonzero l)"
      "length (nonzero l) + n = length (m # hs)" by blast
    have "compacted (h1 # h2 # hs) (nonzero l)"
      using l(2) cm True by (simp add: compacted_def m_def mergeable_def Un_assoc)
    with l eval show ?thesis by (simp add: nonzero_def)
  next
    case False
    have eval: "compact_merge (h1 # h2 # hs) = map_option (\<lambda>(l, n). (h1 # l, n)) (compact_merge (h2 # hs))"
    proof -
      have "len h1 \<noteq> 0" "\<not> item_end h1 > addr h2" "\<not> (item_end h1 = addr h2 \<and> htype h1 = htype h2)"
        using False l1 le unfolding e mergeable_def by simp_all
      then show ?thesis by (simp only: compact_merge.simps if_False)
    qed
    obtain l n where l: "compact_merge (h2 # hs) = Some (l, n)" "compacted (h2 # hs) (nonzero l)"
      "length (nonzero l) + n = length (h2 # hs)" "n = 0 \<longrightarrow> l = h2 # hs"
      using "1.IH"(2) False l1 e le ch ok "1.prems"(3) by (fastforce simp: mergeable_def)
    have "compacted (h1 # h2 # hs) (nonzero (h1 # l))"
      using compacted_Cons[OF l(2) ok(1,3) False le ch] ok l1 by (simp add: nonzero_def)
    with l eval l1 show ?thesis by (simp add: nonzero_def)
  qed
qed (simp_all add: compacted_def chain_def nonzero_short item_ok_def)

lemma inferiorFreeCompact_Some:
  assumes inv: "heap_inv hp" and small: "(\<Sum>h\<leftarrow>heapFree hp. len h) < 2 ^ 32"
  shows "\<exists>fl. inferiorFreeCompact hp = Some (hp\<lparr>heapFree := fl\<rparr>) \<and> compacted (sort_key addr (heapFree hp)) fl"
proof -
  let ?l = "sort_key addr (heapFree hp)"
  have ok: "\<forall>h\<in>set ?l. item_ok h \<and> status h = HEAPfree" using heap_invD(1,2)[OF inv] by simp
  have "disjoint_items (set (heapFree hp))"
    using heap_invD(7)[OF inv] unfolding disjoint_items_def heap_items_def by blast
  then have ch: "chain ?l" using chain_sort[of "heapFree hp"] heap_invD(1,6)[OF inv] by blast
  obtain l n where l: "compact_merge ?l = Some (l, n)" "compacted ?l (nonzero l)"
    "length (nonzero l) + n = length ?l" "n = 0 \<longrightarrow> l = ?l"
    using compact_merge_spec[OF ch ok] small by auto
  have nz: "nonzero ?l = ?l"
    using heap_inv_nonzero[OF inv] by (simp add: nonzero_def filter_id_conv)
  show ?thesis
  proof (cases "n = 0")
    case True
    with l nz have "inferiorFreeCompact hp = Some (hp\<lparr>heapFree := ?l\<rparr>)" "compacted ?l ?l"
      by (simp_all add: inferiorFreeCompact_def Let_def)
    then show ?thesis by blast
  next
    case False
    then have "inferiorFreeCompact hp = Some (hp\<lparr>heapFree := nonzero l\<rparr>)"
      using l(1,3) by (simp add: inferiorFreeCompact_def Let_def nonzero_def)
    with l(2) show ?thesis by blast
  qed
qed

lemma chain_disjoint:
  "chain fl \<Longrightarrow> \<forall>h\<in>set fl. item_ok h \<Longrightarrow> distinct fl \<and> disjoint_items (set fl)"
proof (induction fl)
  case (Cons x fl)
  then have IH: "distinct fl" "disjoint_items (set fl)" by (simp_all add: chain_def)
  have after: "addr x + len x \<le> addr y" if "y \<in> set fl" for y
    using Cons.prems(1) that by (simp add: chain_def)
  have "cells y \<inter> cells x = {}" if "y \<in> set fl" for y
    using after[OF that] by (simp add: cells_def)
  then have "disjoint_items (set (x # fl))"
    using disjoint_items_insert[OF IH(2), of x] by simp
  moreover have "x \<notin> set fl"
  proof
    assume x: "x \<in> set fl"
    have "0 < len x" using Cons.prems(2) by (simp add: item_ok_def)
    with after[OF x] show False by simp
  qed
  ultimately show ?case using IH(1) by simp
qed (simp add: disjoint_items_def)

lemma compacted_inv:
  assumes inv: "heap_inv hp" and c: "compacted (sort_key addr (heapFree hp)) fl"
  shows "heap_inv (hp\<lparr>heapFree := fl\<rparr>)"
proof -
  let ?hp = "hp\<lparr>heapFree := fl\<rparr>"
  have ch: "chain fl" and ok: "\<forall>h\<in>set fl. item_ok h \<and> status h = HEAPfree"
    and cs: "(\<Union>h\<in>set fl. cells h) = (\<Union>h\<in>set (heapFree hp). cells h)"
    using c by (simp_all add: compacted_def)
  have "distinct fl" and dj: "disjoint_items (set fl)" using chain_disjoint[OF ch] ok by blast+
  moreover have "disjoint_items (heap_items ?hp)"
  proof -
    have "heap_items ?hp = heap_items hp - set (heapFree hp) \<union> set fl"
      using heap_inv_free_not_active[OF inv] unfolding heap_items_def by (simp, blast)
    then show ?thesis
      using disjoint_items_replace[OF heap_invD(7)[OF inv], of "set (heapFree hp)" "set fl"] dj cs
      by (simp add: heap_items_def)
  qed
  ultimately show ?thesis
    using ok heap_invD(3,4,5)[OF inv] unfolding heap_inv_def by simp
qed


section \<open>Sequences of operations\<close>




lemma heap_inv_empty: "heap_inv empty_heap"
  by (simp add: heap_inv_def empty_heap_def heap_items_def disjoint_items_def)


section \<open>BinaryEdit always finds memory\<close>

definition be_inv :: "BinaryEdit \<Rightarrow> bool" where
  "be_inv be \<longleftrightarrow> heap_inv (be_heap be) \<and> 0 < highWaterMark be \<and>
     (\<forall>h\<in>heap_items (be_heap be). addr h + len h \<le> highWaterMark be) \<and>
     (\<forall>h\<in>set (heapFree (be_heap be)). htype h AND anyHeap \<noteq> 0)"

definition free_total :: "inferiorHeap \<Rightarrow> int" where
  "free_total hp = (\<Sum>h\<leftarrow>heapFree hp. len h)"

lemma item_le_free_total:
  "\<forall>h\<in>set fl. item_ok h \<Longrightarrow> h \<in> set fl \<Longrightarrow> len h \<le> (\<Sum>h\<leftarrow>fl. len h)"
proof (induction fl)
  case (Cons x fl)
  have "0 \<le> (\<Sum>h\<leftarrow>fl. len h)" using sum_list_len_nonneg[of fl] Cons.prems(1) by simp
  moreover have "0 < len x" using Cons.prems(1) by (simp add: item_ok_def)
  moreover have "len h \<le> (\<Sum>h\<leftarrow>fl. len h)" if "h \<noteq> x" using Cons that by simp
  ultimately show ?case by (cases "h = x") simp_all
qed simp

lemma BinaryEdit_try_cases:
  assumes be: "be_inv be" and sz: "0 < sz"
  obtains (fail) "BinaryEdit_try be sz = Some (0, be)"
      "\<forall>h\<in>set (heapFree (be_heap be)). \<not> fits_request sz anyHeap 0 (2 ^ 64 - 1) h"
  | (found) a be' k where "BinaryEdit_try be sz = Some (a, be')" "a \<noteq> 0" "heap_inv (be_heap be')"
      "heapActive (be_heap be') = (heapActive (be_heap be))(a \<mapsto> k)" "cells k = {a ..< a + sz}"
      "{a ..< a + sz} \<subseteq> free_cells (be_heap be)"
proof -
  have inv: "heap_inv (be_heap be)" using be by (simp add: be_inv_def)
  obtain a hp where m: "inferiorMallocInternal (be_heap be) sz 0 (2 ^ 64 - 1) anyHeap = Some (a, hp)"
    using inferiorMallocInternal_total[OF inv sz] by blast
  then have t: "BinaryEdit_try be sz = Some (a, be\<lparr>be_heap := hp\<rparr>)" by (simp add: BinaryEdit_try_def)
  note c = inferiorMallocInternal_cells[OF inv sz m]
  show ?thesis
  proof (cases "a = 0")
    case True
    with c have "hp = be_heap be" "\<forall>h\<in>set (heapFree (be_heap be)). \<not> fits_request sz anyHeap 0 (2 ^ 64 - 1) h"
      by blast+
    with t True show ?thesis by (intro fail) simp_all
  next
    case False
    with c obtain k where k: "heapActive hp = (heapActive (be_heap be))(a \<mapsto> k)" "cells k = {a ..< a + sz}"
      "{a ..< a + sz} \<subseteq> free_cells (be_heap be)" by blast
    show ?thesis
      by (rule found[OF t False, of k])
        (use k inferiorMallocInternal_inv[OF inv sz m] in simp_all)
  qed
qed

lemma fits_any:
  assumes "item_ok h" "htype h AND anyHeap \<noteq> 0" "sz \<le> len h" "0 < sz"
  shows "fits_request sz anyHeap 0 (2 ^ 64 - 1) h"
  using assms by (simp add: fits_request_def item_ok_def)

lemma be_invI:
  assumes "heap_inv (be_heap be)" "0 < highWaterMark be"
    and "\<And>h. h \<in> set (heapFree (be_heap be)) \<Longrightarrow> addr h + len h \<le> highWaterMark be \<and> htype h AND anyHeap \<noteq> 0"
    and "\<And>a h. heapActive (be_heap be) a = Some h \<Longrightarrow> addr h + len h \<le> highWaterMark be"
  shows "be_inv be"
  unfolding be_inv_def heap_items_def ran_def using assms by blast

lemma be_invD:
  assumes "be_inv be"
  shows "heap_inv (be_heap be)" "0 < highWaterMark be"
    "h \<in> set (heapFree (be_heap be)) \<Longrightarrow> addr h + len h \<le> highWaterMark be"
    "h \<in> set (heapFree (be_heap be)) \<Longrightarrow> htype h AND anyHeap \<noteq> 0"
    "heapActive (be_heap be) a = Some h \<Longrightarrow> addr h + len h \<le> highWaterMark be"
  using assms unfolding be_inv_def heap_items_def ran_def by blast+

lemma compact_be_inv:
  assumes be: "be_inv be" and c: "compacted (sort_key addr (heapFree (be_heap be))) fl"
  shows "be_inv (be\<lparr>be_heap := (be_heap be)\<lparr>heapFree := fl\<rparr>\<rparr>)"
proof (rule be_invI)
  let ?hp = "be_heap be" and ?be = "be\<lparr>be_heap := (be_heap be)\<lparr>heapFree := fl\<rparr>\<rparr>"
  note inv = be_invD(1)[OF be]
  show "heap_inv (be_heap ?be)" using compacted_inv[OF inv c] by simp
  have fl: "\<forall>h\<in>set fl. item_ok h" "(\<Union>h\<in>set fl. cells h) = (\<Union>h\<in>set (heapFree ?hp). cells h)"
    "htype ` set fl \<subseteq> htype ` set (heapFree ?hp)" using c by (simp_all add: compacted_def)
  show "addr h + len h \<le> highWaterMark ?be \<and> htype h AND anyHeap \<noteq> 0"
    if "h \<in> set (heapFree (be_heap ?be))" for h
  proof -
    have h: "h \<in> set fl" using that by simp
    then have "addr h + len h - 1 \<in> cells h" using fl(1) by (simp add: cells_def item_ok_def)
    then obtain g where g: "g \<in> set (heapFree ?hp)" "addr h + len h - 1 \<in> cells g"
      using fl(2) h by blast
    have "addr h + len h \<le> addr g + len g" using g(2) by (simp add: cells_def)
    also have "\<dots> \<le> highWaterMark be" by (rule be_invD(3)[OF be g(1)])
    finally have "addr h + len h \<le> highWaterMark ?be" by simp
    moreover obtain k where "k \<in> set (heapFree ?hp)" "htype h = htype k" using fl(3) h by blast
    ultimately show ?thesis using be_invD(4)[OF be] by metis
  qed
  show "addr h + len h \<le> highWaterMark ?be" if "heapActive (be_heap ?be) a = Some h" for a h
    using be_invD(5)[OF be] that by simp
qed (use be_invD(2)[OF be] in simp)

text \<open>Extending the static segment: a new block at the high-water mark, or a longer last one.\<close>

definition static_item :: "BinaryEdit \<Rightarrow> int \<Rightarrow> heapItem" where
  "static_item be sz =
     \<lparr>addr = highWaterMark be, len = sz, htype = anyHeap, dynamic = True, status = HEAPfree\<rparr>"

definition static_ok :: "BinaryEdit \<Rightarrow> int \<Rightarrow> bool" where
  "static_ok be sz \<longleftrightarrow> be_inv be \<and> 0 < sz \<and> highWaterMark be + sz < 2 ^ 64 \<and>
     free_total (be_heap be) + sz < 2 ^ 32"

lemma free_total_nonneg: "heap_inv hp \<Longrightarrow> 0 \<le> free_total hp"
  unfolding free_total_def by (rule sum_list_len_nonneg) (use heap_invD(1) in blast)

lemma below_water_disjoint:
  assumes be: "be_inv be" and x: "x \<in> heap_items (be_heap be)"
  shows "addr x + len x \<le> highWaterMark be"
  using x be_invD(3,5)[OF be] unfolding heap_items_def ran_def by blast

lemma static_new:
  assumes ok: "static_ok be sz" and no: "first_index (\<lambda>h. item_end h = highWaterMark be) (heapFree (be_heap be)) = None"
  defines "be1 \<equiv> be\<lparr>be_heap := addHeap (be_heap be) (static_item be sz),
      highWaterMark := highWaterMark be + sz\<rparr>"
  shows "inferiorMallocStatic be sz = Some be1"
    and "be_inv be1" and "heapActive (be_heap be1) = heapActive (be_heap be)"
    and "set (heapFree (be_heap be1)) = insert (static_item be sz) (set (heapFree (be_heap be)))"
proof -
  let ?n = "static_item be sz"
  have be: "be_inv be" and sz: "0 < sz" "highWaterMark be + sz < 2 ^ 64"
    "free_total (be_heap be) + sz < 2 ^ 32" using ok by (simp_all add: static_ok_def)
  note inv = be_invD(1)[OF be] and w = be_invD(2)[OF be]
  have n: "item_ok ?n" using sz w free_total_nonneg[OF inv] by (simp add: item_ok_def static_item_def)
  have new: "cells x \<inter> cells ?n = {}" if "x \<in> heap_items (be_heap be)" for x
    using below_water_disjoint[OF be that] by (simp add: cells_def static_item_def)
  show eval: "inferiorMallocStatic be sz = Some be1"
    using no w sz by (simp add: inferiorMallocStatic_def Let_def static_item_def be1_def)
  show free: "set (heapFree (be_heap be1)) = insert ?n (set (heapFree (be_heap be)))"
    and act: "heapActive (be_heap be1) = heapActive (be_heap be)"
    by (simp_all add: addHeap_def Let_def static_item_def be1_def)
  show "be_inv be1"
  proof (rule be_invI)
    show "heap_inv (be_heap be1)" using addHeap_inv[OF inv n] new by (simp add: be1_def)
    show "addr h + len h \<le> highWaterMark be1 \<and> htype h AND anyHeap \<noteq> 0"
      if "h \<in> set (heapFree (be_heap be1))" for h
    proof (cases "h = ?n")
      case False
      with that free have h: "h \<in> set (heapFree (be_heap be))" by blast
      from be_invD(3)[OF be h] be_invD(4)[OF be h] sz show ?thesis by (simp add: be1_def)
    qed (simp add: static_item_def anyHeap_def be1_def)
    show "addr h + len h \<le> highWaterMark be1" if "heapActive (be_heap be1) a = Some h" for a h
      using be_invD(5)[OF be that[unfolded act]] sz by (simp add: be1_def)
  qed (use w sz in \<open>simp add: be1_def\<close>)
qed

lemma static_extend:
  assumes ok: "static_ok be sz" and some: "first_index (\<lambda>h. item_end h = highWaterMark be) (heapFree (be_heap be)) = Some i"
  defines "s \<equiv> heapFree (be_heap be) ! i"
  defines "s' \<equiv> s\<lparr>len := len s + sz\<rparr>"
  defines "be1 \<equiv> be\<lparr>be_heap := (be_heap be)\<lparr>heapFree := (heapFree (be_heap be))[i := s']\<rparr>,
      highWaterMark := highWaterMark be + sz\<rparr>"
  shows "inferiorMallocStatic be sz = Some be1"
    and "be_inv be1" and "heapActive (be_heap be1) = heapActive (be_heap be)"
    and "set (heapFree (be_heap be1)) = insert s' (set (heapFree (be_heap be)) - {s})"
    and "s \<in> set (heapFree (be_heap be))"
    and "cells s' = cells s \<union> {highWaterMark be ..< highWaterMark be + sz}"
proof -
  have be: "be_inv be" and sz: "0 < sz" "highWaterMark be + sz < 2 ^ 64"
    "free_total (be_heap be) + sz < 2 ^ 32" using ok by (simp_all add: static_ok_def)
  note inv = be_invD(1)[OF be] and w = be_invD(2)[OF be]
  have i: "i < length (heapFree (be_heap be))" using first_index_Some[OF some] by simp
  then show s: "s \<in> set (heapFree (be_heap be))" by (simp add: s_def)
  note sok = heap_invD(1,2)[OF inv s]
  have e: "addr s + len s = highWaterMark be" using first_index_Some[OF some] sok by (simp add: s_def)
  have ls: "len s \<le> free_total (be_heap be)"
    unfolding free_total_def by (rule item_le_free_total[OF _ s]) (use heap_invD(1)[OF inv] in blast)
  have s': "item_ok s'" "status s' = HEAPfree" "htype s' = htype s" "addr s' + len s' = highWaterMark be + sz"
    using sok e sz ls by (simp_all add: item_ok_def s'_def)
  show cs: "cells s' = cells s \<union> {highWaterMark be ..< highWaterMark be + sz}"
  proof -
    have "cells s' = {addr s ..< highWaterMark be + sz}"
      unfolding cells_def[of s'] s'(4) by (simp add: s'_def)
    then show ?thesis
      using ivl_disj_un_two(3)[of "addr s" "highWaterMark be" "highWaterMark be + sz"] e sz sok(1)
      by (simp add: cells_def[of s] item_ok_def)
  qed
  have "uwrap32 (len s + sz) = len s + sz" using s'(1) by (simp add: item_ok_def s'_def)
  then show "inferiorMallocStatic be sz = Some be1"
    using some w sz by (simp add: inferiorMallocStatic_def Let_def s_def[symmetric] s'_def be1_def)
  have "addr s \<in> cells (heapFree (be_heap be) ! i)" "addr s \<in> cells s'"
    using item_ok_start[OF sok(1)] cs by (simp_all add: s_def)
  note fu = free_update[OF inv i this, folded s_def]
  show free: "set (heapFree (be_heap be1)) = insert s' (set (heapFree (be_heap be)) - {s})"
    using fu(1) by (simp add: be1_def)
  show act: "heapActive (be_heap be1) = heapActive (be_heap be)" by (simp add: be1_def)
  have out: "cells x \<inter> cells s' = {}" if x: "x \<in> heap_items (be_heap be) - {s}" for x
  proof -
    have "cells x \<inter> cells s = {}"
      using heap_invD(7)[OF inv] x s unfolding disjoint_items_def heap_items_def by blast
    moreover have "cells x \<inter> {highWaterMark be ..< highWaterMark be + sz} = {}"
      using below_water_disjoint[OF be, of x] x by (simp add: cells_def)
    ultimately show ?thesis unfolding cs by blast
  qed
  have "disjoint_items (heap_items (be_heap be) - {s})"
    using heap_invD(7)[OF inv] unfolding disjoint_items_def by blast
  moreover have items: "heap_items (be_heap be1) = insert s' (heap_items (be_heap be) - {s})"
    using fu(1) heap_inv_free_not_active[OF inv s] unfolding heap_items_def be1_def by (simp, blast)
  ultimately have dj: "disjoint_items (heap_items (be_heap be1))"
    unfolding items using out by (intro disjoint_items_insert) blast+
  show "be_inv be1"
  proof (rule be_invI)
    show "heap_inv (be_heap be1)"
    proof (rule heap_invI[OF _ _ _ dj])
      show "item_ok h \<and> status h = HEAPfree" if "h \<in> set (heapFree (be_heap be1))" for h
        using that s'(1,2) heap_invD(1,2)[OF inv, of h] unfolding free by blast
      show "item_ok k \<and> addr k = a \<and> status k = HEAPallocated" if "heapActive (be_heap be1) a = Some k" for a k
        using heap_invD(3,4,5)[OF inv that[unfolded act]] by blast
    qed (use fu(2) in \<open>simp add: be1_def\<close>)
    show "addr h + len h \<le> highWaterMark be1 \<and> htype h AND anyHeap \<noteq> 0"
      if "h \<in> set (heapFree (be_heap be1))" for h
    proof (cases "h = s'")
      case True
      with s'(3,4) be_invD(4)[OF be s] show ?thesis by (simp add: be1_def)
    next
      case False
      with that free have h: "h \<in> set (heapFree (be_heap be))" by blast
      from be_invD(3)[OF be h] be_invD(4)[OF be h] sz show ?thesis by (simp add: be1_def)
    qed
    show "addr h + len h \<le> highWaterMark be1" if "heapActive (be_heap be1) a = Some h" for a h
      using be_invD(5)[OF be that[unfolded act]] sz by (simp add: be1_def)
  qed (use w sz in \<open>simp add: be1_def\<close>)
qed


lemma static_finds:
  assumes ok: "static_ok be sz" and h: "h \<in> set (heapFree (be_heap be'))" "sz \<le> len h"
    and be': "be_inv be'"
  shows "\<exists>a be2 k. BinaryEdit_try be' sz = Some (a, be2) \<and> a \<noteq> 0 \<and> heap_inv (be_heap be2) \<and>
    heapActive (be_heap be2) = (heapActive (be_heap be'))(a \<mapsto> k) \<and> cells k = {a ..< a + sz} \<and>
    {a ..< a + sz} \<subseteq> free_cells (be_heap be')"
proof -
  have sz: "0 < sz" using ok by (simp add: static_ok_def)
  have "fits_request sz anyHeap 0 (2 ^ 64 - 1) h"
    using fits_any[of h sz] heap_invD(1)[OF be_invD(1)[OF be'] h(1)] be_invD(4)[OF be' h(1)] h(2) sz
    by blast
  then show ?thesis
    by (cases rule: BinaryEdit_try_cases[OF be' sz]) (use h(1) in blast)+
qed

lemma static_then_try:
  assumes ok: "static_ok be sz"
  shows "\<exists>be' a be2 k. inferiorMallocStatic be sz = Some be' \<and> BinaryEdit_try be' sz = Some (a, be2) \<and>
    a \<noteq> 0 \<and> heap_inv (be_heap be2) \<and>
    heapActive (be_heap be2) = (heapActive (be_heap be))(a \<mapsto> k) \<and> cells k = {a ..< a + sz}"
proof (cases "first_index (\<lambda>h. item_end h = highWaterMark be) (heapFree (be_heap be))")
  case None
  note n = static_new[OF ok None]
  have "static_item be sz \<in> set (heapFree (be_heap (be\<lparr>be_heap := addHeap (be_heap be) (static_item be sz),
      highWaterMark := highWaterMark be + sz\<rparr>)))" using n(4) by blast
  from static_finds[OF ok this _ n(2)] n(1,3) show ?thesis by (force simp: static_item_def)
next
  case (Some i)
  note n = static_extend[OF ok Some]
  have ok': "item_ok (heapFree (be_heap be) ! i)"
    using heap_invD(1) be_invD(1) n(5) ok unfolding static_ok_def by blast
  from n(4) have "(heapFree (be_heap be) ! i)\<lparr>len := len (heapFree (be_heap be) ! i) + sz\<rparr> \<in>
      set (heapFree (be_heap (be\<lparr>be_heap := (be_heap be)\<lparr>heapFree := (heapFree (be_heap be))
        [i := (heapFree (be_heap be) ! i)\<lparr>len := len (heapFree (be_heap be) ! i) + sz\<rparr>]\<rparr>,
        highWaterMark := highWaterMark be + sz\<rparr>)))" by blast
  from static_finds[OF ok this _ n(2)] n(1,3) ok' show ?thesis by (force simp: item_ok_def)
qed

lemma BinaryEdit_inferiorMalloc_finds:
  assumes ok: "static_ok be sz" and sz: "sz = inferiorMallocAlign width request"
  shows "\<exists>a be2 k. BinaryEdit_inferiorMalloc width be request = Some (a, be2) \<and> a \<noteq> 0 \<and>
    heap_inv (be_heap be2) \<and> heapActive (be_heap be2) = (heapActive (be_heap be))(a \<mapsto> k) \<and>
    cells k = {a ..< a + sz}"
proof -
  have be: "be_inv be" and pos: "0 < sz" and small: "free_total (be_heap be) < 2 ^ 32"
    using ok free_total_nonneg[of "be_heap be"] by (simp_all add: static_ok_def)
  note inv = be_invD(1)[OF be]
  show ?thesis
    using be pos
  proof (cases rule: BinaryEdit_try_cases)
    case (found a be' k)
    then have "BinaryEdit_inferiorMalloc width be request = Some (a, be')"
      using sz by (simp add: BinaryEdit_inferiorMalloc_def Let_def)
    with found show ?thesis by blast
  next
    case fail
    obtain fl where fl: "inferiorFreeCompact (be_heap be) = Some ((be_heap be)\<lparr>heapFree := fl\<rparr>)"
      "compacted (sort_key addr (heapFree (be_heap be))) fl"
      using inferiorFreeCompact_Some[OF inv] small by (auto simp: free_total_def)
    define be1 where "be1 = be\<lparr>be_heap := (be_heap be)\<lparr>heapFree := fl\<rparr>\<rparr>"
    have be1: "be_inv be1" "heapActive (be_heap be1) = heapActive (be_heap be)"
      "highWaterMark be1 = highWaterMark be" "free_total (be_heap be1) = free_total (be_heap be)"
      using compact_be_inv[OF be fl(2)] fl(2) by (simp_all add: be1_def free_total_def compacted_def)
    have ok1: "static_ok be1 sz" using ok be1 by (simp add: static_ok_def)
    show ?thesis
      using be1(1) pos
    proof (cases rule: BinaryEdit_try_cases)
      case (found a be' k)
      then have "BinaryEdit_inferiorMalloc width be request = Some (a, be')"
        using fail fl(1) sz by (simp add: BinaryEdit_inferiorMalloc_def Let_def be1_def)
      with found be1(2) show ?thesis by metis
    next
      case fail1: fail
      obtain be' a be2 k where r: "inferiorMallocStatic be1 sz = Some be'"
        "BinaryEdit_try be' sz = Some (a, be2)" "a \<noteq> 0" "heap_inv (be_heap be2)"
        "heapActive (be_heap be2) = (heapActive (be_heap be1))(a \<mapsto> k)" "cells k = {a ..< a + sz}"
        using static_then_try[OF ok1] by blast
      then have "BinaryEdit_inferiorMalloc width be request = Some (a, be2)"
        using fail fail1 fl(1) sz by (simp add: BinaryEdit_inferiorMalloc_def Let_def be1_def)
      with r be1(2) show ?thesis by metis
    qed
  qed
qed


section \<open>The heap as an allocator\<close>

text \<open>
  What a client of an allocator relies on: blocks are handed out at unused addresses, live
  blocks do not overlap, and only a release ends the life of a block.
\<close>

locale region_allocator =
  fixes inv :: "'h \<Rightarrow> bool" and owned :: "'h \<Rightarrow> int \<Rightarrow> int set option"
    and req_ok :: "'r \<Rightarrow> bool" and alloc :: "'h \<Rightarrow> 'r \<Rightarrow> (int \<times> 'h) option"
    and release :: "'h \<Rightarrow> int \<Rightarrow> 'h"
  assumes alloc_total: "inv h \<Longrightarrow> req_ok r \<Longrightarrow> alloc h r \<noteq> None"
    and alloc_inv: "inv h \<Longrightarrow> req_ok r \<Longrightarrow> alloc h r = Some (a, h') \<Longrightarrow> inv h'"
    and alloc_owned: "inv h \<Longrightarrow> req_ok r \<Longrightarrow> alloc h r = Some (a, h') \<Longrightarrow>
      h' = h \<or> owned h a = None \<and> (\<exists>A. owned h' = (owned h)(a \<mapsto> A))"
    and release_inv: "inv h \<Longrightarrow> inv (release h a)"
    and release_owned: "inv h \<Longrightarrow> owned (release h a) = (owned h)(a := None)"
    and owned_disjoint: "inv h \<Longrightarrow> a \<noteq> b \<Longrightarrow> owned h a = Some A \<Longrightarrow> owned h b = Some B \<Longrightarrow> A \<inter> B = {}"
begin

definition serve :: "'h \<Rightarrow> 'r + int \<Rightarrow> 'h" where
  "serve h c = (case c of Inl r \<Rightarrow> (case alloc h r of Some (_, h') \<Rightarrow> h' | None \<Rightarrow> h)
     | Inr a \<Rightarrow> release h a)"

lemma serve_inv: "inv h \<Longrightarrow> (\<forall>r. c = Inl r \<longrightarrow> req_ok r) \<Longrightarrow> inv (serve h c)"
  by (auto simp: serve_def release_inv alloc_inv split: sum.splits option.splits)

lemma serve_keeps:
  assumes "inv h" "\<forall>r. c = Inl r \<longrightarrow> req_ok r" "c \<noteq> Inr a" "owned h a = Some A"
  shows "owned (serve h c) a = Some A"
proof (cases c)
  case (Inl r)
  with assms obtain b h' where "alloc h r = Some (b, h')" using alloc_total by fastforce
  with Inl assms alloc_owned[of h r b h'] show ?thesis by (auto simp: serve_def)
next
  case (Inr b)
  with assms show ?thesis by (auto simp: serve_def release_owned)
qed

lemma session_inv:
  "inv h \<Longrightarrow> \<forall>r. Inl r \<in> set cs \<longrightarrow> req_ok r \<Longrightarrow> inv (foldl serve h cs)"
proof (induction cs arbitrary: h)
  case (Cons c cs)
  then have "inv (serve h c)" by (intro serve_inv) auto
  with Cons show ?case by simp
qed simp

lemma session_keeps:
  "inv h \<Longrightarrow> \<forall>r. Inl r \<in> set cs \<longrightarrow> req_ok r \<Longrightarrow> Inr a \<notin> set cs \<Longrightarrow> owned h a = Some A \<Longrightarrow>
   owned (foldl serve h cs) a = Some A"
proof (induction cs arbitrary: h)
  case (Cons c cs)
  then have "inv (serve h c)" "owned (serve h c) a = Some A"
    by (intro serve_inv serve_keeps; auto)+
  with Cons show ?case by simp
qed simp

end

text \<open>The inferior heap: a request is a size, a range of addresses and a heap type.\<close>

definition heap_owned :: "inferiorHeap \<Rightarrow> int \<Rightarrow> int set option" where
  "heap_owned hp a = map_option cells (heapActive hp a)"

definition heap_alloc :: "inferiorHeap \<Rightarrow> int \<times> int \<times> int \<times> int \<Rightarrow> (int \<times> inferiorHeap) option" where
  "heap_alloc hp = (\<lambda>(sz, lo, hi, type). inferiorMallocInternal hp sz lo hi type)"

definition heap_serve :: "inferiorHeap \<Rightarrow> (int \<times> int \<times> int \<times> int) + int \<Rightarrow> inferiorHeap" where
  "heap_serve hp c = (case c of Inl r \<Rightarrow> (case heap_alloc hp r of Some (_, hp') \<Rightarrow> hp' | None \<Rightarrow> hp)
     | Inr a \<Rightarrow> inferiorFreeInternal hp a)"

interpretation infheap: region_allocator heap_inv heap_owned "\<lambda>r. 0 < fst r" heap_alloc inferiorFreeInternal
proof (unfold_locales, goal_cases)
  case (1 h r)
  then show ?case using inferiorMallocInternal_total[of h "fst r"]
    by (cases r) (auto simp: heap_alloc_def)
next
  case (2 h r a h')
  then show ?case using inferiorMallocInternal_inv[of h "fst r"]
    by (cases r) (auto simp: heap_alloc_def)
next
  case (3 h r a h')
  obtain sz lo hi type where r: "r = (sz, lo, hi, type)" by (cases r) auto
  with 3 have m: "0 < sz" "inferiorMallocInternal h sz lo hi type = Some (a, h')"
    by (simp_all add: heap_alloc_def)
  from inferiorMallocInternal_cells[OF 3(1) m] consider "h' = h"
    | k where "heapActive h' = (heapActive h)(a \<mapsto> k)" "heapActive h a = None" by blast
  then show ?case
    by cases (simp, rule disjI2, auto simp: heap_owned_def fun_eq_iff)
next
  case (4 h a)
  then show ?case by (rule inferiorFreeInternal_inv)
next
  case (5 h a)
  then show ?case
    by (cases "heapActive h a") (auto simp: heap_owned_def inferiorFreeInternal_def fun_eq_iff)
next
  case (6 h a b A B)
  then obtain x y where x: "heapActive h a = Some x" "A = cells x" "heapActive h b = Some y" "B = cells y"
    by (auto simp: heap_owned_def)
  have "x \<noteq> y" using heap_invD(4)[OF 6(1) x(1)] heap_invD(4)[OF 6(1) x(3)] 6(2) by blast
  then show ?case
    using heap_invD(7)[OF 6(1)] ranI[of "heapActive h", OF x(1)] ranI[of "heapActive h", OF x(3)] x
    unfolding disjoint_items_def heap_items_def by blast
qed

lemma infheap_serve: "infheap.serve = heap_serve"
  by (simp add: fun_eq_iff heap_serve_def infheap.serve_def)


lemma free_active_disjoint:
  assumes "heap_inv hp"
  shows "free_cells hp \<inter> active_cells hp = {}"
proof -
  have "c \<notin> cells y" if "x \<in> set (heapFree hp)" "y \<in> ran (heapActive hp)" "c \<in> cells x" for x y c
  proof
    assume "c \<in> cells y"
    moreover have "x \<in> heap_items hp" "y \<in> heap_items hp" using that by (simp_all add: heap_items_def)
    ultimately have "x = y" using disjoint_itemsD[OF heap_invD(7)[OF assms]] that(3) by blast
    with heap_inv_free_not_active[OF assms that(1)] that(2) show False by simp
  qed
  then show ?thesis unfolding free_cells_def active_cells_def by blast
qed




section \<open>The properties of the heap\<close>



text \<open>C2. An allocation on a well-formed heap never fails an assertion. It either returns 0, when
  no free block satisfies the request, and changes nothing, or it returns the start of a region
  of free bytes inside the requested range, takes exactly that region from the free list and
  records it as a new active block; the invariant and the count of free bytes are kept.\<close>

theorem Malloc_correct:
  assumes "heap_inv hp" "0 < sz"
  shows "\<exists>a hp'. inferiorMallocInternal hp sz lo hi type = Some (a, hp') \<and> heap_inv hp' \<and>
    (accounted hp \<longrightarrow> accounted hp') \<and>
    (a = 0 \<and> hp' = hp \<and> (\<forall>h\<in>set (heapFree hp). \<not> fits_request sz type lo hi h) \<or>
     a \<noteq> 0 \<and> lo \<le> a \<and> a + sz - 1 \<le> hi \<and> {a ..< a + sz} \<subseteq> free_cells hp \<and>
     free_cells hp' = free_cells hp - {a ..< a + sz} \<and>
     (\<exists>k. heapActive hp' = (heapActive hp)(a \<mapsto> k) \<and> cells k = {a ..< a + sz}) \<and>
     heapActive hp a = None)"
proof -
  obtain a hp' where m: "inferiorMallocInternal hp sz lo hi type = Some (a, hp')"
    using inferiorMallocInternal_total[OF assms] by blast
  show ?thesis
    using m inferiorMallocInternal_inv[OF assms m] inferiorMallocInternal_accounted[OF assms _ m]
      inferiorMallocInternal_cells[OF assms m] by blast
qed

theorem Malloc_correct_witness:
  "\<exists>a hp'. inferiorMallocInternal empty_heap 8 0 100 anyHeap = Some (a, hp') \<and> heap_inv hp'"
  using Malloc_correct[OF heap_inv_empty, of 8 0 100 anyHeap] by fastforce

text \<open>C3. In a session of allocations and releases on a well-formed heap, a block that is not
  released stays allocated with the same bytes, and live blocks never overlap.\<close>

theorem Heap_session:
  assumes "heap_inv hp" "\<forall>r. Inl r \<in> set cs \<longrightarrow> 0 < fst r"
  shows "(\<forall>a A. Inr a \<notin> set cs \<and> heap_owned hp a = Some A \<longrightarrow>
      heap_owned (foldl heap_serve hp cs) a = Some A) \<and>
    (\<forall>a b A B. a \<noteq> b \<and> heap_owned (foldl heap_serve hp cs) a = Some A \<and>
      heap_owned (foldl heap_serve hp cs) b = Some B \<longrightarrow> A \<inter> B = {})"
proof -
  note inv = infheap.session_inv[OF assms, unfolded infheap_serve]
  show ?thesis
    using infheap.session_keeps[OF assms, unfolded infheap_serve] infheap.owned_disjoint[OF inv]
    by blast
qed

theorem Heap_session_witness:
  "heap_owned (foldl heap_serve (empty_heap\<lparr>heapActive := [100 \<mapsto> \<lparr>addr = 100, len = 8, htype = 7,
      dynamic = True, status = HEAPallocated\<rparr>]\<rparr>) [Inl (8, 0, 500, anyHeap), Inr 16]) 100 =
   Some {100 ..< 108}"
proof -
  let ?h = "\<lparr>addr = 100, len = 8, htype = 7, dynamic = True, status = HEAPallocated\<rparr>"
  let ?hp = "empty_heap\<lparr>heapActive := [100 \<mapsto> ?h]\<rparr>"
  have "heap_inv ?hp"
    by (rule heap_invI) (auto simp: empty_heap_def item_ok_def heap_items_def disjoint_items_def
        cells_def split: if_splits)
  moreover have "heap_owned ?hp 100 = Some {100 ..< 108}" by (simp add: heap_owned_def cells_def)
  ultimately show ?thesis
    using Heap_session[of ?hp "[Inl (8, 0, 500, anyHeap), Inr 16]"] by simp
qed

text \<open>C4. Compacting a well-formed heap with less than 4 GiB of free memory fails no assertion.
  It keeps the free bytes, their number, the active blocks and the invariant, and leaves the
  free list in address order with no two neighbours that could still be merged.\<close>

theorem Compact_correct:
  assumes "heap_inv hp" "free_total hp < 2 ^ 32"
  shows "\<exists>hp'. inferiorFreeCompact hp = Some hp' \<and> heap_inv hp' \<and>
    heapActive hp' = heapActive hp \<and> free_cells hp' = free_cells hp \<and>
    free_total hp' = free_total hp \<and> chain (heapFree hp') \<and>
    successively (\<lambda>a b. \<not> mergeable a b) (heapFree hp')"
proof -
  obtain fl where fl: "inferiorFreeCompact hp = Some (hp\<lparr>heapFree := fl\<rparr>)"
    "compacted (sort_key addr (heapFree hp)) fl"
    using inferiorFreeCompact_Some[OF assms(1)] assms(2) by (auto simp: free_total_def)
  with compacted_inv[OF assms(1) fl(2)] show ?thesis
    by (simp add: compacted_def free_cells_def free_total_def)
qed

theorem Compact_correct_witness:
  "\<exists>hp'. inferiorFreeCompact empty_heap = Some hp' \<and> free_cells hp' = free_cells empty_heap"
  using Compact_correct[OF heap_inv_empty] by (auto simp: free_total_def empty_heap_def)

text \<open>C9. When a binary is rewritten, an allocation always succeeds: as is, after compacting, or
  after extending the static segment past the high-water mark, as long as the segment stays in
  the address space and the free memory below 4 GiB. The block has the aligned size and the other
  active blocks are untouched.\<close>

theorem BinaryEdit_malloc_succeeds:
  assumes "static_ok be (inferiorMallocAlign width request)"
  shows "\<exists>a be' k. BinaryEdit_inferiorMalloc width be request = Some (a, be') \<and> a \<noteq> 0 \<and>
    heap_inv (be_heap be') \<and> heapActive (be_heap be') = (heapActive (be_heap be))(a \<mapsto> k) \<and>
    cells k = {a ..< a + inferiorMallocAlign width request}"
  using BinaryEdit_inferiorMalloc_finds[OF assms refl] .

theorem BinaryEdit_malloc_succeeds_witness:
  "\<exists>a be'. BinaryEdit_inferiorMalloc 8 \<lparr>be_heap = empty_heap, lowWaterMark = 4096, highWaterMark = 4096\<rparr> 20
     = Some (a, be') \<and> a \<noteq> 0"
proof -
  have "inferiorMallocAlign 8 20 = 24" by (simp add: inferiorMallocAlign_def)
  moreover have "be_inv \<lparr>be_heap = empty_heap, lowWaterMark = 4096, highWaterMark = 4096\<rparr>"
    by (rule be_invI) (simp_all add: heap_inv_empty, simp_all add: empty_heap_def)
  ultimately have "static_ok \<lparr>be_heap = empty_heap, lowWaterMark = 4096, highWaterMark = 4096\<rparr>
      (inferiorMallocAlign 8 20)"
    by (simp add: static_ok_def free_total_def empty_heap_def)
  from BinaryEdit_malloc_succeeds[OF this] show ?thesis by blast
qed



text \<open>C31. Growing a block loses memory. When \<open>inferiorExpandBlock\<close> succeeds, the bytes between
  the old and the new end were free before; afterwards they are neither free nor part of any
  active block, because the length of the block is not updated.\<close>

theorem Expand_loses_bytes:
  assumes "heap_inv hp" "expand_ok hp block h n" "inferiorExpandBlock hp h n = Some (True, hp')"
  shows "heap_inv hp' \<and> heapActive hp' = heapActive hp \<and>
    {block + len h ..< block + n} \<subseteq> free_cells hp \<and>
    {block + len h ..< block + n} \<inter> (free_cells hp' \<union> active_cells hp') = {}"
proof -
  note r = inferiorExpandBlock_inv[OF assms]
  have "free_cells hp \<inter> active_cells hp = {}" by (rule free_active_disjoint[OF assms(1)])
  with r show ?thesis unfolding active_cells_def by auto
qed

theorem Expand_loses_bytes_witness:
  "{(100::int) + 8 ..< 100 + 16} \<inter> (free_cells (empty_heap\<lparr>heapActive := [100 \<mapsto>
      \<lparr>addr = 100, len = 8, htype = 7, dynamic = True, status = HEAPallocated\<rparr>]\<rparr>)) = {}"
proof -
  let ?h = "\<lparr>addr = 100, len = 8, htype = 7, dynamic = True, status = HEAPallocated\<rparr>"
  let ?s = "\<lparr>addr = 108, len = 8, htype = 7, dynamic = True, status = HEAPfree\<rparr>"
  let ?hp = "empty_heap\<lparr>heapActive := [100 \<mapsto> ?h], heapFree := [?s], totalFreeMemAvailable := 8\<rparr>"
  have "heap_inv ?hp"
    by (rule heap_invI) (auto simp: empty_heap_def item_ok_def heap_items_def disjoint_items_def
        cells_def split: if_splits)
  moreover have "expand_ok ?hp 100 ?h 16" by (simp add: expand_ok_def empty_heap_def)
  moreover have "inferiorExpandBlock ?hp ?h 16 = Some (True, empty_heap\<lparr>heapActive := [100 \<mapsto> ?h]\<rparr>)"
    by (simp add: inferiorExpandBlock_def empty_heap_def item_end_def wrap32_def Let_def)
  ultimately show ?thesis
    using Expand_loses_bytes[of ?hp 100 ?h 16 "empty_heap\<lparr>heapActive := [100 \<mapsto> ?h]\<rparr>"] by auto
qed



end
