(* ===== verification/Absloc.thy ===== *)
theory Absloc
  imports Mach_Register
begin

text \<open>
  Abstract locations and regions of \<^verbatim>\<open>dataflowAPI/h/Absloc.h\<close> and \<^verbatim>\<open>dataflowAPI/src/Absloc.C\<close>.
  The constructors of \<^verbatim>\<open>class Absloc\<close> set the fields of one type and give all others a fixed
  value, so the class is a datatype with one constructor per type. Function pointers are
  natural numbers. \<open>Absloc_less\<close> and \<open>Absloc_eq\<close> are the comparison operators; the type is an
  instance of \<open>linorder\<close> with them, which is what the \<^verbatim>\<open>std::map\<close> of the stack analysis needs.
  An assertion that fails is the result \<open>None\<close>. The generator of a region plays no
  role in the operations and is left out.
\<close>

datatype Absloc_Type = Register | Stack | Heap | PredicatedRegister | Unknown

fun Type_ord :: "Absloc_Type \<Rightarrow> nat" where
  "Type_ord Register = 0"
| "Type_ord Stack = 1"
| "Type_ord Heap = 2"
| "Type_ord PredicatedRegister = 3"
| "Type_ord Unknown = 4"

datatype Absloc =
    RegLoc MachRegister
  | StackLoc int int nat
  | HeapLoc int
  | PredRegLoc MachRegister MachRegister bool
  | UnknownLoc

fun Absloc_type :: "Absloc \<Rightarrow> Absloc_Type" where
  "Absloc_type (RegLoc r) = Register"
| "Absloc_type (StackLoc off region f) = Stack"
| "Absloc_type (HeapLoc a) = Heap"
| "Absloc_type (PredRegLoc r p c) = PredicatedRegister"
| "Absloc_type UnknownLoc = Unknown"

definition Absloc_isValid :: "Absloc \<Rightarrow> bool" where
  "Absloc_isValid l \<longleftrightarrow> Absloc_type l \<noteq> Unknown"

fun Absloc_reg :: "Absloc \<Rightarrow> MachRegister option" where
  "Absloc_reg (RegLoc r) = Some r"
| "Absloc_reg (PredRegLoc r p c) = Some r"
| "Absloc_reg _ = None"

fun Absloc_off :: "Absloc \<Rightarrow> int option" where
  "Absloc_off (StackLoc off region f) = Some off"
| "Absloc_off _ = None"

fun Absloc_region :: "Absloc \<Rightarrow> int option" where
  "Absloc_region (StackLoc off region f) = Some region"
| "Absloc_region _ = None"

fun Absloc_func :: "Absloc \<Rightarrow> nat option" where
  "Absloc_func (StackLoc off region f) = Some f"
| "Absloc_func _ = None"

fun Absloc_addr :: "Absloc \<Rightarrow> int option" where
  "Absloc_addr (HeapLoc a) = Some a"
| "Absloc_addr _ = None"

fun Absloc_predReg :: "Absloc \<Rightarrow> MachRegister option" where
  "Absloc_predReg (PredRegLoc r p c) = Some p"
| "Absloc_predReg _ = None"

fun Absloc_isTrueCondition :: "Absloc \<Rightarrow> bool option" where
  "Absloc_isTrueCondition (PredRegLoc r p c) = Some c"
| "Absloc_isTrueCondition _ = None"

fun Absloc_flipPredicateCondition :: "Absloc \<Rightarrow> Absloc option" where
  "Absloc_flipPredicateCondition (PredRegLoc r p c) = Some (PredRegLoc r p (\<not> c))"
| "Absloc_flipPredicateCondition _ = None"

fun Absloc_isPC :: "Absloc \<Rightarrow> bool" where
  "Absloc_isPC (RegLoc r) \<longleftrightarrow> r = getPC (getArchitecture r)"
| "Absloc_isPC _ \<longleftrightarrow> False"

fun Absloc_isSP :: "Absloc \<Rightarrow> bool" where
  "Absloc_isSP (RegLoc r) \<longleftrightarrow> r = getStackPointer (getArchitecture r)"
| "Absloc_isSP _ \<longleftrightarrow> False"

fun Absloc_isFP :: "Absloc \<Rightarrow> bool" where
  "Absloc_isFP (RegLoc r) \<longleftrightarrow> r = getFramePointer (getArchitecture r)"
| "Absloc_isFP _ \<longleftrightarrow> False"

definition makePC :: "Architecture \<Rightarrow> Absloc" where "makePC arch = RegLoc (getPC arch)"
definition makeSP :: "Architecture \<Rightarrow> Absloc" where "makeSP arch = RegLoc (getStackPointer arch)"
definition makeFP :: "Architecture \<Rightarrow> Absloc" where "makeFP arch = RegLoc (getFramePointer arch)"

definition Absloc_less :: "Absloc \<Rightarrow> Absloc \<Rightarrow> bool" where
  "Absloc_less a b \<longleftrightarrow>
     (if Absloc_type a \<noteq> Absloc_type b then Type_ord (Absloc_type a) < Type_ord (Absloc_type b)
      else case (a, b) of
        (RegLoc r, RegLoc r') \<Rightarrow> MachRegister_less r r'
      | (StackLoc off region f, StackLoc off' region' f') \<Rightarrow>
          if off \<noteq> off' then off < off'
          else if region \<noteq> region' then region < region'
          else f < f'
      | (HeapLoc x, HeapLoc y) \<Rightarrow> x < y
      | (PredRegLoc r p c, PredRegLoc r' p' c') \<Rightarrow>
          if r \<noteq> r' then MachRegister_less r r'
          else if p \<noteq> p' then MachRegister_less p p'
          else \<not> c \<and> c'
      | _ \<Rightarrow> False)"

definition Absloc_eq :: "Absloc \<Rightarrow> Absloc \<Rightarrow> bool" where
  "Absloc_eq a b \<longleftrightarrow>
     (if Absloc_type a \<noteq> Absloc_type b then False
      else case (a, b) of
        (RegLoc r, RegLoc r') \<Rightarrow> r = r'
      | (StackLoc off region f, StackLoc off' region' f') \<Rightarrow> off = off' \<and> region = region' \<and> f = f'
      | (HeapLoc x, HeapLoc y) \<Rightarrow> x = y
      | (PredRegLoc r p c, PredRegLoc r' p' c') \<Rightarrow> r = r' \<and> p = p' \<and> c = c'
      | _ \<Rightarrow> True)"

section \<open>Regions\<close>

record AbsRegion =
  region_type :: Absloc_Type
  absloc :: Absloc
  region_size :: nat

definition AbsRegion_default :: AbsRegion where
  "AbsRegion_default = \<lparr>region_type = Unknown, absloc = UnknownLoc, region_size = 0\<rparr>"

definition AbsRegion_of_type :: "Absloc_Type \<Rightarrow> AbsRegion" where
  "AbsRegion_of_type t = \<lparr>region_type = t, absloc = UnknownLoc, region_size = 0\<rparr>"

definition AbsRegion_of_loc :: "Absloc \<Rightarrow> AbsRegion" where
  "AbsRegion_of_loc l = \<lparr>region_type = Unknown, absloc = l, region_size = 0\<rparr>"

definition contains_type :: "AbsRegion \<Rightarrow> Absloc_Type \<Rightarrow> bool" where
  "contains_type r t \<longleftrightarrow> region_type r = t"

definition contains_loc :: "AbsRegion \<Rightarrow> Absloc \<Rightarrow> bool" where
  "contains_loc r loc \<longleftrightarrow>
     (if region_type r \<noteq> Unknown then region_type r = Absloc_type loc else Absloc_eq (absloc r) loc)"

definition contains_region :: "AbsRegion \<Rightarrow> AbsRegion \<Rightarrow> bool option" where
  "contains_region r rhs =
     (if region_type r \<noteq> Unknown then
        Some (region_type rhs = region_type r \<or> Absloc_type (absloc rhs) = region_type r)
      else if region_type rhs \<noteq> Unknown then Some (Absloc_type (absloc r) = region_type rhs)
      else if Absloc_eq (absloc r) (absloc rhs) then Some True
      else if Absloc_type (absloc rhs) = PredicatedRegister then
        (case (Absloc_reg (absloc rhs), Absloc_reg (absloc r)) of
           (Some p, Some q) \<Rightarrow> Some (p = q)
         | _ \<Rightarrow> None)
      else Some False)"

definition containsOfType :: "AbsRegion \<Rightarrow> Absloc_Type \<Rightarrow> bool" where
  "containsOfType r t \<longleftrightarrow> region_type r = t \<or> Absloc_type (absloc r) = t"

definition AbsRegion_eq :: "AbsRegion \<Rightarrow> AbsRegion \<Rightarrow> bool" where
  "AbsRegion_eq r rhs \<longleftrightarrow> region_type r = region_type rhs \<and> Absloc_eq (absloc r) (absloc rhs)"

definition AbsRegion_neq :: "AbsRegion \<Rightarrow> AbsRegion \<Rightarrow> bool" where
  "AbsRegion_neq r rhs \<longleftrightarrow> region_type r \<noteq> region_type rhs \<or> \<not> Absloc_eq (absloc r) (absloc rhs)"

definition AbsRegion_less :: "AbsRegion \<Rightarrow> AbsRegion \<Rightarrow> bool" where
  "AbsRegion_less r rhs \<longleftrightarrow>
     (if Absloc_less (absloc r) (absloc rhs) then True
      else if Absloc_less (absloc rhs) (absloc r) then False
      else Type_ord (region_type r) < Type_ord (region_type rhs))"

definition isImprecise :: "AbsRegion \<Rightarrow> bool" where
  "isImprecise r \<longleftrightarrow> region_type r \<noteq> Unknown"

definition setSize :: "AbsRegion \<Rightarrow> nat \<Rightarrow> AbsRegion" where
  "setSize r n = r\<lparr>region_size := n\<rparr>"

definition AbsRegion_flipPredicateCondition :: "AbsRegion \<Rightarrow> AbsRegion option" where
  "AbsRegion_flipPredicateCondition r =
     map_option (\<lambda>l. r\<lparr>absloc := l\<rparr>) (Absloc_flipPredicateCondition (absloc r))"

section \<open>Assignments\<close>

text \<open>The instruction and the function and block pointers of an assignment only pass through.\<close>

record Assignment =
  asgn_addr :: int
  asgn_inputs :: "AbsRegion list"
  asgn_out :: AbsRegion

definition makeAssignment :: "int \<Rightarrow> AbsRegion list \<Rightarrow> AbsRegion \<Rightarrow> Assignment" where
  "makeAssignment a ins out = \<lparr>asgn_addr = a, asgn_inputs = ins, asgn_out = out\<rparr>"

definition addInput :: "Assignment \<Rightarrow> AbsRegion \<Rightarrow> Assignment" where
  "addInput a reg = a\<lparr>asgn_inputs := asgn_inputs a @ [reg]\<rparr>"

definition addInputs :: "Assignment \<Rightarrow> AbsRegion list \<Rightarrow> Assignment" where
  "addInputs a regs = foldl addInput a regs"

definition AssignmentPtrValueComp :: "Assignment \<Rightarrow> Assignment \<Rightarrow> bool" where
  "AssignmentPtrValueComp a b \<longleftrightarrow>
     (if asgn_addr a < asgn_addr b then True
      else if asgn_addr b < asgn_addr a then False
      else AbsRegion_less (asgn_out a) (asgn_out b))"

section \<open>Locations are linearly ordered\<close>

lemma Absloc_eq_iff [simp]: "Absloc_eq a b \<longleftrightarrow> a = b"
  by (cases a; cases b) (auto simp: Absloc_eq_def)

lemma Type_ord_inject: "Type_ord s = Type_ord t \<Longrightarrow> s = t"
  by (cases s; cases t) auto

lemma MachRegister_less_order:
  "\<not> MachRegister_less r r"
  "MachRegister_less r s \<Longrightarrow> MachRegister_less s t \<Longrightarrow> MachRegister_less r t"
  "MachRegister_less r s \<or> r = s \<or> MachRegister_less s r"
  by (auto simp: MachRegister_less_def dest: signed_word_eqI intro: signed_word_eqI)

lemma Absloc_less_irrefl: "\<not> Absloc_less a a"
  by (cases a) (simp_all add: Absloc_less_def MachRegister_less_order)

lemma Absloc_less_trans:
  assumes "Absloc_less a b" "Absloc_less b c"
  shows "Absloc_less a c"
  using assms by (cases a; cases b; cases c)
    (auto simp: Absloc_less_def MachRegister_less_def split: if_splits)

lemma Absloc_less_total: "Absloc_less a b \<or> a = b \<or> Absloc_less b a"
  using MachRegister_less_order(3)
  by (cases a; cases b) (auto simp: Absloc_less_def)

instantiation Absloc :: linorder
begin

definition less_Absloc :: "Absloc \<Rightarrow> Absloc \<Rightarrow> bool" where
  "less_Absloc = Absloc_less"

definition less_eq_Absloc :: "Absloc \<Rightarrow> Absloc \<Rightarrow> bool" where
  "less_eq_Absloc a b \<longleftrightarrow> a = b \<or> Absloc_less a b"

instance
proof
  fix a b c :: Absloc
  show "a < b \<longleftrightarrow> a \<le> b \<and> \<not> b \<le> a" "a \<le> a"
    using Absloc_less_irrefl Absloc_less_trans by (auto simp: less_Absloc_def less_eq_Absloc_def)
  show "a \<le> b \<Longrightarrow> b \<le> c \<Longrightarrow> a \<le> c" "a \<le> b \<Longrightarrow> b \<le> a \<Longrightarrow> a = b" "a \<le> b \<or> b \<le> a"
    using Absloc_less_irrefl Absloc_less_trans Absloc_less_total[of a b]
    by (auto simp: less_eq_Absloc_def)
qed

end

lemma AbsRegion_less_lex:
  "AbsRegion_less r s \<longleftrightarrow> absloc r < absloc s \<or>
     absloc r = absloc s \<and> Type_ord (region_type r) < Type_ord (region_type s)"
  by (auto simp: AbsRegion_less_def less_Absloc_def[symmetric])

text \<open>C29. The comparison operators of abstract locations and regions fit together: \<open>operator<\<close> is a
  strict order, and two locations, or two regions, of which neither is less are exactly the ones
  that \<open>operator==\<close> identifies. So an ordered map keyed by them holds one entry per location.\<close>

theorem Absloc_order:
  "\<not> Absloc_less a a \<and>
   (Absloc_less a b \<longrightarrow> Absloc_less b c \<longrightarrow> Absloc_less a c) \<and>
   (\<not> Absloc_less a b \<and> \<not> Absloc_less b a \<longleftrightarrow> Absloc_eq a b) \<and>
   \<not> AbsRegion_less r r \<and>
   (AbsRegion_less r s \<longrightarrow> AbsRegion_less s t \<longrightarrow> AbsRegion_less r t) \<and>
   (\<not> AbsRegion_less r s \<and> \<not> AbsRegion_less s r \<longleftrightarrow> AbsRegion_eq r s) \<and>
   (AbsRegion_neq r s \<longleftrightarrow> \<not> AbsRegion_eq r s)"
proof (intro conjI)
  show "\<not> Absloc_less a b \<and> \<not> Absloc_less b a \<longleftrightarrow> Absloc_eq a b"
    using Absloc_less_total[of a b] Absloc_less_irrefl by auto
  show "AbsRegion_less r s \<longrightarrow> AbsRegion_less s t \<longrightarrow> AbsRegion_less r t"
    by (auto simp: AbsRegion_less_lex)
  show "\<not> AbsRegion_less r s \<and> \<not> AbsRegion_less s r \<longleftrightarrow> AbsRegion_eq r s"
    using Type_ord_inject[of "region_type r" "region_type s"]
    by (auto simp: AbsRegion_less_lex AbsRegion_eq_def not_less)
qed (use Absloc_less_irrefl Absloc_less_trans in
    \<open>auto simp: AbsRegion_less_lex AbsRegion_neq_def AbsRegion_eq_def\<close>)

theorem Absloc_order_witness:
  "Absloc_less (RegLoc 1) (HeapLoc 5) \<and> AbsRegion_less (AbsRegion_of_loc (RegLoc 1)) (AbsRegion_of_type Heap)"
  using Absloc_order[of "RegLoc 1" "StackLoc 0 0 0" "HeapLoc 5" "AbsRegion_of_loc (RegLoc 1)"
      "AbsRegion_of_loc (HeapLoc 2)" "AbsRegion_of_type Heap"]
  by (simp add: Absloc_less_def AbsRegion_less_def AbsRegion_of_loc_def AbsRegion_of_type_def)

text \<open>C30. Containment of regions. A region contains itself; the question fails an assertion exactly
  when both regions are single, different locations, the right one a predicated register and
  the left one no register; and when the right region is a single unpredicated location, a
  positive answer means that the left region contains that location.\<close>

theorem Contains_region:
  "contains_region r r = Some True \<and>
   (contains_region r s = None \<longleftrightarrow> region_type r = Unknown \<and> region_type s = Unknown \<and> absloc r \<noteq> absloc s \<and>
      Absloc_type (absloc s) = PredicatedRegister \<and>
      Absloc_type (absloc r) \<noteq> Register \<and> Absloc_type (absloc r) \<noteq> PredicatedRegister) \<and>
   (region_type s = Unknown \<and> Absloc_isValid (absloc s) \<and> Absloc_type (absloc s) \<noteq> PredicatedRegister \<longrightarrow>
      contains_region r s = Some (contains_loc r (absloc s)))"
proof (intro conjI)
  show "contains_region r r = Some True" by (simp add: contains_region_def)
  show "contains_region r s = None \<longleftrightarrow> region_type r = Unknown \<and> region_type s = Unknown \<and> absloc r \<noteq> absloc s \<and>
      Absloc_type (absloc s) = PredicatedRegister \<and>
      Absloc_type (absloc r) \<noteq> Register \<and> Absloc_type (absloc r) \<noteq> PredicatedRegister"
    by (cases "absloc r"; cases "absloc s") (auto simp: contains_region_def)
  show "region_type s = Unknown \<and> Absloc_isValid (absloc s) \<and> Absloc_type (absloc s) \<noteq> PredicatedRegister \<longrightarrow>
      contains_region r s = Some (contains_loc r (absloc s))"
    by (auto simp: contains_region_def contains_loc_def Absloc_isValid_def)
qed

theorem Contains_region_witness:
  "contains_region (AbsRegion_of_type Heap) (AbsRegion_of_loc (HeapLoc 5)) = Some True \<and>
   contains_region (AbsRegion_of_loc (HeapLoc 5)) (AbsRegion_of_loc (PredRegLoc 1 2 True)) = None"
  using Contains_region[of "AbsRegion_of_type Heap" "AbsRegion_of_loc (HeapLoc 5)"]
    Contains_region[of "AbsRegion_of_loc (HeapLoc 5)" "AbsRegion_of_loc (PredRegLoc 1 2 True)"]
  by (simp add: AbsRegion_of_loc_def AbsRegion_of_type_def contains_loc_def Absloc_isValid_def)

end
