(* ===== verification/Std_Map.thy ===== *)
theory Std_Map
  imports Main
begin

text \<open>
  The ordered containers of the C++ standard library that the modelled code uses. A
  \<^verbatim>\<open>std::map\<close> is a list of pairs in strictly increasing order of its keys: iteration is in that
  order, \<open>sm_set\<close> is the assignment \<^verbatim>\<open>m[k] = v\<close>, \<open>sm_insert\<close> is \<^verbatim>\<open>m.insert\<close>, which keeps an
  existing entry, \<open>sm_erase\<close> is \<^verbatim>\<open>m.erase(k)\<close>, and \<^const>\<open>map_of\<close> is \<^verbatim>\<open>m.find\<close>. On such lists
  equal lookups mean equal lists.
\<close>

type_synonym ('k, 'v) std_map = "('k \<times> 'v) list"

definition sm_ok :: "('k::linorder, 'v) std_map \<Rightarrow> bool" where
  "sm_ok m \<longleftrightarrow> sorted_wrt (<) (map fst m)"

fun sm_set :: "'k::linorder \<Rightarrow> 'v \<Rightarrow> ('k, 'v) std_map \<Rightarrow> ('k, 'v) std_map" where
  "sm_set k v [] = [(k, v)]"
| "sm_set k v ((k', v') # m) =
     (if k < k' then (k, v) # (k', v') # m
      else if k = k' then (k, v) # m
      else (k', v') # sm_set k v m)"

definition sm_insert :: "'k::linorder \<Rightarrow> 'v \<Rightarrow> ('k, 'v) std_map \<Rightarrow> ('k, 'v) std_map" where
  "sm_insert k v m = (case map_of m k of None \<Rightarrow> sm_set k v m | Some _ \<Rightarrow> m)"

definition sm_erase :: "'k \<Rightarrow> ('k, 'v) std_map \<Rightarrow> ('k, 'v) std_map" where
  "sm_erase k m = filter (\<lambda>e. fst e \<noteq> k) m"

definition sm_eq :: "('v \<Rightarrow> 'v \<Rightarrow> bool) \<Rightarrow> ('k, 'v) std_map \<Rightarrow> ('k, 'v) std_map \<Rightarrow> bool" where
  "sm_eq eq m n \<longleftrightarrow> list_all2 (\<lambda>a b. fst a = fst b \<and> eq (snd a) (snd b)) m n"

text \<open>
  A \<^verbatim>\<open>std::set\<close> with comparison \<open>lt\<close>: \<open>insert\<close> drops the new element when an equivalent
  one, neither less nor greater, is present.
\<close>

fun ss_insert :: "('a \<Rightarrow> 'a \<Rightarrow> bool) \<Rightarrow> 'a \<Rightarrow> 'a list \<Rightarrow> 'a list" where
  "ss_insert lt x [] = [x]"
| "ss_insert lt x (y # ys) =
     (if lt x y then x # y # ys
      else if lt y x then y # ss_insert lt x ys
      else y # ys)"

lemma sm_ok_simps [simp]:
  "sm_ok []"
  "sm_ok (e # m) \<longleftrightarrow> (\<forall>x\<in>set m. fst e < fst x) \<and> sm_ok m"
  by (auto simp: sm_ok_def)

lemma map_of_sm_set [simp]: "map_of (sm_set k v m) = (map_of m)(k \<mapsto> v)"
  by (induction k v m rule: sm_set.induct) (auto simp: fun_eq_iff)

lemma set_sm_set: "set (sm_set k v m) \<subseteq> insert (k, v) (set m)"
  by (induction k v m rule: sm_set.induct) auto

lemma sm_ok_set [simp]: "sm_ok m \<Longrightarrow> sm_ok (sm_set k v m)"
proof (induction k v m rule: sm_set.induct)
  case (2 k v k' v' m)
  then show ?case using set_sm_set[of k v m] by fastforce
qed simp

lemma map_of_sm_insert [simp]:
  "map_of (sm_insert k v m) = (case map_of m k of None \<Rightarrow> (map_of m)(k \<mapsto> v) | Some _ \<Rightarrow> map_of m)"
  by (simp add: sm_insert_def split: option.split)

lemma sm_ok_insert [simp]: "sm_ok m \<Longrightarrow> sm_ok (sm_insert k v m)"
  by (simp add: sm_insert_def split: option.split)

lemma map_of_sm_erase [simp]: "map_of (sm_erase k m) = (map_of m)(k := None)"
  by (induction m) (auto simp: sm_erase_def fun_eq_iff)

lemma sm_ok_erase [simp]: "sm_ok m \<Longrightarrow> sm_ok (sm_erase k m)"
  by (induction m) (auto simp: sm_erase_def)

lemma sm_ok_notin: "sm_ok (e # m) \<Longrightarrow> map_of m (fst e) = None"
  by (auto simp: map_of_eq_None_iff)

lemma sm_ok_distinct: "sm_ok m \<Longrightarrow> distinct (map fst m)"
  by (induction m) auto

lemma sm_ok_Some_iff: "sm_ok m \<Longrightarrow> map_of m k = Some v \<longleftrightarrow> (k, v) \<in> set m"
  using sm_ok_distinct map_of_eq_Some_iff by metis

lemma sm_keys: "sm_ok m \<Longrightarrow> m = map (\<lambda>k. (k, the (map_of m k))) (map fst m)"
proof (rule nth_equalityI)
  fix i assume ok: "sm_ok m" and i: "i < length m"
  then have "map_of m (fst (m ! i)) = Some (snd (m ! i))" by (simp add: sm_ok_Some_iff)
  with i show "m ! i = map (\<lambda>k. (k, the (map_of m k))) (map fst m) ! i" by (simp add: prod_eq_iff)
qed simp

lemma sm_same_keys:
  assumes "sm_ok m" "sm_ok n" "dom (map_of m) = dom (map_of n)"
  shows "map fst m = map fst n"
proof -
  have "set (map fst m) = set (map fst n)"
    using assms(3) dom_map_of_conv_image_fst[of m] dom_map_of_conv_image_fst[of n] by simp
  then show ?thesis
    using assms(1,2) unfolding sm_ok_def by (intro sorted_distinct_set_unique) (auto simp: strict_sorted_iff)
qed

lemma sm_eqI:
  assumes "sm_ok m" "sm_ok n" "map_of m = map_of n"
  shows "m = n"
proof -
  have "map fst m = map fst n" using assms by (intro sm_same_keys) simp_all
  then show ?thesis using sm_keys[OF assms(1)] sm_keys[OF assms(2)] assms(3) by metis
qed

lemma sm_eq_refl: "(\<And>v. eq v v) \<Longrightarrow> sm_eq eq m m"
  by (simp add: sm_eq_def list_all2_same)

lemma sm_eq_lookup:
  assumes "sm_ok m" "sm_ok n" "\<And>k. rel_option eq (map_of m k) (map_of n k)"
  shows "sm_eq eq m n"
proof -
  have "map_of m k = None \<longleftrightarrow> map_of n k = None" for k
    using assms(3)[of k] by (auto simp: option_rel_Some1 option_rel_Some2 elim: option.rel_cases)
  then have "dom (map_of m) = dom (map_of n)" by (auto simp: dom_def)
  then have keys: "map fst m = map fst n" by (rule sm_same_keys[OF assms(1,2)])
  then have len: "length m = length n" by (metis length_map)
  have "fst (m ! i) = fst (n ! i) \<and> eq (snd (m ! i)) (snd (n ! i))" if i: "i < length m" for i
  proof -
    have k: "fst (m ! i) = fst (n ! i)" using keys i len by (metis nth_map)
    have "map_of m (fst (m ! i)) = Some (snd (m ! i))" using i by (simp add: sm_ok_Some_iff[OF assms(1)])
    moreover have "map_of n (fst (n ! i)) = Some (snd (n ! i))"
      using i len by (simp add: sm_ok_Some_iff[OF assms(2)])
    ultimately show ?thesis using assms(3)[of "fst (m ! i)"] k by simp
  qed
  with len show ?thesis by (simp add: sm_eq_def list_all2_conv_all_nth)
qed

lemma sm_eq_map_of: "sm_eq eq m n \<Longrightarrow> rel_option eq (map_of m k) (map_of n k)"
  unfolding sm_eq_def by (induction rule: list_all2_induct) auto

text \<open>Entries given in ascending order are appended.\<close>

lemma sm_set_append: "\<forall>e\<in>set m. fst e < k \<Longrightarrow> sm_set k v m = m @ [(k, v)]"
  by (induction m) auto

lemma sm_set_all:
  "sorted_wrt (<) (map fst (m @ es)) \<Longrightarrow> fold (\<lambda>(k, v). sm_set k v) es m = m @ es"
proof (induction es arbitrary: m)
  case (Cons e es)
  obtain k v where e: "e = (k, v)" by (cases e)
  have "\<forall>x\<in>set m. fst x < k" using Cons.prems e by (auto simp: sorted_wrt_append)
  with Cons.IH[of "m @ [e]"] Cons.prems show ?case by (simp add: e sm_set_append)
qed simp

lemma ss_insert_nonempty [simp]: "ss_insert lt x xs \<noteq> []"
  by (cases xs) auto

lemma set_ss_insert: "set xs \<subseteq> set (ss_insert lt x xs)" "set (ss_insert lt x xs) \<subseteq> insert x (set xs)"
  by (induction xs) auto

lemma ss_insert_cases:
  "ss_insert lt x xs = xs \<or>
   (length (ss_insert lt x xs) = Suc (length xs) \<and> set (ss_insert lt x xs) = insert x (set xs))"
  by (induction xs) auto

lemma length_ss_insert:
  "length xs \<le> length (ss_insert lt x xs)" "length (ss_insert lt x xs) \<le> Suc (length xs)"
  by (induction xs) auto

lemma ss_insert_same_length: "length (ss_insert lt x xs) = length xs \<Longrightarrow> ss_insert lt x xs = xs"
  by (induction xs) (auto split: if_splits)

end
