(* ===== verification/Stack_Height.thy ===== *)
theory Stack_Height
  imports Absloc Std_Map
begin

text \<open>
  Stack heights and their definitions, \<^verbatim>\<open>StackAnalysis::Height\<close>, \<^verbatim>\<open>Definition\<close>, \<^verbatim>\<open>DefHeight\<close> and
  \<^verbatim>\<open>DefHeightSet\<close> of \<^verbatim>\<open>dataflowAPI/h/stackanalysis.h\<close> and \<^verbatim>\<open>dataflowAPI/src/stackanalysis.C\<close>.

  A height keeps the source's pair of a number and a type; TOP and BOTTOM are recognised only when
  both agree. A set of definitions with heights is a \<^verbatim>\<open>std::set\<close> ordered by the definition alone.
  Blocks are natural numbers with 0 for \<^verbatim>\<open>NULL\<close>.

  \<open>Flat_Height\<close> is the lattice that heights stand for; \<open>flat\<close> abstracts to it.
\<close>

section \<open>Heights\<close>

datatype Height_Type = HTOP | HBOTTOM | HHEIGHT

record Height =
  height_val :: int
  height_type :: Height_Type

definition uninitialized :: int where "uninitialized = LLONG_MAX"
definition notUnique :: int where "notUnique = LLONG_MIN"

definition Height_of :: "int \<Rightarrow> Height" where
  "Height_of h = \<lparr>height_val = h, height_type = HHEIGHT\<rparr>"

definition Height_top :: Height where
  "Height_top = \<lparr>height_val = uninitialized, height_type = HTOP\<rparr>"

definition Height_bottom :: Height where
  "Height_bottom = \<lparr>height_val = notUnique, height_type = HBOTTOM\<rparr>"

definition Height_isTop :: "Height \<Rightarrow> bool" where
  "Height_isTop h \<longleftrightarrow> height_type h = HTOP \<and> height_val h = uninitialized"

definition Height_isBottom :: "Height \<Rightarrow> bool" where
  "Height_isBottom h \<longleftrightarrow> height_type h = HBOTTOM \<and> height_val h = notUnique"

definition Height_less :: "Height \<Rightarrow> Height \<Rightarrow> bool" where
  "Height_less a b \<longleftrightarrow> height_val a < height_val b"

definition Height_eq :: "Height \<Rightarrow> Height \<Rightarrow> bool" where
  "Height_eq a b \<longleftrightarrow> height_type a = height_type b \<and> height_val a = height_val b"

definition Height_add_assign :: "Height \<Rightarrow> Height \<Rightarrow> Height" where
  "Height_add_assign h rhs =
     (if Height_isBottom h then h
      else if Height_isBottom rhs then Height_bottom
      else if Height_isTop h \<and> Height_isTop rhs then Height_top
      else if Height_isTop h \<or> Height_isTop rhs then Height_bottom
      else h\<lparr>height_val := wrap64 (height_val h + height_val rhs)\<rparr>)"

definition Height_add_assign_long :: "Height \<Rightarrow> int \<Rightarrow> Height" where
  "Height_add_assign_long h rhs =
     (if Height_isBottom h then h
      else if Height_isTop h then h
      else h\<lparr>height_val := wrap64 (height_val h + rhs)\<rparr>)"

definition Height_add :: "Height \<Rightarrow> Height \<Rightarrow> Height" where
  "Height_add h rhs =
     (if Height_isBottom h then Height_bottom
      else if Height_isBottom rhs then rhs
      else if Height_isTop h \<and> Height_isTop rhs then Height_top
      else if Height_isTop h \<or> Height_isTop rhs then Height_bottom
      else Height_of (wrap64 (height_val h + height_val rhs)))"

definition Height_add_long :: "Height \<Rightarrow> int \<Rightarrow> Height" where
  "Height_add_long h rhs =
     (if Height_isBottom h then Height_bottom
      else if Height_isTop h then Height_top
      else Height_of (wrap64 (height_val h + rhs)))"

definition Height_minus :: "Height \<Rightarrow> Height \<Rightarrow> Height" where
  "Height_minus h rhs =
     (if Height_isBottom h then Height_bottom
      else if Height_isBottom rhs then rhs
      else if Height_isTop h \<and> Height_isTop rhs then Height_top
      else if Height_isTop h \<or> Height_isTop rhs then Height_bottom
      else Height_of (wrap64 (height_val h - height_val rhs)))"

definition Height_meet :: "Height \<Rightarrow> Height \<Rightarrow> Height" where
  "Height_meet lhs rhs =
     (if Height_eq rhs lhs then rhs
      else if Height_eq rhs Height_top then lhs
      else if Height_eq lhs Height_top then rhs
      else Height_bottom)"

definition Height_set :: "Height list \<Rightarrow> Height list" where
  "Height_set hs = foldl (\<lambda>s h. ss_insert Height_less h s) [] hs"

definition Height_meet_set :: "Height list \<Rightarrow> Height" where
  "Height_meet_set ins =
     (if ins = [] then Height_top
      else if length ins = 1 then hd ins
      else if Height_eq (hd ins) Height_bottom then Height_bottom
      else if length ins = 2 \<and> Height_eq (last ins) Height_top then hd ins
      else Height_bottom)"

section \<open>Definitions\<close>

datatype Definition_Type = DTOP | DBOTTOM | DDEF

record Definition =
  def_addr :: int
  def_block :: nat
  def_origLoc :: Absloc
  def_type :: Definition_Type

definition Definition_new :: "nat \<Rightarrow> int \<Rightarrow> Absloc \<Rightarrow> Definition" where
  "Definition_new b a l = \<lparr>def_addr = a, def_block = b, def_origLoc = l, def_type = DDEF\<rparr>"

definition Definition_default :: Definition where
  "Definition_default = \<lparr>def_addr = 0, def_block = 0, def_origLoc = UnknownLoc, def_type = DTOP\<rparr>"

definition Definition_bottom :: Definition where
  "Definition_bottom = Definition_default\<lparr>def_type := DBOTTOM\<rparr>"

definition Definition_eq :: "Definition \<Rightarrow> Definition \<Rightarrow> bool" where
  "Definition_eq d e \<longleftrightarrow>
     (if def_type d = DBOTTOM \<and> def_type e \<noteq> DBOTTOM then False
      else if def_type d \<noteq> DBOTTOM \<and> def_type e = DBOTTOM then False
      else True)"

definition Definition_less :: "Definition \<Rightarrow> Definition \<Rightarrow> bool" where
  "Definition_less d rhs \<longleftrightarrow>
     (if def_type d = DTOP then False
      else if def_type d = DBOTTOM \<and> def_type rhs = DBOTTOM then False
      else if def_type d = DBOTTOM then True
      else if def_type rhs = DTOP then True
      else if def_type rhs = DBOTTOM then False
      else def_block d < def_block rhs)"

definition Definition_meet :: "Definition \<Rightarrow> Definition \<Rightarrow> Definition" where
  "Definition_meet lhs rhs =
     (if def_type lhs = DTOP then rhs
      else if def_type rhs = DTOP then lhs
      else if Definition_eq lhs rhs then rhs
      else Definition_bottom)"

section \<open>Sets of definitions with heights\<close>

record DefHeight =
  dh_def :: Definition
  dh_height :: Height

type_synonym DefHeightSet = "DefHeight list"

definition DefHeight_new :: "Definition \<Rightarrow> Height \<Rightarrow> DefHeight" where
  "DefHeight_new d h = \<lparr>dh_def = d, dh_height = h\<rparr>"

definition DefHeight_eq :: "DefHeight \<Rightarrow> DefHeight \<Rightarrow> bool" where
  "DefHeight_eq a b \<longleftrightarrow> Definition_eq (dh_def a) (dh_def b) \<and> Height_eq (dh_height a) (dh_height b)"

definition DefHeight_less :: "DefHeight \<Rightarrow> DefHeight \<Rightarrow> bool" where
  "DefHeight_less a b \<longleftrightarrow> Definition_less (dh_def a) (dh_def b)"

definition DefHeightSet_eq :: "DefHeightSet \<Rightarrow> DefHeightSet \<Rightarrow> bool" where
  "DefHeightSet_eq s t \<longleftrightarrow> list_all2 DefHeight_eq s t"

definition dhs_insert :: "DefHeight \<Rightarrow> DefHeightSet \<Rightarrow> DefHeightSet" where
  "dhs_insert dh s = ss_insert DefHeight_less dh s"

definition makeTopSet :: DefHeightSet where
  "makeTopSet = [DefHeight_new Definition_default Height_top]"

definition makeBottomSet :: DefHeightSet where
  "makeBottomSet = [DefHeight_new Definition_bottom Height_bottom]"

definition makeNewSet :: "nat \<Rightarrow> int \<Rightarrow> Absloc \<Rightarrow> Height \<Rightarrow> DefHeightSet" where
  "makeNewSet b addr origLoc h = [DefHeight_new (Definition_new b addr origLoc) h]"

definition addInitSet :: "Height \<Rightarrow> DefHeightSet \<Rightarrow> DefHeightSet" where
  "addInitSet h s = dhs_insert (DefHeight_new Definition_default h) s"

definition addDeltaSet :: "int \<Rightarrow> DefHeightSet \<Rightarrow> DefHeightSet" where
  "addDeltaSet delta s =
     foldl (\<lambda>t dh. dhs_insert (DefHeight_new (dh_def dh) (Height_add_long (dh_height dh) delta)) t) [] s"

definition getHeightSet :: "DefHeightSet \<Rightarrow> Height" where
  "getHeightSet s = (case s of [] \<Rightarrow> Height_top | [dh] \<Rightarrow> dh_height dh | _ \<Rightarrow> Height_bottom)"

definition getDefSet :: "DefHeightSet \<Rightarrow> Definition" where
  "getDefSet s = (case s of [] \<Rightarrow> Definition_default | [dh] \<Rightarrow> dh_def dh | _ \<Rightarrow> Definition_bottom)"

definition isTopSet :: "DefHeightSet \<Rightarrow> bool" where
  "isTopSet s \<longleftrightarrow>
     (case s of [] \<Rightarrow> True | [dh] \<Rightarrow> def_type (dh_def dh) = DTOP \<and> Height_isTop (dh_height dh) | _ \<Rightarrow> False)"

definition isBottomSet :: "DefHeightSet \<Rightarrow> bool" where
  "isBottomSet s \<longleftrightarrow>
     (case s of [dh] \<Rightarrow> def_type (dh_def dh) = DBOTTOM \<and> Height_isBottom (dh_height dh) | _ \<Rightarrow> False)"

definition DEF_LIMIT :: nat where "DEF_LIMIT = 2"

fun meet_insert :: "DefHeightSet \<Rightarrow> DefHeightSet \<Rightarrow> DefHeightSet" where
  "meet_insert newSet [] = newSet"
| "meet_insert newSet (dh # s2) =
     (if length newSet \<le> DEF_LIMIT then meet_insert (dhs_insert dh newSet) s2 else newSet)"

definition meetDefHeights :: "DefHeightSet \<Rightarrow> DefHeightSet \<Rightarrow> DefHeightSet" where
  "meetDefHeights s1 s2 =
     (if length s1 = 1 \<and> Height_isTop (dh_height (hd s1)) then s2
      else if length s2 = 1 \<and> Height_isTop (dh_height (hd s2)) then s1
      else if length s1 = 1 \<and> Height_isBottom (dh_height (hd s1)) \<or>
              length s2 = 1 \<and> Height_isBottom (dh_height (hd s2)) then makeBottomSet
      else let newSet = meet_insert s1 s2 in
        if length newSet > DEF_LIMIT then makeBottomSet else newSet)"


section \<open>The lattice of heights\<close>

text \<open>A meet with a neutral element, and the meet of a list.\<close>

locale meet_semilattice =
  fixes meet :: "'a \<Rightarrow> 'a \<Rightarrow> 'a" and neutral :: 'a
  assumes assoc: "meet (meet a b) c = meet a (meet b c)"
    and comm: "meet a b = meet b a"
    and idem: "meet a a = a"
    and neutral_left: "meet neutral a = a"
begin

definition meet_all :: "'a list \<Rightarrow> 'a" where
  "meet_all xs = foldr meet xs neutral"

lemma meet_all_absorb: "x \<in> set xs \<Longrightarrow> meet x (meet_all xs) = meet_all xs"
proof (induction xs)
  case (Cons y ys)
  show ?case
  proof (cases "x = y")
    case True
    then show ?thesis by (simp add: meet_all_def assoc[symmetric] idem)
  next
    case False
    with Cons have "meet x (meet_all ys) = meet_all ys" by simp
    then show ?thesis by (simp add: meet_all_def) (metis assoc comm)
  qed
qed simp

lemma meet_all_subset: "set xs \<subseteq> set ys \<Longrightarrow> meet (meet_all xs) (meet_all ys) = meet_all ys"
  by (induction xs) (auto simp: meet_all_def neutral_left assoc, metis meet_all_absorb meet_all_def)

lemma meet_all_cong: "set xs = set ys \<Longrightarrow> meet_all xs = meet_all ys"
  using meet_all_subset[of xs ys] meet_all_subset[of ys xs] by (metis comm order_refl)

end

lemma Height_eq_iff [simp]: "Height_eq a b \<longleftrightarrow> a = b"
  by (auto simp: Height_eq_def)

lemma Height_meet_bottom: "Height_meet Height_bottom h = Height_bottom" "Height_meet h Height_bottom = Height_bottom"
  by (auto simp: Height_meet_def Height_top_def Height_bottom_def)

interpretation hm: meet_semilattice Height_meet Height_top
proof (unfold_locales, goal_cases)
  case (1 a b c)
  then show ?case by (simp add: Height_meet_def) (metis Height_bottom_def Height_top_def Height_Type.distinct(1) Height.select_convs(2))
qed (auto simp: Height_meet_def)

text \<open>Heights as the analysis produces them: TOP, BOTTOM or a number that is neither marker.\<close>

definition height_proper :: "Height \<Rightarrow> bool" where
  "height_proper h \<longleftrightarrow> h = Height_top \<or> h = Height_bottom \<or>
     height_type h = HHEIGHT \<and> notUnique < height_val h \<and> height_val h < uninitialized"

lemma height_proper_inject: "height_proper a \<Longrightarrow> height_proper b \<Longrightarrow> height_val a = height_val b \<Longrightarrow> a = b"
  by (auto simp: height_proper_def Height_top_def Height_bottom_def uninitialized_def notUnique_def
      LLONG_MIN_def LLONG_MAX_def)

lemma Height_set_insert:
  assumes "sorted_wrt Height_less s" "\<forall>h\<in>set s. height_proper h" "height_proper h"
  shows "sorted_wrt Height_less (ss_insert Height_less h s) \<and>
    set (ss_insert Height_less h s) = insert h (set s)"
  using assms
proof (induction s)
  case (Cons x s)
  show ?case
  proof (cases "height_val h" "height_val x" rule: linorder_cases)
    case less
    with Cons.prems(1) show ?thesis by (auto simp: Height_less_def)
  next
    case equal
    then have "h = x" using Cons.prems(2,3) by (intro height_proper_inject) simp_all
    with Cons.prems(1) show ?thesis by (simp add: Height_less_def)
  next
    case greater
    then show ?thesis using Cons.IH Cons.prems by (auto simp: Height_less_def)
  qed
qed simp

lemma Height_set_props:
  assumes "\<forall>h\<in>set hs. height_proper h"
  shows "sorted_wrt Height_less (Height_set hs) \<and> set (Height_set hs) = set hs"
proof -
  have "sorted_wrt Height_less (foldl (\<lambda>s h. ss_insert Height_less h s) s hs) \<and>
      set (foldl (\<lambda>s h. ss_insert Height_less h s) s hs) = set s \<union> set hs"
    if "\<forall>h\<in>set hs. height_proper h" "sorted_wrt Height_less s" "\<forall>h\<in>set s. height_proper h" for s
    using that
  proof (induction hs arbitrary: s)
    case (Cons h hs)
    with Height_set_insert[of s h] show ?case by auto
  qed simp
  from this[of "[]"] assms show ?thesis by (simp add: Height_set_def)
qed

lemma Height_meet_distinct:
  "a \<noteq> b \<Longrightarrow> a \<noteq> Height_top \<Longrightarrow> b \<noteq> Height_top \<Longrightarrow> Height_meet a b = Height_bottom"
  by (auto simp: Height_meet_def)

lemma Height_meet_top [simp]: "Height_meet h Height_top = h" "Height_meet Height_top h = h"
  by (auto simp: Height_meet_def)

lemma Height_less_top:
  assumes "Height_less a b" "height_proper a" "height_proper b"
  shows "a \<noteq> Height_top" "b \<noteq> Height_bottom"
  using assms by (auto simp: Height_less_def height_proper_def Height_top_def Height_bottom_def
      uninitialized_def notUnique_def LLONG_MIN_def LLONG_MAX_def)

lemma Height_meet_set_sorted:
  assumes "sorted_wrt Height_less s" "\<forall>h\<in>set s. height_proper h"
  shows "Height_meet_set s = hm.meet_all s"
proof (cases s)
  case Nil
  then show ?thesis by (simp add: Height_meet_set_def hm.meet_all_def)
next
  case s: (Cons a r)
  show ?thesis
  proof (cases r)
    case Nil
    with s show ?thesis by (simp add: Height_meet_set_def hm.meet_all_def)
  next
    case r: (Cons b q)
    have ab: "Height_less a b" "a \<noteq> b" "a \<noteq> Height_top" "b \<noteq> Height_bottom"
      using assms s r Height_less_top[of a b] by (auto simp: Height_less_def)
    have q: "b \<noteq> Height_top" if "q \<noteq> []"
      using that assms s r Height_less_top(1)[of b "hd q"] by (cases q) auto
    show ?thesis
    proof (cases "b = Height_top")
      case True
      with q s r ab show ?thesis by (auto simp: Height_meet_set_def hm.meet_all_def Height_meet_bottom)
    next
      case False
      have "hm.meet_all s = Height_meet (Height_meet a b) (hm.meet_all q)"
        using s r by (simp add: hm.meet_all_def hm.assoc)
      also have "\<dots> = Height_bottom" using ab False by (simp add: Height_meet_distinct Height_meet_bottom)
      finally show ?thesis using s r False by (auto simp: Height_meet_set_def)
    qed
  qed
qed

text \<open>C25. The meet of stack heights is a semilattice with TOP as neutral and BOTTOM as absorbing
  element, and the meet over a \<open>std::set\<close> of heights, which looks only at the ends of the set,
  agrees with taking the meets one by one in any order.\<close>

theorem Height_meet_lattice:
  "Height_meet (Height_meet a b) c = Height_meet a (Height_meet b c) \<and>
   Height_meet a b = Height_meet b a \<and> Height_meet a a = a \<and>
   Height_meet Height_top a = a \<and> Height_meet Height_bottom a = Height_bottom \<and>
   ((\<forall>h\<in>set hs. height_proper h) \<longrightarrow>
     Height_meet_set (Height_set hs) = foldr Height_meet hs Height_top)"
proof (intro conjI impI)
  assume "\<forall>h\<in>set hs. height_proper h"
  note p = Height_set_props[OF this]
  with \<open>\<forall>h\<in>set hs. height_proper h\<close> have "Height_meet_set (Height_set hs) = hm.meet_all (Height_set hs)"
    by (intro Height_meet_set_sorted) auto
  also have "\<dots> = hm.meet_all hs" using p by (intro hm.meet_all_cong) simp
  finally show "Height_meet_set (Height_set hs) = foldr Height_meet hs Height_top"
    by (simp add: hm.meet_all_def)
qed (simp_all add: hm.assoc hm.idem Height_meet_bottom, rule hm.comm)

theorem Height_meet_lattice_witness:
  "Height_meet_set (Height_set [Height_of 8, Height_top, Height_of 8]) = Height_of 8"
  using Height_meet_lattice[where hs = "[Height_of 8, Height_top, Height_of 8]"]
  by (simp add: height_proper_def Height_of_def Height_meet_def Height_top_def notUnique_def
      uninitialized_def LLONG_MIN_def LLONG_MAX_def)

section \<open>Sets of heights\<close>

text \<open>The flat lattice of heights, and what a set of definitions says about the height.\<close>

datatype Flat_Height = FTop | FBot | FHeight int

definition flat :: "Height \<Rightarrow> Flat_Height" where
  "flat h = (if Height_isTop h then FTop else if Height_isBottom h then FBot else FHeight (height_val h))"

definition set_flat :: "DefHeightSet \<Rightarrow> Flat_Height" where
  "set_flat s = flat (getHeightSet s)"

definition dhs_heights :: "DefHeightSet \<Rightarrow> bool" where
  "dhs_heights s \<longleftrightarrow> s \<noteq> [] \<and> length s \<le> DEF_LIMIT \<and> sorted_wrt DefHeight_less s \<and>
     (\<forall>dh\<in>set s. height_type (dh_height dh) = HHEIGHT \<and> fits64 (height_val (dh_height dh)) \<and>
        def_type (dh_def dh) \<noteq> DBOTTOM)"

definition dhs_ok :: "DefHeightSet \<Rightarrow> bool" where
  "dhs_ok s \<longleftrightarrow> s = makeBottomSet \<or> dhs_heights s"

lemma Height_tests [simp]:
  "Height_isTop Height_top" "\<not> Height_isTop Height_bottom" "Height_isBottom Height_bottom"
  "\<not> Height_isBottom Height_top" "\<not> Height_isTop (Height_of n)" "\<not> Height_isBottom (Height_of n)"
  by (simp_all add: Height_isTop_def Height_isBottom_def Height_top_def Height_bottom_def Height_of_def)

lemma HHEIGHT_tests:
  assumes "height_type h = HHEIGHT"
  shows "\<not> Height_isTop h" "\<not> Height_isBottom h" "flat h = FHeight (height_val h)"
  using assms by (simp_all add: Height_isTop_def Height_isBottom_def flat_def)

lemma flat_simps [simp]: "flat Height_top = FTop" "flat Height_bottom = FBot" "flat (Height_of n) = FHeight n"
  by (simp_all add: flat_def) (simp add: Height_of_def)

lemma flat_eq_iff: "flat h = FTop \<longleftrightarrow> Height_isTop h" "flat h = FBot \<longleftrightarrow> Height_isBottom h"
  by (auto simp: flat_def Height_isTop_def Height_isBottom_def)

lemma set_flat_simps [simp]:
  "set_flat [] = FTop" "set_flat [d] = flat (dh_height d)" "set_flat (d # e # s) = FBot"
  "set_flat makeTopSet = FTop" "set_flat makeBottomSet = FBot"
  "set_flat (makeNewSet b a l h) = flat h"
  by (simp_all add: set_flat_def getHeightSet_def makeTopSet_def makeBottomSet_def makeNewSet_def
      DefHeight_new_def)

lemma makeSet_simps [simp]:
  "makeTopSet \<noteq> []" "makeBottomSet \<noteq> []" "length makeTopSet = 1" "length makeBottomSet = 1"
  "dh_height (hd makeTopSet) = Height_top" "dh_height (hd makeBottomSet) = Height_bottom"
  "def_type (dh_def (hd makeBottomSet)) = DBOTTOM" "makeTopSet \<noteq> makeBottomSet"
  by (simp_all add: makeTopSet_def makeBottomSet_def DefHeight_new_def Definition_bottom_def
      Height_top_def Height_bottom_def)

lemma dhs_ok_bottom [simp]: "dhs_ok makeBottomSet" by (simp add: dhs_ok_def)

lemma dhs_ok_new: "height_type h = HHEIGHT \<Longrightarrow> fits64 (height_val h) \<Longrightarrow> dhs_heights (makeNewSet b a l h)"
  by (simp add: dhs_heights_def makeNewSet_def DefHeight_new_def DEF_LIMIT_def Definition_new_def)

lemma dhs_ok_nonempty: "dhs_ok s \<Longrightarrow> s \<noteq> []"
  using makeSet_simps(2) unfolding dhs_ok_def dhs_heights_def by metis

lemma dhs_heights_hd: "dhs_heights s \<Longrightarrow> height_type (dh_height (hd s)) = HHEIGHT"
  by (simp add: dhs_heights_def)

lemma dhs_heights_flat:
  "dhs_heights s \<Longrightarrow> set_flat s = (if length s = 1 then FHeight (height_val (dh_height (hd s))) else FBot)"
  by (cases s; cases "tl s") (auto simp: dhs_heights_def HHEIGHT_tests)

lemma dhs_ok_not_top: "dhs_ok s \<Longrightarrow> set_flat s \<noteq> FTop" "dhs_ok s \<Longrightarrow> \<not> Height_isTop (dh_height (hd s))"
  using dhs_heights_flat[of s] dhs_heights_hd[of s]
  by (auto simp: dhs_ok_def HHEIGHT_tests split: if_splits)

lemma set_flat_height:
  assumes "dhs_ok s" "set_flat s = FHeight n"
  shows "dhs_heights s" "length s = 1" "dh_height (hd s) = Height_of n" "fits64 n"
proof -
  show h: "dhs_heights s" using assms by (auto simp: dhs_ok_def)
  with assms(2) dhs_heights_flat[OF h] dhs_heights_hd[OF h]
  show "length s = 1" "dh_height (hd s) = Height_of n" by (auto simp: Height_of_def split: if_splits)
  with h show "fits64 n" by (cases s) (auto simp: dhs_heights_def Height_of_def)
qed

fun flat_plus :: "Flat_Height \<Rightarrow> int \<Rightarrow> Flat_Height" where
  "flat_plus (FHeight n) d = FHeight (wrap64 (n + d))"
| "flat_plus FTop d = FTop"
| "flat_plus FBot d = FBot"

lemma addDeltaSet_single:
  "addDeltaSet d [dh] = [DefHeight_new (dh_def dh) (Height_add_long (dh_height dh) d)]"
  by (simp add: addDeltaSet_def dhs_insert_def)

lemma addDeltaSet_top [simp]: "addDeltaSet d makeTopSet = makeTopSet"
  by (simp add: makeTopSet_def addDeltaSet_single Height_add_long_def DefHeight_new_def)

lemma addDeltaSet_bottom [simp]: "addDeltaSet d makeBottomSet = makeBottomSet"
  by (simp add: makeBottomSet_def addDeltaSet_single Height_add_long_def DefHeight_new_def)

lemma addDeltaSet_height:
  assumes "dhs_ok s" "set_flat s = FHeight n"
  shows "dhs_heights (addDeltaSet d s)" "length (addDeltaSet d s) = 1"
    "set_flat (addDeltaSet d s) = FHeight (wrap64 (n + d))"
    "dh_def (hd (addDeltaSet d s)) = dh_def (hd s)"
proof -
  obtain dh where s: "s = [dh]" "dh_height dh = Height_of n"
    using set_flat_height[OF assms] by (cases s) auto
  moreover have "def_type (dh_def dh) \<noteq> DBOTTOM"
    using set_flat_height(1)[OF assms] s by (simp add: dhs_heights_def)
  ultimately show "dhs_heights (addDeltaSet d s)" "length (addDeltaSet d s) = 1"
    "set_flat (addDeltaSet d s) = FHeight (wrap64 (n + d))"
    "dh_def (hd (addDeltaSet d s)) = dh_def (hd s)"
    by (simp_all add: addDeltaSet_single Height_add_long_def dhs_heights_def DefHeight_new_def
        DEF_LIMIT_def) (simp_all add: Height_of_def)
qed

section \<open>The meet of two sets\<close>

lemma DefHeight_less_trans: "DefHeight_less a b \<Longrightarrow> DefHeight_less b c \<Longrightarrow> DefHeight_less a c"
  by (auto simp: DefHeight_less_def Definition_less_def split: if_splits)

lemma dhs_insert_sorted: "sorted_wrt DefHeight_less s \<Longrightarrow> sorted_wrt DefHeight_less (dhs_insert dh s)"
proof (induction s)
  case (Cons x s)
  have "set (ss_insert DefHeight_less dh s) \<subseteq> insert dh (set s)" by (rule set_ss_insert)
  with Cons show ?case by (auto simp: dhs_insert_def dest: DefHeight_less_trans)
qed (simp add: dhs_insert_def)

lemmas dhs_insert_set = set_ss_insert[where lt = DefHeight_less, folded dhs_insert_def]
lemmas dhs_insert_length = length_ss_insert[where lt = DefHeight_less, folded dhs_insert_def]
  ss_insert_same_length[where lt = DefHeight_less, folded dhs_insert_def]

lemma meet_insert_length: "length s1 \<le> length (meet_insert s1 s2)"
  by (induction s1 s2 rule: meet_insert.induct) (auto intro: order_trans[OF dhs_insert_length(1)])

lemma meet_insert_same: "length (meet_insert s1 s2) = length s1 \<Longrightarrow> meet_insert s1 s2 = s1"
proof (induction s1 s2 rule: meet_insert.induct)
  case (2 s1 dh s2)
  have "length s1 \<le> length (dhs_insert dh s1)"
    "length (dhs_insert dh s1) \<le> length (meet_insert (dhs_insert dh s1) s2)"
    by (rule dhs_insert_length, rule meet_insert_length)
  with 2 dhs_insert_length(3)[of dh s1] show ?case by (auto split: if_splits)
qed simp

lemma meet_insert_subset: "set (meet_insert s1 s2) \<subseteq> set s1 \<union> set s2"
proof (induction s1 s2 rule: meet_insert.induct)
  case (2 s1 dh s2)
  have "set (dhs_insert dh s1) \<subseteq> insert dh (set s1)" by (rule dhs_insert_set)
  with 2 show ?case by auto
qed simp

lemma meet_insert_sorted:
  "sorted_wrt DefHeight_less s1 \<Longrightarrow> sorted_wrt DefHeight_less (meet_insert s1 s2)"
  by (induction s1 s2 rule: meet_insert.induct) (auto intro: dhs_insert_sorted)


text \<open>How far down a set is: the number of its definitions, and BOTTOM below all of them.\<close>

definition dhs_rank :: "DefHeightSet \<Rightarrow> nat" where
  "dhs_rank s = (if s = makeBottomSet then Suc DEF_LIMIT else length s)"

lemma dhs_heights_not_bottom: "dhs_heights s \<Longrightarrow> s \<noteq> makeBottomSet"
  using dhs_heights_hd[of s] by (auto simp: Height_bottom_def)

lemma dhs_heights_tests:
  assumes "dhs_heights s"
  shows "\<not> Height_isTop (dh_height (hd s))" "\<not> Height_isBottom (dh_height (hd s))"
  using HHEIGHT_tests[OF dhs_heights_hd[OF assms]] by simp_all

lemma meetDefHeights_bottom:
  assumes "s2 = [] \<or> dhs_ok s2"
  shows "meetDefHeights makeBottomSet s2 = makeBottomSet"
  using assms dhs_ok_not_top(2)[of s2] by (auto simp: meetDefHeights_def)

lemma meetDefHeights_heights:
  assumes "dhs_heights s1" "s2 = [] \<or> dhs_heights s2"
  shows "meetDefHeights s1 s2 =
    (if length (meet_insert s1 s2) > DEF_LIMIT then makeBottomSet else meet_insert s1 s2)"
  using assms dhs_heights_tests[of s1] dhs_heights_tests[of s2]
  by (auto simp: meetDefHeights_def Let_def)

lemma meetDefHeights_cases:
  assumes "dhs_ok s1" "s2 = [] \<or> dhs_ok s2"
  obtains "meetDefHeights s1 s2 = makeBottomSet"
  | "dhs_heights s1" "s2 = [] \<or> dhs_heights s2" "length (meet_insert s1 s2) \<le> DEF_LIMIT"
    "meetDefHeights s1 s2 = meet_insert s1 s2"
proof (cases "s1 = makeBottomSet")
  case True
  with meetDefHeights_bottom assms that show ?thesis by blast
next
  case s1: False
  then have h1: "dhs_heights s1" using assms by (simp add: dhs_ok_def)
  show ?thesis
  proof (cases "s2 = makeBottomSet")
    case True
    then have "meetDefHeights s1 s2 = makeBottomSet"
      using dhs_heights_tests[OF h1] by (simp add: meetDefHeights_def)
    with that show ?thesis by blast
  next
    case False
    then have h2: "s2 = [] \<or> dhs_heights s2" using assms(2) by (auto simp: dhs_ok_def)
    show ?thesis
      using meetDefHeights_heights[OF h1 h2] that(1) that(2)[OF h1 h2] by (cases "length (meet_insert s1 s2) \<le> DEF_LIMIT") auto
  qed
qed

lemma meet_insert_heights:
  assumes "dhs_heights s1" "s2 = [] \<or> dhs_heights s2" "length (meet_insert s1 s2) \<le> DEF_LIMIT"
  shows "dhs_heights (meet_insert s1 s2)"
proof -
  have "meet_insert s1 s2 \<noteq> []" using assms(1) meet_insert_length[of s1 s2] by (auto simp: dhs_heights_def)
  with assms meet_insert_subset[of s1 s2] meet_insert_sorted[of s1 s2] show ?thesis
    unfolding dhs_heights_def by (metis UnE subsetD emptyE list.set(1))
qed

lemma meetDefHeights_ok:
  assumes "dhs_ok s1" "s2 = [] \<or> dhs_ok s2"
  shows "dhs_ok (meetDefHeights s1 s2)"
  using meetDefHeights_cases[OF assms] meet_insert_heights dhs_ok_def by metis

lemma dhs_rank_bounds: "dhs_ok s \<Longrightarrow> dhs_rank s \<le> Suc DEF_LIMIT" "dhs_ok s \<Longrightarrow> 0 < dhs_rank s"
  by (auto simp: dhs_rank_def dhs_ok_def dhs_heights_def)

lemma meetDefHeights_rank:
  assumes "dhs_ok s1" "s2 = [] \<or> dhs_ok s2"
  shows "dhs_rank s1 \<le> dhs_rank (meetDefHeights s1 s2)"
    "dhs_rank (meetDefHeights s1 s2) = dhs_rank s1 \<Longrightarrow> meetDefHeights s1 s2 = s1"
proof -
  have "dhs_rank s1 \<le> dhs_rank (meetDefHeights s1 s2) \<and>
    (dhs_rank (meetDefHeights s1 s2) = dhs_rank s1 \<longrightarrow> meetDefHeights s1 s2 = s1)"
    using assms
  proof (cases rule: meetDefHeights_cases)
    case 1
    have "s1 = makeBottomSet" if "dhs_rank s1 = Suc DEF_LIMIT"
      using that assms(1) unfolding dhs_rank_def dhs_ok_def dhs_heights_def by (metis Suc_n_not_le_n)
    moreover have "dhs_rank (meetDefHeights s1 s2) = Suc DEF_LIMIT" unfolding 1 by (simp add: dhs_rank_def)
    ultimately show ?thesis using dhs_rank_bounds(1)[OF assms(1)] 1 by metis
  next
    case 2
    have "dhs_rank s1 = length s1" "dhs_rank (meetDefHeights s1 s2) = length (meet_insert s1 s2)"
      unfolding 2(4) dhs_rank_def
      using dhs_heights_not_bottom[OF 2(1)] dhs_heights_not_bottom[OF meet_insert_heights[OF 2(1-3)]] by simp_all
    then show ?thesis using 2(4) meet_insert_length[of s1 s2] meet_insert_same[of s1 s2] by metis
  qed
  then show "dhs_rank s1 \<le> dhs_rank (meetDefHeights s1 s2)"
    "dhs_rank (meetDefHeights s1 s2) = dhs_rank s1 \<Longrightarrow> meetDefHeights s1 s2 = s1" by blast+
qed

text \<open>An element that has an equivalent one in the set is not inserted.\<close>

definition covered :: "DefHeightSet \<Rightarrow> DefHeight \<Rightarrow> bool" where
  "covered s dh \<longleftrightarrow> (\<exists>x\<in>set s. \<not> DefHeight_less x dh \<and> \<not> DefHeight_less dh x)"

lemma DefHeight_less_equiv:
  assumes "\<not> DefHeight_less x dh" "\<not> DefHeight_less dh x" "DefHeight_less y x"
  shows "DefHeight_less y dh" "\<not> DefHeight_less dh y"
  using assms by (auto simp: DefHeight_less_def Definition_less_def split: if_splits)

lemma DefHeight_less_irrefl: "\<not> DefHeight_less a a"
  by (simp add: DefHeight_less_def Definition_less_def)

lemma dhs_insert_covered: "sorted_wrt DefHeight_less s \<Longrightarrow> covered s dh \<Longrightarrow> dhs_insert dh s = s"
proof (induction s)
  case (Cons y s)
  show ?case
  proof (cases "\<not> DefHeight_less y dh \<and> \<not> DefHeight_less dh y")
    case True
    then show ?thesis by (simp add: dhs_insert_def)
  next
    case False
    with Cons.prems(2) obtain x where x: "x \<in> set s" "\<not> DefHeight_less x dh" "\<not> DefHeight_less dh x"
      by (auto simp: covered_def)
    with Cons.prems(1) have "DefHeight_less y dh" "\<not> DefHeight_less dh y"
      using DefHeight_less_equiv[OF x(2,3), of y] by auto
    moreover have "dhs_insert dh s = s" using Cons x by (auto simp: covered_def)
    ultimately show ?thesis by (simp add: dhs_insert_def)
  qed
qed (simp add: covered_def)

lemma dhs_insert_covers: "covered (dhs_insert dh s) dh"
proof (induction s)
  case (Cons y s)
  then show ?case using DefHeight_less_irrefl[of dh] by (auto simp: covered_def dhs_insert_def)
qed (simp add: covered_def dhs_insert_def DefHeight_less_irrefl)

lemma covered_mono: "covered s dh \<Longrightarrow> set s \<subseteq> set t \<Longrightarrow> covered t dh"
  by (auto simp: covered_def)

lemma meet_insert_mono: "set s1 \<subseteq> set (meet_insert s1 s2)"
proof (induction s1 s2 rule: meet_insert.induct)
  case (2 s1 dh s2)
  have "set s1 \<subseteq> set (dhs_insert dh s1)" by (rule dhs_insert_set)
  with 2 show ?case by auto
qed simp

lemma meet_insert_covers:
  "length (meet_insert s1 s2) \<le> DEF_LIMIT \<Longrightarrow> dh \<in> set s2 \<Longrightarrow> covered (meet_insert s1 s2) dh"
proof (induction s1 s2 rule: meet_insert.induct)
  case (2 s1 d s2)
  have le: "length s1 \<le> DEF_LIMIT" using 2(2) by (auto split: if_splits)
  show ?case
  proof (cases "dh = d")
    case True
    have "set (dhs_insert d s1) \<subseteq> set (meet_insert (dhs_insert d s1) s2)" by (rule meet_insert_mono)
    with True dhs_insert_covers[of d s1] le show ?thesis by (auto intro: covered_mono)
  next
    case False
    with 2 le show ?thesis by simp
  qed
qed simp

lemma meet_insert_all_covered:
  assumes "sorted_wrt DefHeight_less s" "\<forall>dh\<in>set t. covered s dh"
  shows "meet_insert s t = s"
  using assms(2) by (induction t) (simp_all add: dhs_insert_covered[OF assms(1)])

lemma covered_self: "dh \<in> set s \<Longrightarrow> covered s dh"
  unfolding covered_def using DefHeight_less_irrefl by blast

lemma meetDefHeights_absorb:
  assumes "dhs_ok s1" "s2 = [] \<or> dhs_ok s2"
  shows "meetDefHeights (meetDefHeights s1 s2) s2 = meetDefHeights s1 s2"
  using assms
proof (cases rule: meetDefHeights_cases)
  case 1
  with meetDefHeights_bottom[OF assms(2)] show ?thesis by simp
next
  case 2
  note h = meet_insert_heights[OF 2(1-3)]
  have "meet_insert (meet_insert s1 s2) s2 = meet_insert s1 s2"
    using h meet_insert_covers[OF 2(3)] by (intro meet_insert_all_covered) (auto simp: dhs_heights_def)
  with 2 meetDefHeights_heights[OF h 2(2)] show ?thesis by simp
qed

lemma meetDefHeights_idem:
  assumes "dhs_ok s"
  shows "meetDefHeights s s = s"
proof (cases "s = makeBottomSet")
  case True
  with meetDefHeights_bottom[of s] show ?thesis by simp
next
  case False
  with assms have h: "dhs_heights s" by (simp add: dhs_ok_def)
  have "meet_insert s s = s"
    using h by (intro meet_insert_all_covered) (auto simp: dhs_heights_def covered_self)
  with h show ?thesis by (simp add: meetDefHeights_heights) (simp add: dhs_heights_def)
qed

text \<open>C35. Merging loses heights. The sets are ordered by the definition alone, so when two paths
  reach a point with different heights for a location with the same definition (the stack
  pointer keeps the initial one), the merged set has the height of one path only: it claims a
  unique height where the meet of the heights is BOTTOM. The merge is not commutative.\<close>

theorem Merge_loses_height:
  assumes "h1 \<noteq> h2"
  shows "meetDefHeights (addInitSet (Height_of h1) []) (addInitSet (Height_of h2) []) =
      addInitSet (Height_of h1) [] \<and>
    getHeightSet (meetDefHeights (addInitSet (Height_of h1) []) (addInitSet (Height_of h2) [])) = Height_of h1 \<and>
    getHeightSet (meetDefHeights (addInitSet (Height_of h2) []) (addInitSet (Height_of h1) [])) = Height_of h2 \<and>
    Height_meet (Height_of h1) (Height_of h2) = Height_bottom"
  using assms
  by (simp add: meetDefHeights_def addInitSet_def dhs_insert_def DefHeight_new_def DefHeight_less_def
      Definition_less_def Definition_default_def DEF_LIMIT_def getHeightSet_def Height_meet_def)
    (simp add: Height_of_def Height_top_def)

theorem Merge_loses_height_witness:
  "getHeightSet (meetDefHeights (addInitSet (Height_of (-8)) []) (addInitSet (Height_of (-16)) [])) =
   Height_of (-8)"
  by (rule Merge_loses_height[of "-8" "-16", THEN conjunct2, THEN conjunct1]) simp


end
