(* ===== verification/Stack_Transfer.thy ===== *)
theory Stack_Transfer
  imports Stack_Height
begin

text \<open>
  Transfer functions of the stack analysis: \<^verbatim>\<open>StackAnalysis::TransferFunc\<close> and
  \<^verbatim>\<open>StackAnalysis::SummaryFunc\<close> of \<^verbatim>\<open>dataflowAPI/src/stackanalysis.C\<close>. The states and the sets of
  transfer functions are ordered maps. A failed \<^verbatim>\<open>STACKANALYSIS_ASSERT\<close>, which throws, is
  the result \<open>None\<close>; so is reading the first element of an empty set.

  The second half relates them to the flat lattice: \<open>tf_sem\<close> says what a transfer function does
  to a valuation of the locations, \<^verbatim>\<open>apply\<close> implements it, and \<^verbatim>\<open>summaryAccumulate\<close> is
  composition.
\<close>

section \<open>Transfer functions\<close>

datatype Transfer_Type = TF_TOP | TF_BOTTOM | TF_OTHER

record TransferFunc =
  tf_from :: Absloc
  tf_target :: Absloc
  tf_delta :: int
  tf_abs :: int
  tf_retop :: bool
  tf_topBottom :: bool
  tf_fromRegs :: "(Absloc, int \<times> bool) std_map"
  tf_type :: Transfer_Type

type_synonym AbslocState = "(Absloc, DefHeightSet) std_map"
type_synonym TransferSet = "(Absloc, TransferFunc) std_map"

definition TransferFunc_default :: TransferFunc where
  "TransferFunc_default = \<lparr>tf_from = UnknownLoc, tf_target = UnknownLoc, tf_delta = 0,
     tf_abs = uninitialized, tf_retop = False, tf_topBottom = False, tf_fromRegs = [], tf_type = TF_TOP\<rparr>"

definition TransferFunc_new ::
  "int \<Rightarrow> int \<Rightarrow> Absloc \<Rightarrow> Absloc \<Rightarrow> bool \<Rightarrow> bool \<Rightarrow> Transfer_Type \<Rightarrow> TransferFunc" where
  "TransferFunc_new a d f t i rt ty = \<lparr>tf_from = f, tf_target = t, tf_delta = d,
     tf_abs = a, tf_retop = rt, tf_topBottom = i, tf_fromRegs = [], tf_type = ty\<rparr>"

definition copyFunc :: "Absloc \<Rightarrow> Absloc \<Rightarrow> bool \<Rightarrow> TransferFunc" where
  "copyFunc f t i = TransferFunc_new uninitialized 0 f t i False TF_OTHER"

definition identityFunc :: "Absloc \<Rightarrow> TransferFunc" where
  "identityFunc r = copyFunc r r False"

definition deltaFunc :: "Absloc \<Rightarrow> int \<Rightarrow> TransferFunc" where
  "deltaFunc r d = TransferFunc_new uninitialized d r r False False TF_OTHER"

definition absFunc :: "Absloc \<Rightarrow> int \<Rightarrow> bool \<Rightarrow> TransferFunc" where
  "absFunc r a i = TransferFunc_new a 0 UnknownLoc r i False TF_OTHER"

definition bottomFunc :: "Absloc \<Rightarrow> TransferFunc" where
  "bottomFunc r = TransferFunc_new notUnique notUnique UnknownLoc r False False TF_BOTTOM"

definition retopFunc :: "Absloc \<Rightarrow> TransferFunc" where
  "retopFunc r = TransferFunc_new uninitialized 0 UnknownLoc r False True TF_TOP"

definition sibFunc :: "(Absloc, int \<times> bool) std_map \<Rightarrow> int \<Rightarrow> Absloc \<Rightarrow> TransferFunc" where
  "sibFunc f d t = \<lparr>tf_from = UnknownLoc, tf_target = t, tf_delta = d, tf_abs = uninitialized,
     tf_retop = False, tf_topBottom = False, tf_fromRegs = f, tf_type = TF_OTHER\<rparr>"

definition tf_isBottom :: "TransferFunc \<Rightarrow> bool" where "tf_isBottom f \<longleftrightarrow> tf_type f = TF_BOTTOM"
definition tf_isTop :: "TransferFunc \<Rightarrow> bool" where "tf_isTop f \<longleftrightarrow> tf_type f = TF_TOP"
definition tf_isRetop :: "TransferFunc \<Rightarrow> bool" where "tf_isRetop f \<longleftrightarrow> tf_isTop f \<and> tf_retop f"
definition tf_isCopy :: "TransferFunc \<Rightarrow> bool" where "tf_isCopy f \<longleftrightarrow> Absloc_isValid (tf_from f)"
definition tf_isSIB :: "TransferFunc \<Rightarrow> bool" where "tf_isSIB f \<longleftrightarrow> length (tf_fromRegs f) > 0"
definition tf_isDelta :: "TransferFunc \<Rightarrow> bool" where "tf_isDelta f \<longleftrightarrow> tf_delta f \<noteq> 0"
definition tf_isAbs :: "TransferFunc \<Rightarrow> bool" where
  "tf_isAbs f \<longleftrightarrow> \<not> tf_isTop f \<and> \<not> tf_isBottom f \<and> \<not> tf_isCopy f \<and> \<not> tf_isSIB f"

definition tf_isIdentity :: "TransferFunc \<Rightarrow> bool" where
  "tf_isIdentity f \<longleftrightarrow> tf_isCopy f \<and> Absloc_eq (tf_from f) (tf_target f) \<and> tf_delta f = 0 \<and> \<not> tf_topBottom f"

definition tf_isBaseRegCopy :: "TransferFunc \<Rightarrow> bool" where
  "tf_isBaseRegCopy f \<longleftrightarrow> tf_isCopy f \<and> \<not> tf_topBottom f \<and>
     (case (tf_target f, tf_from f) of
        (RegLoc t, RegLoc r) \<Rightarrow>
          MachRegister_size t = Some 4 \<and> MachRegister_size r = Some 8 \<and> getBaseRegister t = r
      | _ \<Rightarrow> False)"

definition tf_isBaseRegSIB :: "TransferFunc \<Rightarrow> bool" where
  "tf_isBaseRegSIB f \<longleftrightarrow> tf_isSIB f \<and> length (tf_fromRegs f) = 2 \<and>
     (case tf_target f of
        RegLoc t \<Rightarrow>
          MachRegister_size t = Some 4 \<and> MachRegister_size (getBaseRegister t) = Some 8 \<and>
          map_of (tf_fromRegs f) (RegLoc t) \<noteq> None \<and>
          map_of (tf_fromRegs f) (RegLoc (getBaseRegister t)) \<noteq> None
      | _ \<Rightarrow> False)"

definition TransferFunc_eq :: "TransferFunc \<Rightarrow> TransferFunc \<Rightarrow> bool" where
  "TransferFunc_eq f g \<longleftrightarrow> Absloc_eq (tf_from f) (tf_from g) \<and> Absloc_eq (tf_target f) (tf_target g) \<and>
     tf_delta f = tf_delta g \<and> tf_abs f = tf_abs g \<and> tf_retop f = tf_retop g \<and>
     tf_topBottom f = tf_topBottom g \<and> tf_fromRegs f = tf_fromRegs g"

section \<open>Meet\<close>

definition fromRegs_union ::
  "(Absloc, int \<times> bool) std_map \<Rightarrow> (Absloc, int \<times> bool) std_map \<Rightarrow> (Absloc, int \<times> bool) std_map" where
  "fromRegs_union ret rhs =
     foldl (\<lambda>r (loc, v). case map_of r loc of
              None \<Rightarrow> sm_set loc v r
            | Some w \<Rightarrow> if fst v = 1 \<and> fst w \<noteq> 1 then sm_set loc v r else r) ret rhs"

definition tf_meet :: "TransferFunc \<Rightarrow> TransferFunc \<Rightarrow> TransferFunc option" where
  "tf_meet lhs rhs =
     (if tf_isTop lhs \<and> \<not> tf_isRetop lhs then Some rhs
      else if tf_isTop rhs \<and> \<not> tf_isRetop rhs then Some lhs
      else if \<not> Absloc_eq (tf_target lhs) (tf_target rhs) then None
      else if TransferFunc_eq lhs rhs then Some lhs
      else if tf_isAbs lhs then
        (if tf_isAbs rhs then Some (retopFunc (tf_target lhs))
         else if tf_isCopy rhs \<or> tf_isBottom rhs \<or> tf_isRetop rhs \<or> tf_isSIB rhs then Some rhs
         else None)
      else if tf_isCopy lhs then
        (if tf_isAbs rhs then Some lhs
         else if tf_isCopy rhs then
           (if Absloc_eq (tf_from lhs) (tf_from rhs) then Some (lhs\<lparr>tf_topBottom := True, tf_delta := 0\<rparr>)
            else Some (sibFunc (sm_set (tf_from rhs) (1, True) (sm_set (tf_from lhs) (1, True) []))
                         0 (tf_target lhs)))
         else if tf_isBottom rhs then Some rhs
         else if tf_isRetop rhs then Some lhs
         else if tf_isSIB rhs then
           Some (rhs\<lparr>tf_fromRegs := sm_set (tf_from lhs) (1, True) (tf_fromRegs rhs)\<rparr>)
         else None)
      else if tf_isBottom lhs then Some lhs
      else if tf_isRetop lhs then
        (if tf_isAbs rhs then Some lhs
         else if tf_isCopy rhs \<or> tf_isBottom rhs \<or> tf_isRetop rhs \<or> tf_isSIB rhs then Some rhs
         else None)
      else if tf_isSIB lhs then
        (if tf_isAbs rhs then Some lhs
         else if tf_isCopy rhs then
           Some (lhs\<lparr>tf_fromRegs := sm_set (tf_from rhs) (1, True) (tf_fromRegs lhs)\<rparr>)
         else if tf_isBottom rhs then Some rhs
         else if tf_isRetop rhs then Some lhs
         else if tf_isSIB rhs then
           (if tf_fromRegs lhs = tf_fromRegs rhs then Some (lhs\<lparr>tf_topBottom := True, tf_delta := 0\<rparr>)
            else Some (lhs\<lparr>tf_fromRegs := fromRegs_union (tf_fromRegs lhs) (tf_fromRegs rhs)\<rparr>))
         else None)
      else None)"

section \<open>Applying a transfer function to a state\<close>

fun sib_apply :: "AbslocState \<Rightarrow> (Absloc, int \<times> bool) std_map \<Rightarrow> DefHeightSet \<Rightarrow> DefHeightSet" where
  "sib_apply inputs [] inputSet = inputSet"
| "sib_apply inputs ((curLoc, curScale, curTopBottom) # regs) inputSet =
     (let locInput = (case map_of inputs curLoc of None \<Rightarrow> Height_top | Some s \<Rightarrow> getHeightSet s) in
      if Height_eq locInput Height_top then sib_apply inputs regs inputSet
      else if curScale = 1 then makeBottomSet
      else sib_apply inputs regs inputSet)"

definition keeps_frame :: "Absloc \<Rightarrow> bool" where
  "keeps_frame target \<longleftrightarrow>
     (case target of
        RegLoc r \<Rightarrow> isStackPointer (getBaseRegister r) \<or> isFramePointer (getBaseRegister r)
      | _ \<Rightarrow> False)"

definition copy_apply :: "TransferFunc \<Rightarrow> AbslocState \<Rightarrow> DefHeightSet" where
  "copy_apply f inputs =
     (case map_of inputs (tf_from f) of
        None \<Rightarrow> makeTopSet
      | Some s \<Rightarrow>
          (let h = getHeightSet s in
           if \<not> Height_isBottom h \<and> \<not> Height_isTop h then
             (if (Absloc_isSP (tf_from f) \<or> Absloc_isFP (tf_from f)) \<and> \<not> keeps_frame (tf_target f)
              then makeNewSet 0 0 (tf_target f) h
              else s)
           else if Height_isBottom h then makeBottomSet
           else makeTopSet))"

definition tf_apply :: "TransferFunc \<Rightarrow> AbslocState \<Rightarrow> DefHeightSet option" where
  "tf_apply f inputs =
     (if \<not> Absloc_isValid (tf_target f) then None
      else if tf_isBottom f then Some makeBottomSet
      else
        let s0 = (case map_of inputs (tf_target f) of Some s \<Rightarrow> s | None \<Rightarrow> makeTopSet);
            s1 = (if tf_isSIB f then sib_apply inputs (tf_fromRegs f) makeTopSet else s0);
            s2 = (if tf_isAbs f then makeTopSet else s1);
            s3 = (if tf_isCopy f then copy_apply f inputs else s2);
            s4 = (if tf_isDelta f then addDeltaSet (tf_delta f) s3 else s3);
            s5 = (if tf_isRetop f then makeTopSet else s4)
        in if tf_topBottom f then
             (case s5 of [] \<Rightarrow> None
              | dh # _ \<Rightarrow> Some (if \<not> Height_isTop (dh_height dh) then makeBottomSet else s5))
           else Some s5)"

section \<open>Accumulating transfer functions\<close>

definition sib_allAbs :: "TransferSet \<Rightarrow> (Absloc, int \<times> bool) std_map \<Rightarrow> bool" where
  "sib_allAbs inputs regs \<longleftrightarrow>
     list_all (\<lambda>(l, s, _). case map_of inputs l of None \<Rightarrow> False | Some g \<Rightarrow> tf_isAbs g) regs"

definition sib_allToppable :: "TransferSet \<Rightarrow> (Absloc, int \<times> bool) std_map \<Rightarrow> bool" where
  "sib_allToppable inputs regs \<longleftrightarrow>
     list_all (\<lambda>(l, s, _). case map_of inputs l of
                  None \<Rightarrow> s \<noteq> 1
                | Some g \<Rightarrow> tf_isRetop g \<or> tf_isAbs g \<or> s \<noteq> 1) regs"

definition sib_anyBottomed :: "TransferSet \<Rightarrow> (Absloc, int \<times> bool) std_map \<Rightarrow> bool" where
  "sib_anyBottomed inputs regs \<longleftrightarrow>
     list_ex (\<lambda>(l, s, _). case map_of inputs l of None \<Rightarrow> False | Some g \<Rightarrow> tf_isBottom g \<and> s = 1) regs"

definition sib_absDelta :: "TransferSet \<Rightarrow> (Absloc, int \<times> bool) std_map \<Rightarrow> int \<Rightarrow> int" where
  "sib_absDelta inputs regs delta =
     foldl (\<lambda>d (l, s, _). case map_of inputs l of
               None \<Rightarrow> d
             | Some g \<Rightarrow> wrap64 (d + wrap64 (tf_abs g * s))) delta regs"

definition sib_term ::
  "TransferSet \<Rightarrow> Absloc \<times> int \<times> bool \<Rightarrow> (Absloc, int \<times> bool) std_map \<times> bool \<Rightarrow>
     ((Absloc, int \<times> bool) std_map \<times> bool) option" where
  "sib_term inputs = (\<lambda>(l, s, _) (new, topped).
     if s \<noteq> 1 then Some (new, True)
     else case map_of inputs l of
       None \<Rightarrow> Some (sm_insert l (s, False) new, topped)
     | Some g \<Rightarrow>
         if tf_isBottom g then None
         else
           let n1 = (if tf_isSIB g
                     then foldl (\<lambda>n (rl, rs, rtb). sm_insert rl (wrap64 (rs * s), rtb) n) new (tf_fromRegs g)
                     else new);
               n2 = (if tf_isCopy g then sm_insert (tf_from g) (s, tf_topBottom g) n1 else n1);
               n3 = (if tf_isDelta g \<and> \<not> tf_isCopy g \<and> \<not> tf_isSIB g \<and> \<not> tf_isAbs g
                     then sm_insert l (s, tf_topBottom g) n2 else n2)
           in if tf_isRetop g then Some (n3, True)
              else if tf_isTop g then Some (sm_insert l (s, False) n3, topped)
              else Some (n3, topped))"

fun sib_terms ::
  "TransferSet \<Rightarrow> (Absloc, int \<times> bool) std_map \<Rightarrow> (Absloc, int \<times> bool) std_map \<times> bool \<Rightarrow>
     ((Absloc, int \<times> bool) std_map \<times> bool) option" where
  "sib_terms inputs [] st = Some st"
| "sib_terms inputs (t # ts) st =
     (case sib_term inputs t st of None \<Rightarrow> None | Some st' \<Rightarrow> sib_terms inputs ts st')"

definition accumulate_SIB :: "TransferFunc \<Rightarrow> TransferSet \<Rightarrow> TransferFunc option" where
  "accumulate_SIB f inputs =
     (if sib_anyBottomed inputs (tf_fromRegs f) then Some (bottomFunc (tf_target f))
      else if sib_allAbs inputs (tf_fromRegs f) then
        Some (absFunc (tf_target f) (sib_absDelta inputs (tf_fromRegs f) (tf_delta f)) False)
      else if sib_allToppable inputs (tf_fromRegs f) then Some (retopFunc (tf_target f))
      else case sib_terms inputs (tf_fromRegs f) ([], False) of
        None \<Rightarrow> None
      | Some (new, topped) \<Rightarrow>
          Some ((sibFunc (if topped then map (\<lambda>(l, s, _). (l, s, True)) new else new) 0 (tf_target f))
                 \<lparr>tf_topBottom := tf_topBottom f\<rparr>))"

definition retarget :: "TransferFunc \<Rightarrow> TransferFunc \<Rightarrow> TransferFunc" where
  "retarget f orig =
     (let i = orig\<lparr>tf_target := tf_target f\<rparr>;
          j = (if tf_isDelta f then i\<lparr>tf_delta := wrap64 (tf_delta i + tf_delta f)\<rparr> else i)
      in if tf_topBottom f \<or> tf_topBottom orig then j\<lparr>tf_topBottom := True, tf_delta := 0\<rparr> else j)"

definition accumulate_rest :: "TransferFunc \<Rightarrow> TransferFunc \<Rightarrow> TransferFunc option" where
  "accumulate_rest f input =
     (if tf_isDelta f then None else if tf_isRetop f then Some f else Some input)"

definition accumulate_copy :: "TransferFunc \<Rightarrow> TransferFunc \<Rightarrow> TransferFunc \<Rightarrow> TransferFunc option" where
  "accumulate_copy f orig input =
     (if tf_isAbs orig then
        (let i = orig\<lparr>tf_target := tf_target f, tf_topBottom := False\<rparr>
         in Some (if tf_isDelta f then i\<lparr>tf_delta := wrap64 (tf_delta i + tf_delta f)\<rparr> else i))
      else if tf_isCopy orig then Some (retarget f orig)
      else if tf_isSIB orig then Some (retarget f orig)
      else if tf_isBottom orig then Some (bottomFunc (tf_target f))
      else if tf_isRetop orig then Some (retopFunc (tf_target f))
      else if tf_isDelta orig then None
      else accumulate_rest f (input\<lparr>tf_from := tf_target orig, tf_abs := uninitialized, tf_delta := 0,
             tf_topBottom := tf_topBottom f \<or> tf_topBottom orig, tf_fromRegs := []\<rparr>))"

definition summaryAccumulate :: "TransferFunc \<Rightarrow> TransferSet \<Rightarrow> TransferFunc option" where
  "summaryAccumulate f inputs =
     (let input = (case map_of inputs (tf_target f) of Some g \<Rightarrow> g | None \<Rightarrow> TransferFunc_default);
          input1 = input\<lparr>tf_target := tf_target f\<rparr>;
          input2 = (if \<not> tf_topBottom input1 \<and> \<not> tf_isRetop input1
                    then input1\<lparr>tf_topBottom := tf_topBottom f\<rparr> else input1)
      in if Absloc_isValid (tf_target input) \<and> \<not> Absloc_eq (tf_target input) (tf_target f) then None
         else if \<not> Absloc_isValid (tf_target f) then None
         else if tf_isBottom f then Some (bottomFunc (tf_target f))
         else if tf_isAbs f then Some (absFunc (tf_target f) (tf_abs f) False)
         else if tf_isSIB f then accumulate_SIB f inputs
         else if tf_isCopy f then
           (case map_of inputs (tf_from f) of
              None \<Rightarrow> Some (if tf_topBottom f then f\<lparr>tf_topBottom := True, tf_delta := 0\<rparr> else f)
            | Some orig \<Rightarrow> accumulate_copy f orig input2)
         else accumulate_rest f input2)"

definition tf_accumulate :: "TransferFunc \<Rightarrow> TransferSet \<Rightarrow> TransferSet option" where
  "tf_accumulate f inputs = map_option (\<lambda>g. sm_set (tf_target f) g inputs) (summaryAccumulate f inputs)"

section \<open>Summaries of blocks\<close>

fun sum_option_fold :: "('a \<Rightarrow> 's \<Rightarrow> 's option) \<Rightarrow> 'a list \<Rightarrow> 's \<Rightarrow> 's option" where
  "sum_option_fold f [] s = Some s"
| "sum_option_fold f (x # xs) s = (case f x s of None \<Rightarrow> None | Some s' \<Rightarrow> sum_option_fold f xs s')"

definition SummaryFunc_validate :: "TransferSet \<Rightarrow> bool" where
  "SummaryFunc_validate accumFuncs \<longleftrightarrow>
     list_all (\<lambda>(_, f). Absloc_isValid (tf_target f) \<and> (tf_isCopy f \<longrightarrow> \<not> tf_isAbs f) \<and>
                 (tf_isAbs f \<longrightarrow> \<not> tf_isCopy f) \<and> (tf_isBottom f \<longrightarrow> \<not> tf_isCopy f)) accumFuncs"

definition SummaryFunc_add :: "TransferFunc list \<Rightarrow> TransferSet \<Rightarrow> TransferSet option" where
  "SummaryFunc_add xferFuncs accumFuncs =
     (case sum_option_fold tf_accumulate xferFuncs accumFuncs of
        None \<Rightarrow> None
      | Some t \<Rightarrow> if SummaryFunc_validate t then Some t else None)"

definition SummaryFunc_addSummary :: "TransferSet \<Rightarrow> TransferSet \<Rightarrow> TransferSet option" where
  "SummaryFunc_addSummary summary accumFuncs =
     (case sum_option_fold (\<lambda>(loc, f) t. map_option (\<lambda>g. sm_set loc g t) (summaryAccumulate f accumFuncs))
             summary accumFuncs of
        None \<Rightarrow> None
      | Some t \<Rightarrow> if SummaryFunc_validate t then Some t else None)"

definition SummaryFunc_accumulate :: "TransferSet \<Rightarrow> TransferSet \<Rightarrow> TransferSet option" where
  "SummaryFunc_accumulate accumFuncs ins =
     sum_option_fold (\<lambda>(loc, f) out.
        if \<not> Absloc_isValid loc then None
        else map_option (\<lambda>g. if tf_isTop g \<and> \<not> tf_isRetop g then sm_erase loc out else sm_set loc g out)
               (summaryAccumulate f ins)) accumFuncs ins"

text \<open>
  A new definition gets its block here. The source passes references into the set that
  \<^verbatim>\<open>makeNewSet\<close> has just cleared; the model uses the values they had.
\<close>

definition apply_entry ::
  "(TransferFunc \<Rightarrow> Definition \<Rightarrow> bool) \<Rightarrow> nat \<Rightarrow> int \<Rightarrow> AbslocState \<Rightarrow> Absloc \<times> TransferFunc \<Rightarrow>
     AbslocState \<Rightarrow> AbslocState option" where
  "apply_entry ok block off ins = (\<lambda>(loc, f) out.
     case tf_apply f ins of
       None \<Rightarrow> None
     | Some [] \<Rightarrow> None
     | Some (dh # s) \<Rightarrow>
         (let d = dh_def dh; h = dh_height dh;
              fresh = (def_type d = DDEF \<and> def_block d = 0);
              s' = (if fresh then makeNewSet block off (def_origLoc d) h else dh # s)
          in if fresh \<and> \<not> ok f d then None
             else Some (if Height_isTop h then sm_erase loc out else sm_set loc s' out)))"

definition SummaryFunc_apply :: "nat \<Rightarrow> TransferSet \<Rightarrow> AbslocState \<Rightarrow> AbslocState option" where
  "SummaryFunc_apply block accumFuncs ins =
     sum_option_fold (\<lambda>e out. if \<not> Absloc_isValid (fst e) then None
                              else apply_entry (\<lambda>_ _. True) block 0 ins e out) accumFuncs ins"

section \<open>Replaying the instructions of a block\<close>

text \<open>
  The effects of one instruction: its offset, its transfer functions in order, and the summary of
  a called function, empty when there is none.
\<close>

record InsnEffect =
  ie_off :: int
  ie_funcs :: "TransferFunc list"
  ie_summary :: TransferSet

definition summarizeBlock :: "InsnEffect list \<Rightarrow> TransferSet option" where
  "summarizeBlock insns =
     sum_option_fold (\<lambda>i t. case SummaryFunc_add (ie_funcs i) t of
        None \<Rightarrow> None
      | Some t' \<Rightarrow> if ie_summary i = [] then Some t' else SummaryFunc_addSummary (ie_summary i) t')
       insns []"

definition replay_func :: "nat \<Rightarrow> int \<Rightarrow> TransferFunc \<Rightarrow> AbslocState \<Rightarrow> AbslocState option" where
  "replay_func block off f input =
     apply_entry (\<lambda>f d. Absloc_eq (tf_target f) (def_origLoc d)) block off input (tf_target f, f) input"

definition replay_summary :: "nat \<Rightarrow> int \<Rightarrow> TransferSet \<Rightarrow> AbslocState \<Rightarrow> AbslocState option" where
  "replay_summary block off summary input =
     sum_option_fold (\<lambda>e. apply_entry (\<lambda>_ d. Absloc_eq (fst e) (def_origLoc d)) block off input e)
       summary input"

definition replay_insn :: "nat \<Rightarrow> InsnEffect \<Rightarrow> AbslocState \<Rightarrow> AbslocState option" where
  "replay_insn block i input =
     (case sum_option_fold (replay_func block (ie_off i)) (ie_funcs i) input of
        None \<Rightarrow> None
      | Some input' \<Rightarrow>
          if ie_summary i = [] then Some input' else replay_summary block (ie_off i) (ie_summary i) input')"

text \<open>The states before each instruction and at the end of the block.\<close>

fun replay_block ::
  "nat \<Rightarrow> InsnEffect list \<Rightarrow> AbslocState \<Rightarrow> ((int, AbslocState) std_map \<times> AbslocState) option" where
  "replay_block block [] input = Some ([], input)"
| "replay_block block (i # is) input =
     (case replay_insn block i input of
        None \<Rightarrow> None
      | Some input' \<Rightarrow>
          map_option (\<lambda>(iv, out). ((ie_off i, input) # iv, out)) (replay_block block is input'))"


section \<open>What a transfer function does to the heights\<close>

text \<open>
  A valuation gives every location a height of the flat lattice. The well-formed transfer
  functions are the ones the constructors make: BOTTOM, re-TOP, absolute, a copy with an offset,
  or a sum of registers.
\<close>

definition tf_ok :: "TransferFunc \<Rightarrow> bool" where
  "tf_ok f \<longleftrightarrow> Absloc_isValid (tf_target f) \<and> sm_ok (tf_fromRegs f) \<and>
     (tf_isBottom f \<longrightarrow> \<not> tf_isCopy f \<and> \<not> tf_isSIB f) \<and>
     (tf_isTop f \<longrightarrow> tf_retop f \<and> tf_delta f = 0 \<and> \<not> tf_isCopy f \<and> \<not> tf_isSIB f) \<and>
     \<not> (tf_isCopy f \<and> tf_isSIB f)"

definition any_height :: "(Absloc, int \<times> bool) std_map \<Rightarrow> (Absloc \<Rightarrow> Flat_Height) \<Rightarrow> bool" where
  "any_height regs H \<longleftrightarrow> (\<exists>(l, s, b)\<in>set regs. s = 1 \<and> H l \<noteq> FTop)"

definition tf_sem :: "TransferFunc \<Rightarrow> (Absloc \<Rightarrow> Flat_Height) \<Rightarrow> Flat_Height" where
  "tf_sem f H =
     (if tf_isBottom f then FBot
      else if tf_isSIB f then (if any_height (tf_fromRegs f) H then FBot else FTop)
      else if tf_isCopy f then
        (if H (tf_from f) = FTop then FTop
         else if tf_topBottom f then FBot
         else flat_plus (H (tf_from f)) (tf_delta f))
      else FTop)"

definition flat_ok :: "Flat_Height \<Rightarrow> bool" where
  "flat_ok x \<longleftrightarrow> (\<forall>n. x = FHeight n \<longrightarrow> fits64 n)"

lemma flat_ok_simps [simp]: "flat_ok FTop" "flat_ok FBot" "flat_ok (FHeight n) \<longleftrightarrow> fits64 n"
  by (simp_all add: flat_ok_def)

lemma flat_plus_0 [simp]: "flat_ok x \<Longrightarrow> flat_plus x 0 = x"
  by (cases x) simp_all

lemma flat_ok_plus [simp]: "flat_ok (flat_plus x d)"
  by (cases x) simp_all

lemma flat_plus_top [simp]: "flat_plus x d = FTop \<longleftrightarrow> x = FTop"
  by (cases x) simp_all

lemma wrap64_add_wrap64: "wrap64 (wrap64 a + b) = wrap64 (a + b)" "wrap64 (a + wrap64 b) = wrap64 (a + b)"
  using signed_take_bit_add[of 63 "signed_take_bit 63 a" b] signed_take_bit_add[of 63 a "signed_take_bit 63 b"]
    signed_take_bit_add[of 63 a b] by (simp_all add: wrap64_def)

lemma flat_plus_plus [simp]: "flat_plus (flat_plus x d) e = flat_plus x (wrap64 (d + e))"
  by (cases x) (simp_all add: wrap64_add_wrap64 add.assoc)

lemma flat_ok_sem: "flat_ok (tf_sem f H)"
  by (simp add: tf_sem_def)

section \<open>Apply implements the semantics\<close>

definition defs_resolved :: "DefHeightSet \<Rightarrow> bool" where
  "defs_resolved s \<longleftrightarrow> (\<forall>dh\<in>set s. def_type (dh_def dh) = DDEF \<longleftrightarrow> def_block (dh_def dh) \<noteq> 0)"

definition state_ok :: "AbslocState \<Rightarrow> bool" where
  "state_ok st \<longleftrightarrow> sm_ok st \<and> (\<forall>(l, s)\<in>set st. dhs_ok s \<and> defs_resolved s)"

definition entry_val :: "DefHeightSet option \<Rightarrow> Flat_Height" where
  "entry_val r = (case r of None \<Rightarrow> FTop | Some s \<Rightarrow> set_flat s)"

definition height_at :: "AbslocState \<Rightarrow> Absloc \<Rightarrow> Flat_Height" where
  "height_at st l = entry_val (map_of st l)"

text \<open>A set that one transfer function produces: BOTTOM or a single height.\<close>

definition one_height :: "DefHeightSet \<Rightarrow> bool" where
  "one_height s \<longleftrightarrow> s = makeBottomSet \<or> dhs_heights s \<and> length s = 1"

lemma state_okD:
  assumes "state_ok st" "map_of st l = Some s"
  shows "dhs_ok s" "defs_resolved s"
  using assms map_of_SomeD[OF assms(2)] by (auto simp: state_ok_def)

lemma flat_ok_entry: "state_ok st \<Longrightarrow> flat_ok (height_at st l)"
proof (cases "map_of st l")
  case (Some s)
  moreover assume "state_ok st"
  ultimately show ?thesis
    using set_flat_height(4)[OF state_okD(1)] by (auto simp: height_at_def entry_val_def flat_ok_def)
qed (simp add: height_at_def entry_val_def)

lemma one_height_ok: "one_height s \<Longrightarrow> dhs_ok s"
  by (auto simp: one_height_def dhs_ok_def)

lemma sib_apply_eq:
  assumes "state_ok st"
  shows "sib_apply st regs makeTopSet = (if any_height regs (height_at st) then makeBottomSet else makeTopSet)"
proof -
  have t: "(case map_of st l of None \<Rightarrow> Height_top | Some s \<Rightarrow> getHeightSet s) = Height_top \<longleftrightarrow>
      height_at st l = FTop" for l
  proof (cases "map_of st l")
    case (Some s)
    have "Height_isTop h \<longleftrightarrow> h = Height_top" for h
      by (auto simp: Height_isTop_def Height_top_def)
    with Some show ?thesis by (simp add: height_at_def entry_val_def set_flat_def flat_eq_iff)
  qed (simp add: height_at_def entry_val_def)
  show ?thesis
    by (induction regs) (auto simp: t any_height_def split: if_splits)
qed

text \<open>A definition without a block is a new one, of the location \<open>l\<close>.\<close>

definition fresh_at :: "Absloc \<Rightarrow> DefHeightSet \<Rightarrow> bool" where
  "fresh_at l s \<longleftrightarrow> (let d = dh_def (hd s) in
     (def_type d = DDEF \<longrightarrow> def_block d = 0 \<longrightarrow> def_origLoc d = l) \<and> (def_type d \<noteq> DDEF \<longrightarrow> def_block d = 0))"

lemma fresh_at_make [simp]: "fresh_at l makeTopSet" "fresh_at l makeBottomSet" "fresh_at l (makeNewSet 0 0 l h)"
  by (simp_all add: fresh_at_def makeTopSet_def makeBottomSet_def makeNewSet_def DefHeight_new_def
      Definition_default_def Definition_bottom_def Definition_new_def)

lemma copy_apply_spec:
  fixes f :: TransferFunc
  assumes st: "state_ok st"
  defines "s \<equiv> copy_apply f st"
  shows "set_flat s = height_at st (tf_from f)" "s = makeTopSet \<or> one_height s"
    "fresh_at (tf_target f) s"
    "s \<noteq> makeTopSet \<Longrightarrow> set_flat s \<noteq> FTop"
proof -
  have "set_flat s = height_at st (tf_from f) \<and> (s = makeTopSet \<or> one_height s) \<and>
    fresh_at (tf_target f) s"
  proof (cases "map_of st (tf_from f)")
    case None
    then show ?thesis by (simp add: s_def copy_apply_def height_at_def entry_val_def)
  next
    case (Some t)
    note ok = state_okD[OF st Some]
    have val: "height_at st (tf_from f) = set_flat t" using Some by (simp add: height_at_def entry_val_def)
    show ?thesis
    proof (cases "set_flat t")
      case FTop
      with dhs_ok_not_top[OF ok(1)] show ?thesis by simp
    next
      case FBot
      then have "Height_isBottom (getHeightSet t)" by (simp add: set_flat_def flat_eq_iff)
      with Some val FBot show ?thesis
        by (simp add: s_def copy_apply_def one_height_def)
    next
      case (FHeight n)
      note h = set_flat_height[OF ok(1) FHeight]
      have g: "getHeightSet t = Height_of n" using h by (cases t) (auto simp: getHeightSet_def)
      have new: "one_height (makeNewSet 0 0 (tf_target f) (Height_of n))"
        using dhs_ok_new[of "Height_of n"] h(4) by (simp add: one_height_def) (simp add: Height_of_def makeNewSet_def)
      show ?thesis
      proof (cases "(Absloc_isSP (tf_from f) \<or> Absloc_isFP (tf_from f)) \<and> \<not> keeps_frame (tf_target f)")
        case True
        then have "s = makeNewSet 0 0 (tf_target f) (Height_of n)"
          using Some g by (simp add: s_def copy_apply_def Let_def)
        with new val FHeight show ?thesis by simp
      next
        case False
        then have "s = t" using Some g by (auto simp: s_def copy_apply_def Let_def)
        with ok(2) h val show ?thesis
          by (cases t) (auto simp: one_height_def defs_resolved_def fresh_at_def)
      qed
    qed
  qed
  then show "set_flat s = height_at st (tf_from f)" "s = makeTopSet \<or> one_height s"
    "fresh_at (tf_target f) s"
    "s \<noteq> makeTopSet \<Longrightarrow> set_flat s \<noteq> FTop"
    using dhs_ok_not_top(1)[OF one_height_ok] by blast+
qed


lemmas tf_tests = tf_isAbs_def tf_isRetop_def tf_isTop_def tf_isBottom_def

definition topBottomed :: "bool \<Rightarrow> DefHeightSet \<Rightarrow> DefHeightSet" where
  "topBottomed b s = (if b \<and> \<not> Height_isTop (dh_height (hd s)) then makeBottomSet else s)"

lemma topBottomed_simps [simp]:
  "topBottomed b makeTopSet = makeTopSet" "topBottomed b makeBottomSet = makeBottomSet"
  by (simp_all add: topBottomed_def)

lemma topBottom_case:
  "s \<noteq> [] \<Longrightarrow> (if b then (case s of [] \<Rightarrow> None
     | dh # t \<Rightarrow> Some (if \<not> Height_isTop (dh_height dh) then makeBottomSet else s)) else Some s) =
   Some (topBottomed b s)"
  by (cases s) (simp_all add: topBottomed_def)

lemma tf_apply_eval:
  assumes "tf_ok f" "state_ok st"
  shows "tf_apply f st = Some
    (if tf_isBottom f then makeBottomSet
     else if tf_isSIB f then (if any_height (tf_fromRegs f) (height_at st) then makeBottomSet else makeTopSet)
     else if tf_isCopy f then
       topBottomed (tf_topBottom f)
         (if tf_isDelta f then addDeltaSet (tf_delta f) (copy_apply f st) else copy_apply f st)
     else makeTopSet)"
proof -
  have valid: "Absloc_isValid (tf_target f)" using assms(1) by (simp add: tf_ok_def)
  have ne: "copy_apply f st \<noteq> []"
    using copy_apply_spec(2)[OF assms(2), of f] dhs_ok_nonempty[OF one_height_ok] makeSet_simps(1) by metis
  have ne': "addDeltaSet d (copy_apply f st) \<noteq> []" for d
  proof (cases "copy_apply f st")
    case (Cons a s)
    have "foldl (\<lambda>t dh. dhs_insert (DefHeight_new (dh_def dh) (Height_add_long (dh_height dh) d)) t) t s \<noteq> []"
      if "t \<noteq> []" for t using that
      by (induction s arbitrary: t) (simp_all add: dhs_insert_def)
    with Cons show ?thesis by (simp add: addDeltaSet_def dhs_insert_def)
  qed (use ne in simp)
  consider "tf_isBottom f" | "\<not> tf_isBottom f" "tf_isSIB f" "\<not> tf_isAbs f" "\<not> tf_isCopy f" "\<not> tf_isRetop f"
    | "\<not> tf_isBottom f" "\<not> tf_isSIB f" "\<not> tf_isAbs f" "tf_isCopy f" "\<not> tf_isRetop f"
    | "\<not> tf_isBottom f" "\<not> tf_isSIB f" "\<not> tf_isCopy f" "tf_isAbs f"
    | "\<not> tf_isBottom f" "\<not> tf_isSIB f" "\<not> tf_isCopy f" "tf_isRetop f"
    using assms(1) by (auto simp: tf_ok_def tf_isAbs_def tf_isRetop_def)
  then show ?thesis
  proof cases
    case 2
    then show ?thesis using valid
      by (auto simp: tf_apply_def Let_def sib_apply_eq[OF assms(2)] topBottom_case)
  next
    case 3
    then show ?thesis using valid ne ne' by (auto simp: tf_apply_def Let_def topBottom_case)
  qed (use valid in \<open>auto simp: tf_apply_def Let_def topBottom_case\<close>)
qed

lemma topBottomed_spec:
  assumes "s = makeTopSet \<or> one_height s"
  shows "set_flat (topBottomed b s) = (if b \<and> set_flat s \<noteq> FTop then FBot else set_flat s)"
    "topBottomed b s = makeTopSet \<or> one_height (topBottomed b s)"
proof -
  have "set_flat (topBottomed b s) = (if b \<and> set_flat s \<noteq> FTop then FBot else set_flat s) \<and>
    (topBottomed b s = makeTopSet \<or> one_height (topBottomed b s))"
  proof (cases "s = makeTopSet")
    case False
    then have "one_height s" using assms by simp
    with dhs_ok_not_top[OF one_height_ok[OF this]] show ?thesis
      by (simp add: topBottomed_def) (simp add: one_height_def)
  qed simp
  then show "set_flat (topBottomed b s) = (if b \<and> set_flat s \<noteq> FTop then FBot else set_flat s)"
    "topBottomed b s = makeTopSet \<or> one_height (topBottomed b s)" by blast+
qed

lemma delta_spec:
  fixes d :: int
  assumes "s = makeTopSet \<or> one_height s" "flat_ok (set_flat s)"
  defines "t \<equiv> (if d \<noteq> 0 then addDeltaSet d s else s)"
  shows "set_flat t = flat_plus (set_flat s) d" "t = makeTopSet \<or> one_height t"
    "fresh_at l s \<Longrightarrow> fresh_at l t"
proof -
  have "set_flat t = flat_plus (set_flat s) d \<and> (t = makeTopSet \<or> one_height t) \<and> (fresh_at l s \<longrightarrow> fresh_at l t)"
  proof (cases "s = makeTopSet \<or> s = makeBottomSet")
    case True
    then show ?thesis by (auto simp: t_def one_height_def)
  next
    case False
    then have s: "dhs_ok s" "dhs_heights s" "length s = 1" using assms(1) by (auto simp: one_height_def dhs_ok_def)
    then obtain n where n: "set_flat s = FHeight n" by (simp add: dhs_heights_flat)
    note a = addDeltaSet_height[OF s(1) n, of d]
    show ?thesis
    proof (cases "d = 0")
      case True
      with s assms(2) show ?thesis by (simp add: t_def one_height_def)
    next
      case False
      with a n show ?thesis by (simp add: t_def one_height_def fresh_at_def)
    qed
  qed
  then show "set_flat t = flat_plus (set_flat s) d" "t = makeTopSet \<or> one_height t"
    "fresh_at l s \<Longrightarrow> fresh_at l t" by blast+
qed

lemma tf_apply_spec:
  assumes f: "tf_ok f" and st: "state_ok st"
  shows "\<exists>s. tf_apply f st = Some s \<and> set_flat s = tf_sem f (height_at st) \<and>
    (s = makeTopSet \<or> one_height s) \<and> fresh_at (tf_target f) s"
proof (cases "\<not> tf_isBottom f \<and> \<not> tf_isSIB f \<and> tf_isCopy f")
  case True
  let ?c = "copy_apply f st" and ?t = "if tf_delta f \<noteq> 0 then addDeltaSet (tf_delta f) (copy_apply f st) else copy_apply f st"
  note c = copy_apply_spec[OF st, of f]
  have fc: "fresh_at (tf_target f) ?c" by (rule c(3))
  have fo: "flat_ok (set_flat ?c)" using c(1) flat_ok_entry[OF st] by simp
  note d = delta_spec[OF c(2) fo, where d = "tf_delta f"]
  note t = topBottomed_spec[OF d(2), of "tf_topBottom f"]
  have "fresh_at (tf_target f) (topBottomed (tf_topBottom f) ?t)"
    using d(3)[OF fc] by (simp add: topBottomed_def)
  moreover have "tf_apply f st = Some (topBottomed (tf_topBottom f) ?t)"
    using tf_apply_eval[OF f st] True by (simp add: tf_isDelta_def)
  moreover have "set_flat (topBottomed (tf_topBottom f) ?t) = tf_sem f (height_at st)"
    using True unfolding t(1) d(1) c(1) by (simp add: tf_sem_def)
  ultimately show ?thesis using t(2) by blast
next
  case False
  then show ?thesis
    using tf_apply_eval[OF f st] by (auto simp: tf_sem_def one_height_def)
qed


text \<open>An entry of a state after a transfer function was applied to it.\<close>

definition entry_ok :: "DefHeightSet option \<Rightarrow> bool" where
  "entry_ok r \<longleftrightarrow> (\<forall>s. r = Some s \<longrightarrow> one_height s \<and> defs_resolved s)"

lemma apply_entry_spec:
  assumes f: "tf_ok f" and st: "state_ok ins" and b: "block \<noteq> 0"
    and ok: "\<And>d. def_origLoc d = tf_target f \<Longrightarrow> ok f d"
  shows "\<exists>r. apply_entry ok block off ins (l, f) out =
      Some (case r of None \<Rightarrow> sm_erase l out | Some s \<Rightarrow> sm_set l s out) \<and>
    entry_ok r \<and> entry_val r = tf_sem f (height_at ins)"
proof -
  obtain s where s: "tf_apply f ins = Some s" "set_flat s = tf_sem f (height_at ins)"
    "s = makeTopSet \<or> one_height s" "fresh_at (tf_target f) s"
    using tf_apply_spec[OF f st] by blast
  show ?thesis
  proof (cases "s = makeTopSet")
    case True
    with s have "apply_entry ok block off ins (l, f) out = Some (sm_erase l out)"
      by (simp add: apply_entry_def makeTopSet_def DefHeight_new_def Definition_default_def)
    with True s(2) show ?thesis
      by (intro exI[of _ None]) (simp add: entry_ok_def entry_val_def)
  next
    case False
    with s(3) have one: "one_height s" by simp
    then obtain dh where dh: "s = [dh]"
      by (auto simp: one_height_def makeBottomSet_def length_Suc_conv)
    have nt: "\<not> Height_isTop (dh_height dh)" using dhs_ok_not_top(2)[OF one_height_ok[OF one]] dh by simp
    show ?thesis
    proof (cases "def_type (dh_def dh) = DDEF \<and> def_block (dh_def dh) = 0")
      case fresh: True
      then have o: "def_origLoc (dh_def dh) = tf_target f" using s(4) dh by (simp add: fresh_at_def)
      let ?n = "makeNewSet block off (def_origLoc (dh_def dh)) (dh_height dh)"
      have "s \<noteq> makeBottomSet" using fresh dh by (auto simp: makeBottomSet_def DefHeight_new_def Definition_bottom_def)
      then have "dhs_heights s" using one by (simp add: one_height_def)
      then have "dhs_heights ?n" using dh by (intro dhs_ok_new) (simp_all add: dhs_heights_def)
      then have "entry_ok (Some ?n)" using b
        by (simp add: entry_ok_def one_height_def)
          (simp add: defs_resolved_def makeNewSet_def DefHeight_new_def Definition_new_def)
      moreover have "apply_entry ok block off ins (l, f) out = Some (sm_set l ?n out)"
        using s(1) dh fresh nt ok[OF o] by (simp add: apply_entry_def)
      ultimately show ?thesis using s(2) dh by (intro exI[of _ "Some ?n"]) (simp add: entry_val_def)
    next
      case False
      then have "defs_resolved s" using dh s(4) by (auto simp: defs_resolved_def fresh_at_def Let_def)
      moreover have "apply_entry ok block off ins (l, f) out = Some (sm_set l s out)"
        using s(1) dh False nt by (auto simp: apply_entry_def Let_def)
      ultimately show ?thesis using s(2) one by (intro exI[of _ "Some s"]) (simp add: entry_val_def entry_ok_def)
    qed
  qed
qed

lemma map_of_entry: "map_of (case r of None \<Rightarrow> sm_erase l out | Some s \<Rightarrow> sm_set l s out) = (map_of out)(l := r)"
  by (cases r) auto

lemma sm_ok_entry: "sm_ok out \<Longrightarrow> sm_ok (case r of None \<Rightarrow> sm_erase l out | Some s \<Rightarrow> sm_set l s out)"
  by (cases r) auto

text \<open>All entries of a set of transfer functions, applied in parallel to the same inputs.\<close>

definition ts_sem :: "TransferSet \<Rightarrow> (Absloc \<Rightarrow> Flat_Height) \<Rightarrow> Absloc \<Rightarrow> Flat_Height" where
  "ts_sem T H l = (case map_of T l of None \<Rightarrow> H l | Some f \<Rightarrow> tf_sem f H)"

definition ts_funcs_ok :: "TransferSet \<Rightarrow> bool" where
  "ts_funcs_ok T \<longleftrightarrow> sm_ok T \<and> (\<forall>(l, f)\<in>set T. tf_ok f \<and> tf_target f = l)"

lemma ts_funcs_okD: "ts_funcs_ok T \<Longrightarrow> map_of T l = Some f \<Longrightarrow> tf_ok f \<and> tf_target f = l"
  unfolding ts_funcs_ok_def using map_of_SomeD by fastforce

lemma apply_entries_spec:
  assumes st: "state_ok ins" and b: "block \<noteq> 0"
    and ok: "\<And>l f d. (l, f) \<in> set T \<Longrightarrow> def_origLoc d = tf_target f \<Longrightarrow> ok (l, f) f d"
    and T: "ts_funcs_ok T" and out: "sm_ok out"
  shows "\<exists>out'. sum_option_fold (\<lambda>e. apply_entry (ok e) block off ins e) T out = Some out' \<and> sm_ok out' \<and>
    (\<forall>l. (map_of T l = None \<longrightarrow> map_of out' l = map_of out l) \<and>
      (\<forall>f. map_of T l = Some f \<longrightarrow> entry_ok (map_of out' l) \<and>
         entry_val (map_of out' l) = tf_sem f (height_at ins)))"
  using ok T out
proof (induction T arbitrary: out)
  case (Cons e T)
  obtain l f where e: "e = (l, f)" by (cases e)
  have f: "tf_ok f" and T: "ts_funcs_ok T" and l: "map_of T l = None"
    using Cons.prems(2) sm_ok_notin[of e T] e by (auto simp: ts_funcs_ok_def)
  obtain r where r: "apply_entry (ok e) block off ins e out =
      Some (case r of None \<Rightarrow> sm_erase l out | Some s \<Rightarrow> sm_set l s out)"
    "entry_ok r" "entry_val r = tf_sem f (height_at ins)"
    using apply_entry_spec[OF f st b, of "ok e" off l out] Cons.prems(1)[of l f] e by auto
  obtain out' where out': "sum_option_fold (\<lambda>e. apply_entry (ok e) block off ins e) T
      (case r of None \<Rightarrow> sm_erase l out | Some s \<Rightarrow> sm_set l s out) = Some out'" "sm_ok out'"
    "\<forall>k. (map_of T k = None \<longrightarrow> map_of out' k = ((map_of out)(l := r)) k) \<and>
      (\<forall>f. map_of T k = Some f \<longrightarrow> entry_ok (map_of out' k) \<and>
         entry_val (map_of out' k) = tf_sem f (height_at ins))"
    using Cons.IH[OF Cons.prems(1) T sm_ok_entry[OF Cons.prems(3)], of l r] unfolding map_of_entry by auto
  have "(map_of (e # T) k = None \<longrightarrow> map_of out' k = map_of out k) \<and>
      (\<forall>f. map_of (e # T) k = Some f \<longrightarrow> entry_ok (map_of out' k) \<and>
         entry_val (map_of out' k) = tf_sem f (height_at ins))" for k
    using out'(3)[rule_format, of k] l r e by (cases "k = l") auto
  with out'(1,2) r(1) show ?case by (intro exI[of _ out']) simp
qed simp

lemma state_okI:
  assumes "sm_ok out" "\<And>l s. map_of out l = Some s \<Longrightarrow> dhs_ok s \<and> defs_resolved s"
  shows "state_ok out"
  unfolding state_ok_def using assms by (auto simp: sm_ok_Some_iff[OF assms(1), symmetric])

lemma entry_ok_state: "entry_ok (Some s) \<Longrightarrow> dhs_ok s \<and> defs_resolved s"
  by (simp add: entry_ok_def one_height_ok)

lemma updated_state:
  assumes st: "state_ok ins" and sm: "sm_ok out"
    and upd: "\<forall>l. (map_of T l = None \<longrightarrow> map_of out l = map_of ins l) \<and>
      (\<forall>f. map_of T l = Some f \<longrightarrow> entry_ok (map_of out l) \<and>
         entry_val (map_of out l) = tf_sem f (height_at ins))"
  shows "state_ok out" "height_at out = ts_sem T (height_at ins)"
proof (rule state_okI[OF sm])
  fix l s assume s: "map_of out l = Some s"
  then show "dhs_ok s \<and> defs_resolved s"
    using upd[rule_format, of l] state_okD[OF st, of l s] entry_ok_state by (cases "map_of T l") auto
next
  show "height_at out = ts_sem T (height_at ins)"
  proof
    fix l
    show "height_at out l = ts_sem T (height_at ins) l"
      using upd[rule_format, of l] by (cases "map_of T l") (auto simp: height_at_def ts_sem_def)
  qed
qed

lemma sum_option_fold_guard:
  "\<forall>e\<in>set T. P e \<Longrightarrow> sum_option_fold (\<lambda>e out. if \<not> P e then None else g e out) T out = sum_option_fold g T out"
  by (induction T arbitrary: out) (auto split: option.splits)

lemma SummaryFunc_apply_spec:
  assumes st: "state_ok ins" and b: "block \<noteq> 0" and T: "ts_funcs_ok T"
  shows "\<exists>out. SummaryFunc_apply block T ins = Some out \<and> sm_ok out \<and>
    (\<forall>l. (map_of T l = None \<longrightarrow> map_of out l = map_of ins l) \<and>
      (\<forall>f. map_of T l = Some f \<longrightarrow> entry_ok (map_of out l) \<and>
         entry_val (map_of out l) = tf_sem f (height_at ins)))"
proof -
  have "\<forall>e\<in>set T. Absloc_isValid (fst e)" using T by (auto simp: ts_funcs_ok_def tf_ok_def)
  note g = sum_option_fold_guard[OF this]
  have "sm_ok ins" using st by (simp add: state_ok_def)
  from apply_entries_spec[OF st b _ T this, of "\<lambda>_ _ _. True" 0] show ?thesis
    by (simp add: SummaryFunc_apply_def g)
qed


section \<open>Accumulation is composition\<close>

text \<open>Accumulated sums have no scaled terms: \<^verbatim>\<open>summaryAccumulate\<close> drops them.\<close>

definition unscaled :: "TransferFunc \<Rightarrow> bool" where
  "unscaled f \<longleftrightarrow> (\<forall>(l, s, b)\<in>set (tf_fromRegs f). s = 1)"

definition ts_ok :: "TransferSet \<Rightarrow> bool" where
  "ts_ok T \<longleftrightarrow> ts_funcs_ok T \<and> (\<forall>(l, f)\<in>set T. unscaled f)"

lemma ts_okD:
  assumes "ts_ok T" "map_of T l = Some f"
  shows "tf_ok f" "tf_target f = l" "unscaled f"
  using assms ts_funcs_okD[of T l f] map_of_SomeD[OF assms(2)] by (auto simp: ts_ok_def)

lemma ts_okI:
  assumes "sm_ok T" "\<And>l f. map_of T l = Some f \<Longrightarrow> tf_ok f \<and> tf_target f = l \<and> unscaled f"
  shows "ts_ok T"
  unfolding ts_ok_def ts_funcs_ok_def using assms by (auto simp: sm_ok_Some_iff[OF assms(1), symmetric])

lemma ts_ok_sm: "ts_ok T \<Longrightarrow> sm_ok T"
  by (simp add: ts_ok_def ts_funcs_ok_def)

lemma ts_sem_ok: "(\<And>l. flat_ok (H l)) \<Longrightarrow> flat_ok (ts_sem T H l)"
  by (cases "map_of T l") (simp_all add: ts_sem_def flat_ok_sem)

definition regs_unscaled :: "(Absloc, int \<times> bool) std_map \<Rightarrow> bool" where
  "regs_unscaled n \<longleftrightarrow> sm_ok n \<and> (\<forall>(l, s, b)\<in>set n. s = 1)"

lemma any_height_unscaled:
  "regs_unscaled n \<Longrightarrow> any_height n H \<longleftrightarrow> (\<exists>l. map_of n l \<noteq> None \<and> H l \<noteq> FTop)"
  unfolding regs_unscaled_def any_height_def using sm_ok_Some_iff[of n]
  by (fastforce simp del: not_None_eq simp: not_None_eq[symmetric])

lemma sm_insert_unscaled:
  assumes "regs_unscaled n"
  shows "regs_unscaled (sm_insert l (1, b) n)" "any_height (sm_insert l (1, b) n) H \<longleftrightarrow> any_height n H \<or> H l \<noteq> FTop"
proof -
  show u: "regs_unscaled (sm_insert l (1, b) n)"
    using assms set_sm_set[of l "(1, b)" n]
    by (auto simp: regs_unscaled_def sm_insert_def split: option.splits)
  show "any_height (sm_insert l (1, b) n) H \<longleftrightarrow> any_height n H \<or> H l \<noteq> FTop"
    unfolding any_height_unscaled[OF u] any_height_unscaled[OF assms]
    by (auto split: option.splits)
qed

lemma sm_insert_all_unscaled:
  assumes "regs_unscaled n" "\<forall>(l, s, b)\<in>set regs. s = 1"
  defines "m \<equiv> foldl (\<lambda>n (rl, rs, rtb). sm_insert rl (wrap64 (rs * 1), rtb) n) n regs"
  shows "regs_unscaled m \<and> (any_height m H \<longleftrightarrow> any_height n H \<or> any_height regs H)"
  using assms(1,2) unfolding m_def
proof (induction regs arbitrary: n)
  case (Cons e regs)
  obtain l b where e: "e = (l, 1, b)" using Cons.prems(2) by (cases e) auto
  have one: "wrap64 1 = 1" by (simp add: fits64_def LLONG_MIN_def LLONG_MAX_def)
  note i = sm_insert_unscaled[OF Cons.prems(1), of l b]
  have "regs_unscaled (foldl (\<lambda>n (rl, rs, rtb). sm_insert rl (wrap64 (rs * 1), rtb) n) (sm_insert l (1, b) n) regs) \<and>
    (any_height (foldl (\<lambda>n (rl, rs, rtb). sm_insert rl (wrap64 (rs * 1), rtb) n) (sm_insert l (1, b) n) regs) H
     \<longleftrightarrow> any_height (sm_insert l (1, b) n) H \<or> any_height regs H)"
    using Cons.IH[OF i(1)] Cons.prems(2) by simp
  then show ?case using i(2)[of H] one by (auto simp: e any_height_def)
qed (simp add: any_height_def)

lemma sib_term_spec:
  assumes T: "ts_ok T" and n: "regs_unscaled n"
    and nb: "\<And>g. s = 1 \<Longrightarrow> map_of T l = Some g \<Longrightarrow> \<not> tf_isBottom g"
  shows "\<exists>n' t'. sib_term T (l, s, b) (n, t) = Some (n', t') \<and> regs_unscaled n' \<and>
    (any_height n' H \<longleftrightarrow> any_height n H \<or> s = 1 \<and> ts_sem T H l \<noteq> FTop)"
proof (cases "s = 1")
  case s: True
  show ?thesis
  proof (cases "map_of T l")
    case None
    with s sm_insert_unscaled[OF n] show ?thesis by (simp add: sib_term_def ts_sem_def)
  next
    case (Some g)
    note g = ts_okD[OF T Some] and b = nb[OF s Some]
    have sem: "ts_sem T H l = tf_sem g H" using Some by (simp add: ts_sem_def)
    consider "tf_isSIB g" "\<not> tf_isCopy g" "\<not> tf_isTop g" | "tf_isCopy g" "\<not> tf_isSIB g" "\<not> tf_isTop g"
      | "\<not> tf_isSIB g" "\<not> tf_isCopy g" "tf_isAbs g \<or> tf_isRetop g"
      using g(1) b by (auto simp: tf_ok_def tf_isAbs_def tf_isRetop_def)
    then show ?thesis
    proof cases
      case 1
      have "\<forall>(l, s, b)\<in>set (tf_fromRegs g). s = 1" using g(3) by (simp add: unscaled_def)
      note m = sm_insert_all_unscaled[OF n this, of H]
      from 1 m Some s b show ?thesis
        by (simp add: sib_term_def sem tf_sem_def tf_isRetop_def Let_def)
    next
      case 2
      with sm_insert_unscaled[OF n] Some s b show ?thesis
        by (simp add: sib_term_def sem tf_sem_def tf_isRetop_def Let_def)
    next
      case 3
      have "\<not> (tf_isDelta g \<and> \<not> tf_isAbs g)" "tf_isTop g \<Longrightarrow> tf_isRetop g"
        using g(1) b 3 by (auto simp: tf_ok_def tf_isDelta_def tf_isAbs_def tf_isRetop_def)
      with 3 n Some s b show ?thesis by (auto simp: sib_term_def sem tf_sem_def Let_def)
    qed
  qed
qed (use n in \<open>auto simp: sib_term_def\<close>)

lemma sib_terms_spec:
  assumes T: "ts_ok T"
  shows "regs_unscaled n \<Longrightarrow> \<not> sib_anyBottomed T regs \<Longrightarrow>
    \<exists>n' t'. sib_terms T regs (n, t) = Some (n', t') \<and> regs_unscaled n' \<and>
      (any_height n' H \<longleftrightarrow> any_height n H \<or> any_height regs (ts_sem T H))"
proof (induction regs arbitrary: n t)
  case (Cons e regs)
  obtain l s b where e: "e = (l, s, b)" by (cases e)
  have nb: "\<not> tf_isBottom g" if "s = 1" "map_of T l = Some g" for g
    using Cons.prems(2) that e by (simp add: sib_anyBottomed_def)
  have rest: "\<not> sib_anyBottomed T regs" using Cons.prems(2) by (simp add: sib_anyBottomed_def)
  obtain n1 t1 where 1: "sib_term T (l, s, b) (n, t) = Some (n1, t1)" "regs_unscaled n1"
    "any_height n1 H \<longleftrightarrow> any_height n H \<or> s = 1 \<and> ts_sem T H l \<noteq> FTop"
    using sib_term_spec[OF T Cons.prems(1) nb, where H = H and b = b and t = t] by blast
  obtain n2 t2 where 2: "sib_terms T regs (n1, t1) = Some (n2, t2)" "regs_unscaled n2"
    "any_height n2 H \<longleftrightarrow> any_height n1 H \<or> any_height regs (ts_sem T H)"
    using Cons.IH[OF 1(2) rest] by blast
  have "any_height (e # regs) (ts_sem T H) \<longleftrightarrow> s = 1 \<and> ts_sem T H l \<noteq> FTop \<or> any_height regs (ts_sem T H)"
    by (simp add: any_height_def e)
  moreover have "sib_terms T (e # regs) (n, t) = Some (n2, t2)" using 1(1) 2(1) by (simp add: e)
  ultimately show ?case using 1(3) 2(2,3) by blast
qed (simp add: any_height_def)

lemma made_funcs:
  assumes "Absloc_isValid l"
  shows "tf_ok (bottomFunc l)" "tf_ok (retopFunc l)" "tf_ok (absFunc l a i)"
    "unscaled (bottomFunc l)" "unscaled (retopFunc l)" "unscaled (absFunc l a i)"
    "tf_target (bottomFunc l) = l" "tf_target (retopFunc l) = l" "tf_target (absFunc l a i) = l"
    "tf_sem (bottomFunc l) H = FBot" "tf_sem (retopFunc l) H = FTop" "tf_sem (absFunc l a i) H = FTop"
  using assms
  by (simp_all add: tf_ok_def unscaled_def tf_sem_def bottomFunc_def retopFunc_def absFunc_def
      TransferFunc_new_def tf_isBottom_def tf_isTop_def tf_isCopy_def tf_isSIB_def Absloc_isValid_def)


lemma any_height_flags: "any_height (map (\<lambda>(l, s, _). (l, s, True)) n) H \<longleftrightarrow> any_height n H"
  by (force simp: any_height_def)

lemma sm_ok_flags: "sm_ok (map (\<lambda>(l, s, _). (l, s, True)) n) \<longleftrightarrow> sm_ok n"
  by (induction n) auto

lemma sibFunc_props:
  fixes tb :: bool
  assumes "regs_unscaled n" "Absloc_isValid l"
  defines "g \<equiv> (sibFunc n 0 l)\<lparr>tf_topBottom := tb\<rparr>"
  shows "tf_ok g" "unscaled g" "tf_target g = l" "tf_sem g H = (if any_height n H then FBot else FTop)"
proof -
  show "tf_ok g" "unscaled g" "tf_target g = l"
    using assms(1,2) by (simp_all add: g_def tf_ok_def unscaled_def regs_unscaled_def sibFunc_def
        tf_isBottom_def tf_isTop_def tf_isCopy_def Absloc_isValid_def)
  show "tf_sem g H = (if any_height n H then FBot else FTop)"
    by (auto simp: tf_sem_def g_def sibFunc_def tf_isBottom_def tf_isSIB_def tf_isCopy_def
        Absloc_isValid_def any_height_def)
qed

lemma accumulate_SIB_spec:
  assumes T: "ts_ok T" and f: "tf_ok f" "tf_isSIB f"
  shows "\<exists>g. accumulate_SIB f T = Some g \<and> tf_ok g \<and> unscaled g \<and> tf_target g = tf_target f \<and>
    tf_sem g H = tf_sem f (ts_sem T H)"
proof -
  have v: "Absloc_isValid (tf_target f)" using f(1) by (simp add: tf_ok_def)
  have sem: "tf_sem f H' = (if any_height (tf_fromRegs f) H' then FBot else FTop)" for H'
    using f by (simp add: tf_sem_def tf_ok_def)
  note made = made_funcs[OF v]
  have abs_top: "tf_sem g H = FTop" if "tf_isAbs g \<or> tf_isRetop g" "tf_ok g" for g
    using that by (auto simp: tf_sem_def tf_isAbs_def tf_isRetop_def tf_ok_def tf_isTop_def tf_isBottom_def)
  show ?thesis
  proof (cases "sib_anyBottomed T (tf_fromRegs f)")
    case True
    then obtain l b g where "(l, 1, b) \<in> set (tf_fromRegs f)" "map_of T l = Some g" "tf_isBottom g"
      by (auto simp: sib_anyBottomed_def list_ex_iff split: option.splits)
    then have "any_height (tf_fromRegs f) (ts_sem T H)"
      unfolding any_height_def by (intro bexI) (auto simp: ts_sem_def tf_sem_def)
    with True made show ?thesis by (simp add: accumulate_SIB_def sem)
  next
    case nb: False
    show ?thesis
    proof (cases "sib_allAbs T (tf_fromRegs f) \<or> sib_allToppable T (tf_fromRegs f)")
      case True
      have "ts_sem T H l = FTop" if m: "(l, 1, b) \<in> set (tf_fromRegs f)" for l b
      proof -
        obtain g where g: "map_of T l = Some g" "tf_isAbs g \<or> tf_isRetop g"
          using True m by (fastforce simp: sib_allAbs_def sib_allToppable_def list_all_iff split: option.splits)
        with abs_top[OF g(2) ts_okD(1)[OF T g(1)]] show ?thesis by (simp add: ts_sem_def)
      qed
      then have "\<not> any_height (tf_fromRegs f) (ts_sem T H)" by (auto simp: any_height_def)
      with True nb made show ?thesis by (auto simp: accumulate_SIB_def sem)
    next
      case False
      have "regs_unscaled []" "\<not> any_height [] H" by (simp_all add: regs_unscaled_def any_height_def)
      then obtain n t where n: "sib_terms T (tf_fromRegs f) ([], False) = Some (n, t)" "regs_unscaled n"
        "any_height n H \<longleftrightarrow> any_height (tf_fromRegs f) (ts_sem T H)"
        using sib_terms_spec[OF T _ nb, of "[]" False H] by blast
      let ?n = "if t then map (\<lambda>(l, s, _). (l, s, True)) n else n"
      have u: "regs_unscaled ?n" using n(2) by (auto simp: regs_unscaled_def sm_ok_flags)
      have "any_height ?n H \<longleftrightarrow> any_height (tf_fromRegs f) (ts_sem T H)"
        using n(3) by (simp add: any_height_flags)
      with False nb n(1) sibFunc_props[OF u v] show ?thesis by (simp add: accumulate_SIB_def sem)
    qed
  qed
qed

lemma retarget_props:
  assumes "tf_ok g" "Absloc_isValid (tf_target f)" "tf_isCopy g \<or> tf_isSIB g" "unscaled g"
  shows "tf_ok (retarget f g)" "unscaled (retarget f g)" "tf_target (retarget f g) = tf_target f"
  using assms by (auto simp: retarget_def Let_def tf_ok_def unscaled_def tf_isBottom_def tf_isTop_def
      tf_isCopy_def tf_isSIB_def)

lemma retarget_sem:
  assumes f: "tf_ok f" "tf_isCopy f" and g: "tf_ok g" "tf_isCopy g \<or> tf_isSIB g"
    and ok: "\<And>l. flat_ok (H l)"
  shows "tf_sem (retarget f g) H =
    (if tf_sem g H = FTop then FTop else if tf_topBottom f then FBot else flat_plus (tf_sem g H) (tf_delta f))"
proof -
  have t: "tf_isBottom (retarget f g) = tf_isBottom g" "tf_isSIB (retarget f g) = tf_isSIB g"
    "tf_isCopy (retarget f g) = tf_isCopy g" "tf_fromRegs (retarget f g) = tf_fromRegs g"
    "tf_from (retarget f g) = tf_from g" "tf_topBottom (retarget f g) \<longleftrightarrow> tf_topBottom f \<or> tf_topBottom g"
    "\<not> tf_topBottom f \<Longrightarrow> \<not> tf_topBottom g \<Longrightarrow>
      tf_delta (retarget f g) = (if tf_delta f \<noteq> 0 then wrap64 (tf_delta g + tf_delta f) else tf_delta g)"
    by (simp_all add: retarget_def Let_def tf_isBottom_def tf_isSIB_def tf_isCopy_def tf_isDelta_def)
  have nb: "\<not> tf_isBottom g" using g by (auto simp: tf_ok_def)
  show ?thesis
  proof (cases "tf_isSIB g")
    case True
    with t nb show ?thesis by (simp add: tf_sem_def)
  next
    case False
    with g have c: "tf_isCopy g" by simp
    show ?thesis
    proof (cases "tf_topBottom f \<or> tf_topBottom g")
      case True
      with t nb False c show ?thesis by (auto simp: tf_sem_def)
    next
      case nt: False
      with t nb False c ok show ?thesis by (cases "tf_delta f = 0") (simp_all add: tf_sem_def)
    qed
  qed
qed

lemma copy_sem:
  assumes "tf_ok f" "tf_isCopy f"
  shows "tf_sem f H = (if H (tf_from f) = FTop then FTop else if tf_topBottom f then FBot
    else flat_plus (H (tf_from f)) (tf_delta f))"
  using assms by (auto simp: tf_sem_def tf_ok_def)

lemma accumulate_copy_spec:
  assumes T: "ts_ok T" and f: "tf_ok f" "tf_isCopy f" and orig: "map_of T (tf_from f) = Some g"
    and ok: "\<And>l. flat_ok (H l)"
  shows "\<exists>r. accumulate_copy f g i = Some r \<and> tf_ok r \<and> unscaled r \<and> tf_target r = tf_target f \<and>
    tf_sem r H = tf_sem f (ts_sem T H)"
proof -
  have v: "Absloc_isValid (tf_target f)" using f(1) by (simp add: tf_ok_def)
  note g = ts_okD[OF T orig] and made = made_funcs[OF v]
  have sem: "tf_sem f (ts_sem T H) = (if tf_sem g H = FTop then FTop else if tf_topBottom f then FBot
      else flat_plus (tf_sem g H) (tf_delta f))"
    using copy_sem[OF f, of "ts_sem T H"] orig by (simp add: ts_sem_def)
  consider "tf_isAbs g" | "\<not> tf_isAbs g" "tf_isCopy g \<or> tf_isSIB g"
    | "\<not> tf_isAbs g" "\<not> tf_isCopy g" "\<not> tf_isSIB g" "tf_isBottom g"
    | "\<not> tf_isAbs g" "\<not> tf_isCopy g" "\<not> tf_isSIB g" "\<not> tf_isBottom g" "tf_isRetop g"
    using g(1) by (auto simp: tf_ok_def tf_isAbs_def tf_isRetop_def)
  then show ?thesis
  proof cases
    case 1
    then have "tf_sem g H = FTop" by (auto simp: tf_sem_def tf_isAbs_def)
    then have top: "tf_sem f (ts_sem T H) = FTop" by (simp add: sem)
    obtain r where r: "accumulate_copy f g i = Some r" "tf_type r = tf_type g" "tf_from r = tf_from g"
      "tf_fromRegs r = tf_fromRegs g" "tf_target r = tf_target f"
      using 1 by (auto simp: accumulate_copy_def Let_def)
    with 1 v g(3) have "tf_ok r" "unscaled r" "tf_sem r H = FTop"
      by (auto simp: tf_sem_def tf_ok_def unscaled_def tf_isAbs_def tf_isBottom_def tf_isTop_def
          tf_isCopy_def tf_isSIB_def)
    with r(1,5) top show ?thesis by simp
  next
    case 2
    then have "accumulate_copy f g i = Some (retarget f g)" by (auto simp: accumulate_copy_def)
    with retarget_props[OF g(1) v 2(2) g(3)] retarget_sem[OF f g(1) 2(2) ok] show ?thesis by (simp add: sem)
  next
    case 3
    then have "tf_sem g H = FBot" by (simp add: tf_sem_def)
    with 3 made show ?thesis by (auto simp: accumulate_copy_def sem)
  next
    case 4
    then have "tf_sem g H = FTop" by (simp add: tf_sem_def)
    with 4 made show ?thesis by (simp add: accumulate_copy_def sem)
  qed
qed

lemma summaryAccumulate_spec:
  assumes T: "ts_ok T" and f: "tf_ok f" and ok: "\<And>l. flat_ok (H l)"
  shows "\<exists>g. summaryAccumulate f T = Some g \<and> tf_ok g \<and> unscaled g \<and> tf_target g = tf_target f \<and>
    tf_sem g H = tf_sem f (ts_sem T H)"
proof -
  have v: "Absloc_isValid (tf_target f)" using f by (simp add: tf_ok_def)
  note made = made_funcs[OF v]
  define inp where "inp = (case map_of T (tf_target f) of Some g \<Rightarrow> g | None \<Rightarrow> TransferFunc_default)"
  have inp: "\<not> (Absloc_isValid (tf_target inp) \<and> tf_target inp \<noteq> tf_target f)"
    using ts_okD(2)[OF T, of "tf_target f"]
    by (cases "map_of T (tf_target f)") (auto simp: inp_def TransferFunc_default_def Absloc_isValid_def)
  consider "tf_isBottom f" | "\<not> tf_isBottom f" "tf_isAbs f" | "\<not> tf_isBottom f" "\<not> tf_isAbs f" "tf_isSIB f"
    | "\<not> tf_isBottom f" "\<not> tf_isAbs f" "\<not> tf_isSIB f" "tf_isCopy f"
    | "\<not> tf_isBottom f" "\<not> tf_isAbs f" "\<not> tf_isSIB f" "\<not> tf_isCopy f" "tf_isRetop f"
    using f by (auto simp: tf_ok_def tf_isAbs_def tf_isRetop_def)
  then show ?thesis
  proof cases
    case 1
    then have "tf_sem f (ts_sem T H) = FBot" by (simp add: tf_sem_def)
    with 1 inp v made show ?thesis by (auto simp: summaryAccumulate_def inp_def[symmetric] Let_def)
  next
    case 2
    then have "tf_sem f (ts_sem T H) = FTop" by (auto simp: tf_sem_def tf_isAbs_def)
    with 2 inp v made show ?thesis by (auto simp: summaryAccumulate_def inp_def[symmetric] Let_def)
  next
    case 3
    with accumulate_SIB_spec[OF T f 3(3), of H] inp v show ?thesis
      by (auto simp: summaryAccumulate_def inp_def[symmetric] Let_def)
  next
    case 4
    show ?thesis
    proof (cases "map_of T (tf_from f)")
      case None
      let ?g = "if tf_topBottom f then f\<lparr>tf_topBottom := True, tf_delta := 0\<rparr> else f"
      have "summaryAccumulate f T = Some ?g"
        using 4 None inp v by (auto simp: summaryAccumulate_def inp_def[symmetric] Let_def)
      moreover have "tf_ok ?g" "unscaled ?g" "tf_target ?g = tf_target f"
        using f 4 by (auto simp: tf_ok_def unscaled_def tf_isBottom_def tf_isTop_def tf_isCopy_def tf_isSIB_def)
      moreover have "tf_sem ?g H = tf_sem f (ts_sem T H)"
        using 4 None by (auto simp: tf_sem_def ts_sem_def tf_isBottom_def tf_isCopy_def tf_isSIB_def)
      ultimately show ?thesis by blast
    next
      case (Some g)
      with accumulate_copy_spec[OF T f 4(4) Some ok] 4 inp v show ?thesis
        by (auto simp: summaryAccumulate_def inp_def[symmetric] Let_def)
    qed
  next
    case 5
    then have "tf_delta f = 0" "unscaled f" using f by (auto simp: tf_ok_def tf_isRetop_def unscaled_def tf_isSIB_def)
    moreover have "tf_sem f H' = FTop" for H' using 5 by (simp add: tf_sem_def)
    ultimately show ?thesis using 5 inp v f
      by (auto simp: summaryAccumulate_def inp_def[symmetric] Let_def accumulate_rest_def tf_isDelta_def)
  qed
qed


section \<open>Summaries and replays agree\<close>

text \<open>The effect of one instruction on the heights: its functions in order, then the call summary.\<close>

definition seq_sem :: "TransferFunc list \<Rightarrow> (Absloc \<Rightarrow> Flat_Height) \<Rightarrow> Absloc \<Rightarrow> Flat_Height" where
  "seq_sem fs H = foldl (\<lambda>H f. H(tf_target f := tf_sem f H)) H fs"

definition insn_sem :: "InsnEffect \<Rightarrow> (Absloc \<Rightarrow> Flat_Height) \<Rightarrow> Absloc \<Rightarrow> Flat_Height" where
  "insn_sem i H = ts_sem (ie_summary i) (seq_sem (ie_funcs i) H)"

definition insn_ok :: "InsnEffect \<Rightarrow> bool" where
  "insn_ok i \<longleftrightarrow> (\<forall>f\<in>set (ie_funcs i). tf_ok f) \<and> ts_funcs_ok (ie_summary i)"

lemma ts_sem_Nil [simp]: "ts_sem [] H = H"
  by (simp add: ts_sem_def fun_eq_iff)

lemma ts_ok_validate: "ts_ok T \<Longrightarrow> SummaryFunc_validate T"
  by (auto simp: ts_ok_def ts_funcs_ok_def SummaryFunc_validate_def list_all_iff tf_ok_def tf_isAbs_def)

lemma ts_ok_set:
  assumes "ts_ok T" "tf_ok g" "unscaled g" "tf_target g = l"
  shows "ts_ok (sm_set l g T)"
proof (rule ts_okI)
  show "sm_ok (sm_set l g T)" using ts_ok_sm[OF assms(1)] by simp
  show "tf_ok f \<and> tf_target f = k \<and> unscaled f" if "map_of (sm_set l g T) k = Some f" for k f
    using that assms ts_okD[OF assms(1), of k f] by (auto split: if_splits)
qed

lemma tf_accumulate_spec:
  assumes T: "ts_ok T" and f: "tf_ok f"
  shows "\<exists>T'. tf_accumulate f T = Some T' \<and> ts_ok T' \<and>
    (\<forall>H. (\<forall>l. flat_ok (H l)) \<longrightarrow> ts_sem T' H = (ts_sem T H)(tf_target f := tf_sem f (ts_sem T H)))"
proof -
  have "\<forall>l. flat_ok ((\<lambda>_. FTop) l)" by simp
  then obtain g where g: "summaryAccumulate f T = Some g" "tf_ok g" "unscaled g" "tf_target g = tf_target f"
    using summaryAccumulate_spec[OF T f, of "\<lambda>_. FTop"] by auto
  have "ts_sem (sm_set (tf_target f) g T) H = (ts_sem T H)(tf_target f := tf_sem f (ts_sem T H))"
    if "\<forall>l. flat_ok (H l)" for H
    using summaryAccumulate_spec[OF T f, of H] that g(1) by (auto simp: ts_sem_def fun_eq_iff)
  with g ts_ok_set[OF T g(2-4)] show ?thesis by (simp add: tf_accumulate_def)
qed

lemma tf_accumulates_spec:
  "ts_ok T \<Longrightarrow> \<forall>f\<in>set fs. tf_ok f \<Longrightarrow>
   \<exists>T'. sum_option_fold tf_accumulate fs T = Some T' \<and> ts_ok T' \<and>
    (\<forall>H. (\<forall>l. flat_ok (H l)) \<longrightarrow> ts_sem T' H = seq_sem fs (ts_sem T H))"
proof (induction fs arbitrary: T)
  case (Cons f fs)
  obtain T1 where 1: "tf_accumulate f T = Some T1" "ts_ok T1"
    "\<forall>H. (\<forall>l. flat_ok (H l)) \<longrightarrow> ts_sem T1 H = (ts_sem T H)(tf_target f := tf_sem f (ts_sem T H))"
    using tf_accumulate_spec[OF Cons.prems(1), of f] Cons.prems(2) by auto
  obtain T2 where 2: "sum_option_fold tf_accumulate fs T1 = Some T2" "ts_ok T2"
    "\<forall>H. (\<forall>l. flat_ok (H l)) \<longrightarrow> ts_sem T2 H = seq_sem fs (ts_sem T1 H)"
    using Cons.IH[OF 1(2)] Cons.prems(2) by auto
  from 1 2 show ?case by (intro exI[of _ T2]) (simp add: seq_sem_def)
qed (simp add: seq_sem_def)

lemma SummaryFunc_add_spec:
  assumes "ts_ok T" "\<forall>f\<in>set fs. tf_ok f"
  shows "\<exists>T'. SummaryFunc_add fs T = Some T' \<and> ts_ok T' \<and>
    (\<forall>H. (\<forall>l. flat_ok (H l)) \<longrightarrow> ts_sem T' H = seq_sem fs (ts_sem T H))"
  using tf_accumulates_spec[OF assms] ts_ok_validate by (auto simp: SummaryFunc_add_def)

lemma addSummary_fold:
  assumes T: "ts_ok T"
  shows "ts_ok R \<Longrightarrow> ts_funcs_ok S \<Longrightarrow>
    \<exists>R'. sum_option_fold (\<lambda>(loc, f) t. map_option (\<lambda>g. sm_set loc g t) (summaryAccumulate f T)) S R = Some R' \<and>
      ts_ok R' \<and> (\<forall>l. (map_of S l = None \<longrightarrow> map_of R' l = map_of R l) \<and>
        (\<forall>f. map_of S l = Some f \<longrightarrow> (\<exists>g. summaryAccumulate f T = Some g \<and> map_of R' l = Some g)))"
proof (induction S arbitrary: R)
  case (Cons e S)
  obtain l f where e: "e = (l, f)" by (cases e)
  have f: "tf_ok f" "tf_target f = l" and S: "ts_funcs_ok S" and l: "map_of S l = None"
    using Cons.prems(2) sm_ok_notin[of e S] e by (auto simp: ts_funcs_ok_def)
  obtain g where g: "summaryAccumulate f T = Some g" "tf_ok g" "unscaled g" "tf_target g = l"
    using summaryAccumulate_spec[OF T f(1), of "\<lambda>_. FTop"] f(2) by auto
  obtain R' where R': "sum_option_fold (\<lambda>(loc, f) t. map_option (\<lambda>g. sm_set loc g t) (summaryAccumulate f T)) S (sm_set l g R) = Some R'"
    "ts_ok R'" "\<forall>k. (map_of S k = None \<longrightarrow> map_of R' k = map_of (sm_set l g R) k) \<and>
        (\<forall>f. map_of S k = Some f \<longrightarrow> (\<exists>g. summaryAccumulate f T = Some g \<and> map_of R' k = Some g))"
    using Cons.IH[OF ts_ok_set[OF Cons.prems(1) g(2-4)] S] by blast
  have "(map_of (e # S) k = None \<longrightarrow> map_of R' k = map_of R k) \<and>
      (\<forall>f. map_of (e # S) k = Some f \<longrightarrow> (\<exists>g. summaryAccumulate f T = Some g \<and> map_of R' k = Some g))" for k
    using R'(3)[rule_format, of k] l g(1) e by (cases "k = l") auto
  with R'(1,2) g(1) e show ?case by (intro exI[of _ R']) simp
qed simp

lemma SummaryFunc_addSummary_spec:
  assumes T: "ts_ok T" and S: "ts_funcs_ok S"
  shows "\<exists>T'. SummaryFunc_addSummary S T = Some T' \<and> ts_ok T' \<and>
    (\<forall>H. (\<forall>l. flat_ok (H l)) \<longrightarrow> ts_sem T' H = ts_sem S (ts_sem T H))"
proof -
  obtain R where R: "sum_option_fold (\<lambda>(loc, f) t. map_option (\<lambda>g. sm_set loc g t) (summaryAccumulate f T)) S T = Some R"
    "ts_ok R" "\<forall>l. (map_of S l = None \<longrightarrow> map_of R l = map_of T l) \<and>
        (\<forall>f. map_of S l = Some f \<longrightarrow> (\<exists>g. summaryAccumulate f T = Some g \<and> map_of R l = Some g))"
    using addSummary_fold[OF T T S] by blast
  have "ts_sem R H l = ts_sem S (ts_sem T H) l" if ok: "\<forall>l. flat_ok (H l)" for H l
  proof (cases "map_of S l")
    case None
    with R(3) show ?thesis by (simp add: ts_sem_def)
  next
    case (Some f)
    with R(3) obtain g where g: "summaryAccumulate f T = Some g" "map_of R l = Some g" by blast
    have "tf_ok f" using ts_funcs_okD[OF S Some] by simp
    with summaryAccumulate_spec[OF T, of f H] ok g Some show ?thesis by (auto simp: ts_sem_def)
  qed
  then have "ts_sem R H = ts_sem S (ts_sem T H)" if "\<forall>l. flat_ok (H l)" for H using that by blast
  with R(1,2) ts_ok_validate[OF R(2)] show ?thesis by (simp add: SummaryFunc_addSummary_def)
qed

lemma flat_ok_seq: "(\<And>l. flat_ok (H l)) \<Longrightarrow> flat_ok (seq_sem fs H l)"
  by (induction fs arbitrary: H) (simp_all add: seq_sem_def flat_ok_sem)

definition summarize_step :: "InsnEffect \<Rightarrow> TransferSet \<Rightarrow> TransferSet option" where
  "summarize_step i t = (case SummaryFunc_add (ie_funcs i) t of
        None \<Rightarrow> None
      | Some t' \<Rightarrow> if ie_summary i = [] then Some t' else SummaryFunc_addSummary (ie_summary i) t')"

lemma summarize_step_spec:
  assumes "ts_ok T" "insn_ok i"
  shows "\<exists>T'. summarize_step i T = Some T' \<and> ts_ok T' \<and>
    (\<forall>H. (\<forall>l. flat_ok (H l)) \<longrightarrow> ts_sem T' H = insn_sem i (ts_sem T H))"
proof -
  have i: "\<forall>f\<in>set (ie_funcs i). tf_ok f" "ts_funcs_ok (ie_summary i)" using assms(2) by (simp_all add: insn_ok_def)
  obtain T1 where 1: "SummaryFunc_add (ie_funcs i) T = Some T1" "ts_ok T1"
    "\<forall>H. (\<forall>l. flat_ok (H l)) \<longrightarrow> ts_sem T1 H = seq_sem (ie_funcs i) (ts_sem T H)"
    using SummaryFunc_add_spec[OF assms(1) i(1)] by blast
  show ?thesis
  proof (cases "ie_summary i = []")
    case True
    with 1 show ?thesis by (simp add: summarize_step_def insn_sem_def)
  next
    case False
    with 1 SummaryFunc_addSummary_spec[OF 1(2) i(2)] show ?thesis
      by (auto simp: summarize_step_def insn_sem_def)
  qed
qed

lemma summarize_steps_spec:
  "ts_ok T \<Longrightarrow> \<forall>i\<in>set is. insn_ok i \<Longrightarrow>
   \<exists>T'. sum_option_fold summarize_step is T = Some T' \<and> ts_ok T' \<and>
    (\<forall>H. (\<forall>l. flat_ok (H l)) \<longrightarrow> ts_sem T' H = foldl (\<lambda>H i. insn_sem i H) (ts_sem T H) is)"
proof (induction "is" arbitrary: T)
  case (Cons i "is")
  obtain T1 where 1: "summarize_step i T = Some T1" "ts_ok T1"
    "\<forall>H. (\<forall>l. flat_ok (H l)) \<longrightarrow> ts_sem T1 H = insn_sem i (ts_sem T H)"
    using summarize_step_spec[OF Cons.prems(1), of i] Cons.prems(2) by auto
  obtain T2 where 2: "sum_option_fold summarize_step is T1 = Some T2" "ts_ok T2"
    "\<forall>H. (\<forall>l. flat_ok (H l)) \<longrightarrow> ts_sem T2 H = foldl (\<lambda>H i. insn_sem i H) (ts_sem T1 H) is"
    using Cons.IH[OF 1(2)] Cons.prems(2) by auto
  from 1 2 show ?case by (intro exI[of _ T2]) simp
qed simp

lemma ts_ok_Nil [simp]: "ts_ok []" "ts_funcs_ok []"
  by (simp_all add: ts_ok_def ts_funcs_ok_def)

lemma summarizeBlock_spec:
  assumes "\<forall>i\<in>set is. insn_ok i"
  shows "\<exists>T. summarizeBlock is = Some T \<and> ts_ok T \<and>
    (\<forall>H. (\<forall>l. flat_ok (H l)) \<longrightarrow> ts_sem T H = foldl (\<lambda>H i. insn_sem i H) H is)"
  using summarize_steps_spec[OF ts_ok_Nil(1) assms] unfolding ts_sem_Nil
  by (simp add: summarizeBlock_def summarize_step_def[abs_def])


text \<open>The locations a block writes.\<close>

definition insn_targets :: "InsnEffect \<Rightarrow> Absloc set" where
  "insn_targets i = tf_target ` set (ie_funcs i) \<union> dom (map_of (ie_summary i))"

lemma tf_accumulates_dom:
  "sum_option_fold tf_accumulate fs T = Some T' \<Longrightarrow> dom (map_of T') = dom (map_of T) \<union> tf_target ` set fs"
proof (induction fs arbitrary: T)
  case (Cons f fs)
  then obtain T1 where 1: "tf_accumulate f T = Some T1" "sum_option_fold tf_accumulate fs T1 = Some T'"
    by (auto split: option.splits)
  then have "dom (map_of T1) = insert (tf_target f) (dom (map_of T))" by (auto simp: tf_accumulate_def)
  with Cons.IH[OF 1(2)] show ?case by auto
qed simp

lemma addSummary_dom:
  "sum_option_fold (\<lambda>(loc, f) t. map_option (\<lambda>g. sm_set loc g t) (summaryAccumulate f T)) S R = Some R' \<Longrightarrow>
   dom (map_of R') = dom (map_of R) \<union> dom (map_of S)"
proof (induction S arbitrary: R)
  case (Cons e S)
  obtain l f where e: "e = (l, f)" by (cases e)
  with Cons.prems obtain g where "summaryAccumulate f T = Some g"
    "sum_option_fold (\<lambda>(loc, f) t. map_option (\<lambda>g. sm_set loc g t) (summaryAccumulate f T)) S (sm_set l g R) = Some R'"
    by (auto split: option.splits)
  from Cons.IH[OF this(2)] have "dom (map_of R') = insert l (dom (map_of R)) \<union> dom (map_of S)"
    by (simp only: map_of_sm_set dom_fun_upd option.simps if_False)
  then show ?case unfolding dom_map_of_conv_image_fst[of "e # S"] dom_map_of_conv_image_fst[of S] by (simp add: e)
qed simp

lemma summarize_step_dom:
  assumes "summarize_step i T = Some T'"
  shows "dom (map_of T') = dom (map_of T) \<union> insn_targets i"
proof -
  obtain T1 where 1: "sum_option_fold tf_accumulate (ie_funcs i) T = Some T1"
    "T' = T1 \<and> ie_summary i = [] \<or> SummaryFunc_addSummary (ie_summary i) T1 = Some T'"
    using assms by (auto simp: summarize_step_def SummaryFunc_add_def split: option.splits if_splits)
  from 1(2) have "dom (map_of T') = dom (map_of T1) \<union> dom (map_of (ie_summary i))"
  proof
    assume "SummaryFunc_addSummary (ie_summary i) T1 = Some T'"
    then show ?thesis
      using addSummary_dom[of T1 "ie_summary i" T1]
      by (auto simp: SummaryFunc_addSummary_def split: option.splits if_splits)
  qed simp
  with tf_accumulates_dom[OF 1(1)] show ?thesis by (simp add: insn_targets_def Un_assoc)
qed

lemma summarize_steps_dom:
  "sum_option_fold summarize_step is T = Some T' \<Longrightarrow>
   dom (map_of T') = dom (map_of T) \<union> (\<Union>i\<in>set is. insn_targets i)"
proof (induction "is" arbitrary: T)
  case (Cons i "is")
  then obtain T1 where 1: "summarize_step i T = Some T1" "sum_option_fold summarize_step is T1 = Some T'"
    by (auto split: option.splits)
  with Cons.IH[OF 1(2)] summarize_step_dom[OF 1(1)] show ?case by auto
qed simp

text \<open>A state that replaying has changed at the locations of \<open>L\<close> only.\<close>

definition replayed :: "Absloc set \<Rightarrow> AbslocState \<Rightarrow> AbslocState \<Rightarrow> bool" where
  "replayed L input st \<longleftrightarrow> state_ok st \<and> (\<forall>l. l \<notin> L \<longrightarrow> map_of st l = map_of input l) \<and>
     (\<forall>l\<in>L. entry_ok (map_of st l))"

lemma replay_func_spec:
  assumes st: "replayed L input st" and f: "tf_ok f" and b: "block \<noteq> 0"
  shows "\<exists>st'. replay_func block off f st = Some st' \<and> replayed (insert (tf_target f) L) input st' \<and>
    height_at st' = (height_at st)(tf_target f := tf_sem f (height_at st))"
proof -
  have ok: "state_ok st" "sm_ok st" using st by (auto simp: replayed_def state_ok_def)
  obtain r where r: "replay_func block off f st =
      Some (case r of None \<Rightarrow> sm_erase (tf_target f) st | Some s \<Rightarrow> sm_set (tf_target f) s st)"
    "entry_ok r" "entry_val r = tf_sem f (height_at st)"
    using apply_entry_spec[OF f ok(1) b, of "\<lambda>f d. Absloc_eq (tf_target f) (def_origLoc d)" off "tf_target f" st]
    by (auto simp: replay_func_def)
  let ?st = "case r of None \<Rightarrow> sm_erase (tf_target f) st | Some s \<Rightarrow> sm_set (tf_target f) s st"
  have "state_ok ?st"
  proof (rule state_okI[OF sm_ok_entry[OF ok(2)]])
    show "dhs_ok s \<and> defs_resolved s" if "map_of ?st l = Some s" for l s
      using that r(2) entry_ok_state state_okD[OF ok(1), of l s] unfolding map_of_entry
      by (auto split: if_splits)
  qed
  moreover have "height_at ?st = (height_at st)(tf_target f := tf_sem f (height_at st))"
    unfolding height_at_def map_of_entry using r(3) by (auto simp: fun_eq_iff height_at_def[abs_def])
  moreover have "replayed (insert (tf_target f) L) input ?st"
    using st r(2) \<open>state_ok ?st\<close> unfolding replayed_def map_of_entry by auto
  ultimately show ?thesis using r(1) by blast
qed

lemma replay_funcs_spec:
  "replayed L input st \<Longrightarrow> \<forall>f\<in>set fs. tf_ok f \<Longrightarrow> block \<noteq> 0 \<Longrightarrow>
   \<exists>st'. sum_option_fold (replay_func block off) fs st = Some st' \<and>
    replayed (L \<union> tf_target ` set fs) input st' \<and> height_at st' = seq_sem fs (height_at st)"
proof (induction fs arbitrary: L st)
  case (Cons f fs)
  obtain st1 where 1: "replay_func block off f st = Some st1" "replayed (insert (tf_target f) L) input st1"
    "height_at st1 = (height_at st)(tf_target f := tf_sem f (height_at st))"
    using replay_func_spec[OF Cons.prems(1), of f block off] Cons.prems by auto
  obtain st2 where 2: "sum_option_fold (replay_func block off) fs st1 = Some st2"
    "replayed (insert (tf_target f) L \<union> tf_target ` set fs) input st2"
    "height_at st2 = seq_sem fs (height_at st1)"
    using Cons.IH[OF 1(2)] Cons.prems by auto
  from 1 2 show ?case by (intro exI[of _ st2]) (simp add: seq_sem_def)
qed (simp add: seq_sem_def)

lemma replay_summary_spec:
  assumes st: "replayed L input st" and S: "ts_funcs_ok S" and b: "block \<noteq> 0"
  shows "\<exists>st'. replay_summary block off S st = Some st' \<and>
    replayed (L \<union> dom (map_of S)) input st' \<and> height_at st' = ts_sem S (height_at st)"
proof -
  have ok: "state_ok st" "sm_ok st" using st by (auto simp: replayed_def state_ok_def)
  obtain st' where s: "replay_summary block off S st = Some st'" "sm_ok st'"
    "\<forall>l. (map_of S l = None \<longrightarrow> map_of st' l = map_of st l) \<and>
      (\<forall>f. map_of S l = Some f \<longrightarrow> entry_ok (map_of st' l) \<and>
         entry_val (map_of st' l) = tf_sem f (height_at st))"
    using apply_entries_spec[OF ok(1) b _ S ok(2), of "\<lambda>e _ d. Absloc_eq (fst e) (def_origLoc d)" off] S
    by (fastforce simp: replay_summary_def ts_funcs_ok_def)
  have "replayed (L \<union> dom (map_of S)) input st'"
    unfolding replayed_def
  proof (intro conjI allI ballI impI)
    show "state_ok st'" by (rule updated_state[OF ok(1) s(2,3)])
    show "map_of st' l = map_of input l" if "l \<notin> L \<union> dom (map_of S)" for l
      using s(3)[rule_format, of l] st that by (auto simp: replayed_def)
    show "entry_ok (map_of st' l)" if "l \<in> L \<union> dom (map_of S)" for l
      using s(3)[rule_format, of l] st that by (cases "map_of S l") (auto simp: replayed_def)
  qed
  with s(1) updated_state(2)[OF ok(1) s(2,3)] show ?thesis by blast
qed

lemma replay_insn_spec:
  assumes st: "replayed L input st" and i: "insn_ok i" and b: "block \<noteq> 0"
  shows "\<exists>st'. replay_insn block i st = Some st' \<and>
    replayed (L \<union> insn_targets i) input st' \<and> height_at st' = insn_sem i (height_at st)"
proof -
  have ok: "\<forall>f\<in>set (ie_funcs i). tf_ok f" "ts_funcs_ok (ie_summary i)" using i by (simp_all add: insn_ok_def)
  obtain st1 where 1: "sum_option_fold (replay_func block (ie_off i)) (ie_funcs i) st = Some st1"
    "replayed (L \<union> tf_target ` set (ie_funcs i)) input st1" "height_at st1 = seq_sem (ie_funcs i) (height_at st)"
    using replay_funcs_spec[OF st ok(1) b] by blast
  show ?thesis
  proof (cases "ie_summary i = []")
    case True
    with 1 show ?thesis by (simp add: replay_insn_def insn_targets_def insn_sem_def)
  next
    case False
    with 1 replay_summary_spec[OF 1(2) ok(2) b, of "ie_off i"] show ?thesis
      by (auto simp: replay_insn_def insn_targets_def insn_sem_def Un_assoc)
  qed
qed

lemma replay_block_spec:
  "replayed L input st \<Longrightarrow> \<forall>i\<in>set is. insn_ok i \<Longrightarrow> block \<noteq> 0 \<Longrightarrow>
   \<exists>iv st'. replay_block block is st = Some (iv, st') \<and>
    replayed (L \<union> (\<Union>i\<in>set is. insn_targets i)) input st' \<and>
    height_at st' = foldl (\<lambda>H i. insn_sem i H) (height_at st) is"
proof (induction "is" arbitrary: L st)
  case (Cons i "is")
  obtain st1 where 1: "replay_insn block i st = Some st1" "replayed (L \<union> insn_targets i) input st1"
    "height_at st1 = insn_sem i (height_at st)"
    using replay_insn_spec[OF Cons.prems(1), of i block] Cons.prems by auto
  obtain iv st2 where 2: "replay_block block is st1 = Some (iv, st2)"
    "replayed (L \<union> insn_targets i \<union> (\<Union>i\<in>set is. insn_targets i)) input st2"
    "height_at st2 = foldl (\<lambda>H i. insn_sem i H) (height_at st1) is"
    using Cons.IH[OF 1(2)] Cons.prems by auto
  from 1 2 show ?case by (simp add: Un_assoc)
qed simp

lemma entry_eq:
  assumes "entry_ok r" "entry_ok r'" "entry_val r = entry_val r'"
  shows "rel_option DefHeightSet_eq r r'"
proof -
  have top: "entry_val r = FTop \<longleftrightarrow> r = None" if "entry_ok r" for r
    using that dhs_ok_not_top(1)[OF one_height_ok] by (cases r) (auto simp: entry_val_def entry_ok_def)
  show ?thesis
  proof (cases r)
    case None
    with top[OF assms(1)] top[OF assms(2)] assms(3) show ?thesis by simp
  next
    case (Some s)
    with top[OF assms(1)] top[OF assms(2)] assms(3) obtain t where t: "r' = Some t" by (cases r') auto
    have st: "one_height s" "one_height t" "set_flat s = set_flat t"
      using assms Some t by (simp_all add: entry_ok_def entry_val_def)
    show ?thesis
    proof (cases "s = makeBottomSet")
      case True
      with st have "t = makeBottomSet" by (auto simp: one_height_def dhs_heights_flat)
      with True Some t show ?thesis
        by (simp add: DefHeightSet_eq_def list_all2_same DefHeight_eq_def Definition_eq_def)
    next
      case False
      with st have "t \<noteq> makeBottomSet" by (auto simp: one_height_def dhs_heights_flat)
      with False st obtain d e where de: "s = [d]" "t = [e]" "dhs_heights s" "dhs_heights t"
        by (auto simp: one_height_def length_Suc_conv)
      with st(3) Some t show ?thesis
        by (auto simp: DefHeightSet_eq_def DefHeight_eq_def Definition_eq_def dhs_heights_def HHEIGHT_tests)
    qed
  qed
qed

lemma summary_replay:
  assumes "state_ok input" "block \<noteq> 0" "\<forall>i\<in>set is. insn_ok i"
  shows "\<exists>T out iv out'. summarizeBlock is = Some T \<and> SummaryFunc_apply block T input = Some out \<and>
    replay_block block is input = Some (iv, out') \<and> sm_eq DefHeightSet_eq out' out \<and>
    height_at out' = height_at out \<and> state_ok out \<and> state_ok out'"
proof -
  obtain T where T: "summarizeBlock is = Some T" "ts_ok T"
    "\<forall>H. (\<forall>l. flat_ok (H l)) \<longrightarrow> ts_sem T H = foldl (\<lambda>H i. insn_sem i H) H is"
    using summarizeBlock_spec[OF assms(3)] by blast
  have "sum_option_fold summarize_step is [] = Some T"
    using T(1) by (simp add: summarizeBlock_def summarize_step_def[abs_def])
  from summarize_steps_dom[OF this] have dom: "dom (map_of T) = (\<Union>i\<in>set is. insn_targets i)" by simp
  obtain out where out: "SummaryFunc_apply block T input = Some out" "sm_ok out"
    "\<forall>l. (map_of T l = None \<longrightarrow> map_of out l = map_of input l) \<and>
      (\<forall>f. map_of T l = Some f \<longrightarrow> entry_ok (map_of out l) \<and>
         entry_val (map_of out l) = tf_sem f (height_at input))"
    using SummaryFunc_apply_spec[OF assms(1,2), of T] T(2) by (auto simp: ts_ok_def)
  note upd = updated_state[OF assms(1) out(2,3)]
  have "replayed {} input input" using assms(1) by (simp add: replayed_def)
  from replay_block_spec[OF this assms(3,2)] obtain iv out' where
    rep: "replay_block block is input = Some (iv, out')" "replayed (dom (map_of T)) input out'"
    "height_at out' = foldl (\<lambda>H i. insn_sem i H) (height_at input) is" by (auto simp: dom)
  have h: "height_at out' = height_at out"
    using T(3)[rule_format, of "height_at input"] flat_ok_entry[OF assms(1)] upd(2) rep(3) by simp
  have "rel_option DefHeightSet_eq (map_of out' l) (map_of out l)" for l
  proof (cases "map_of T l")
    case None
    with out(3) rep(2) have "map_of out' l = map_of out l" by (auto simp: replayed_def dom_def)
    then show ?thesis by (simp add: option.rel_refl DefHeightSet_eq_def list_all2_same DefHeight_eq_def Definition_eq_def)
  next
    case (Some f)
    with out(3) rep(2) h show ?thesis
      by (intro entry_eq) (auto simp: replayed_def dom_def fun_eq_iff height_at_def)
  qed
  moreover have "sm_ok out'" using rep(2) by (simp add: replayed_def state_ok_def)
  ultimately have "sm_eq DefHeightSet_eq out' out" by (intro sm_eq_lookup[OF _ out(2)])
  with T(1) out(1) rep(1) h upd(1) rep(2) show ?thesis by (simp add: replayed_def)
qed

text \<open>C21. The summary of a block is exactly the effect of its instructions. For every well-formed
  input state, building the block's summary with \<open>add\<close> and \<open>addSummary\<close> and applying it gives
  the same heights as replaying the instructions one by one, none of the assertions on the way
  fails, and the two results are equal in the sense of the assertion
  \<open>input == blockOutputs[block]\<close> at the end of \<open>summarize\<close>, which therefore never throws.\<close>

theorem Summary_matches_replay:
  assumes "state_ok input" "block \<noteq> 0" "\<forall>i\<in>set is. insn_ok i"
  shows "\<exists>T out iv out'. summarizeBlock is = Some T \<and> SummaryFunc_apply block T input = Some out \<and>
    replay_block block is input = Some (iv, out') \<and> sm_eq DefHeightSet_eq out' out \<and>
    height_at out' = height_at out \<and> state_ok out \<and> state_ok out'"
  using assms by (rule summary_replay)

theorem Summary_matches_replay_witness:
  "\<exists>T out iv out'. summarizeBlock [\<lparr>ie_off = 4, ie_funcs = [deltaFunc (RegLoc 7) (-8)], ie_summary = []\<rparr>] = Some T \<and>
     SummaryFunc_apply 1 T [(RegLoc 7, addInitSet (Height_of (-8)) [])] = Some out \<and>
     replay_block 1 [\<lparr>ie_off = 4, ie_funcs = [deltaFunc (RegLoc 7) (-8)], ie_summary = []\<rparr>]
       [(RegLoc 7, addInitSet (Height_of (-8)) [])] = Some (iv, out') \<and> sm_eq DefHeightSet_eq out' out"
proof -
  let ?is = "[\<lparr>ie_off = 4, ie_funcs = [deltaFunc (RegLoc 7) (-8)], ie_summary = []\<rparr>]"
  have "state_ok [(RegLoc 7, addInitSet (Height_of (-8)) [])]"
    by (simp add: state_ok_def addInitSet_def dhs_insert_def dhs_ok_def dhs_heights_def defs_resolved_def
        DefHeight_new_def Definition_default_def DEF_LIMIT_def) (simp add: Height_of_def fits64_def LLONG_MIN_def LLONG_MAX_def)
  moreover have "\<forall>i\<in>set ?is. insn_ok i"
    by (simp add: insn_ok_def tf_ok_def deltaFunc_def TransferFunc_new_def tf_isBottom_def tf_isTop_def
        tf_isCopy_def tf_isSIB_def Absloc_isValid_def)
  ultimately show ?thesis
    using Summary_matches_replay[of "[(RegLoc 7, addInitSet (Height_of (-8)) [])]" 1 ?is] by blast
qed


section \<open>The meet of transfer functions is sound\<close>

definition below :: "Flat_Height \<Rightarrow> Flat_Height \<Rightarrow> bool" where
  "below a b \<longleftrightarrow> b = FTop \<or> a = b \<or> a = FBot"

lemma below_simps [simp]: "below a a" "below FBot a" "below a FTop"
  by (simp_all add: below_def)

lemma any_height_lookup:
  "sm_ok n \<Longrightarrow> any_height n H \<longleftrightarrow> (\<exists>l b. map_of n l = Some (1, b) \<and> H l \<noteq> FTop)"
  unfolding any_height_def using sm_ok_Some_iff[of n] by fastforce

lemma any_height_set:
  assumes n: "sm_ok n" and v: "\<And>b. map_of n l = Some (1, b) \<Longrightarrow> v = 1"
  shows "any_height (sm_set l (v, c) n) H \<longleftrightarrow> any_height n H \<or> v = 1 \<and> H l \<noteq> FTop"
proof
  assume "any_height (sm_set l (v, c) n) H"
  then obtain k b where k: "((map_of n)(l \<mapsto> (v, c))) k = Some (1, b)" "H k \<noteq> FTop"
    unfolding any_height_lookup[OF sm_ok_set[OF n]] map_of_sm_set by blast
  then show "any_height n H \<or> v = 1 \<and> H l \<noteq> FTop"
    unfolding any_height_lookup[OF n] by (cases "k = l") auto
next
  assume r: "any_height n H \<or> v = 1 \<and> H l \<noteq> FTop"
  have "\<exists>k b. ((map_of n)(l \<mapsto> (v, c))) k = Some (1, b) \<and> H k \<noteq> FTop"
  proof (cases "v = 1 \<and> H l \<noteq> FTop")
    case True
    then show ?thesis by (intro exI[of _ l] exI[of _ c]) simp
  next
    case False
    with r obtain k b where k: "map_of n k = Some (1, b)" "H k \<noteq> FTop"
      unfolding any_height_lookup[OF n] by blast
    with False v have "k \<noteq> l" by blast
    with k show ?thesis by (intro exI[of _ k] exI[of _ b]) simp
  qed
  then show "any_height (sm_set l (v, c) n) H"
    unfolding any_height_lookup[OF sm_ok_set[OF n]] map_of_sm_set .
qed

lemma fromRegs_union_spec:
  "sm_ok n \<Longrightarrow> sm_ok (fromRegs_union n regs) \<and>
    (any_height (fromRegs_union n regs) H \<longleftrightarrow> any_height n H \<or> any_height regs H)"
proof (induction regs arbitrary: n)
  case (Cons e regs)
  obtain l v c where e: "e = (l, v, c)" by (cases e)
  define r where "r = (case map_of n l of None \<Rightarrow> sm_set l (v, c) n
    | Some w \<Rightarrow> if fst (v, c) = 1 \<and> fst w \<noteq> 1 then sm_set l (v, c) n else n)"
  have "fromRegs_union n (e # regs) = fromRegs_union r regs"
    by (simp add: fromRegs_union_def r_def e)
  moreover have "sm_ok r" using Cons.prems by (simp add: r_def split: option.splits)
  moreover have "any_height r H \<longleftrightarrow> any_height n H \<or> v = 1 \<and> H l \<noteq> FTop"
  proof (cases "map_of n l")
    case None
    with any_height_set[OF Cons.prems, of l v c H] show ?thesis by (simp add: r_def)
  next
    case (Some w)
    show ?thesis
    proof (cases "v = 1 \<and> fst w \<noteq> 1")
      case True
      with any_height_set[OF Cons.prems, of l v c H] Some show ?thesis by (simp add: r_def)
    next
      case False
      then have "any_height n H" if "v = 1" "H l \<noteq> FTop"
        using Some that unfolding any_height_lookup[OF Cons.prems] by (cases w) auto
      with False Some show ?thesis by (auto simp: r_def)
    qed
  qed
  moreover have "any_height (e # regs) H \<longleftrightarrow> v = 1 \<and> H l \<noteq> FTop \<or> any_height regs H"
    by (simp add: any_height_def e)
  ultimately show ?case using Cons.IH[of r] by auto
qed (simp add: fromRegs_union_def any_height_def)

lemma tf_kinds:
  assumes "tf_ok f"
  obtains "tf_isAbs f" "\<not> tf_isCopy f" "\<not> tf_isBottom f" "\<not> tf_isTop f" "\<not> tf_isSIB f" "\<And>H. tf_sem f H = FTop"
  | "tf_isCopy f" "\<not> tf_isAbs f" "\<not> tf_isBottom f" "\<not> tf_isTop f" "\<not> tf_isSIB f"
  | "tf_isBottom f" "\<not> tf_isAbs f" "\<not> tf_isCopy f" "\<not> tf_isTop f" "\<not> tf_isSIB f" "\<And>H. tf_sem f H = FBot"
  | "tf_isTop f" "tf_isRetop f" "\<not> tf_isAbs f" "\<not> tf_isCopy f" "\<not> tf_isBottom f" "\<not> tf_isSIB f"
    "\<And>H. tf_sem f H = FTop"
  | "tf_isSIB f" "\<not> tf_isAbs f" "\<not> tf_isCopy f" "\<not> tf_isBottom f" "\<not> tf_isTop f"
    "\<And>H. tf_sem f H = (if any_height (tf_fromRegs f) H then FBot else FTop)"
  using assms by (auto simp: tf_ok_def tf_sem_def tf_isAbs_def tf_isRetop_def tf_isTop_def tf_isBottom_def)

text \<open>Changing the registers of a sum, or forcing a function to BOTTOM.\<close>

lemma sib_regs_props:
  assumes "tf_ok f" "tf_isSIB f" "sm_ok n" "n \<noteq> []"
  defines "g \<equiv> f\<lparr>tf_fromRegs := n\<rparr>"
  shows "tf_ok g" "tf_target g = tf_target f" "tf_sem g H = (if any_height n H then FBot else FTop)"
  using assms by (auto simp: g_def tf_ok_def tf_sem_def tf_isBottom_def tf_isTop_def tf_isCopy_def tf_isSIB_def)

lemma topBottom_props:
  assumes "tf_ok f" "tf_isCopy f \<or> tf_isSIB f"
  defines "g \<equiv> f\<lparr>tf_topBottom := True, tf_delta := 0\<rparr>"
  shows "tf_ok g" "tf_target g = tf_target f"
    "tf_isCopy f \<Longrightarrow> tf_sem g H = (if H (tf_from f) = FTop then FTop else FBot)"
    "tf_isSIB f \<Longrightarrow> tf_sem g H = tf_sem f H"
  using assms by (auto simp: g_def tf_ok_def tf_sem_def tf_isBottom_def tf_isTop_def tf_isCopy_def tf_isSIB_def)

lemma sm_set_nonempty [simp]: "sm_set k v m \<noteq> []"
  by (cases m) (auto split: if_splits)

definition meets :: "TransferFunc \<Rightarrow> TransferFunc \<Rightarrow> TransferFunc \<Rightarrow> bool" where
  "meets m f g \<longleftrightarrow> tf_ok m \<and> tf_target m = tf_target f \<and>
     (\<forall>H. below (tf_sem m H) (tf_sem f H) \<and> below (tf_sem m H) (tf_sem g H))"

lemma meet_copy_copy:
  assumes "tf_ok f" "tf_ok g" "tf_target f = tf_target g" "tf_isCopy f" "tf_isCopy g"
  shows "tf_from f = tf_from g \<Longrightarrow> meets (f\<lparr>tf_topBottom := True, tf_delta := 0\<rparr>) f g"
    "meets (sibFunc (sm_set (tf_from g) (1, True) (sm_set (tf_from f) (1, True) [])) 0 (tf_target f)) f g"
proof -
  show "meets (f\<lparr>tf_topBottom := True, tf_delta := 0\<rparr>) f g" if "tf_from f = tf_from g"
    using topBottom_props[of f] copy_sem[OF assms(1,4)] copy_sem[OF assms(2,5)] assms that
    by (auto simp: meets_def)
  let ?n = "sm_set (tf_from g) (1, True) (sm_set (tf_from f) (1, True) []) :: (Absloc, int \<times> bool) std_map"
  have v: "Absloc_isValid (tf_target f)" using assms(1) by (simp add: tf_ok_def)
  have one: "regs_unscaled [(tf_from f, 1, True)]" by (simp add: regs_unscaled_def)
  have n: "regs_unscaled ?n"
    using set_sm_set[of "tf_from g" "(1, True)" "[(tf_from f, 1, True)]"] by (auto simp: regs_unscaled_def)
  have "any_height ?n H \<longleftrightarrow> H (tf_from f) \<noteq> FTop \<or> H (tf_from g) \<noteq> FTop" for H
    using any_height_set[of "[(tf_from f, 1, True)]" "tf_from g" 1 True H] by (auto simp: any_height_def)
  then show "meets (sibFunc ?n 0 (tf_target f)) f g"
    using sibFunc_props[OF n v, of False] copy_sem[OF assms(1,4)] copy_sem[OF assms(2,5)]
    by (auto simp: meets_def sibFunc_def)
qed

lemma meet_copy_sib:
  assumes "tf_ok f" "tf_ok g" "tf_target f = tf_target g" "tf_isCopy f" "tf_isSIB g"
  shows "meets (g\<lparr>tf_fromRegs := sm_set (tf_from f) (1, True) (tf_fromRegs g)\<rparr>) f g"
    "meets (g\<lparr>tf_fromRegs := sm_set (tf_from f) (1, True) (tf_fromRegs g)\<rparr>) g f"
proof -
  have sm: "sm_ok (tf_fromRegs g)" using assms(2) by (simp add: tf_ok_def)
  have "any_height (sm_set (tf_from f) (1, True) (tf_fromRegs g)) H \<longleftrightarrow>
      any_height (tf_fromRegs g) H \<or> H (tf_from f) \<noteq> FTop" for H
    using any_height_set[OF sm, of "tf_from f" 1 True H] by simp
  moreover have "tf_sem g H = (if any_height (tf_fromRegs g) H then FBot else FTop)" for H
    using assms(2,5) by (auto simp: tf_sem_def tf_ok_def)
  ultimately show "meets (g\<lparr>tf_fromRegs := sm_set (tf_from f) (1, True) (tf_fromRegs g)\<rparr>) f g"
    "meets (g\<lparr>tf_fromRegs := sm_set (tf_from f) (1, True) (tf_fromRegs g)\<rparr>) g f"
    using sib_regs_props[OF assms(2,5) sm_ok_set[OF sm] sm_set_nonempty, of "tf_from f" "(1, True)"]
      copy_sem[OF assms(1,4)] assms(3) by (auto simp: meets_def)
qed

lemma fromRegs_union_nonempty: "n \<noteq> [] \<Longrightarrow> fromRegs_union n regs \<noteq> []"
proof (induction regs arbitrary: n)
  case (Cons e regs)
  obtain l v where e: "e = (l, v)" by (cases e)
  let ?r = "case map_of n l of None \<Rightarrow> sm_set l v n
    | Some w \<Rightarrow> if fst v = 1 \<and> fst w \<noteq> 1 then sm_set l v n else n"
  have "?r \<noteq> []" using Cons.prems by (simp split: option.split)
  from Cons.IH[OF this] show ?case by (simp add: fromRegs_union_def e)
qed (simp add: fromRegs_union_def)

lemma meet_sib_sib:
  assumes "tf_ok f" "tf_ok g" "tf_target f = tf_target g" "tf_isSIB f" "tf_isSIB g"
  shows "tf_fromRegs f = tf_fromRegs g \<Longrightarrow> meets (f\<lparr>tf_topBottom := True, tf_delta := 0\<rparr>) f g"
    "meets (f\<lparr>tf_fromRegs := fromRegs_union (tf_fromRegs f) (tf_fromRegs g)\<rparr>) f g"
proof -
  have sem: "tf_sem h H = (if any_height (tf_fromRegs h) H then FBot else FTop)" if "h = f \<or> h = g" for h H
    using that assms by (auto simp: tf_sem_def tf_ok_def)
  show "meets (f\<lparr>tf_topBottom := True, tf_delta := 0\<rparr>) f g" if "tf_fromRegs f = tf_fromRegs g"
    using topBottom_props[of f] assms sem that by (auto simp: meets_def)
  have sm: "sm_ok (tf_fromRegs f)" using assms(1) by (simp add: tf_ok_def)
  note u = fromRegs_union_spec[OF sm, of "tf_fromRegs g"]
  have ne: "fromRegs_union (tf_fromRegs f) (tf_fromRegs g) \<noteq> []"
    using assms(4) by (intro fromRegs_union_nonempty) (simp add: tf_isSIB_def)
  note p = sib_regs_props[OF assms(1,4) conjunct1[OF u] ne]
  have any: "any_height (fromRegs_union (tf_fromRegs f) (tf_fromRegs g)) H \<longleftrightarrow>
      any_height (tf_fromRegs f) H \<or> any_height (tf_fromRegs g) H" for H using u by blast
  show "meets (f\<lparr>tf_fromRegs := fromRegs_union (tf_fromRegs f) (tf_fromRegs g)\<rparr>) f g"
    unfolding meets_def p(3) any using p(1,2) sem[of f] sem[of g] by simp
qed

text \<open>C22. The meet of two transfer functions is sound: it never fails an assertion, its result is
  well-formed, and whatever the heights of the locations, the height it computes is below, that
  is equal to or BOTTOM unless the other side is TOP, the heights both functions compute.\<close>

theorem Meet_sound:
  assumes "tf_ok f" "tf_ok g" "tf_target f = tf_target g"
    and "TransferFunc_eq f g \<Longrightarrow> tf_type f = tf_type g"
  shows "\<exists>m. tf_meet f g = Some m \<and> tf_ok m \<and> tf_target m = tf_target f \<and>
    (\<forall>H. below (tf_sem m H) (tf_sem f H) \<and> below (tf_sem m H) (tf_sem g H))"
proof (cases "TransferFunc_eq f g")
  case True
  then have "f = g" using assms(4) by (simp add: TransferFunc_eq_def)
  moreover have "\<not> (tf_isTop f \<and> \<not> tf_isRetop f)" using assms(1) by (auto simp: tf_ok_def tf_isRetop_def)
  ultimately show ?thesis using True assms by (auto simp: tf_meet_def)
next
  case ne: False
  have r: "meets g f g" if "\<And>H. below (tf_sem g H) (tf_sem f H)" using that assms by (auto simp: meets_def)
  have l: "meets f f g" if "\<And>H. below (tf_sem f H) (tf_sem g H)" using that assms by (auto simp: meets_def)
  have t: "meets (retopFunc (tf_target f)) f g" if "\<And>H. tf_sem f H = FTop" "\<And>H. tf_sem g H = FTop"
    using that assms made_funcs[of "tf_target f"] by (auto simp: meets_def tf_ok_def)
  have "\<exists>m. tf_meet f g = Some m \<and> meets m f g"
    using assms(1)
  proof (cases rule: tf_kinds)
    case 1
    note f = this
    show ?thesis using assms(2)
      by (cases rule: tf_kinds) (use f ne assms(3) r t in \<open>auto simp: tf_meet_def tf_isRetop_def\<close>)
  next
    case 2
    note f = this
    show ?thesis using assms(2)
    proof (cases rule: tf_kinds)
      case 2
      then show ?thesis using f ne assms(3) meet_copy_copy[OF assms(1-3) f(1) 2(1)]
        by (cases "tf_from f = tf_from g") (auto simp: tf_meet_def)
    next
      case 5
      then show ?thesis using f ne assms(3) meet_copy_sib(1)[OF assms(1-3) f(1) 5(1)]
        by (auto simp: tf_meet_def tf_isRetop_def)
    qed (use f ne assms(3) r l in \<open>auto simp: tf_meet_def tf_isRetop_def\<close>)
  next
    case 3
    note f = this
    show ?thesis using assms(2)
      by (cases rule: tf_kinds) (use f ne assms(3) l in \<open>auto simp: tf_meet_def tf_isRetop_def\<close>)
  next
    case 4
    note f = this
    show ?thesis using assms(2)
      by (cases rule: tf_kinds) (use f ne assms(3) r l in \<open>auto simp: tf_meet_def tf_isRetop_def\<close>)
  next
    case 5
    note f = this
    show ?thesis using assms(2)
    proof (cases rule: tf_kinds)
      case 2
      then show ?thesis using f ne assms(3) meet_copy_sib(2)[OF assms(2,1) assms(3)[symmetric] 2(1) f(1)]
        by (auto simp: tf_meet_def tf_isRetop_def)
    next
      case 5
      then show ?thesis using f ne assms(3) meet_sib_sib[OF assms(1-3) f(1) 5(1)]
        by (cases "tf_fromRegs f = tf_fromRegs g") (auto simp: tf_meet_def tf_isRetop_def)
    qed (use f ne assms(3) r l in \<open>auto simp: tf_meet_def tf_isRetop_def\<close>)
  qed
  then show ?thesis by (auto simp: meets_def)
qed

theorem Meet_sound_witness:
  "\<exists>m. tf_meet (copyFunc (RegLoc 4) (RegLoc 7) False) (copyFunc (RegLoc 5) (RegLoc 7) False) = Some m \<and> tf_ok m"
proof -
  have "tf_ok (copyFunc (RegLoc r) (RegLoc 7) False)" for r
    by (simp add: tf_ok_def copyFunc_def TransferFunc_new_def tf_isBottom_def tf_isTop_def tf_isCopy_def
        tf_isSIB_def Absloc_isValid_def)
  then show ?thesis
    using Meet_sound[of "copyFunc (RegLoc 4) (RegLoc 7) False" "copyFunc (RegLoc 5) (RegLoc 7) False"]
    by (auto simp: copyFunc_def TransferFunc_new_def)
qed


end
