(* ===== verification/Stack_Fixpoint.thy ===== *)
theory Stack_Fixpoint
  imports Stack_Transfer
begin

text \<open>
  The stack analysis of a function: \<^verbatim>\<open>summarizeBlocks\<close>, \<^verbatim>\<open>fixpoint\<close>, \<^verbatim>\<open>summarize\<close> and the queries
  \<^verbatim>\<open>find\<close> and \<^verbatim>\<open>findDefHeight\<close> of \<^verbatim>\<open>dataflowAPI/src/stackanalysis.C\<close>.

  A function is a record: its entry block, the intraprocedural edges that pass the predicate
  \<^verbatim>\<open>intra_nosink_nocatch\<close>, in both directions, the effects of the instructions of every block, and
  the end address of every block. The maps of the class that are indexed with \<^verbatim>\<open>operator[]\<close> give the
  empty state for a block they do not contain. An exception is the result \<open>None\<close>.

  The loops are proved to return: the search visits every block once, and in the fixpoint
  iteration every state a block is analysed with is further down than the one before.
\<close>

record Func =
  fn_entry :: nat
  fn_targets :: "nat \<Rightarrow> nat list"
  fn_sources :: "nat \<Rightarrow> nat list"
  fn_insns :: "nat \<Rightarrow> InsnEffect list"
  fn_end :: "nat \<Rightarrow> int"

section \<open>The search through the blocks\<close>

definition add_target_exclude :: "nat \<Rightarrow> nat list \<times> nat set \<Rightarrow> nat list \<times> nat set" where
  "add_target_exclude b = (\<lambda>(workstack, excludeSet).
     if b \<notin> excludeSet then (b # workstack, insert b excludeSet) else (workstack, excludeSet))"

definition add_target_list_exclude :: "nat \<Rightarrow> nat list \<times> nat set \<Rightarrow> nat list \<times> nat set" where
  "add_target_list_exclude b = (\<lambda>(worklist, excludeSet).
     if b \<notin> excludeSet then (worklist @ [b], insert b excludeSet) else (worklist, excludeSet))"

text \<open>The blocks in the order in which the work stack gives them out.\<close>

partial_function (option) search_loop :: "(nat \<Rightarrow> nat list) \<Rightarrow> nat list \<Rightarrow> nat set \<Rightarrow> nat list option" where
  "search_loop targets workstack doneSet =
     (case workstack of
        [] \<Rightarrow> Some []
      | b # rest \<Rightarrow>
          (let (workstack', doneSet') = fold add_target_exclude (targets b) (rest, doneSet)
           in Option.bind (search_loop targets workstack' doneSet') (\<lambda>bs. Some (b # bs))))"

definition search_blocks :: "Func \<Rightarrow> nat list option" where
  "search_blocks fn = search_loop (fn_targets fn) [fn_entry fn] {fn_entry fn}"

definition summarizeBlocks :: "Func \<Rightarrow> (nat, TransferSet) std_map option" where
  "summarizeBlocks fn = Option.bind (search_blocks fn)
     (\<lambda>bs. sum_option_fold (\<lambda>b m. map_option (\<lambda>t. sm_set b t m) (summarizeBlock (fn_insns fn b))) bs [])"

section \<open>The fixpoint iteration\<close>

definition state_at :: "(nat, AbslocState) std_map \<Rightarrow> nat \<Rightarrow> AbslocState" where
  "state_at m b = (case map_of m b of None \<Rightarrow> [] | Some s \<Rightarrow> s)"

text \<open>On \<^verbatim>\<open>arch_power\<close> the entry height is 0, on x86 it includes the return address.\<close>

definition createEntryInput :: "bool \<Rightarrow> MachRegister \<Rightarrow> int \<Rightarrow> AbslocState" where
  "createEntryInput arch_power sp word_size =
     (if arch_power then sm_set (RegLoc sp) (addInitSet (Height_of 0) []) []
      else
        let input = sm_set (RegLoc sp) (addInitSet (Height_of (- word_size)) []) []
        in if sp = x86_64_rsp
           then sm_set (RegLoc x86_64_esp) (addInitSet (Height_of (- word_size)) []) input else input)"

definition meet_entry :: "Absloc \<times> DefHeightSet \<Rightarrow> AbslocState \<Rightarrow> AbslocState" where
  "meet_entry = (\<lambda>(loc, s) accum.
     let m = meetDefHeights s (case map_of accum loc of None \<Rightarrow> [] | Some t \<Rightarrow> t)
     in if Height_isTop (dh_height (hd m)) then sm_erase loc accum else sm_set loc m accum)"

definition state_meet :: "AbslocState \<Rightarrow> AbslocState \<Rightarrow> AbslocState" where
  "state_meet input accum = fold meet_entry input accum"

definition meetSources :: "Func \<Rightarrow> (nat, AbslocState) std_map \<Rightarrow> nat \<Rightarrow> AbslocState" where
  "meetSources fn outs block = fold (\<lambda>p acc. state_meet (state_at outs p) acc) (fn_sources fn block) []"

definition meetInputs :: "Func \<Rightarrow> (nat, AbslocState) std_map \<Rightarrow> nat \<Rightarrow> AbslocState \<Rightarrow> AbslocState" where
  "meetInputs fn outs block blockInput = state_meet blockInput (meetSources fn outs block)"

record FixState =
  touchedSet :: "nat set"
  worklist :: "nat list"
  workSet :: "nat set"
  blockInputs :: "(nat, AbslocState) std_map"
  blockOutputs :: "(nat, AbslocState) std_map"
  firstBlock :: bool

definition fixpoint_init :: "Func \<Rightarrow> FixState" where
  "fixpoint_init fn = \<lparr>touchedSet = {}, worklist = [fn_entry fn], workSet = {fn_entry fn},
     blockInputs = [], blockOutputs = [], firstBlock = True\<rparr>"

definition effects_at :: "(nat, TransferSet) std_map \<Rightarrow> nat \<Rightarrow> TransferSet" where
  "effects_at effs b = (case map_of effs b of None \<Rightarrow> [] | Some t \<Rightarrow> t)"

definition fixpoint_step ::
  "Func \<Rightarrow> (nat, TransferSet) std_map \<Rightarrow> AbslocState \<Rightarrow> FixState \<Rightarrow> FixState option" where
  "fixpoint_step fn effs entryInput st =
     (case worklist st of
        [] \<Rightarrow> Some st
      | block # rest \<Rightarrow>
          (let ws = workSet st - {block};
               old = state_at (blockInputs st) block;
               input = (if firstBlock st then entryInput else meetInputs fn (blockOutputs st) block old)
           in if sm_eq DefHeightSet_eq input old \<and> block \<in> touchedSet st
              then Some (st\<lparr>worklist := rest, workSet := ws\<rparr>)
              else case SummaryFunc_apply block (effects_at effs block) input of
                None \<Rightarrow> None
              | Some out \<Rightarrow>
                  (let (rest', ws') = fold add_target_list_exclude (fn_targets fn block) (rest, ws)
                   in Some \<lparr>touchedSet = insert block (touchedSet st), worklist = rest', workSet = ws',
                        blockInputs = sm_set block input (blockInputs st),
                        blockOutputs = sm_set block out (blockOutputs st), firstBlock = False\<rparr>)))"

partial_function (option) fixpoint_loop ::
  "Func \<Rightarrow> (nat, TransferSet) std_map \<Rightarrow> AbslocState \<Rightarrow> FixState \<Rightarrow> FixState option" where
  "fixpoint_loop fn effs entryInput st =
     (if worklist st = [] then Some st
      else Option.bind (fixpoint_step fn effs entryInput st) (fixpoint_loop fn effs entryInput))"

definition fixpoint :: "Func \<Rightarrow> (nat, TransferSet) std_map \<Rightarrow> AbslocState \<Rightarrow> FixState option" where
  "fixpoint fn effs entryInput = fixpoint_loop fn effs entryInput (fixpoint_init fn)"

section \<open>The states of the instructions\<close>

type_synonym StateIntervals = "(int, AbslocState) std_map"
type_synonym Intervals = "(nat, StateIntervals) std_map"












section \<open>Queries\<close>





definition findDefinedHeights ::
  "Intervals \<Rightarrow> nat \<Rightarrow> int \<Rightarrow> (Absloc \<times> Height) list" where
  "findDefinedHeights intervals b address =
     (case map_of intervals b of
        None \<Rightarrow> []
      | Some sintervals \<Rightarrow>
          (case map_of sintervals address of
             None \<Rightarrow> []
           | Some s \<Rightarrow> map (\<lambda>(l, t). (l, getHeightSet t)) (filter (\<lambda>(l, t). \<not> isTopSet t) s)))"

definition findDefHeightPairs ::
  "Intervals \<Rightarrow> nat \<Rightarrow> int \<Rightarrow> (Absloc \<times> DefHeightSet) list" where
  "findDefHeightPairs intervals b address =
     (case map_of intervals b of
        None \<Rightarrow> []
      | Some sintervals \<Rightarrow>
          (case map_of sintervals address of
             None \<Rightarrow> []
           | Some s \<Rightarrow> filter (\<lambda>(l, t). \<not> isTopSet t) s))"


section \<open>The search visits exactly the reachable blocks\<close>

definition flow_edges :: "(nat \<Rightarrow> nat list) \<Rightarrow> (nat \<times> nat) set" where
  "flow_edges targets = {(a, b). b \<in> set (targets a)}"

definition reachable_blocks :: "Func \<Rightarrow> nat set" where
  "reachable_blocks fn = (flow_edges (fn_targets fn))\<^sup>* `` {fn_entry fn}"

lemma push_stack_sets:
  "snd (fold add_target_exclude ts (w, d)) = d \<union> set ts"
  "set (fst (fold add_target_exclude ts (w, d))) = set w \<union> (set ts - d)"
  by (induction ts arbitrary: w d) (auto simp: add_target_exclude_def)

lemma push_stack_distinct:
  "distinct w \<Longrightarrow> set w \<subseteq> d \<Longrightarrow> distinct (fst (fold add_target_exclude ts (w, d)))"
proof (induction ts arbitrary: w d)
  case (Cons t ts)
  show ?case
  proof (cases "t \<in> d")
    case True
    with Cons show ?thesis by (simp add: add_target_exclude_def)
  next
    case False
    with Cons.prems have "distinct (t # w)" "set (t # w) \<subseteq> insert t d" by auto
    from Cons.IH[OF this] False show ?thesis by (simp add: add_target_exclude_def)
  qed
qed simp

lemma push_stack_count:
  assumes "finite B"
  shows "set ts \<subseteq> B \<Longrightarrow> length (fst (fold add_target_exclude ts (w, d))) +
     card (B - snd (fold add_target_exclude ts (w, d))) = length w + card (B - d)"
proof (induction ts arbitrary: w d)
  case (Cons t ts)
  have ts: "set ts \<subseteq> B" and t: "t \<in> B" using Cons.prems by auto
  show ?case
  proof (cases "t \<in> d")
    case True
    then have "fold add_target_exclude (t # ts) (w, d) = fold add_target_exclude ts (w, d)"
      by (simp add: add_target_exclude_def)
    with Cons.IH[OF ts] show ?thesis by metis
  next
    case False
    then have f: "fold add_target_exclude (t # ts) (w, d) = fold add_target_exclude ts (t # w, insert t d)"
      by (simp add: add_target_exclude_def)
    have "B - insert t d = B - d - {t}" by (rule Diff_insert)
    moreover have "Suc (card (B - d - {t})) = card (B - d)"
      using assms t False by (intro card_Suc_Diff1) simp_all
    ultimately have "length (t # w) + card (B - insert t d) = length w + card (B - d)" by simp
    then show ?thesis unfolding f Cons.IH[OF ts] .
  qed
qed simp

lemma push_stack_spec:
  assumes "fold add_target_exclude ts (w, d) = (w', d')" "distinct w" "set w \<subseteq> d"
  shows "d' = d \<union> set ts" "set w' = set w \<union> (set ts - d)" "distinct w'"
    "finite B \<Longrightarrow> set ts \<subseteq> B \<Longrightarrow> length w' + card (B - d') = length w + card (B - d)"
  using push_stack_sets[of ts w d] push_stack_distinct[OF assms(2,3), of ts]
    push_stack_count[of B ts w d] assms(1) by simp_all

lemma search_loop_spec:
  assumes B: "finite B" "\<forall>b\<in>B. set (targets b) \<subseteq> B"
  shows "distinct w \<Longrightarrow> set w \<subseteq> d \<Longrightarrow> d \<subseteq> B \<Longrightarrow>
    \<exists>bs. search_loop targets w d = Some bs \<and> distinct bs \<and> set w \<subseteq> set bs \<and> set bs \<inter> (d - set w) = {} \<and>
      (\<forall>b\<in>set bs. set (targets b) \<subseteq> (d - set w) \<union> set bs) \<and> set bs \<subseteq> (flow_edges targets)\<^sup>* `` set w"
proof (induction "length w + card (B - d)" arbitrary: w d rule: less_induct)
  case less
  show ?case
  proof (cases w)
    case Nil
    then show ?thesis by (simp add: search_loop.simps)
  next
    case w: (Cons b r)
    obtain w' d' where push: "fold add_target_exclude (targets b) (r, d) = (w', d')" by fastforce
    have r: "distinct r" "set r \<subseteq> d" "b \<notin> set r" "b \<in> d" "b \<in> B" using less.prems w by auto
    note p = push_stack_spec[OF push r(1,2)]
    have tB: "set (targets b) \<subseteq> B" using B(2) r(5) by blast
    then have "d' \<subseteq> B" using p(1) less.prems(3) by blast
    moreover have "length w' + card (B - d') < length w + card (B - d)" using p(4)[OF B(1) tB] w by simp
    moreover have "set w' \<subseteq> d'" using p(1,2) r(2) by blast
    ultimately obtain bs where bs: "search_loop targets w' d' = Some bs" "distinct bs" "set w' \<subseteq> set bs"
      "set bs \<inter> (d' - set w') = {}" "\<forall>b\<in>set bs. set (targets b) \<subseteq> (d' - set w') \<union> set bs"
      "set bs \<subseteq> (flow_edges targets)\<^sup>* `` set w'"
      using less.hyps[of w' d'] p(3) by blast
    have rest: "d' - set w' = d - set r" using p(1,2) by auto
    have b: "b \<notin> set bs" using bs(4) rest r(3,4) by blast
    have e: "(b, t) \<in> (flow_edges targets)\<^sup>*" if "t \<in> set (targets b)" for t
      using that by (auto simp: flow_edges_def)
    have "set w' \<subseteq> (flow_edges targets)\<^sup>* `` set w" using p(2) w e by auto
    then have "(flow_edges targets)\<^sup>* `` set w' \<subseteq> (flow_edges targets)\<^sup>* `` set w" by (auto intro: rtrancl_trans)
    then have "set (b # bs) \<subseteq> (flow_edges targets)\<^sup>* `` set w" using bs(6) w by auto
    moreover have "set (targets b) \<subseteq> (d - set w) \<union> set (b # bs)"
    proof
      fix t assume "t \<in> set (targets b)"
      then have "t \<in> d' - set w' \<or> t \<in> set bs" using p(1) bs(3) by blast
      then show "t \<in> (d - set w) \<union> set (b # bs)" using rest w by auto
    qed
    moreover have "\<forall>c\<in>set bs. set (targets c) \<subseteq> (d - set w) \<union> set (b # bs)"
      using bs(5) rest w by auto
    moreover have "search_loop targets w d = Some (b # bs)"
      using w push bs(1) by (simp add: search_loop.simps[of targets "b # r"])
    moreover have "set w \<subseteq> set (b # bs)" using bs(3) p(2) w by auto
    moreover have "set (b # bs) \<inter> (d - set w) = {}" using bs(4) rest w by auto
    ultimately show ?thesis using bs(2) b by (intro exI[of _ "b # bs"]) simp
  qed
qed

text \<open>A function: finitely many blocks, closed under its edges, none of them the null pointer.\<close>

definition func_ok :: "Func \<Rightarrow> nat set \<Rightarrow> bool" where
  "func_ok fn B \<longleftrightarrow> finite B \<and> fn_entry fn \<in> B \<and> 0 \<notin> B \<and> (\<forall>b\<in>B. set (fn_targets fn b) \<subseteq> B) \<and>
     (\<forall>b p. p \<in> set (fn_sources fn b) \<longrightarrow> b \<in> set (fn_targets fn p)) \<and>
     (\<forall>b\<in>B. \<forall>i\<in>set (fn_insns fn b). insn_ok i)"

lemma search_blocks_spec:
  assumes "func_ok fn B"
  shows "\<exists>bs. search_blocks fn = Some bs \<and> distinct bs \<and> set bs = reachable_blocks fn \<and> reachable_blocks fn \<subseteq> B"
proof -
  have B: "finite B" "\<forall>b\<in>B. set (fn_targets fn b) \<subseteq> B" "fn_entry fn \<in> B"
    using assms by (simp_all add: func_ok_def)
  obtain bs where bs: "search_blocks fn = Some bs" "distinct bs" "fn_entry fn \<in> set bs"
    "\<forall>b\<in>set bs. set (fn_targets fn b) \<subseteq> set bs" "set bs \<subseteq> reachable_blocks fn"
    using search_loop_spec[OF B(1,2), where w = "[fn_entry fn]" and d = "{fn_entry fn}"] B(3)
    by (auto simp: search_blocks_def reachable_blocks_def)
  have closed: "b \<in> S" if "(fn_entry fn, b) \<in> (flow_edges (fn_targets fn))\<^sup>*" "fn_entry fn \<in> S"
    "\<forall>b\<in>S. set (fn_targets fn b) \<subseteq> S" for b S
    using that by (induction rule: rtrancl_induct) (auto simp: flow_edges_def)
  have "reachable_blocks fn \<subseteq> set bs" "reachable_blocks fn \<subseteq> B"
    using closed[OF _ bs(3,4)] closed[OF _ B(3,2)] by (auto simp: reachable_blocks_def)
  with bs show ?thesis by blast
qed

lemma summarize_fold_spec:
  "\<forall>b\<in>set bs. \<forall>i\<in>set (insns b). insn_ok i \<Longrightarrow>
   \<exists>m'. sum_option_fold (\<lambda>b m. map_option (\<lambda>t. sm_set b t m) (summarizeBlock (insns b))) bs m = Some m' \<and>
     (\<forall>b. map_of m' b = (if b \<in> set bs then summarizeBlock (insns b) else map_of m b))"
proof (induction bs arbitrary: m)
  case (Cons b bs)
  obtain t where t: "summarizeBlock (insns b) = Some t"
    using summarizeBlock_spec[of "insns b"] Cons.prems by auto
  with Cons.IH[of "sm_set b t m"] Cons.prems show ?case by auto
qed simp

lemma summarizeBlocks_spec:
  assumes "func_ok fn B"
  shows "\<exists>effs. summarizeBlocks fn = Some effs \<and>
    (\<forall>b. map_of effs b = (if b \<in> reachable_blocks fn then summarizeBlock (fn_insns fn b) else None))"
proof -
  obtain bs where bs: "search_blocks fn = Some bs" "set bs = reachable_blocks fn" "reachable_blocks fn \<subseteq> B"
    using search_blocks_spec[OF assms] by blast
  then have "\<forall>b\<in>set bs. \<forall>i\<in>set (fn_insns fn b). insn_ok i" using assms by (auto simp: func_ok_def)
  from summarize_fold_spec[OF this, of "[]"] bs show ?thesis by (auto simp: summarizeBlocks_def)
qed


section \<open>The meet of two states\<close>

definition opt_set :: "DefHeightSet option \<Rightarrow> DefHeightSet" where
  "opt_set r = (case r of None \<Rightarrow> [] | Some t \<Rightarrow> t)"

lemma opt_set_simps [simp]: "opt_set None = []" "opt_set (Some t) = t"
  by (simp_all add: opt_set_def)

lemma opt_set_ok: "state_ok st \<Longrightarrow> opt_set (map_of st l) = [] \<or> dhs_ok (opt_set (map_of st l))"
  using state_okD[of st l] by (cases "map_of st l") auto

lemma meetDefHeights_resolved:
  assumes "dhs_ok s1" "s2 = [] \<or> dhs_ok s2" "defs_resolved s1" "defs_resolved s2"
  shows "defs_resolved (meetDefHeights s1 s2)"
  using assms(1,2)
proof (cases rule: meetDefHeights_cases)
  case 1
  then show ?thesis by (simp add: defs_resolved_def makeBottomSet_def DefHeight_new_def Definition_bottom_def
        Definition_default_def)
next
  case 2
  with meet_insert_subset[of s1 s2] assms(3,4) show ?thesis by (auto simp: defs_resolved_def)
qed

lemma meet_entry_ok:
  assumes "dhs_ok s" "defs_resolved s" "state_ok acc"
  shows "meet_entry (l, s) acc = sm_set l (meetDefHeights s (opt_set (map_of acc l))) acc"
    "state_ok (meet_entry (l, s) acc)"
proof -
  note o = opt_set_ok[OF assms(3), of l]
  note m = meetDefHeights_ok[OF assms(1) o]
  show e: "meet_entry (l, s) acc = sm_set l (meetDefHeights s (opt_set (map_of acc l))) acc"
    using dhs_ok_not_top(2)[OF m] by (simp add: meet_entry_def opt_set_def)
  have "defs_resolved (opt_set (map_of acc l))"
    using state_okD(2)[OF assms(3), of l] by (cases "map_of acc l") (auto simp: defs_resolved_def)
  note r = meetDefHeights_resolved[OF assms(1) o assms(2) this]
  show "state_ok (meet_entry (l, s) acc)"
    unfolding e
  proof (rule state_okI)
    show "sm_ok (sm_set l (meetDefHeights s (opt_set (map_of acc l))) acc)"
      using assms(3) by (simp add: state_ok_def)
    show "dhs_ok t \<and> defs_resolved t"
      if "map_of (sm_set l (meetDefHeights s (opt_set (map_of acc l))) acc) k = Some t" for k t
      using that m r state_okD[OF assms(3), of k t] by (auto split: if_splits)
  qed
qed

lemma state_meet_spec:
  assumes "state_ok input" "state_ok acc"
  shows "state_ok (state_meet input acc)"
    "map_of (state_meet input acc) l =
      (case map_of input l of None \<Rightarrow> map_of acc l
       | Some s \<Rightarrow> Some (meetDefHeights s (opt_set (map_of acc l))))"
proof -
  have "state_ok (fold meet_entry input acc) \<and>
    map_of (fold meet_entry input acc) l = (case map_of input l of None \<Rightarrow> map_of acc l
       | Some s \<Rightarrow> Some (meetDefHeights s (opt_set (map_of acc l))))"
    using assms
  proof (induction input arbitrary: acc)
    case (Cons e input)
    obtain k s where e: "e = (k, s)" by (cases e)
    have ks: "dhs_ok s" "defs_resolved s" "state_ok input" "map_of input k = None"
      using Cons.prems(1) sm_ok_notin[of e input] e by (auto simp: state_ok_def)
    note m = meet_entry_ok[OF ks(1,2) Cons.prems(2), of k]
    from Cons.IH[OF ks(3) m(2)] ks(4) show ?case
      by (cases "l = k") (auto simp: e m(1) split: option.splits)
  qed simp
  then show "state_ok (state_meet input acc)"
    "map_of (state_meet input acc) l =
      (case map_of input l of None \<Rightarrow> map_of acc l
       | Some s \<Rightarrow> Some (meetDefHeights s (opt_set (map_of acc l))))"
    by (simp_all add: state_meet_def)
qed

lemma state_ok_Nil [simp]: "state_ok []"
  by (simp add: state_ok_def)

lemma state_eqI: "state_ok s \<Longrightarrow> state_ok t \<Longrightarrow> map_of s = map_of t \<Longrightarrow> s = t"
  by (rule sm_eqI) (simp_all add: state_ok_def)

lemma meetDefHeights_Nil: "dhs_ok s \<Longrightarrow> meetDefHeights s [] = s"
  using meetDefHeights_bottom[of "[]"] meetDefHeights_heights[of s "[]"]
  by (auto simp: dhs_ok_def dhs_heights_def)

lemma state_meet_Nil: "state_ok s \<Longrightarrow> state_meet s [] = s"
proof (rule state_eqI)
  assume s: "state_ok s"
  show "state_ok (state_meet s [])" by (rule state_meet_spec) (use s in simp_all)
  show "map_of (state_meet s []) = map_of s"
  proof
    fix l
    show "map_of (state_meet s []) l = map_of s l"
      using state_meet_spec(2)[OF s state_ok_Nil, of l] meetDefHeights_Nil state_okD(1)[OF s, of l]
      by (cases "map_of s l") auto
  qed
qed

lemma state_meet_absorb:
  assumes "state_ok s" "state_ok t"
  shows "state_meet (state_meet s t) t = state_meet s t"
proof (rule state_eqI)
  note m = state_meet_spec[OF assms]
  note n = state_meet_spec[OF m(1) assms(2)]
  show "state_ok (state_meet (state_meet s t) t)" "state_ok (state_meet s t)" by (rule n(1), rule m(1))
  show "map_of (state_meet (state_meet s t) t) = map_of (state_meet s t)"
  proof
    fix l
    note o = opt_set_ok[OF assms(2), of l]
    show "map_of (state_meet (state_meet s t) t) l = map_of (state_meet s t) l"
    proof (cases "map_of s l")
      case None
      then show ?thesis
        using n(2)[of l] m(2)[of l] meetDefHeights_idem state_okD(1)[OF assms(2), of l]
        by (cases "map_of t l") auto
    next
      case (Some u)
      with n(2)[of l] m(2)[of l] meetDefHeights_absorb[OF state_okD(1)[OF assms(1) Some] o] show ?thesis
        by simp
    qed
  qed
qed

section \<open>States only move down\<close>

definition state_rank :: "Absloc set \<Rightarrow> AbslocState \<Rightarrow> nat" where
  "state_rank L s = (\<Sum>l\<in>L. case map_of s l of None \<Rightarrow> 0 | Some t \<Rightarrow> dhs_rank t)"

lemma state_rank_bound: "state_ok s \<Longrightarrow> state_rank L s \<le> card L * Suc DEF_LIMIT"
proof -
  assume s: "state_ok s"
  have "(case map_of s l of None \<Rightarrow> 0 | Some t \<Rightarrow> dhs_rank t) \<le> Suc DEF_LIMIT" for l
    using dhs_rank_bounds(1)[OF state_okD(1)[OF s]] by (cases "map_of s l") auto
  then have "state_rank L s \<le> of_nat (card L) * Suc DEF_LIMIT"
    unfolding state_rank_def by (intro sum_bounded_above)
  then show ?thesis by simp
qed

lemma state_rank_meet:
  assumes "state_ok s" "state_ok t" "finite L" "dom (map_of (state_meet s t)) \<subseteq> L"
  shows "state_rank L s \<le> state_rank L (state_meet s t)"
    "state_rank L (state_meet s t) = state_rank L s \<Longrightarrow> state_meet s t = s"
proof -
  let ?m = "state_meet s t" and ?r = "\<lambda>s l. case map_of s l of None \<Rightarrow> 0 | Some t \<Rightarrow> dhs_rank t"
  note m = state_meet_spec[OF assms(1,2)]
  have le: "?r s l \<le> ?r ?m l" and eq: "?r ?m l = ?r s l \<Longrightarrow> map_of ?m l = map_of s l" for l
  proof -
    have "?r s l \<le> ?r ?m l \<and> (?r ?m l = ?r s l \<longrightarrow> map_of ?m l = map_of s l)"
    proof (cases "map_of s l")
      case None
      then show ?thesis
        using m(2)[of l] dhs_rank_bounds(2)[OF state_okD(1)[OF assms(2), of l]] by (cases "map_of t l") auto
    next
      case (Some u)
      with m(2)[of l] meetDefHeights_rank[OF state_okD(1)[OF assms(1) Some] opt_set_ok[OF assms(2), of l]]
      show ?thesis by simp
    qed
    then show "?r s l \<le> ?r ?m l" "?r ?m l = ?r s l \<Longrightarrow> map_of ?m l = map_of s l" by blast+
  qed
  show "state_rank L s \<le> state_rank L ?m" unfolding state_rank_def by (rule sum_mono) (rule le)
  assume e: "state_rank L ?m = state_rank L s"
  have "?r ?m l = ?r s l" if "l \<in> L" for l
    using sum_mono_inv[OF e[symmetric, unfolded state_rank_def] le that assms(3)] by simp
  with eq have "map_of ?m l = map_of s l" if "l \<in> L" for l using that by blast
  moreover have "map_of ?m l = map_of s l" if "l \<notin> L" for l
  proof -
    have "map_of ?m l = None" using assms(4) that by blast
    with m(2)[of l] show ?thesis by (cases "map_of s l") auto
  qed
  ultimately have "map_of ?m = map_of s" by blast
  with m(1) assms(1) show "?m = s" by (rule state_eqI)
qed

lemma sm_eq_same: "sm_eq DefHeightSet_eq s s"
  by (rule sm_eq_refl) (simp add: DefHeightSet_eq_def list_all2_same DefHeight_eq_def Definition_eq_def)


section \<open>The invariant of the iteration\<close>

lemma push_list_sets:
  "snd (fold add_target_list_exclude ts (w, d)) = d \<union> set ts"
  "set (fst (fold add_target_list_exclude ts (w, d))) = set w \<union> (set ts - d)"
  by (induction ts arbitrary: w d) (auto simp: add_target_list_exclude_def)

lemma push_list_distinct:
  "distinct w \<Longrightarrow> set w \<subseteq> d \<Longrightarrow> distinct (fst (fold add_target_list_exclude ts (w, d)))"
proof (induction ts arbitrary: w d)
  case (Cons t ts)
  show ?case
  proof (cases "t \<in> d")
    case True
    with Cons show ?thesis by (simp add: add_target_list_exclude_def)
  next
    case False
    with Cons.prems have "distinct (w @ [t])" "set (w @ [t]) \<subseteq> insert t d" by auto
    from Cons.IH[OF this] False show ?thesis by (simp add: add_target_list_exclude_def)
  qed
qed simp

lemma state_at_set [simp]: "state_at (sm_set b s m) c = (if c = b then s else state_at m c)"
  by (simp add: state_at_def)

lemma meet_fold_spec:
  assumes "\<forall>p\<in>set ps. state_ok (state_at outs p) \<and> dom (map_of (state_at outs p)) \<subseteq> L"
  shows "state_ok acc \<Longrightarrow> dom (map_of acc) \<subseteq> L \<Longrightarrow>
    state_ok (fold (\<lambda>p acc. state_meet (state_at outs p) acc) ps acc) \<and>
    dom (map_of (fold (\<lambda>p acc. state_meet (state_at outs p) acc) ps acc)) \<subseteq> L"
  using assms
proof (induction ps arbitrary: acc)
  case (Cons p ps)
  have p: "state_ok (state_at outs p)" "dom (map_of (state_at outs p)) \<subseteq> L" using Cons.prems by auto
  note m = state_meet_spec[OF p(1) Cons.prems(1)]
  have "dom (map_of (state_meet (state_at outs p) acc)) \<subseteq> L"
  proof
    fix l assume "l \<in> dom (map_of (state_meet (state_at outs p) acc))"
    with m(2)[of l] have "l \<in> dom (map_of (state_at outs p)) \<union> dom (map_of acc)"
      by (cases "map_of (state_at outs p) l") auto
    with p Cons.prems show "l \<in> L" by blast
  qed
  with Cons.IH[OF m(1)] Cons.prems show ?case by simp
qed simp

lemma state_meet_dom:
  assumes "state_ok s" "state_ok t"
  shows "dom (map_of (state_meet s t)) = dom (map_of s) \<union> dom (map_of t)"
proof (rule set_eqI)
  fix l
  show "l \<in> dom (map_of (state_meet s t)) \<longleftrightarrow> l \<in> dom (map_of s) \<union> dom (map_of t)"
    using state_meet_spec(2)[OF assms, of l] by (cases "map_of s l") auto
qed

lemma meetSources_cong:
  "(\<And>p. p \<in> set (fn_sources fn b) \<Longrightarrow> state_at outs p = state_at outs' p) \<Longrightarrow>
   meetSources fn outs b = meetSources fn outs' b"
  unfolding meetSources_def by (rule fold_cong) simp_all

lemma meetSources_empty:
  "(\<And>p. p \<in> set (fn_sources fn b) \<Longrightarrow> state_at outs p = []) \<Longrightarrow> meetSources fn outs b = []"
proof -
  have "fold (\<lambda>p acc. state_meet (state_at outs p) acc) ps [] = []" if "\<forall>p\<in>set ps. state_at outs p = []" for ps
    using that by (induction ps) (simp_all add: state_meet_def)
  then show "(\<And>p. p \<in> set (fn_sources fn b) \<Longrightarrow> state_at outs p = []) \<Longrightarrow> meetSources fn outs b = []"
    by (simp add: meetSources_def)
qed

record Fix_Problem =
  fp_func :: Func
  fp_effs :: "(nat, TransferSet) std_map"
  fp_entry :: AbslocState
  fp_blocks :: "nat set"

definition fp_locs :: "Fix_Problem \<Rightarrow> Absloc set" where
  "fp_locs P = dom (map_of (fp_entry P)) \<union> (\<Union>b\<in>fp_blocks P. dom (map_of (effects_at (fp_effs P) b)))"

definition fp_ok :: "Fix_Problem \<Rightarrow> bool" where
  "fp_ok P \<longleftrightarrow> func_ok (fp_func P) (fp_blocks P) \<and> state_ok (fp_entry P) \<and>
     (\<forall>b\<in>fp_blocks P. ts_funcs_ok (effects_at (fp_effs P) b))"

definition in_of :: "FixState \<Rightarrow> nat \<Rightarrow> AbslocState" where "in_of st = state_at (blockInputs st)"
definition out_of :: "FixState \<Rightarrow> nat \<Rightarrow> AbslocState" where "out_of st = state_at (blockOutputs st)"

definition stable :: "Fix_Problem \<Rightarrow> FixState \<Rightarrow> nat \<Rightarrow> bool" where
  "stable P st b \<longleftrightarrow> sm_eq DefHeightSet_eq
     (meetInputs (fp_func P) (blockOutputs st) b (state_at (blockInputs st) b)) (state_at (blockInputs st) b)"

text \<open>Well-formedness of the containers.\<close>

definition fix_wf :: "Fix_Problem \<Rightarrow> FixState \<Rightarrow> bool" where
  "fix_wf P st \<longleftrightarrow> touchedSet st \<subseteq> fp_blocks P \<and> set (worklist st) \<subseteq> fp_blocks P \<and>
     workSet st = set (worklist st) \<and> distinct (worklist st) \<and>
     sm_ok (blockInputs st) \<and> dom (map_of (blockInputs st)) = touchedSet st \<and>
     (\<forall>b. state_ok (in_of st b) \<and> dom (map_of (in_of st b)) \<subseteq> fp_locs P) \<and>
     (\<forall>b. state_ok (out_of st b) \<and> dom (map_of (out_of st b)) \<subseteq> fp_locs P) \<and>
     (\<forall>b. b \<notin> touchedSet st \<longrightarrow> in_of st b = [] \<and> out_of st b = [])"

text \<open>What is known of the blocks analysed so far.\<close>

definition fix_flow :: "Fix_Problem \<Rightarrow> FixState \<Rightarrow> bool" where
  "fix_flow P st \<longleftrightarrow>
     (firstBlock st \<longrightarrow> touchedSet st = {} \<and> worklist st = [fn_entry (fp_func P)]) \<and>
     (\<not> firstBlock st \<longrightarrow> fn_entry (fp_func P) \<in> touchedSet st) \<and>
     (\<forall>b\<in>touchedSet st. SummaryFunc_apply b (effects_at (fp_effs P) b) (in_of st b) = Some (out_of st b)) \<and>
     (\<forall>b\<in>touchedSet st. set (fn_targets (fp_func P) b) \<subseteq> touchedSet st \<union> set (worklist st)) \<and>
     (\<forall>b\<in>touchedSet st. b \<notin> set (worklist st) \<longrightarrow> stable P st b) \<and>
     touchedSet st \<union> set (worklist st) \<subseteq> reachable_blocks (fp_func P)"

lemma fp_okD:
  assumes "fp_ok P"
  shows "finite (fp_blocks P)" "fn_entry (fp_func P) \<in> fp_blocks P" "0 \<notin> fp_blocks P"
    "b \<in> fp_blocks P \<Longrightarrow> set (fn_targets (fp_func P) b) \<subseteq> fp_blocks P"
    "p \<in> set (fn_sources (fp_func P) b) \<Longrightarrow> b \<in> set (fn_targets (fp_func P) p)"
    "state_ok (fp_entry P)" "b \<in> fp_blocks P \<Longrightarrow> ts_funcs_ok (effects_at (fp_effs P) b)"
    "finite (fp_locs P)" "dom (map_of (fp_entry P)) \<subseteq> fp_locs P"
  using assms by (auto simp: fp_ok_def func_ok_def fp_locs_def finite_dom_map_of)

lemma apply_in_locs:
  assumes P: "fp_ok P" and b: "b \<in> fp_blocks P" and s: "state_ok s" "dom (map_of s) \<subseteq> fp_locs P"
  shows "\<exists>out. SummaryFunc_apply b (effects_at (fp_effs P) b) s = Some out \<and> state_ok out \<and>
    dom (map_of out) \<subseteq> fp_locs P"
proof -
  have "b \<noteq> 0" using fp_okD(3)[OF P] b by metis
  then obtain out where out: "SummaryFunc_apply b (effects_at (fp_effs P) b) s = Some out" "sm_ok out"
    "\<forall>l. (map_of (effects_at (fp_effs P) b) l = None \<longrightarrow> map_of out l = map_of s l) \<and>
      (\<forall>f. map_of (effects_at (fp_effs P) b) l = Some f \<longrightarrow> entry_ok (map_of out l) \<and>
         entry_val (map_of out l) = tf_sem f (height_at s))"
    using SummaryFunc_apply_spec[OF s(1), of b "effects_at (fp_effs P) b"] fp_okD(7)[OF P b] by auto
  have "l \<in> fp_locs P" if "map_of out l = Some t" for l t
  proof (cases "map_of (effects_at (fp_effs P) b) l")
    case None
    with out(3) that s(2) show ?thesis by (metis domI subsetD)
  next
    case (Some f)
    then show ?thesis using b by (auto simp: fp_locs_def)
  qed
  then have "dom (map_of out) \<subseteq> fp_locs P" by (auto simp: dom_def)
  with out(1) updated_state(1)[OF s(1) out(2,3)] show ?thesis by blast
qed

lemma meetSources_ok:
  assumes "fix_wf P st"
  shows "state_ok (meetSources (fp_func P) (blockOutputs st) b) \<and>
    dom (map_of (meetSources (fp_func P) (blockOutputs st) b)) \<subseteq> fp_locs P"
proof -
  have "\<forall>p\<in>set (fn_sources (fp_func P) b). state_ok (state_at (blockOutputs st) p) \<and>
      dom (map_of (state_at (blockOutputs st) p)) \<subseteq> fp_locs P"
    using assms by (simp add: fix_wf_def out_of_def)
  from meet_fold_spec[OF this, of "[]"] show ?thesis by (simp add: meetSources_def)
qed

text \<open>The input a block is analysed with.\<close>

definition next_input :: "Fix_Problem \<Rightarrow> FixState \<Rightarrow> nat \<Rightarrow> AbslocState" where
  "next_input P st b = (if firstBlock st then fp_entry P
     else meetInputs (fp_func P) (blockOutputs st) b (in_of st b))"

lemma next_input_ok:
  assumes "fp_ok P" "fix_wf P st"
  shows "state_ok (next_input P st b)" "dom (map_of (next_input P st b)) \<subseteq> fp_locs P"
proof -
  have i: "state_ok (in_of st b)" "dom (map_of (in_of st b)) \<subseteq> fp_locs P" using assms(2) by (simp_all add: fix_wf_def)
  note m = meetSources_ok[OF assms(2), of b]
  show "state_ok (next_input P st b)" "dom (map_of (next_input P st b)) \<subseteq> fp_locs P"
    using fp_okD(6,9)[OF assms(1)] state_meet_spec(1)[OF i(1)] m state_meet_dom[OF i(1)] i(2)
    by (simp_all add: next_input_def meetInputs_def)
qed

definition analysed :: "Fix_Problem \<Rightarrow> FixState \<Rightarrow> nat \<Rightarrow> nat list \<Rightarrow> AbslocState \<Rightarrow> FixState" where
  "analysed P st b r out = \<lparr>touchedSet = insert b (touchedSet st),
     worklist = fst (fold add_target_list_exclude (fn_targets (fp_func P) b) (r, workSet st - {b})),
     workSet = snd (fold add_target_list_exclude (fn_targets (fp_func P) b) (r, workSet st - {b})),
     blockInputs = sm_set b (next_input P st b) (blockInputs st),
     blockOutputs = sm_set b out (blockOutputs st), firstBlock = False\<rparr>"

lemma fixpoint_step_eq:
  assumes "worklist st = b # r"
  shows "fixpoint_step (fp_func P) (fp_effs P) (fp_entry P) st =
    (if sm_eq DefHeightSet_eq (next_input P st b) (in_of st b) \<and> b \<in> touchedSet st
     then Some (st\<lparr>worklist := r, workSet := workSet st - {b}\<rparr>)
     else map_option (analysed P st b r)
       (SummaryFunc_apply b (effects_at (fp_effs P) b) (next_input P st b)))"
  using assms by (simp add: fixpoint_step_def next_input_def in_of_def analysed_def Let_def case_prod_beta
      split: option.split)


section \<open>One round of the iteration\<close>

lemma skip_round:
  assumes wf: "fix_wf P st" and flow: "fix_flow P st" and w: "worklist st = b # r"
    and eq: "sm_eq DefHeightSet_eq (next_input P st b) (in_of st b)" and b: "b \<in> touchedSet st"
  shows "fix_wf P (st\<lparr>worklist := r, workSet := workSet st - {b}\<rparr>)"
    "fix_flow P (st\<lparr>worklist := r, workSet := workSet st - {b}\<rparr>)"
proof -
  let ?st = "st\<lparr>worklist := r, workSet := workSet st - {b}\<rparr>"
  have f: "\<not> firstBlock st" using flow b by (auto simp: fix_flow_def)
  have "stable P st b" using eq f by (simp add: stable_def next_input_def in_of_def)
  moreover have s: "stable P ?st c = stable P st c" for c by (simp add: stable_def)
  ultimately have "stable P ?st c" if "c \<in> touchedSet st" "c \<notin> set r" for c
    using flow w that by (cases "c = b") (simp_all add: fix_flow_def)
  then show "fix_flow P ?st" using flow f w b unfolding fix_flow_def in_of_def out_of_def by auto
  show "fix_wf P ?st" using wf w unfolding fix_wf_def in_of_def out_of_def by auto
qed

lemma analysed_simps:
  assumes "fix_wf P st" "worklist st = b # r"
  shows "touchedSet (analysed P st b r out) = insert b (touchedSet st)"
    "set (worklist (analysed P st b r out)) = set r \<union> set (fn_targets (fp_func P) b)"
    "workSet (analysed P st b r out) = set r \<union> set (fn_targets (fp_func P) b)"
    "distinct (worklist (analysed P st b r out))"
    "in_of (analysed P st b r out) c = (if c = b then next_input P st b else in_of st c)"
    "out_of (analysed P st b r out) c = (if c = b then out else out_of st c)"
    "\<not> firstBlock (analysed P st b r out)"
proof -
  have ws: "workSet st - {b} = set r" "distinct r" using assms by (auto simp: fix_wf_def)
  show "set (worklist (analysed P st b r out)) = set r \<union> set (fn_targets (fp_func P) b)"
    "workSet (analysed P st b r out) = set r \<union> set (fn_targets (fp_func P) b)"
    "distinct (worklist (analysed P st b r out))"
    using push_list_sets[of "fn_targets (fp_func P) b" r "set r"]
      push_list_distinct[OF ws(2) order_refl, of "fn_targets (fp_func P) b"]
    by (auto simp: analysed_def ws(1))
qed (simp_all add: analysed_def in_of_def out_of_def)

lemma analysed_wf:
  assumes P: "fp_ok P" and wf: "fix_wf P st" and w: "worklist st = b # r"
    and out: "state_ok out" "dom (map_of out) \<subseteq> fp_locs P"
  shows "fix_wf P (analysed P st b r out)"
proof -
  have b: "b \<in> fp_blocks P" and r: "set r \<subseteq> fp_blocks P" using wf w by (simp_all add: fix_wf_def)
  have i: "sm_ok (blockInputs (analysed P st b r out))"
    "dom (map_of (blockInputs (analysed P st b r out))) = insert b (touchedSet st)"
    using wf by (auto simp: analysed_def fix_wf_def)
  show ?thesis
    unfolding fix_wf_def analysed_simps[OF wf w]
    using next_input_ok[OF P wf, of b] out wf b r fp_okD(4)[OF P b] i analysed_simps(4)[OF wf w]
    by (simp add: fix_wf_def)
qed

lemma input_absorbs:
  assumes P: "fp_ok P" and wf: "fix_wf P st" and flow: "fix_flow P st"
  shows "state_meet (next_input P st b) (meetSources (fp_func P) (blockOutputs st) b) = next_input P st b"
proof (cases "firstBlock st")
  case True
  then have "touchedSet st = {}" using flow by (simp add: fix_flow_def)
  then have "state_at (blockOutputs st) p = []" for p using wf by (simp add: fix_wf_def out_of_def)
  then have "meetSources (fp_func P) (blockOutputs st) b = []" by (intro meetSources_empty)
  with state_meet_Nil[OF next_input_ok(1)[OF P wf]] show ?thesis by simp
next
  case False
  have "state_ok (in_of st b)" using wf by (simp add: fix_wf_def)
  with state_meet_absorb meetSources_ok[OF wf, of b] False show ?thesis
    by (simp add: next_input_def meetInputs_def)
qed

lemma analysed_stable:
  assumes P: "fp_ok P" and wf: "fix_wf P st" and flow: "fix_flow P st" and w: "worklist st = b # r"
    and c: "c \<in> insert b (touchedSet st)" "c \<notin> set r \<union> set (fn_targets (fp_func P) b)"
  shows "stable P (analysed P st b r out) c"
proof -
  have "b \<notin> set (fn_sources (fp_func P) c)" using fp_okD(5)[OF P, of b c] c(2) by blast
  then have "meetSources (fp_func P) (sm_set b out (blockOutputs st)) c =
      meetSources (fp_func P) (blockOutputs st) c"
    by (intro meetSources_cong) auto
  then have s: "stable P (analysed P st b r out) c \<longleftrightarrow> sm_eq DefHeightSet_eq
      (state_meet (if c = b then next_input P st b else in_of st c) (meetSources (fp_func P) (blockOutputs st) c))
      (if c = b then next_input P st b else in_of st c)"
    by (simp add: stable_def analysed_def meetInputs_def in_of_def)
  show ?thesis
  proof (cases "c = b")
    case True
    with s input_absorbs[OF P wf flow, of b] sm_eq_same show ?thesis by simp
  next
    case False
    then have "stable P st c" using flow w c by (simp add: fix_flow_def)
    with s False show ?thesis by (simp add: stable_def meetInputs_def in_of_def)
  qed
qed

lemma analysed_flow:
  assumes P: "fp_ok P" and wf: "fix_wf P st" and flow: "fix_flow P st" and w: "worklist st = b # r"
    and out: "SummaryFunc_apply b (effects_at (fp_effs P) b) (next_input P st b) = Some out"
  shows "fix_flow P (analysed P st b r out)"
proof -
  have b: "b \<in> reachable_blocks (fp_func P)" using flow w by (simp add: fix_flow_def)
  then have t: "set (fn_targets (fp_func P) b) \<subseteq> reachable_blocks (fp_func P)"
    by (auto simp: reachable_blocks_def flow_edges_def intro: rtrancl_into_rtrancl)
  have e: "fn_entry (fp_func P) \<in> insert b (touchedSet st)"
    using flow w by (cases "firstBlock st") (simp_all add: fix_flow_def)
  have f: "\<forall>c\<in>touchedSet st. set (fn_targets (fp_func P) c) \<subseteq> touchedSet st \<union> insert b (set r)"
    "\<forall>c\<in>touchedSet st. SummaryFunc_apply c (effects_at (fp_effs P) c) (in_of st c) = Some (out_of st c)"
    "touchedSet st \<union> set r \<subseteq> reachable_blocks (fp_func P)"
    using flow w by (simp_all add: fix_flow_def)
  show ?thesis
    unfolding fix_flow_def analysed_simps[OF wf w]
    using analysed_simps(7)[OF wf w] analysed_stable[OF P wf flow w] e f out b t by auto
qed


definition work_left :: "Fix_Problem \<Rightarrow> FixState \<Rightarrow> nat" where
  "work_left P st = (\<Sum>b\<in>fp_blocks P. (if b \<in> touchedSet st then 0 else 1) +
     (card (fp_locs P) * Suc DEF_LIMIT - state_rank (fp_locs P) (in_of st b)))"

lemma next_input_rank:
  assumes P: "fp_ok P" and wf: "fix_wf P st" and flow: "fix_flow P st"
    and new: "\<not> (sm_eq DefHeightSet_eq (next_input P st b) (in_of st b) \<and> b \<in> touchedSet st)"
  shows "state_rank (fp_locs P) (in_of st b) \<le> state_rank (fp_locs P) (next_input P st b)"
    "b \<in> touchedSet st \<Longrightarrow> state_rank (fp_locs P) (in_of st b) < state_rank (fp_locs P) (next_input P st b)"
proof -
  let ?m = "meetSources (fp_func P) (blockOutputs st) b" and ?L = "fp_locs P"
  have i: "state_ok (in_of st b)" using wf by (simp add: fix_wf_def)
  note m = meetSources_ok[OF wf, of b]
  have d: "dom (map_of (state_meet (in_of st b) ?m)) \<subseteq> ?L"
    using state_meet_dom[OF i] m wf by (simp add: fix_wf_def)
  note rk = state_rank_meet[OF i conjunct1[OF m] fp_okD(8)[OF P] d]
  show le: "state_rank ?L (in_of st b) \<le> state_rank ?L (next_input P st b)"
  proof (cases "firstBlock st")
    case True
    then have "in_of st b = []" using wf flow by (simp add: fix_wf_def fix_flow_def)
    then show ?thesis by (simp add: state_rank_def)
  next
    case False
    with rk(1) show ?thesis by (simp add: next_input_def meetInputs_def)
  qed
  assume b: "b \<in> touchedSet st"
  then have n: "next_input P st b = state_meet (in_of st b) ?m"
    using flow by (auto simp: next_input_def meetInputs_def fix_flow_def)
  have "next_input P st b \<noteq> in_of st b" using new b sm_eq_same by metis
  with rk(2) n have "state_rank ?L (next_input P st b) \<noteq> state_rank ?L (in_of st b)" by metis
  with le show "state_rank ?L (in_of st b) < state_rank ?L (next_input P st b)" by simp
qed

lemma work_left_analysed:
  assumes P: "fp_ok P" and wf: "fix_wf P st" and flow: "fix_flow P st" and w: "worklist st = b # r"
    and new: "\<not> (sm_eq DefHeightSet_eq (next_input P st b) (in_of st b) \<and> b \<in> touchedSet st)"
  shows "work_left P (analysed P st b r out) < work_left P st"
proof -
  let ?k = "card (fp_locs P) * Suc DEF_LIMIT" and ?rk = "state_rank (fp_locs P)"
  have b: "b \<in> fp_blocks P" using wf w by (simp add: fix_wf_def)
  note n = next_input_rank[OF P wf flow new]
  have k: "?rk (next_input P st b) \<le> ?k" by (rule state_rank_bound) (rule next_input_ok[OF P wf])
  have "?k - ?rk (next_input P st b) < (if b \<in> touchedSet st then 0 else 1) + (?k - ?rk (in_of st b))"
  proof (cases "b \<in> touchedSet st")
    case True
    from n(2)[OF this] k True show ?thesis by simp
  next
    case False
    with n(1) show ?thesis by simp
  qed
  then show ?thesis
    unfolding work_left_def analysed_simps(1,5)[OF wf w] using b fp_okD(1)[OF P]
    by (intro sum_strict_mono_ex1) auto
qed

lemma fixpoint_round:
  assumes P: "fp_ok P" and wf: "fix_wf P st" and flow: "fix_flow P st" and w: "worklist st \<noteq> []"
  shows "\<exists>st'. fixpoint_step (fp_func P) (fp_effs P) (fp_entry P) st = Some st' \<and> fix_wf P st' \<and> fix_flow P st' \<and>
    (st', st) \<in> measures [work_left P, \<lambda>st. length (worklist st)]"
proof -
  obtain b r where br: "worklist st = b # r" using w by (cases "worklist st") auto
  have b: "b \<in> fp_blocks P" using wf br by (simp add: fix_wf_def)
  show ?thesis
  proof (cases "sm_eq DefHeightSet_eq (next_input P st b) (in_of st b) \<and> b \<in> touchedSet st")
    case True
    have "work_left P (st\<lparr>worklist := r, workSet := workSet st - {b}\<rparr>) = work_left P st"
      by (simp add: work_left_def in_of_def)
    with True skip_round[OF wf flow br] fixpoint_step_eq[OF br, of P] br show ?thesis by simp
  next
    case False
    obtain out where out: "SummaryFunc_apply b (effects_at (fp_effs P) b) (next_input P st b) = Some out"
      "state_ok out" "dom (map_of out) \<subseteq> fp_locs P"
      using apply_in_locs[OF P b next_input_ok[OF P wf]] by blast
    have "fixpoint_step (fp_func P) (fp_effs P) (fp_entry P) st = Some (analysed P st b r out)"
      using fixpoint_step_eq[OF br, of P] False out(1) by auto
    moreover have "(analysed P st b r out, st) \<in> measures [work_left P, \<lambda>st. length (worklist st)]"
      using work_left_analysed[OF P wf flow br False] by simp
    ultimately show ?thesis
      using analysed_wf[OF P wf br out(2,3)] analysed_flow[OF P wf flow br out(1)] by blast
  qed
qed

lemma fixpoint_loop_returns:
  assumes P: "fp_ok P"
  shows "fix_wf P st \<Longrightarrow> fix_flow P st \<Longrightarrow>
    \<exists>st'. fixpoint_loop (fp_func P) (fp_effs P) (fp_entry P) st = Some st' \<and> fix_wf P st' \<and> fix_flow P st' \<and>
      worklist st' = []"
proof (induction st rule: wf_induct_rule[OF wf_measures[of "[work_left P, \<lambda>st. length (worklist st)]"]])
  case (1 st)
  show ?case
  proof (cases "worklist st = []")
    case True
    with 1 show ?thesis by (simp add: fixpoint_loop.simps)
  next
    case False
    obtain st' where st': "fixpoint_step (fp_func P) (fp_effs P) (fp_entry P) st = Some st'" "fix_wf P st'"
      "fix_flow P st'" "(st', st) \<in> measures [work_left P, \<lambda>st. length (worklist st)]"
      using fixpoint_round[OF P 1(2,3) False] by blast
    from 1(1)[OF st'(4,2,3)] st'(1) False show ?thesis by (simp add: fixpoint_loop.simps[of _ _ _ st])
  qed
qed

lemma fixpoint_init_inv:
  assumes "fp_ok P"
  shows "fix_wf P (fixpoint_init (fp_func P))" "fix_flow P (fixpoint_init (fp_func P))"
  using fp_okD(2)[OF assms]
  by (simp_all add: fix_wf_def fix_flow_def fixpoint_init_def in_of_def out_of_def state_at_def
      reachable_blocks_def sm_ok_def)

lemma closed_reachable:
  assumes "fn_entry fn \<in> S" "\<forall>b\<in>S. set (fn_targets fn b) \<subseteq> S"
  shows "reachable_blocks fn \<subseteq> S"
proof
  fix b assume "b \<in> reachable_blocks fn"
  then have "(fn_entry fn, b) \<in> (flow_edges (fn_targets fn))\<^sup>*" by (simp add: reachable_blocks_def)
  then show "b \<in> S" by (induction rule: rtrancl_induct) (use assms in \<open>auto simp: flow_edges_def\<close>)
qed

lemma fixpoint_spec:
  assumes "fp_ok P"
  obtains st where "fixpoint (fp_func P) (fp_effs P) (fp_entry P) = Some st" "fix_wf P st" "worklist st = []"
    "touchedSet st = reachable_blocks (fp_func P)"
    "\<forall>b\<in>reachable_blocks (fp_func P).
       SummaryFunc_apply b (effects_at (fp_effs P) b) (in_of st b) = Some (out_of st b) \<and> stable P st b"
proof -
  obtain st where st: "fixpoint (fp_func P) (fp_effs P) (fp_entry P) = Some st" "fix_wf P st"
    "fix_flow P st" "worklist st = []"
    using fixpoint_loop_returns[OF assms fixpoint_init_inv[OF assms]] by (auto simp: fixpoint_def)
  have f: "\<not> firstBlock st" using st(3,4) by (auto simp: fix_flow_def)
  then have "touchedSet st = reachable_blocks (fp_func P)"
    using st(3,4) closed_reachable[of "fp_func P" "touchedSet st"] by (auto simp: fix_flow_def)
  with st that show thesis by (simp add: fix_flow_def)
qed


section \<open>Reaching definitions are kept\<close>

lemma DefHeightSet_eq_rank: "DefHeightSet_eq s t \<Longrightarrow> dhs_ok s \<Longrightarrow> dhs_ok t \<Longrightarrow> dhs_rank s = dhs_rank t"
proof -
  assume e: "DefHeightSet_eq s t" and ok: "dhs_ok s" "dhs_ok t"
  have bot: "u = makeBottomSet"
    if "DefHeightSet_eq makeBottomSet u \<or> DefHeightSet_eq u makeBottomSet" "dhs_ok u" for u
    using that by (auto simp: dhs_ok_def dhs_heights_def DefHeightSet_eq_def DefHeight_eq_def Definition_eq_def
        makeBottomSet_def DefHeight_new_def Definition_bottom_def list_all2_Cons1 list_all2_Cons2)
  have "length s = length t" using e by (simp add: DefHeightSet_eq_def list_all2_lengthD)
  with bot[of s] bot[of t] e ok show ?thesis by (auto simp: dhs_rank_def)
qed

lemma state_eq_rank:
  assumes "sm_eq DefHeightSet_eq s t" "state_ok s" "state_ok t"
  shows "state_rank L s = state_rank L t"
  unfolding state_rank_def
proof (rule sum.cong[OF refl])
  fix l
  have "rel_option DefHeightSet_eq (map_of s l) (map_of t l)"
    using assms(1) by (rule sm_eq_map_of)
  then show "(case map_of s l of None \<Rightarrow> 0 | Some t \<Rightarrow> dhs_rank t) =
      (case map_of t l of None \<Rightarrow> 0 | Some t \<Rightarrow> dhs_rank t)"
    using DefHeightSet_eq_rank state_okD(1)[OF assms(2), of l] state_okD(1)[OF assms(3), of l]
    by (cases rule: option.rel_cases) auto
qed

lemma stable_meet:
  assumes P: "fp_ok P" and wf: "fix_wf P st" and s: "stable P st b"
  shows "state_meet (in_of st b) (meetSources (fp_func P) (blockOutputs st) b) = in_of st b"
proof -
  let ?m = "meetSources (fp_func P) (blockOutputs st) b"
  have i: "state_ok (in_of st b)" "dom (map_of (in_of st b)) \<subseteq> fp_locs P" using wf by (simp_all add: fix_wf_def)
  note m = meetSources_ok[OF wf, of b]
  have d: "dom (map_of (state_meet (in_of st b) ?m)) \<subseteq> fp_locs P" using state_meet_dom[OF i(1)] m i(2) by simp
  have "state_rank (fp_locs P) (state_meet (in_of st b) ?m) = state_rank (fp_locs P) (in_of st b)"
    using s state_meet_spec(1)[OF i(1)] m i(1)
    by (intro state_eq_rank) (simp_all add: stable_def meetInputs_def in_of_def)
  with state_rank_meet(2)[OF i(1) conjunct1[OF m] fp_okD(8)[OF P] d] show ?thesis by simp
qed

text \<open>A set accounts for a definition when it is BOTTOM or has an entry for that definition.\<close>

definition accounts :: "DefHeightSet \<Rightarrow> DefHeight \<Rightarrow> bool" where
  "accounts s dh \<longleftrightarrow> s = makeBottomSet \<or> covered s dh"

lemma covered_trans: "covered s x \<Longrightarrow> \<not> DefHeight_less x y \<Longrightarrow> \<not> DefHeight_less y x \<Longrightarrow> covered s y"
  unfolding covered_def using DefHeight_less_equiv DefHeight_less_trans by meson

lemma meetDefHeights_accounts:
  assumes "dhs_ok s" "t = [] \<or> dhs_ok t" "accounts s dh \<or> accounts t dh"
  shows "accounts (meetDefHeights s t) dh"
  using assms(1,2)
proof (cases rule: meetDefHeights_cases)
  case 2
  have "s \<noteq> makeBottomSet" "t \<noteq> makeBottomSet"
    using 2 dhs_heights_not_bottom[of s] dhs_heights_not_bottom[of t] by (auto simp: makeBottomSet_def)
  with assms(3) consider "covered s dh" | "covered t dh" by (auto simp: accounts_def)
  then have "covered (meet_insert s t) dh"
  proof cases
    case 1
    with covered_mono[OF _ meet_insert_mono] show ?thesis by blast
  next
    case c: 2
    then obtain x where x: "x \<in> set t" "\<not> DefHeight_less x dh" "\<not> DefHeight_less dh x" by (auto simp: covered_def)
    from covered_trans[OF meet_insert_covers[OF 2(3) x(1)] x(2,3)] show ?thesis .
  qed
  then show ?thesis unfolding accounts_def 2(4) by simp
qed (simp add: accounts_def)

definition state_accounts :: "AbslocState \<Rightarrow> Absloc \<Rightarrow> DefHeight \<Rightarrow> bool" where
  "state_accounts s l dh \<longleftrightarrow> (\<exists>t. map_of s l = Some t \<and> accounts t dh)"

lemma state_meet_accounts:
  assumes "state_ok s" "state_ok t" "state_accounts s l dh \<or> state_accounts t l dh"
  shows "state_accounts (state_meet s t) l dh"
proof (cases "map_of s l")
  case None
  with state_meet_spec(2)[OF assms(1,2), of l] assms(3) show ?thesis by (simp add: state_accounts_def)
next
  case (Some u)
  have "accounts u dh \<or> accounts (opt_set (map_of t l)) dh" using assms(3) Some by (auto simp: state_accounts_def)
  with meetDefHeights_accounts[OF state_okD(1)[OF assms(1) Some] opt_set_ok[OF assms(2), of l]]
    state_meet_spec(2)[OF assms(1,2), of l] Some show ?thesis by (simp add: state_accounts_def)
qed

lemma meet_fold_accounts:
  assumes "\<forall>p\<in>set ps. state_ok (state_at outs p)"
  shows "state_ok acc \<Longrightarrow> state_accounts acc l dh \<or> (\<exists>p\<in>set ps. state_accounts (state_at outs p) l dh) \<Longrightarrow>
    state_accounts (fold (\<lambda>p acc. state_meet (state_at outs p) acc) ps acc) l dh"
  using assms
proof (induction ps arbitrary: acc)
  case (Cons p ps)
  have p: "state_ok (state_at outs p)" "\<forall>p\<in>set ps. state_ok (state_at outs p)" using Cons.prems(3) by simp_all
  note m = state_meet_spec(1)[OF p(1) Cons.prems(1)] state_meet_accounts[OF p(1) Cons.prems(1), of l dh]
  from Cons.IH[OF m(1) _ p(2)] m(2) Cons.prems(2) show ?case by auto
qed simp

lemma stable_accounts:
  assumes P: "fp_ok P" and wf: "fix_wf P st" and s: "stable P st b"
    and p: "p \<in> set (fn_sources (fp_func P) b)" and dh: "map_of (out_of st p) l = Some t" "dh \<in> set t"
  shows "state_accounts (in_of st b) l dh"
proof -
  have ok: "\<forall>p\<in>set (fn_sources (fp_func P) b). state_ok (state_at (blockOutputs st) p)" "state_ok (in_of st b)"
    using wf by (simp_all add: fix_wf_def out_of_def)
  have "state_accounts (out_of st p) l dh"
    using dh covered_self[OF dh(2)] by (simp add: state_accounts_def accounts_def)
  then have "state_accounts (meetSources (fp_func P) (blockOutputs st) b) l dh"
    unfolding meetSources_def using p by (intro meet_fold_accounts[OF ok(1)]) (auto simp: out_of_def)
  with state_meet_accounts[OF ok(2) conjunct1[OF meetSources_ok[OF wf]], of l dh b] stable_meet[OF P wf s]
  show ?thesis by simp
qed


section \<open>Filling in the addresses keeps the heights\<close>






section \<open>The queries\<close>









section \<open>The analysis as a whole\<close>

definition block_offs :: "Func \<Rightarrow> nat \<Rightarrow> int list" where
  "block_offs fn b = map ie_off (fn_insns fn b) @ [fn_end fn b]"











definition func_problem :: "Func \<Rightarrow> (nat, TransferSet) std_map \<Rightarrow> AbslocState \<Rightarrow> nat set \<Rightarrow> Fix_Problem" where
  "func_problem fn effs entryInput B = \<lparr>fp_func = fn, fp_effs = effs, fp_entry = entryInput, fp_blocks = B\<rparr>"

lemma func_problem_sel:
  "fp_func (func_problem fn effs entryInput B) = fn" "fp_effs (func_problem fn effs entryInput B) = effs"
  "fp_entry (func_problem fn effs entryInput B) = entryInput"
  by (simp_all add: func_problem_def)

lemma func_problem_ok:
  assumes "func_ok fn B" "state_ok entryInput"
    and "\<forall>b. map_of effs b = (if b \<in> reachable_blocks fn then summarizeBlock (fn_insns fn b) else None)"
  shows "fp_ok (func_problem fn effs entryInput B)"
proof -
  have "ts_funcs_ok (effects_at effs b)" if "b \<in> B" for b
  proof (cases "b \<in> reachable_blocks fn")
    case True
    have "\<forall>i\<in>set (fn_insns fn b). insn_ok i" using assms(1) that by (simp add: func_ok_def)
    then obtain T where T: "summarizeBlock (fn_insns fn b) = Some T" "ts_ok T" using summarizeBlock_spec by blast
    then have "effects_at effs b = T" using assms(3) True by (simp add: effects_at_def)
    with T(2) show ?thesis by (simp add: ts_ok_def)
  qed (use assms(3) in \<open>simp add: effects_at_def\<close>)
  with assms(1,2) show ?thesis by (simp add: fp_ok_def func_problem_def)
qed



lemma createEntryInput_ok:
  assumes "fits64 (- word_size)"
  shows "state_ok (createEntryInput arch_power sp word_size)"
proof -
  have h: "dhs_ok (addInitSet (Height_of n) [])" "defs_resolved (addInitSet (Height_of n) [])" if "fits64 n" for n
    using that by (simp_all add: addInitSet_def dhs_insert_def dhs_ok_def dhs_heights_def defs_resolved_def
        DefHeight_new_def Definition_default_def DEF_LIMIT_def) (simp add: Height_of_def)
  have s: "state_ok (sm_set l (addInitSet (Height_of n) []) st)" if "fits64 n" "state_ok st" for l n st
  proof (rule state_okI)
    show "dhs_ok t \<and> defs_resolved t" if "map_of (sm_set l (addInitSet (Height_of n) []) st) k = Some t" for k t
      using that h[OF \<open>fits64 n\<close>] state_okD[OF \<open>state_ok st\<close>, of k t] by (simp split: if_splits)
  qed (use that(2) in \<open>simp add: state_ok_def\<close>)
  have "fits64 0" by (simp add: fits64_def LLONG_MIN_def LLONG_MAX_def)
  note e = s[OF this state_ok_Nil, of "RegLoc sp"] s[OF assms state_ok_Nil, of "RegLoc sp"]
  from e s[OF assms e(2), of "RegLoc x86_64_esp"] show ?thesis
    unfolding createEntryInput_def Let_def by presburger
qed


lemma fixpoint_solved:
  assumes "func_ok fn B" "state_ok entryInput"
  obtains effs st where "summarizeBlocks fn = Some effs"
    "\<forall>b. map_of effs b = (if b \<in> reachable_blocks fn then summarizeBlock (fn_insns fn b) else None)"
    "fp_ok (func_problem fn effs entryInput B)" "fixpoint fn effs entryInput = Some st"
    "fix_wf (func_problem fn effs entryInput B) st" "worklist st = []" "touchedSet st = reachable_blocks fn"
    "\<forall>b\<in>reachable_blocks fn. SummaryFunc_apply b (effects_at effs b) (in_of st b) = Some (out_of st b)"
    "\<forall>b\<in>reachable_blocks fn. stable (func_problem fn effs entryInput B) st b"
proof -
  obtain effs where effs: "summarizeBlocks fn = Some effs"
    "\<forall>b. map_of effs b = (if b \<in> reachable_blocks fn then summarizeBlock (fn_insns fn b) else None)"
    using summarizeBlocks_spec[OF assms(1)] by blast
  note P = func_problem_ok[OF assms effs(2)]
  obtain st where st: "fixpoint fn effs entryInput = Some st" "fix_wf (func_problem fn effs entryInput B) st"
    "worklist st = []" "touchedSet st = reachable_blocks fn"
    "\<forall>b\<in>reachable_blocks fn. SummaryFunc_apply b (effects_at effs b) (in_of st b) = Some (out_of st b) \<and>
       stable (func_problem fn effs entryInput B) st b"
    by (rule fixpoint_spec[OF P, unfolded func_problem_sel])
  from st(5) show thesis by (intro that[OF effs P st(1-4)]) blast+
qed



text \<open>A function with a loop: the entry block moves the stack pointer, the second block jumps to itself.\<close>

definition sample_func :: Func where
  "sample_func = \<lparr>fn_entry = 1, fn_targets = (\<lambda>b. if b = 1 \<or> b = 2 then [2] else []),
     fn_sources = (\<lambda>b. if b = 2 then [1, 2] else []),
     fn_insns = (\<lambda>b. if b = 1 then [\<lparr>ie_off = 4, ie_funcs = [deltaFunc (RegLoc 7) (-8)], ie_summary = []\<rparr>] else []),
     fn_end = (\<lambda>b. 8)\<rparr>"

lemma sample_func_ok:
  "func_ok sample_func {1, 2}" "state_ok (createEntryInput False 7 8)" "\<forall>b\<in>{1, 2}. sorted_wrt (<) (block_offs sample_func b)"
  "2 \<in> reachable_blocks sample_func"
proof -
  have "tf_ok (deltaFunc (RegLoc 7) (-8))"
    by (simp add: tf_ok_def deltaFunc_def TransferFunc_new_def tf_isBottom_def tf_isTop_def tf_isCopy_def
        tf_isSIB_def Absloc_isValid_def)
  then have i: "\<forall>i\<in>set (fn_insns sample_func b). insn_ok i" for b by (simp add: sample_func_def insn_ok_def)
  have t: "\<forall>b\<in>{1, 2}. set (fn_targets sample_func b) \<subseteq> {1, 2}" "fn_entry sample_func = 1"
    by (simp_all add: sample_func_def)
  have "b \<in> set (fn_targets sample_func p)" if "p \<in> set (fn_sources sample_func b)" for b p
    using that by (auto simp: sample_func_def split: if_splits)
  with i t show "func_ok sample_func {1, 2}" unfolding func_ok_def by simp
  show "state_ok (createEntryInput False 7 8)"
    by (rule createEntryInput_ok) (simp add: fits64_def LLONG_MIN_def LLONG_MAX_def)
  show "\<forall>b\<in>{1, 2}. sorted_wrt (<) (block_offs sample_func b)" by (simp add: block_offs_def sample_func_def)
  have "(1, 2) \<in> flow_edges (fn_targets sample_func)" by (simp add: flow_edges_def sample_func_def)
  then show "2 \<in> reachable_blocks sample_func"
    unfolding reachable_blocks_def t(2) by blast
qed

text \<open>C23. The search of \<open>summarizeBlocks\<close> ends, and it summarises every block that can be reached
  from the entry exactly once and no other block.\<close>

theorem Search_visits_reachable:
  assumes "func_ok fn B"
  shows "\<exists>bs effs. search_blocks fn = Some bs \<and> distinct bs \<and> set bs = reachable_blocks fn \<and>
    summarizeBlocks fn = Some effs \<and>
    (\<forall>b. map_of effs b = (if b \<in> reachable_blocks fn then summarizeBlock (fn_insns fn b) else None))"
  using search_blocks_spec[OF assms] summarizeBlocks_spec[OF assms] by blast

theorem Search_visits_reachable_witness:
  "\<exists>bs. search_blocks sample_func = Some bs \<and> distinct bs \<and> set bs = reachable_blocks sample_func"
  using Search_visits_reachable[OF sample_func_ok(1)] by blast

text \<open>C19. The fixpoint iteration ends for every function and every well-formed entry state, no
  assertion on the way fails, and its result is a solution of the data-flow equations: every
  block that can be reached was analysed, its output is its summary applied to its input, and
  meeting the outputs of its predecessors into its input changes nothing.\<close>

theorem Fixpoint_terminates:
  assumes "func_ok fn B" "state_ok entryInput"
  shows "\<exists>effs st. summarizeBlocks fn = Some effs \<and> fixpoint fn effs entryInput = Some st \<and>
    worklist st = [] \<and> touchedSet st = reachable_blocks fn \<and>
    (\<forall>b\<in>reachable_blocks fn.
       SummaryFunc_apply b (effects_at effs b) (state_at (blockInputs st) b) = Some (state_at (blockOutputs st) b) \<and>
       meetInputs fn (blockOutputs st) b (state_at (blockInputs st) b) = state_at (blockInputs st) b)"
proof -
  obtain effs st where st: "summarizeBlocks fn = Some effs"
    "\<forall>b. map_of effs b = (if b \<in> reachable_blocks fn then summarizeBlock (fn_insns fn b) else None)"
    "fp_ok (func_problem fn effs entryInput B)" "fixpoint fn effs entryInput = Some st"
    "fix_wf (func_problem fn effs entryInput B) st" "worklist st = []" "touchedSet st = reachable_blocks fn"
    "\<forall>b\<in>reachable_blocks fn. SummaryFunc_apply b (effects_at effs b) (in_of st b) = Some (out_of st b)"
    "\<forall>b\<in>reachable_blocks fn. stable (func_problem fn effs entryInput B) st b"
    by (rule fixpoint_solved[OF assms])
  have "\<forall>b\<in>reachable_blocks fn. meetInputs fn (blockOutputs st) b (in_of st b) = in_of st b"
    using stable_meet[OF st(3,5)] st(9) by (simp add: meetInputs_def func_problem_sel)
  with st(1,4,6-8) show ?thesis
    unfolding in_of_def out_of_def by (intro exI[of _ effs] exI[of _ st]) simp
qed

theorem Fixpoint_terminates_witness:
  "\<exists>effs st. summarizeBlocks sample_func = Some effs \<and>
     fixpoint sample_func effs (createEntryInput False 7 8) = Some st \<and> worklist st = []"
  using Fixpoint_terminates[OF sample_func_ok(1,2)] by blast

text \<open>C20. No definition is lost on the way to a block: when a definition of a location is in the
  output of a predecessor of a block, then in the block's input the location is BOTTOM or has an
  entry for that definition. (The height of that entry need not be the predecessor's, because
  the sets keep one height per definition.)\<close>

theorem Fixpoint_keeps_definitions:
  assumes "func_ok fn B" "state_ok entryInput"
  shows "\<exists>effs st. summarizeBlocks fn = Some effs \<and> fixpoint fn effs entryInput = Some st \<and>
    (\<forall>b\<in>reachable_blocks fn. \<forall>p\<in>set (fn_sources fn b). \<forall>(l, s)\<in>set (state_at (blockOutputs st) p). \<forall>dh\<in>set s.
       \<exists>t. map_of (state_at (blockInputs st) b) l = Some t \<and>
         (t = makeBottomSet \<or> (\<exists>x\<in>set t. \<not> DefHeight_less x dh \<and> \<not> DefHeight_less dh x)))"
proof -
  obtain effs st where st: "summarizeBlocks fn = Some effs"
    "\<forall>b. map_of effs b = (if b \<in> reachable_blocks fn then summarizeBlock (fn_insns fn b) else None)"
    "fp_ok (func_problem fn effs entryInput B)" "fixpoint fn effs entryInput = Some st"
    "fix_wf (func_problem fn effs entryInput B) st" "worklist st = []" "touchedSet st = reachable_blocks fn"
    "\<forall>b\<in>reachable_blocks fn. SummaryFunc_apply b (effects_at effs b) (in_of st b) = Some (out_of st b)"
    "\<forall>b\<in>reachable_blocks fn. stable (func_problem fn effs entryInput B) st b"
    by (rule fixpoint_solved[OF assms])
  have "state_accounts (in_of st b) l dh"
    if "b \<in> reachable_blocks fn" "p \<in> set (fn_sources fn b)" "(l, s) \<in> set (out_of st p)" "dh \<in> set s" for b p l s dh
  proof (rule stable_accounts[OF st(3,5), unfolded func_problem_sel])
    have "sm_ok (out_of st p)" using st(5) by (simp add: fix_wf_def state_ok_def)
    then show "map_of (out_of st p) l = Some s"
      using that(3) by (intro map_of_is_SomeI) (simp_all add: sm_ok_def strict_sorted_iff)
  qed (use st(9) that in blast)+
  with st(1,4) show ?thesis
    unfolding in_of_def out_of_def state_accounts_def accounts_def covered_def by blast
qed

theorem Fixpoint_keeps_definitions_witness:
  "\<exists>effs st. fixpoint sample_func effs (createEntryInput False 7 8) = Some st \<and>
     list_all (\<lambda>(l, s). list_all (\<lambda>dh. \<exists>t. map_of (state_at (blockInputs st) 2) l = Some t) s)
       (state_at (blockOutputs st) 1)"
proof -
  have p: "1 \<in> set (fn_sources sample_func 2)" by (simp add: sample_func_def)
  show ?thesis
    using Fixpoint_keeps_definitions[OF sample_func_ok(1,2)] sample_func_ok(4) p unfolding list_all_iff by blast
qed






end
