(* ===== verification/Register_Map.thy ===== *)
theory Register_Map
  imports Mach_Register
begin

text \<open>
  The register numbering of the liveness analysis, \<^verbatim>\<open>dataflowAPI/src/RegisterMap.C\<close>: for each
  architecture the map from registers to positions in a bit array. A map is the list of its
  initialiser entries; \<^const>\<open>map_of\<close> finds the first entry of a register, as the insertion into a
  \<^verbatim>\<open>std::map\<close> keeps it, and \<open>rm_size\<close> counts the distinct registers, the length of the bit arrays.
\<close>

type_synonym RegisterMap = "(MachRegister \<times> nat) list"

definition rm_size :: "RegisterMap \<Rightarrow> nat" where
  "rm_size m = length (remdups (map fst m))"

definition machRegIndex_x86 :: RegisterMap where
  "machRegIndex_x86 = [
    (x86_eax, 0), (x86_ecx, 1), (x86_edx, 2), (x86_ebx, 3), (x86_esp, 4), (x86_ebp, 5),
    (x86_esi, 6), (x86_edi, 7), (x86_eip, 8), (x86_cf, 9), (x86_flag1, 10), (x86_pf, 11),
    (x86_flag3, 12), (x86_af, 13), (x86_flag5, 14), (x86_zf, 15), (x86_sf, 16), (x86_tf, 17),
    (x86_if, 18), (x86_df, 19), (x86_of, 20), (x86_flagc, 21), (x86_flagd, 22), (x86_nt, 23),
    (x86_flagf, 24), (x86_rf, 25), (x86_ds, 26), (x86_es, 27), (x86_fs, 28), (x86_gs, 29),
    (x86_cs, 30), (x86_ss, 31), (x86_oeax, 32), (x86_fsbase, 33), (x86_gsbase, 34), (x86_k0, 35),
    (x86_k1, 36), (x86_k2, 37), (x86_k3, 38), (x86_k4, 39), (x86_k5, 40), (x86_k6, 41),
    (x86_k7, 42), (x86_zmm0, 43), (x86_zmm1, 44), (x86_zmm2, 45), (x86_zmm3, 46), (x86_zmm4, 47),
    (x86_zmm5, 48), (x86_zmm6, 49), (x86_zmm7, 50), (x86_ymm0, 75), (x86_ymm1, 76),
    (x86_ymm2, 77), (x86_ymm3, 78), (x86_ymm4, 79), (x86_ymm5, 80), (x86_ymm6, 81),
    (x86_ymm7, 82), (x86_xmm0, 107), (x86_xmm1, 108), (x86_xmm2, 109), (x86_xmm3, 110),
    (x86_xmm4, 111), (x86_xmm5, 112), (x86_xmm6, 113), (x86_xmm7, 114), (x86_mm0, 139),
    (x86_cr0, 140), (x86_cr1, 141), (x86_cr2, 142), (x86_cr3, 143), (x86_cr4, 144),
    (x86_cr5, 145), (x86_cr6, 146), (x86_cr7, 147), (x86_dr0, 148), (x86_dr1, 149),
    (x86_dr2, 150), (x86_dr3, 151), (x86_dr4, 152), (x86_dr5, 153), (x86_dr6, 154),
    (x86_dr7, 155), (x86_tr0, 156), (x86_tr1, 157), (x86_tr2, 158), (x86_tr3, 159),
    (x86_tr4, 160), (x86_tr5, 161), (x86_tr6, 162), (x86_tr7, 163)]"

definition machRegIndex_x86_64 :: RegisterMap where
  "machRegIndex_x86_64 = [
    (x86_64_rax, 0), (x86_64_rcx, 1), (x86_64_rdx, 2), (x86_64_rbx, 3), (x86_64_rsp, 4),
    (x86_64_rbp, 5), (x86_64_rsi, 6), (x86_64_rdi, 7), (x86_64_r8, 8), (x86_64_r9, 9),
    (x86_64_r10, 10), (x86_64_r11, 11), (x86_64_r12, 12), (x86_64_r13, 13), (x86_64_r14, 14),
    (x86_64_r15, 15), (x86_64_rip, 16), (x86_64_cf, 17), (x86_64_pf, 18), (x86_64_af, 19),
    (x86_64_zf, 20), (x86_64_sf, 21), (x86_64_tf, 22), (x86_64_if, 23), (x86_64_df, 24),
    (x86_64_of, 25), (x86_64_nt, 26), (x86_64_rf, 27), (x86_64_ds, 28), (x86_64_es, 29),
    (x86_64_fs, 30), (x86_64_gs, 31), (x86_64_cs, 32), (x86_64_ss, 33), (x86_64_orax, 34),
    (x86_64_fsbase, 35), (x86_64_gsbase, 36), (x86_64_k0, 37), (x86_64_k1, 38), (x86_64_k2, 39),
    (x86_64_k3, 40), (x86_64_k4, 41), (x86_64_k5, 42), (x86_64_k6, 43), (x86_64_k7, 44),
    (x86_64_zmm0, 45), (x86_64_zmm1, 46), (x86_64_zmm2, 47), (x86_64_zmm3, 48), (x86_64_zmm4, 49),
    (x86_64_zmm5, 50), (x86_64_zmm6, 51), (x86_64_zmm7, 52), (x86_64_zmm8, 53), (x86_64_zmm9, 54),
    (x86_64_zmm10, 55), (x86_64_zmm11, 56), (x86_64_zmm12, 57), (x86_64_zmm13, 58),
    (x86_64_zmm14, 59), (x86_64_zmm15, 60), (x86_64_zmm16, 61), (x86_64_zmm17, 62),
    (x86_64_zmm18, 63), (x86_64_zmm19, 64), (x86_64_zmm20, 65), (x86_64_zmm21, 66),
    (x86_64_zmm22, 67), (x86_64_zmm23, 68), (x86_64_zmm24, 69), (x86_64_zmm25, 70),
    (x86_64_zmm26, 71), (x86_64_zmm27, 72), (x86_64_zmm28, 73), (x86_64_zmm29, 74),
    (x86_64_zmm30, 75), (x86_64_zmm31, 76), (x86_64_ymm0, 77), (x86_64_ymm1, 78),
    (x86_64_ymm2, 79), (x86_64_ymm3, 80), (x86_64_ymm4, 81), (x86_64_ymm5, 82), (x86_64_ymm6, 83),
    (x86_64_ymm7, 84), (x86_64_ymm8, 85), (x86_64_ymm9, 86), (x86_64_ymm10, 87),
    (x86_64_ymm11, 88), (x86_64_ymm12, 89), (x86_64_ymm13, 90), (x86_64_ymm14, 91),
    (x86_64_ymm15, 92), (x86_64_ymm16, 93), (x86_64_ymm17, 94), (x86_64_ymm18, 95),
    (x86_64_ymm19, 96), (x86_64_ymm20, 97), (x86_64_ymm21, 98), (x86_64_ymm22, 99),
    (x86_64_ymm23, 100), (x86_64_ymm24, 101), (x86_64_ymm25, 102), (x86_64_ymm26, 103),
    (x86_64_ymm27, 104), (x86_64_ymm28, 105), (x86_64_ymm29, 106), (x86_64_ymm30, 107),
    (x86_64_ymm31, 108), (x86_64_xmm0, 109), (x86_64_xmm1, 110), (x86_64_xmm2, 111),
    (x86_64_xmm3, 112), (x86_64_xmm4, 113), (x86_64_xmm5, 114), (x86_64_xmm6, 115),
    (x86_64_xmm7, 116), (x86_64_xmm8, 117), (x86_64_xmm9, 118), (x86_64_xmm10, 119),
    (x86_64_xmm11, 120), (x86_64_xmm12, 121), (x86_64_xmm13, 122), (x86_64_xmm14, 123),
    (x86_64_xmm15, 124), (x86_64_xmm16, 125), (x86_64_xmm17, 126), (x86_64_xmm18, 127),
    (x86_64_xmm19, 128), (x86_64_xmm20, 129), (x86_64_xmm21, 130), (x86_64_xmm22, 131),
    (x86_64_xmm23, 132), (x86_64_xmm24, 133), (x86_64_xmm25, 134), (x86_64_xmm26, 135),
    (x86_64_xmm27, 136), (x86_64_xmm28, 137), (x86_64_xmm29, 138), (x86_64_xmm30, 139),
    (x86_64_xmm31, 140), (x86_64_mm0, 141), (x86_64_cr0, 142), (x86_64_cr1, 143),
    (x86_64_cr2, 144), (x86_64_cr3, 145), (x86_64_cr4, 146), (x86_64_cr5, 147), (x86_64_cr6, 148),
    (x86_64_cr7, 149), (x86_64_dr0, 150), (x86_64_dr1, 151), (x86_64_dr2, 152), (x86_64_dr3, 153),
    (x86_64_dr4, 154), (x86_64_dr5, 155), (x86_64_dr6, 156), (x86_64_dr7, 157), (x86_64_tr0, 158),
    (x86_64_tr1, 159), (x86_64_tr2, 160), (x86_64_tr3, 161), (x86_64_tr4, 162), (x86_64_tr5, 163),
    (x86_64_tr6, 164), (x86_64_tr7, 165)]"

definition machRegIndex_ppc :: RegisterMap where
  "machRegIndex_ppc = [
    (ppc32_r0, 0), (ppc32_r1, 1), (ppc32_r2, 2), (ppc32_r3, 3), (ppc32_r4, 4), (ppc32_r5, 5),
    (ppc32_r6, 6), (ppc32_r7, 7), (ppc32_r8, 8), (ppc32_r9, 9), (ppc32_r10, 10), (ppc32_r11, 11),
    (ppc32_r12, 12), (ppc32_r13, 13), (ppc32_r14, 14), (ppc32_r15, 15), (ppc32_r16, 16),
    (ppc32_r17, 17), (ppc32_r18, 18), (ppc32_r19, 19), (ppc32_r20, 20), (ppc32_r21, 21),
    (ppc32_r22, 22), (ppc32_r23, 23), (ppc32_r24, 24), (ppc32_r25, 25), (ppc32_r26, 26),
    (ppc32_r27, 27), (ppc32_r28, 28), (ppc32_r29, 29), (ppc32_r30, 30), (ppc32_r31, 31),
    (ppc32_fpr0, 32), (ppc32_fpr1, 33), (ppc32_fpr2, 34), (ppc32_fpr3, 35), (ppc32_fpr4, 36),
    (ppc32_fpr5, 37), (ppc32_fpr6, 38), (ppc32_fpr7, 39), (ppc32_fpr8, 40), (ppc32_fpr9, 41),
    (ppc32_fpr10, 42), (ppc32_fpr11, 43), (ppc32_fpr12, 44), (ppc32_fpr13, 45), (ppc32_fpr14, 46),
    (ppc32_fpr15, 47), (ppc32_fpr16, 48), (ppc32_fpr17, 49), (ppc32_fpr18, 50), (ppc32_fpr19, 51),
    (ppc32_fpr20, 52), (ppc32_fpr21, 53), (ppc32_fpr22, 54), (ppc32_fpr23, 55), (ppc32_fpr24, 56),
    (ppc32_fpr25, 57), (ppc32_fpr26, 58), (ppc32_fpr27, 59), (ppc32_fpr28, 60), (ppc32_fpr29, 61),
    (ppc32_fpr30, 62), (ppc32_fpr31, 63), (ppc32_fsr0, 64), (ppc32_fsr1, 65), (ppc32_fsr2, 66),
    (ppc32_fsr3, 67), (ppc32_fsr4, 68), (ppc32_fsr5, 69), (ppc32_fsr6, 70), (ppc32_fsr7, 71),
    (ppc32_fsr8, 72), (ppc32_fsr9, 73), (ppc32_fsr10, 74), (ppc32_fsr11, 75), (ppc32_fsr12, 76),
    (ppc32_fsr13, 77), (ppc32_fsr14, 78), (ppc32_fsr15, 79), (ppc32_fsr16, 80), (ppc32_fsr17, 81),
    (ppc32_fsr18, 82), (ppc32_fsr19, 83), (ppc32_fsr20, 84), (ppc32_fsr21, 85), (ppc32_fsr22, 86),
    (ppc32_fsr23, 87), (ppc32_fsr24, 88), (ppc32_fsr25, 89), (ppc32_fsr26, 90), (ppc32_fsr27, 91),
    (ppc32_fsr28, 92), (ppc32_fsr29, 93), (ppc32_fsr30, 94), (ppc32_fsr31, 95), (ppc32_mq, 96),
    (ppc32_xer, 97), (ppc32_lr, 98), (ppc32_ctr, 99), (ppc32_dsisr, 100), (ppc32_dar, 101),
    (ppc32_dec, 102), (ppc32_sdr1, 103), (ppc32_srr0, 104), (ppc32_srr1, 105), (ppc32_sprg0, 106),
    (ppc32_sprg1, 107), (ppc32_sprg2, 108), (ppc32_sprg3, 109), (ppc32_sprg3_ro, 109),
    (ppc32_ear, 110), (ppc32_tbl_wo, 111), (ppc32_tbl_ro, 111), (ppc32_tbu_wo, 112),
    (ppc32_tbu_ro, 112), (ppc32_pvr, 113), (ppc32_ibat0u, 114), (ppc32_ibat0l, 115),
    (ppc32_ibat1u, 116), (ppc32_ibat1l, 117), (ppc32_ibat2u, 118), (ppc32_ibat2l, 119),
    (ppc32_ibat3u, 120), (ppc32_ibat3l, 121), (ppc32_dbat0u, 122), (ppc32_dbat0l, 123),
    (ppc32_dbat1u, 124), (ppc32_dbat1l, 125), (ppc32_dbat2u, 126), (ppc32_dbat2l, 127),
    (ppc32_dbat3u, 128), (ppc32_dbat3l, 129), (ppc32_pc, 130), (ppc32_fpscw, 131),
    (ppc32_fpscw0, 132), (ppc32_fpscw1, 133), (ppc32_fpscw2, 134), (ppc32_fpscw3, 135),
    (ppc32_fpscw4, 136), (ppc32_fpscw5, 137), (ppc32_fpscw6, 138), (ppc32_fpscw7, 139),
    (ppc32_msr, 140), (ppc32_ivpr, 141), (ppc32_ivor8, 142), (ppc32_seg0, 143), (ppc32_seg1, 144),
    (ppc32_seg2, 145), (ppc32_seg3, 146), (ppc32_seg4, 147), (ppc32_seg5, 148), (ppc32_seg6, 149),
    (ppc32_seg7, 150), (ppc32_cr0, 151), (ppc32_cr1, 152), (ppc32_cr2, 153), (ppc32_cr3, 154),
    (ppc32_cr4, 155), (ppc32_cr5, 156), (ppc32_cr6, 157), (ppc32_cr7, 158), (ppc32_cr, 159),
    (ppc32_sprg4, 160), (ppc32_sprg4_ro, 160), (ppc32_sprg5, 161), (ppc32_sprg5_ro, 161),
    (ppc32_sprg6, 162), (ppc32_sprg6_ro, 162), (ppc32_sprg7, 163), (ppc32_sprg7_ro, 163)]"

definition machRegIndex_ppc_64 :: RegisterMap where
  "machRegIndex_ppc_64 = [
    (ppc64_r0, 0), (ppc64_r1, 1), (ppc64_r2, 2), (ppc64_r3, 3), (ppc64_r4, 4), (ppc64_r5, 5),
    (ppc64_r6, 6), (ppc64_r7, 7), (ppc64_r8, 8), (ppc64_r9, 9), (ppc64_r10, 10), (ppc64_r11, 11),
    (ppc64_r12, 12), (ppc64_r13, 13), (ppc64_r14, 14), (ppc64_r15, 15), (ppc64_r16, 16),
    (ppc64_r17, 17), (ppc64_r18, 18), (ppc64_r19, 19), (ppc64_r20, 20), (ppc64_r21, 21),
    (ppc64_r22, 22), (ppc64_r23, 23), (ppc64_r24, 24), (ppc64_r25, 25), (ppc64_r26, 26),
    (ppc64_r27, 27), (ppc64_r28, 28), (ppc64_r29, 29), (ppc64_r30, 30), (ppc64_r31, 31),
    (ppc64_fpr0, 32), (ppc64_fpr1, 33), (ppc64_fpr2, 34), (ppc64_fpr3, 35), (ppc64_fpr4, 36),
    (ppc64_fpr5, 37), (ppc64_fpr6, 38), (ppc64_fpr7, 39), (ppc64_fpr8, 40), (ppc64_fpr9, 41),
    (ppc64_fpr10, 42), (ppc64_fpr11, 43), (ppc64_fpr12, 44), (ppc64_fpr13, 45), (ppc64_fpr14, 46),
    (ppc64_fpr15, 47), (ppc64_fpr16, 48), (ppc64_fpr17, 49), (ppc64_fpr18, 50), (ppc64_fpr19, 51),
    (ppc64_fpr20, 52), (ppc64_fpr21, 53), (ppc64_fpr22, 54), (ppc64_fpr23, 55), (ppc64_fpr24, 56),
    (ppc64_fpr25, 57), (ppc64_fpr26, 58), (ppc64_fpr27, 59), (ppc64_fpr28, 60), (ppc64_fpr29, 61),
    (ppc64_fpr30, 62), (ppc64_fpr31, 63), (ppc64_fsr0, 64), (ppc64_fsr1, 65), (ppc64_fsr2, 66),
    (ppc64_fsr3, 67), (ppc64_fsr4, 68), (ppc64_fsr5, 69), (ppc64_fsr6, 70), (ppc64_fsr7, 71),
    (ppc64_fsr8, 72), (ppc64_fsr9, 73), (ppc64_fsr10, 74), (ppc64_fsr11, 75), (ppc64_fsr12, 76),
    (ppc64_fsr13, 77), (ppc64_fsr14, 78), (ppc64_fsr15, 79), (ppc64_fsr16, 80), (ppc64_fsr17, 81),
    (ppc64_fsr18, 82), (ppc64_fsr19, 83), (ppc64_fsr20, 84), (ppc64_fsr21, 85), (ppc64_fsr22, 86),
    (ppc64_fsr23, 87), (ppc64_fsr24, 88), (ppc64_fsr25, 89), (ppc64_fsr26, 90), (ppc64_fsr27, 91),
    (ppc64_fsr28, 92), (ppc64_fsr29, 93), (ppc64_fsr30, 94), (ppc64_fsr31, 95), (ppc64_mq, 96),
    (ppc64_xer, 97), (ppc64_lr, 98), (ppc64_ctr, 99), (ppc64_dsisr, 100), (ppc64_dar, 101),
    (ppc64_dec, 102), (ppc64_sdr1, 103), (ppc64_srr0, 104), (ppc64_srr1, 105), (ppc64_sprg0, 106),
    (ppc64_sprg1, 107), (ppc64_sprg2, 108), (ppc64_sprg3, 109), (ppc64_sprg3_ro, 109),
    (ppc64_ear, 110), (ppc64_tbl_wo, 111), (ppc64_tbl_ro, 111), (ppc64_tbu_wo, 112),
    (ppc64_tbu_ro, 112), (ppc64_pvr, 113), (ppc64_ibat0u, 114), (ppc64_ibat0l, 115),
    (ppc64_ibat1u, 116), (ppc64_ibat1l, 117), (ppc64_ibat2u, 118), (ppc64_ibat2l, 119),
    (ppc64_ibat3u, 120), (ppc64_ibat3l, 121), (ppc64_dbat0u, 122), (ppc64_dbat0l, 123),
    (ppc64_dbat1u, 124), (ppc64_dbat1l, 125), (ppc64_dbat2u, 126), (ppc64_dbat2l, 127),
    (ppc64_dbat3u, 128), (ppc64_dbat3l, 129), (ppc64_pc, 130), (ppc64_fpscw, 131),
    (ppc64_fpscw0, 132), (ppc64_fpscw1, 133), (ppc64_fpscw2, 134), (ppc64_fpscw3, 135),
    (ppc64_fpscw4, 136), (ppc64_fpscw5, 137), (ppc64_fpscw6, 138), (ppc64_fpscw7, 139),
    (ppc64_msr, 140), (ppc64_ivpr, 141), (ppc64_ivor8, 142), (ppc64_seg0, 143), (ppc64_seg1, 144),
    (ppc64_seg2, 145), (ppc64_seg3, 146), (ppc64_seg4, 147), (ppc64_seg5, 148), (ppc64_seg6, 149),
    (ppc64_seg7, 150), (ppc64_cr0, 151), (ppc64_cr1, 152), (ppc64_cr2, 153), (ppc64_cr3, 154),
    (ppc64_cr4, 155), (ppc64_cr5, 156), (ppc64_cr6, 157), (ppc64_cr7, 158), (ppc64_cr, 159),
    (ppc64_sprg4, 160), (ppc64_sprg4_ro, 160), (ppc64_sprg5, 161), (ppc64_sprg5_ro, 161),
    (ppc64_sprg6, 162), (ppc64_sprg6_ro, 162), (ppc64_sprg7, 163), (ppc64_sprg7_ro, 163)]"

definition machRegIndex_aarch64 :: RegisterMap where
  "machRegIndex_aarch64 = [
    (aarch64_x0, 0), (aarch64_x1, 1), (aarch64_x2, 2), (aarch64_x3, 3), (aarch64_x4, 4),
    (aarch64_x5, 5), (aarch64_x6, 6), (aarch64_x7, 7), (aarch64_x8, 8), (aarch64_x9, 9),
    (aarch64_x10, 10), (aarch64_x11, 11), (aarch64_x12, 12), (aarch64_x13, 13), (aarch64_x14, 14),
    (aarch64_x15, 15), (aarch64_x16, 16), (aarch64_x17, 17), (aarch64_x18, 18), (aarch64_x19, 19),
    (aarch64_x20, 20), (aarch64_x21, 21), (aarch64_x22, 22), (aarch64_x23, 23), (aarch64_x24, 24),
    (aarch64_x25, 25), (aarch64_x26, 26), (aarch64_x27, 27), (aarch64_x28, 28), (aarch64_x29, 29),
    (aarch64_x30, 30), (aarch64_w0, 0), (aarch64_w1, 1), (aarch64_w2, 2), (aarch64_w3, 3),
    (aarch64_w4, 4), (aarch64_w5, 5), (aarch64_w6, 6), (aarch64_w7, 7), (aarch64_w8, 8),
    (aarch64_w9, 9), (aarch64_w10, 10), (aarch64_w11, 11), (aarch64_w12, 12), (aarch64_w13, 13),
    (aarch64_w14, 14), (aarch64_w15, 15), (aarch64_w16, 16), (aarch64_w17, 17), (aarch64_w18, 18),
    (aarch64_w19, 19), (aarch64_w20, 20), (aarch64_w21, 21), (aarch64_w22, 22), (aarch64_w23, 23),
    (aarch64_w24, 24), (aarch64_w25, 25), (aarch64_w26, 26), (aarch64_w27, 27), (aarch64_w28, 28),
    (aarch64_w29, 29), (aarch64_w30, 30), (aarch64_q0, 31), (aarch64_q1, 32), (aarch64_q2, 33),
    (aarch64_q3, 34), (aarch64_q4, 35), (aarch64_q5, 36), (aarch64_q6, 37), (aarch64_q7, 38),
    (aarch64_q8, 39), (aarch64_q9, 40), (aarch64_q10, 41), (aarch64_q11, 42), (aarch64_q12, 43),
    (aarch64_q13, 44), (aarch64_q14, 45), (aarch64_q15, 46), (aarch64_q16, 47), (aarch64_q17, 48),
    (aarch64_q18, 49), (aarch64_q19, 50), (aarch64_q20, 51), (aarch64_q21, 52), (aarch64_q22, 53),
    (aarch64_q23, 54), (aarch64_q24, 55), (aarch64_q25, 56), (aarch64_q26, 57), (aarch64_q27, 58),
    (aarch64_q28, 59), (aarch64_q29, 60), (aarch64_q30, 61), (aarch64_q31, 62),
    (aarch64_fpcr, 63), (aarch64_fpsr, 64), (aarch64_pc, 65), (aarch64_sp, 66),
    (aarch64_pstate, 67), (aarch64_xzr, 68)]"

section \<open>The numberings\<close>

lemma distinct_regs: "distinct (map uint (map fst (m :: RegisterMap))) \<Longrightarrow> distinct (map fst m)"
  by (metis distinct_map)

lemma distinct_size: "distinct (map fst m) \<Longrightarrow> rm_size m = length m"
  by (simp add: rm_size_def distinct_remdups_id)

lemma distinct_x86: "distinct (map fst machRegIndex_x86)"
  by (rule distinct_regs) (simp add: machRegIndex_x86_def)

lemma size_x86: "rm_size machRegIndex_x86 = 92"
  unfolding distinct_size[OF distinct_x86] by (simp add: machRegIndex_x86_def)

lemma distinct_x86_64: "distinct (map fst machRegIndex_x86_64)"
  by (rule distinct_regs) (simp add: machRegIndex_x86_64_def)

lemma size_x86_64: "rm_size machRegIndex_x86_64 = 166"
  unfolding distinct_size[OF distinct_x86_64] by (simp add: machRegIndex_x86_64_def)

lemma distinct_ppc: "distinct (map fst machRegIndex_ppc)"
  by (rule distinct_regs) (simp add: machRegIndex_ppc_def)

lemma size_ppc: "rm_size machRegIndex_ppc = 171"
  unfolding distinct_size[OF distinct_ppc] by (simp add: machRegIndex_ppc_def)

lemma distinct_ppc_64: "distinct (map fst machRegIndex_ppc_64)"
  by (rule distinct_regs) (simp add: machRegIndex_ppc_64_def)

lemma size_ppc_64: "rm_size machRegIndex_ppc_64 = 171"
  unfolding distinct_size[OF distinct_ppc_64] by (simp add: machRegIndex_ppc_64_def)

lemma distinct_aarch64: "distinct (map fst machRegIndex_aarch64)"
  by (rule distinct_regs) (simp add: machRegIndex_aarch64_def)

lemma size_aarch64: "rm_size machRegIndex_aarch64 = 100"
  unfolding distinct_size[OF distinct_aarch64] by (simp add: machRegIndex_aarch64_def)

lemmas rm_sizes = size_x86 size_x86_64 size_ppc size_ppc_64 size_aarch64

definition numbering_ok :: "RegisterMap \<Rightarrow> bool" where
  "numbering_ok m \<longleftrightarrow> list_all (\<lambda>(r, i). i < rm_size m) m"

lemma numbering_x86_64: "numbering_ok machRegIndex_x86_64"
  unfolding numbering_ok_def size_x86_64 by (simp add: machRegIndex_x86_64_def)

lemma numbering_ppc: "numbering_ok machRegIndex_ppc"
  unfolding numbering_ok_def size_ppc by (simp add: machRegIndex_ppc_def)

lemma numbering_ppc_64: "numbering_ok machRegIndex_ppc_64"
  unfolding numbering_ok_def size_ppc_64 by (simp add: machRegIndex_ppc_64_def)

lemma numbering_aarch64: "numbering_ok machRegIndex_aarch64"
  unfolding numbering_ok_def size_aarch64 by (simp add: machRegIndex_aarch64_def)

lemma numbering_in_range: "numbering_ok m \<Longrightarrow> map_of m r = Some i \<Longrightarrow> i < rm_size m"
  by (auto simp: numbering_ok_def list_all_iff dest!: map_of_SomeD)

text \<open>C28. The positions the numbering of a register gives lie inside the bit arrays the analysis
  allocates, whose length is the number of registers of the map, on x86-64, on both Power
  numberings and on AArch64. On 32-bit x86 they do not: the map has 92 registers but gives the
  xmm, mm0, control, debug and test registers, 33 in all, positions from 107 to 163.\<close>

theorem Register_numbering_bounds:
  "list_all numbering_ok [machRegIndex_x86_64, machRegIndex_ppc, machRegIndex_ppc_64, machRegIndex_aarch64] \<and>
   rm_size machRegIndex_x86 = 92 \<and>
   map snd (filter (\<lambda>(r, i). rm_size machRegIndex_x86 \<le> i) machRegIndex_x86) = [107..<115] @ [139..<164]"
proof -
  have u: "[107..<115] @ [139..<164] = [107, 108, 109, 110, 111, 112, 113, 114, 139, 140, 141, 142,
    143, 144, 145, 146, 147, 148, 149, 150, 151, 152, 153, 154, 155, 156, 157, 158, 159, 160, 161, 162, 163]"
    by (simp add: upt_rec)
  show ?thesis unfolding size_x86 u
    by (simp add: numbering_x86_64 numbering_ppc numbering_ppc_64 numbering_aarch64) (simp add: machRegIndex_x86_def)
qed

end
