(* ===== verification/Dynamic_Bitset.thy ===== *)
theory Dynamic_Bitset
  imports "HOL-Library.Word"
begin

text \<open>
  The bit arrays of \<^verbatim>\<open>dyncompat/dynamic_bitset.hpp\<close> (\<^verbatim>\<open>bitArray\<close> of the data-flow library): a
  size and a vector of 64-bit blocks, whose unused high bits are kept zero. A failed assertion
  is the result \<open>None\<close>. \<open>bits\<close> is the set of positions an array stands for; every operation is
  shown to compute the operation on sets, which is what the liveness analysis relies on.
\<close>

unbundle bit_operations_syntax

record dynamic_bitset =
  bs_size :: nat
  bs_blocks :: "64 word list"

definition bits_per_block :: nat where "bits_per_block = 64"

definition block_count :: "nat \<Rightarrow> nat" where
  "block_count n = (if n = 0 then 0 else (n + bits_per_block - 1) div bits_per_block)"

definition all_bits_set :: "64 word" where "all_bits_set = NOT 0"

definition block_index :: "nat \<Rightarrow> nat" where "block_index pos = pos div bits_per_block"

definition bit_offset :: "nat \<Rightarrow> nat" where "bit_offset pos = pos mod bits_per_block"

definition trim_unused_bits :: "dynamic_bitset \<Rightarrow> dynamic_bitset" where
  "trim_unused_bits s =
     (if bs_size s = 0 \<or> bs_blocks s = [] then s
      else let used_bits = bit_offset (bs_size s) in
        if used_bits \<noteq> 0
        then s\<lparr>bs_blocks := (bs_blocks s)[length (bs_blocks s) - 1 :=
                 last (bs_blocks s) AND (push_bit used_bits 1 - 1)]\<rparr>
        else s)"

definition bs_empty :: "dynamic_bitset \<Rightarrow> bool" where "bs_empty s \<longleftrightarrow> bs_size s = 0"

definition bs_set :: "nat \<Rightarrow> bool \<Rightarrow> dynamic_bitset \<Rightarrow> dynamic_bitset option" where
  "bs_set pos v s =
     (if pos < bs_size s then
        let mask = push_bit (bit_offset pos) 1; i = block_index pos; b = bs_blocks s ! i
        in Some (s\<lparr>bs_blocks := (bs_blocks s)[i := (if v then b OR mask else b AND NOT mask)]\<rparr>)
      else None)"

definition bs_test :: "nat \<Rightarrow> dynamic_bitset \<Rightarrow> bool option" where
  "bs_test pos s =
     (if pos < bs_size s
      then Some (bs_blocks s ! block_index pos AND push_bit (bit_offset pos) 1 \<noteq> 0)
      else None)"

definition bs_new :: "nat \<Rightarrow> dynamic_bitset" where
  "bs_new n = \<lparr>bs_size = n, bs_blocks = replicate (block_count n) 0\<rparr>"

text \<open>The constructor with an initial value: the loop over its bits.\<close>

function bs_init_loop :: "nat \<Rightarrow> 64 word \<Rightarrow> dynamic_bitset \<Rightarrow> dynamic_bitset option" where
  "bs_init_loop i v s =
     (if i < bs_size s \<and> v \<noteq> 0 then
        case (if v AND 1 \<noteq> 0 then bs_set i True s else Some s) of
          None \<Rightarrow> None
        | Some s' \<Rightarrow> if bs_size s' = bs_size s then bs_init_loop (Suc i) (drop_bit 1 v) s' else None
      else Some s)"
  by pat_completeness auto
termination by (relation "measure (\<lambda>(i, v, s). bs_size s - i)") auto

definition bs_of_value :: "nat \<Rightarrow> 64 word \<Rightarrow> dynamic_bitset option" where
  "bs_of_value n v = bs_init_loop 0 v (bs_new n)"

definition bs_set_all :: "dynamic_bitset \<Rightarrow> dynamic_bitset" where
  "bs_set_all s = trim_unused_bits (s\<lparr>bs_blocks := map (\<lambda>_. all_bits_set) (bs_blocks s)\<rparr>)"

definition bs_reset_all :: "dynamic_bitset \<Rightarrow> dynamic_bitset" where
  "bs_reset_all s = s\<lparr>bs_blocks := map (\<lambda>_. 0) (bs_blocks s)\<rparr>"

definition bs_reset :: "nat \<Rightarrow> dynamic_bitset \<Rightarrow> dynamic_bitset option" where
  "bs_reset pos s = bs_set pos False s"

function count_block :: "64 word \<Rightarrow> nat" where
  "count_block w = (if w \<noteq> 0 then unat (w AND 1) + count_block (drop_bit 1 w) else 0)"
  by pat_completeness auto
termination
proof (relation "measure unat")
  fix w :: "64 word" assume "w \<noteq> 0"
  then have "0 < unat w" by (simp add: unat_gt_0)
  then show "(drop_bit 1 w, w) \<in> measure unat" unfolding in_measure unat_drop_bit_eq by (simp add: drop_bit_eq_div)
qed simp

definition bs_count :: "dynamic_bitset \<Rightarrow> nat" where
  "bs_count s = foldl (\<lambda>result block. result + count_block block) 0 (bs_blocks s)"

definition bs_or :: "dynamic_bitset \<Rightarrow> dynamic_bitset \<Rightarrow> dynamic_bitset option" where
  "bs_or s t =
     (if bs_size s = bs_size t
      then Some (trim_unused_bits (s\<lparr>bs_blocks := map2 (OR) (bs_blocks s) (bs_blocks t)\<rparr>)) else None)"

definition bs_and :: "dynamic_bitset \<Rightarrow> dynamic_bitset \<Rightarrow> dynamic_bitset option" where
  "bs_and s t =
     (if bs_size s = bs_size t
      then Some (s\<lparr>bs_blocks := map2 (AND) (bs_blocks s) (bs_blocks t)\<rparr>) else None)"

definition bs_xor :: "dynamic_bitset \<Rightarrow> dynamic_bitset \<Rightarrow> dynamic_bitset option" where
  "bs_xor s t =
     (if bs_size s = bs_size t
      then Some (trim_unused_bits (s\<lparr>bs_blocks := map2 (XOR) (bs_blocks s) (bs_blocks t)\<rparr>)) else None)"

definition bs_not :: "dynamic_bitset \<Rightarrow> dynamic_bitset" where
  "bs_not s = trim_unused_bits (s\<lparr>bs_blocks := map (\<lambda>b. NOT b) (bs_blocks s)\<rparr>)"

definition bs_diff :: "dynamic_bitset \<Rightarrow> dynamic_bitset \<Rightarrow> dynamic_bitset option" where
  "bs_diff s t = bs_and s (bs_not t)"

definition bs_eq :: "dynamic_bitset \<Rightarrow> dynamic_bitset \<Rightarrow> bool" where
  "bs_eq s t \<longleftrightarrow> bs_size s = bs_size t \<and> bs_blocks s = bs_blocks t"

declare count_block.simps [simp del] bs_init_loop.simps [simp del]

section \<open>The set an array stands for\<close>

definition bits :: "dynamic_bitset \<Rightarrow> nat set" where
  "bits s = {p. p div 64 < length (bs_blocks s) \<and> bit (bs_blocks s ! (p div 64)) (p mod 64)}"

definition bs_ok :: "dynamic_bitset \<Rightarrow> bool" where
  "bs_ok s \<longleftrightarrow> length (bs_blocks s) = block_count (bs_size s) \<and> bits s \<subseteq> {..<bs_size s}"

lemmas bs_arith = bits_per_block_def block_index_def bit_offset_def block_count_def

lemma block_count_bound: "p < n \<Longrightarrow> p div 64 < block_count n"
  by (simp add: bs_arith)

lemma bits_ext:
  assumes "length (bs_blocks s) = length (bs_blocks t)" "bits s = bits t" "bs_size s = bs_size t"
  shows "s = t"
proof -
  have "bs_blocks s ! k = bs_blocks t ! k" if "k < length (bs_blocks s)" for k
  proof (rule bit_word_eqI)
    fix j assume j: "j < LENGTH(64)"
    have "64 * k + j \<in> bits s \<longleftrightarrow> 64 * k + j \<in> bits t" using assms(2) by simp
    with j that assms(1) show "bit (bs_blocks s ! k) j \<longleftrightarrow> bit (bs_blocks t ! k) j" by (simp add: bits_def)
  qed
  with assms show ?thesis by (simp add: nth_equalityI)
qed

lemma bs_ok_ext: "bs_ok s \<Longrightarrow> bs_ok t \<Longrightarrow> bs_size s = bs_size t \<Longrightarrow> bits s = bits t \<Longrightarrow> s = t"
  by (rule bits_ext) (simp_all add: bs_ok_def)

lemma bit_mask_below: "k < 64 \<Longrightarrow> bit (2 ^ k - 1 :: 64 word) j \<longleftrightarrow> j < k"
  using bit_mask_iff[of k j, where ?'a = "64 word"] by (auto simp: mask_eq_exp_minus_1 push_bit_eq_mult)

lemma less_iff_div_mod: "(p::nat) < n \<longleftrightarrow> p div m < n div m \<or> p div m = n div m \<and> p mod m < n mod m"
proof (cases "p div m" "n div m" rule: linorder_cases)
  case less
  then show ?thesis using div_le_mono[of n p m] by linarith
next
  case equal
  then have "p < n \<longleftrightarrow> p mod m < n mod m"
    using mult_div_mod_eq[of m p] mult_div_mod_eq[of m n] by (metis nat_add_left_cancel_less)
  with equal show ?thesis by simp
next
  case greater
  then show ?thesis using div_le_mono[of p n m] by linarith
qed

lemma block_count_split: "r < 64 \<Longrightarrow> block_count (64 * q + r) = (if r = 0 then q else Suc q)"
proof (cases "r = 0")
  case True
  then show ?thesis by (auto simp: bs_arith)
next
  case False
  assume "r < 64"
  with False have "(64 * q + r + 63) div 64 = Suc q" by (intro div_nat_eqI) simp_all
  with False show ?thesis by (simp add: bs_arith)
qed

lemmas block_count_cases = block_count_split[of "n mod 64" "n div 64" for n, simplified]

lemma bits_trim:
  assumes "length (bs_blocks s) = block_count (bs_size s)"
  shows "bits (trim_unused_bits s) = bits s \<inter> {..<bs_size s}" "bs_size (trim_unused_bits s) = bs_size s"
    "length (bs_blocks (trim_unused_bits s)) = length (bs_blocks s)"
proof -
  show "bs_size (trim_unused_bits s) = bs_size s" "length (bs_blocks (trim_unused_bits s)) = length (bs_blocks s)"
    by (simp_all add: trim_unused_bits_def Let_def)
  let ?n = "bs_size s" and ?b = "bs_blocks s"
  show "bits (trim_unused_bits s) = bits s \<inter> {..<?n}"
  proof (cases "?n mod 64 = 0")
    case True
    then have "p < ?n" if "p div 64 < length ?b" for p
      using that assms block_count_cases[of ?n] less_iff_div_mod[of p ?n 64] by simp
    then have "bits s \<subseteq> {..<?n}" unfolding bits_def by blast
    moreover have "trim_unused_bits s = s" using True by (simp add: trim_unused_bits_def bs_arith)
    ultimately show ?thesis by auto
  next
    case False
    then have "?n \<noteq> 0" by (metis mod_0)
    have len: "length ?b = Suc (?n div 64)" using assms block_count_cases[of ?n] False by simp
    then have "last ?b = ?b ! (?n div 64)" by (simp add: last_conv_nth flip: length_0_conv)
    with len False \<open>?n \<noteq> 0\<close> have "trim_unused_bits s =
        s\<lparr>bs_blocks := ?b[?n div 64 := ?b ! (?n div 64) AND (push_bit (?n mod 64) 1 - 1)]\<rparr>"
      by (auto simp: trim_unused_bits_def bs_arith simp flip: length_0_conv)
    then have "p \<in> bits (trim_unused_bits s) \<longleftrightarrow> p \<in> bits s \<and> (p div 64 = ?n div 64 \<longrightarrow> p mod 64 < ?n mod 64)" for p
      using len by (auto simp: bits_def nth_list_update bit_mask_below bit_and_iff)
    moreover note less_iff_div_mod[of _ ?n 64]
    moreover have "p div 64 \<le> ?n div 64" if "p \<in> bits s" for p using that len by (simp add: bits_def)
    ultimately show ?thesis by (auto simp: le_less)
  qed
qed

section \<open>Every operation computes on sets\<close>

lemma bits_map2:
  assumes "length (bs_blocks t) = length (bs_blocks s)"
  shows "bits (s\<lparr>bs_blocks := map2 f (bs_blocks s) (bs_blocks t)\<rparr>) =
    {p. p div 64 < length (bs_blocks s) \<and> bit (f (bs_blocks s ! (p div 64)) (bs_blocks t ! (p div 64))) (p mod 64)}"
  using assms by (auto simp: bits_def)

lemma bits_map:
  "bits (s\<lparr>bs_blocks := map f (bs_blocks s)\<rparr>) =
    {p. p div 64 < length (bs_blocks s) \<and> bit (f (bs_blocks s ! (p div 64))) (p mod 64)}"
  by (auto simp: bits_def)

lemma bs_ok_trim: "length (bs_blocks s) = block_count (bs_size s) \<Longrightarrow> bs_ok (trim_unused_bits s)"
  by (simp add: bs_ok_def bits_trim)

lemma bits_below: "bs_ok s \<Longrightarrow> p \<in> bits s \<Longrightarrow> p < bs_size s"
  by (auto simp: bs_ok_def)

lemma index_below: "bs_ok s \<Longrightarrow> p < bs_size s \<Longrightarrow> p div 64 < length (bs_blocks s)"
  by (simp add: bs_ok_def block_count_bound)

lemma bs_new_spec: "bs_ok (bs_new n)" "bits (bs_new n) = {}" "bs_size (bs_new n) = n"
  by (auto simp: bs_ok_def bs_new_def bits_def)

lemma bs_or_spec:
  assumes "bs_ok s" "bs_ok t" "bs_size s = bs_size t"
  obtains u where "bs_or s t = Some u" "bs_ok u" "bs_size u = bs_size s" "bits u = bits s \<union> bits t"
proof -
  have l: "length (bs_blocks t) = length (bs_blocks s)" using assms by (simp add: bs_ok_def)
  let ?r = "s\<lparr>bs_blocks := map2 (OR) (bs_blocks s) (bs_blocks t)\<rparr>"
  have r: "length (bs_blocks ?r) = block_count (bs_size ?r)" using assms l by (simp add: bs_ok_def)
  have "bits ?r = bits s \<union> bits t" unfolding bits_map2[OF l] using l by (auto simp: bits_def bit_or_iff)
  moreover have "bits s \<union> bits t \<subseteq> {..<bs_size s}" using assms by (auto simp: bs_ok_def)
  ultimately have "bits (trim_unused_bits ?r) = bits s \<union> bits t" using bits_trim(1)[OF r] by auto
  with bs_ok_trim[OF r] bits_trim(2)[OF r] assms(3) that[of "trim_unused_bits ?r"] show thesis by (simp add: bs_or_def)
qed

lemma bs_xor_spec:
  assumes "bs_ok s" "bs_ok t" "bs_size s = bs_size t"
  obtains u where "bs_xor s t = Some u" "bs_ok u" "bs_size u = bs_size s"
    "bits u = (bits s - bits t) \<union> (bits t - bits s)"
proof -
  have l: "length (bs_blocks t) = length (bs_blocks s)" using assms by (simp add: bs_ok_def)
  let ?r = "s\<lparr>bs_blocks := map2 (XOR) (bs_blocks s) (bs_blocks t)\<rparr>"
  have r: "length (bs_blocks ?r) = block_count (bs_size ?r)" using assms l by (simp add: bs_ok_def)
  have "bits ?r = (bits s - bits t) \<union> (bits t - bits s)"
    unfolding bits_map2[OF l] using l by (auto simp: bits_def bit_xor_iff)
  moreover have "(bits s - bits t) \<union> (bits t - bits s) \<subseteq> {..<bs_size s}" using assms by (auto simp: bs_ok_def)
  ultimately have "bits (trim_unused_bits ?r) = (bits s - bits t) \<union> (bits t - bits s)"
    using bits_trim(1)[OF r] by auto
  with bs_ok_trim[OF r] bits_trim(2)[OF r] assms(3) that[of "trim_unused_bits ?r"] show thesis by (simp add: bs_xor_def)
qed

lemma bs_and_spec:
  assumes "bs_ok s" "bs_ok t" "bs_size s = bs_size t"
  obtains u where "bs_and s t = Some u" "bs_ok u" "bs_size u = bs_size s" "bits u = bits s \<inter> bits t"
proof -
  have l: "length (bs_blocks t) = length (bs_blocks s)" using assms by (simp add: bs_ok_def)
  let ?r = "s\<lparr>bs_blocks := map2 (AND) (bs_blocks s) (bs_blocks t)\<rparr>"
  have b: "bits ?r = bits s \<inter> bits t" unfolding bits_map2[OF l] using l by (auto simp: bits_def bit_and_iff)
  moreover have "bs_ok ?r" unfolding bs_ok_def b using assms l by (auto simp: bs_ok_def)
  ultimately show thesis using assms(3) that[of ?r] by (simp add: bs_and_def)
qed

lemma bs_not_spec:
  assumes "bs_ok s"
  shows "bs_ok (bs_not s)" "bs_size (bs_not s) = bs_size s" "bits (bs_not s) = {..<bs_size s} - bits s"
proof -
  let ?r = "s\<lparr>bs_blocks := map (\<lambda>b. NOT b) (bs_blocks s)\<rparr>"
  have r: "length (bs_blocks ?r) = block_count (bs_size ?r)" using assms by (simp add: bs_ok_def)
  have "p \<in> bits ?r \<longleftrightarrow> p \<notin> bits s" if "p < bs_size s" for p
    unfolding bits_map using index_below[OF assms that] by (auto simp: bits_def bit_not_iff)
  then show "bits (bs_not s) = {..<bs_size s} - bits s" using bits_trim(1)[OF r] by (auto simp: bs_not_def)
  show "bs_ok (bs_not s)" "bs_size (bs_not s) = bs_size s"
    using bs_ok_trim[OF r] bits_trim(2)[OF r] by (simp_all add: bs_not_def)
qed

lemma bs_set_all_spec:
  assumes "bs_ok s"
  shows "bs_ok (bs_set_all s)" "bs_size (bs_set_all s) = bs_size s" "bits (bs_set_all s) = {..<bs_size s}"
proof -
  let ?r = "s\<lparr>bs_blocks := map (\<lambda>_. all_bits_set) (bs_blocks s)\<rparr>"
  have r: "length (bs_blocks ?r) = block_count (bs_size ?r)" using assms by (simp add: bs_ok_def)
  have "p \<in> bits ?r" if "p < bs_size s" for p
    unfolding bits_map using index_below[OF assms that] by (simp add: all_bits_set_def)
  then show "bits (bs_set_all s) = {..<bs_size s}" using bits_trim(1)[OF r] by (auto simp: bs_set_all_def)
  show "bs_ok (bs_set_all s)" "bs_size (bs_set_all s) = bs_size s"
    using bs_ok_trim[OF r] bits_trim(2)[OF r] by (simp_all add: bs_set_all_def)
qed

lemma bs_reset_all_spec: "bs_ok s \<Longrightarrow> bs_ok (bs_reset_all s) \<and> bits (bs_reset_all s) = {} \<and> bs_size (bs_reset_all s) = bs_size s"
  by (auto simp: bs_reset_all_def bs_ok_def bits_def)

lemma bit_push_one: "bit (2 ^ k :: 64 word) j \<longleftrightarrow> j = k \<and> k < 64"
  by (auto simp: bit_exp_iff)

lemma div_mod_eq: "(p::nat) div 64 = q div 64 \<and> p mod 64 = q mod 64 \<longleftrightarrow> p = q"
  by (metis div_mult_mod_eq)

lemma bs_set_spec:
  assumes "bs_ok s" "pos < bs_size s"
  obtains u where "bs_set pos v s = Some u" "bs_ok u" "bs_size u = bs_size s"
    "bits u = (if v then insert pos (bits s) else bits s - {pos})"
proof -
  let ?i = "pos div 64" and ?m = "push_bit (pos mod 64) 1 :: 64 word"
  have i: "?i < length (bs_blocks s)" using index_below[OF assms] .
  let ?w = "if v then bs_blocks s ! ?i OR ?m else bs_blocks s ! ?i AND NOT ?m"
  let ?u = "s\<lparr>bs_blocks := (bs_blocks s)[?i := ?w]\<rparr>"
  have w: "bit ?w j \<longleftrightarrow> (if v then j = pos mod 64 \<or> bit (bs_blocks s ! ?i) j else j \<noteq> pos mod 64 \<and> bit (bs_blocks s ! ?i) j)"
    if "j < 64" for j
    using that by (auto simp: bit_or_iff bit_and_iff bit_not_iff bit_push_one)
  have "p \<in> bits ?u \<longleftrightarrow> (if v then p = pos \<or> p \<in> bits s else p \<noteq> pos \<and> p \<in> bits s)" for p
  proof (cases "p div 64 = ?i")
    case True
    then have "p \<in> bits ?u \<longleftrightarrow> bit ?w (p mod 64)" "p \<in> bits s \<longleftrightarrow> bit (bs_blocks s ! ?i) (p mod 64)"
      using i by (simp_all add: bits_def)
    with w[of "p mod 64"] True div_mod_eq[of p pos] show ?thesis by auto
  next
    case False
    then show ?thesis by (auto simp: bits_def)
  qed
  then have b: "bits ?u = (if v then insert pos (bits s) else bits s - {pos})" by auto
  moreover have "bs_ok ?u" unfolding bs_ok_def b using assms by (auto simp: bs_ok_def)
  ultimately show thesis
    using that[of ?u] assms(2) by (simp add: bs_set_def Let_def block_index_def bit_offset_def bits_per_block_def)
qed

lemma bs_test_spec:
  assumes "bs_ok s"
  shows "bs_test pos s = (if pos < bs_size s then Some (pos \<in> bits s) else None)"
proof -
  have "w AND push_bit k 1 \<noteq> 0 \<longleftrightarrow> bit w k" if "k < 64" for w :: "64 word" and k
  proof -
    have "bit (w AND push_bit k 1) j \<longleftrightarrow> j = k \<and> bit w k" for j using that by (auto simp: bit_and_iff bit_push_one)
    then show ?thesis by (metis bit_0_eq bot_apply bot_bool_def bit_eqI)
  qed
  with index_below[OF assms, of pos] show ?thesis
    by (simp add: bs_test_def block_index_def bit_offset_def bits_per_block_def bits_def)
qed

lemma bs_diff_spec:
  assumes "bs_ok s" "bs_ok t" "bs_size s = bs_size t"
  obtains u where "bs_diff s t = Some u" "bs_ok u" "bs_size u = bs_size s" "bits u = bits s - bits t"
proof -
  note n = bs_not_spec[OF assms(2)]
  obtain u where u: "bs_and s (bs_not t) = Some u" "bs_ok u" "bs_size u = bs_size s" "bits u = bits s \<inter> bits (bs_not t)"
    using bs_and_spec[OF assms(1) n(1)] n(2) assms(3) by metis
  have "bits s \<inter> ({..<bs_size t} - bits t) = bits s - bits t" using assms by (auto simp: bs_ok_def)
  with u n(3) that[of u] show thesis by (simp add: bs_diff_def)
qed

lemma bs_eq_spec: "bs_ok s \<Longrightarrow> bs_ok t \<Longrightarrow> bs_eq s t \<longleftrightarrow> bs_size s = bs_size t \<and> bits s = bits t"
  using bs_ok_ext[of s t] by (auto simp: bs_eq_def bits_def)

section \<open>Counting and initial values\<close>

lemma bits_shift: "{j. bit (w :: 64 word) j} = (if bit w 0 then {0} else {}) \<union> Suc ` {j. bit (drop_bit 1 w) j}"
proof (rule set_eqI)
  fix j
  show "j \<in> {j. bit w j} \<longleftrightarrow> j \<in> (if bit w 0 then {0} else {}) \<union> Suc ` {j. bit (drop_bit 1 w) j}"
    by (cases j) (auto simp: bit_drop_bit_eq simp flip: drop_bit_eq_div)
qed

lemma finite_word_bits: "finite {j. bit (w :: 64 word) j}"
  by (rule finite_subset[of _ "{..<64}"]) (auto dest: bit_imp_le_length)

lemma count_block_card: "count_block w = card {j. bit w j}"
proof (induction w rule: count_block.induct)
  case (1 w)
  show ?case
  proof (cases "w = 0")
    case False
    have "unat (w AND 1) = of_bool (bit w 0)" by (simp add: and_one_eq odd_iff_mod_2_eq_one bit_0)
    moreover have "card {j. bit w j} = of_bool (bit w 0) + card {j. bit (drop_bit 1 w) j}"
      unfolding bits_shift[of w] using finite_word_bits[of "drop_bit 1 w"]
      by (cases "bit w 0") (simp_all add: card_image)
    ultimately show ?thesis using 1 False by (simp add: count_block.simps[of w])
  qed (simp add: count_block.simps)
qed

definition bits_of :: "64 word list \<Rightarrow> nat set" where
  "bits_of ws = {p. p div 64 < length ws \<and> bit (ws ! (p div 64)) (p mod 64)}"

lemma bits_of_iff: "r < 64 \<Longrightarrow> 64 * q + r \<in> bits_of ws \<longleftrightarrow> q < length ws \<and> bit (ws ! q) r"
  by (simp add: bits_of_def)

lemma shifted_iff: "r < 64 \<Longrightarrow> 64 * q + r \<in> (\<lambda>j. 64 * k + j) ` {j. bit (w :: 64 word) j} \<longleftrightarrow> q = k \<and> bit w r"
proof
  assume r: "r < 64" and "64 * q + r \<in> (\<lambda>j. 64 * k + j) ` {j. bit w j}"
  then obtain j where j: "64 * q + r = 64 * k + j" "bit w j" by blast
  from j(2) have "j < 64" using bit_imp_le_length by fastforce
  with j(1) r have "q = k" by linarith
  with j show "q = k \<and> bit w r" by simp
qed blast

lemma bits_of_snoc: "bits_of (ws @ [w]) = bits_of ws \<union> (\<lambda>j. 64 * length ws + j) ` {j. bit w j}"
proof (rule set_eqI)
  fix p :: nat
  obtain q r where p: "p = 64 * q + r" "r < 64" by (metis mult_div_mod_eq mod_less_divisor zero_less_numeral)
  show "p \<in> bits_of (ws @ [w]) \<longleftrightarrow> p \<in> bits_of ws \<union> (\<lambda>j. 64 * length ws + j) ` {j. bit w j}"
    unfolding p(1) Un_iff bits_of_iff[OF p(2)] shifted_iff[OF p(2)]
    by (cases q "length ws" rule: linorder_cases) (simp_all add: nth_append)
qed

lemma foldl_count: "foldl (\<lambda>result block. result + count_block block) 0 ws = card (bits_of ws) \<and> finite (bits_of ws)"
proof (induction ws rule: rev_induct)
  case Nil
  then show ?case by (simp add: bits_of_def)
next
  case (snoc w ws)
  have "bits_of ws \<inter> (\<lambda>j. 64 * length ws + j) ` {j. bit w j} = {}" by (auto simp: bits_of_def)
  moreover have "finite ((\<lambda>j. 64 * length ws + j) ` {j. bit w j})" using finite_word_bits by blast
  moreover have "card ((\<lambda>j. 64 * length ws + j) ` {j. bit w j}) = count_block w"
    unfolding count_block_card by (intro card_image) (simp add: inj_on_def)
  ultimately show ?case using snoc card_Un_disjoint[of "bits_of ws"] by (simp add: bits_of_snoc)
qed

lemma bs_count_card: "bs_count s = card (bits s)"
  using foldl_count[of "bs_blocks s"] by (simp add: bs_count_def bits_of_def bits_def)

lemma first_bit: "v AND 1 \<noteq> (0 :: 64 word) \<longleftrightarrow> bit v 0"
  by (simp add: and_one_eq bit_0 odd_iff_mod_2_eq_one)

lemma first_bit_step:
  assumes "bs_ok s" "i < bs_size s"
  obtains s' where "(if v AND 1 \<noteq> (0 :: 64 word) then bs_set i True s else Some s) = Some s'" "bs_ok s'"
    "bs_size s' = bs_size s" "bits s' = bits s \<union> (if bit v 0 then {i} else {})"
proof (cases "bit v 0")
  case True
  obtain u where "bs_set i True s = Some u" "bs_ok u" "bs_size u = bs_size s" "bits u = insert i (bits s)"
    by (rule bs_set_spec[OF assms, of True]) simp
  with True that[of u] show thesis by (simp add: first_bit[of v, simplified])
next
  case False
  with assms that[of s] show thesis by (simp add: first_bit[of v, simplified])
qed

lemma later_bits:
  "i < n \<Longrightarrow> (if bit v 0 then {i} else {}) \<union> {p. Suc i \<le> p \<and> p < n \<and> bit (drop_bit 1 (v :: 64 word)) (p - Suc i)} =
    {p. i \<le> p \<and> p < n \<and> bit v (p - i)}"
proof (rule set_eqI)
  fix p
  assume "i < n"
  then show "p \<in> (if bit v 0 then {i} else {}) \<union> {p. Suc i \<le> p \<and> p < n \<and> bit (drop_bit 1 v) (p - Suc i)} \<longleftrightarrow>
      p \<in> {p. i \<le> p \<and> p < n \<and> bit v (p - i)}"
    unfolding bit_drop_bit_eq by (cases p i rule: linorder_cases) (simp_all add: Suc_diff_Suc)
qed

lemma bs_init_loop_spec:
  "bs_ok s \<Longrightarrow> \<exists>u. bs_init_loop i v s = Some u \<and> bs_ok u \<and> bs_size u = bs_size s \<and>
    bits u = bits s \<union> {p. i \<le> p \<and> p < bs_size s \<and> bit v (p - i)}"
proof (induction "bs_size s - i" arbitrary: i v s)
  case 0
  then have "{p. i \<le> p \<and> p < bs_size s \<and> bit v (p - i)} = {}" by auto
  moreover have "bs_init_loop i v s = Some s" using 0 by (simp add: bs_init_loop.simps[of i v s])
  ultimately show ?case using 0(2) by (metis sup_bot_right)
next
  case (Suc d)
  then have i: "i < bs_size s" by simp
  show ?case
  proof (cases "v = 0")
    case True
    then have "bs_init_loop i v s = Some s" unfolding bs_init_loop.simps[of i v s] by simp
    with Suc.prems True show ?thesis by simp
  next
    case False
    obtain s' where s': "(if v AND 1 \<noteq> 0 then bs_set i True s else Some s) = Some s'" "bs_ok s'"
      "bs_size s' = bs_size s" "bits s' = bits s \<union> (if bit v 0 then {i} else {})"
      by (rule first_bit_step[OF Suc.prems i, of v])
    have "d = bs_size s' - Suc i" using Suc.hyps(2) s'(3) by simp
    from Suc.hyps(1)[OF this s'(2), of "drop_bit 1 v"] obtain u where
      u: "bs_init_loop (Suc i) (drop_bit 1 v) s' = Some u" "bs_ok u" "bs_size u = bs_size s"
      "bits u = bits s' \<union> {p. Suc i \<le> p \<and> p < bs_size s \<and> bit (drop_bit 1 v) (p - Suc i)}"
      unfolding s'(3) by blast
    have "bs_init_loop i v s = Some u"
      unfolding bs_init_loop.simps[of i v s] s'(1) using False i s'(3) u(1) by (simp only: option.case if_True simp_thms)
    moreover have "bits u = bits s \<union> {p. i \<le> p \<and> p < bs_size s \<and> bit v (p - i)}"
      unfolding u(4) s'(4) Un_assoc later_bits[OF i] ..
    ultimately show ?thesis using u(2,3) by blast
  qed
qed

lemma bs_of_value_spec: "\<exists>u. bs_of_value n v = Some u \<and> bs_ok u \<and> bs_size u = n \<and> bits u = {p. p < n \<and> bit v p}"
  using bs_init_loop_spec[OF bs_new_spec(1), of 0 v n] by (simp add: bs_of_value_def bs_new_spec)

section \<open>Arrays as sets\<close>

text \<open>The array that stands for a set of positions; every well-formed array has this form.\<close>

definition bs_of :: "nat \<Rightarrow> nat set \<Rightarrow> dynamic_bitset" where
  "bs_of n X = \<lparr>bs_size = n, bs_blocks = map (\<lambda>k. horner_sum of_bool 2
     (map (\<lambda>j. 64 * k + j \<in> X \<and> 64 * k + j < n) [0..<64])) [0..<block_count n]\<rparr>"

lemma bs_of_spec: "bs_ok (bs_of n X)" "bs_size (bs_of n X) = n" "bits (bs_of n X) = X \<inter> {..<n}"
proof -
  have "p \<in> bits (bs_of n X) \<longleftrightarrow> p \<in> X \<inter> {..<n}" for p
  proof -
    have "p mod 64 < 64" by simp
    then show ?thesis using block_count_bound[of p n] mult_div_mod_eq[of 64 p]
      by (auto simp: bits_def bs_of_def bit_horner_sum_bit_word_iff)
  qed
  then show b: "bits (bs_of n X) = X \<inter> {..<n}" by blast
  show "bs_size (bs_of n X) = n" by (simp add: bs_of_def)
  with b show "bs_ok (bs_of n X)" by (simp add: bs_ok_def) (simp add: bs_of_def)
qed

lemma bs_of_bits: "bs_ok s \<Longrightarrow> bs_of (bs_size s) (bits s) = s"
  by (rule bs_ok_ext) (simp_all add: bs_of_spec Int_absorb2 bs_ok_def[of s])

lemma bs_of_unique: "r = Some u \<Longrightarrow> bs_ok u \<Longrightarrow> bs_size u = n \<Longrightarrow> bits u = X \<inter> {..<n} \<Longrightarrow> r = Some (bs_of n X)"
  using bs_ok_ext[of u "bs_of n X"] by (simp add: bs_of_spec)

text \<open>The interface the analyses use: arrays of one size are sets, and gen/kill equations compute
  on them.\<close>

locale bit_vectors =
  fixes mk :: "nat \<Rightarrow> nat set \<Rightarrow> 'a" and union diff inter :: "'a \<Rightarrow> 'a \<Rightarrow> 'a option"
    and compl :: "'a \<Rightarrow> 'a" and eq :: "'a \<Rightarrow> 'a \<Rightarrow> bool"
  assumes union_law: "union (mk n X) (mk n Y) = Some (mk n (X \<union> Y))"
    and diff_law: "diff (mk n X) (mk n Y) = Some (mk n (X - Y))"
    and inter_law: "inter (mk n X) (mk n Y) = Some (mk n (X \<inter> Y))"
    and compl_law: "compl (mk n X) = mk n (- X)"
    and eq_law: "eq (mk n X) (mk n Y) \<longleftrightarrow> X \<inter> {..<n} = Y \<inter> {..<n}"
begin

lemma gen_kill: "Option.bind (diff (mk n out) (mk n def)) (union (mk n use)) = Some (mk n (use \<union> (out - def)))"
  by (simp add: diff_law union_law)

lemma kill_gen: "Option.bind (inter (mk n out) (compl (mk n def))) (\<lambda>w. union w (mk n use)) = Some (mk n (use \<union> (out - def)))"
  by (simp add: inter_law compl_law union_law Diff_eq Un_commute)

lemma exposed_law: "Option.bind (inter (mk n r) (compl (mk n def))) (union (mk n use)) = Some (mk n (use \<union> (r - def)))"
  by (simp add: inter_law compl_law union_law Diff_eq)

lemma eq_bounded: "X \<subseteq> {..<n} \<Longrightarrow> Y \<subseteq> {..<n} \<Longrightarrow> eq (mk n X) (mk n Y) \<longleftrightarrow> X = Y"
  by (simp add: eq_law Int_absorb2)

end

interpretation bv: bit_vectors bs_of bs_or bs_diff bs_and bs_not bs_eq
proof
  fix n X Y
  note x = bs_of_spec[of n X] and y = bs_of_spec[of n Y]
  have same: "bs_size (bs_of n X) = bs_size (bs_of n Y)" by (simp add: bs_of_spec)
  show "bs_or (bs_of n X) (bs_of n Y) = Some (bs_of n (X \<union> Y))"
    by (rule bs_or_spec[OF x(1) y(1) same]) (rule bs_of_unique, auto simp: bs_of_spec)
  show "bs_diff (bs_of n X) (bs_of n Y) = Some (bs_of n (X - Y))"
    by (rule bs_diff_spec[OF x(1) y(1) same]) (rule bs_of_unique, auto simp: bs_of_spec)
  show "bs_and (bs_of n X) (bs_of n Y) = Some (bs_of n (X \<inter> Y))"
    by (rule bs_and_spec[OF x(1) y(1) same]) (rule bs_of_unique, auto simp: bs_of_spec)
  show "bs_not (bs_of n X) = bs_of n (- X)"
    by (rule bs_ok_ext) (auto simp: bs_of_spec bs_not_spec)
  show "bs_eq (bs_of n X) (bs_of n Y) \<longleftrightarrow> X \<inter> {..<n} = Y \<inter> {..<n}"
    by (simp add: bs_eq_spec bs_of_spec)
qed

lemma bs_new_of: "bs_new n = bs_of n {}"
  by (rule bs_ok_ext) (auto simp: bs_of_spec bs_new_spec)

lemma bs_set_of: "i < n \<Longrightarrow> bs_set i v (bs_of n X) = Some (bs_of n (if v then insert i X else X - {i}))"
proof -
  assume "i < n"
  then have "i < bs_size (bs_of n X)" by (simp add: bs_of_spec)
  then obtain u where u: "bs_set i v (bs_of n X) = Some u" "bs_ok u" "bs_size u = bs_size (bs_of n X)"
    "bits u = (if v then insert i (bits (bs_of n X)) else bits (bs_of n X) - {i})"
    by (rule bs_set_spec[OF bs_of_spec(1)])
  show ?thesis using \<open>i < n\<close> by (intro bs_of_unique[OF u(1,2)]) (auto simp: u bs_of_spec)
qed

lemma bs_set_out: "n \<le> i \<Longrightarrow> bs_set i v (bs_of n X) = None"
  by (simp add: bs_set_def bs_of_spec)

lemma bs_test_of: "i < n \<Longrightarrow> bs_test i (bs_of n X) = Some (i \<in> X)"
  by (simp add: bs_test_spec bs_of_spec)

lemma bs_set_all_of: "bs_set_all (bs_of n X) = bs_of n UNIV"
  by (rule bs_ok_ext) (auto simp: bs_of_spec bs_set_all_spec)

lemma bs_of_bounded: "bs_of n (X \<inter> {..<n}) = bs_of n X"
  by (rule bs_ok_ext) (auto simp: bs_of_spec)

section \<open>Properties\<close>

text \<open>C15. The arrays keep their representation. A well-formed array has exactly the blocks its size
  needs and no bit set at or above its size. The constructors give well-formed arrays, every
  operation takes well-formed arrays to well-formed arrays of the same size, and the assertions
  of the header fail exactly when the sizes of the operands differ or the position is out of
  range.\<close>

theorem Bitset_well_formed:
  assumes "bs_ok s" "bs_ok t"
  shows "bs_ok (bs_new n) \<and> (\<exists>u. bs_of_value n w = Some u \<and> bs_ok u \<and> bs_size u = n) \<and>
    (\<forall>f \<in> {bs_or, bs_and, bs_xor, bs_diff}. if bs_size s = bs_size t
       then \<exists>u. f s t = Some u \<and> bs_ok u \<and> bs_size u = bs_size s else f s t = None) \<and>
    (\<forall>f \<in> {bs_not, bs_set_all, bs_reset_all}. bs_ok (f s) \<and> bs_size (f s) = bs_size s) \<and>
    (\<forall>pos v. if pos < bs_size s then (\<exists>u. bs_set pos v s = Some u \<and> bs_ok u \<and> bs_size u = bs_size s) \<and> bs_test pos s \<noteq> None
       else bs_set pos v s = None \<and> bs_test pos s = None)"
proof (intro conjI)
  have not_size: "bs_size (bs_not t) = bs_size t" by (rule bs_not_spec(2)[OF assms(2)])
  show "\<forall>f \<in> {bs_or, bs_and, bs_xor, bs_diff}. if bs_size s = bs_size t
       then \<exists>u. f s t = Some u \<and> bs_ok u \<and> bs_size u = bs_size s else f s t = None"
  proof (cases "bs_size s = bs_size t")
    case True
    have "\<exists>u. bs_or s t = Some u \<and> bs_ok u \<and> bs_size u = bs_size s" by (rule bs_or_spec[OF assms True]) blast
    moreover have "\<exists>u. bs_and s t = Some u \<and> bs_ok u \<and> bs_size u = bs_size s" by (rule bs_and_spec[OF assms True]) blast
    moreover have "\<exists>u. bs_xor s t = Some u \<and> bs_ok u \<and> bs_size u = bs_size s" by (rule bs_xor_spec[OF assms True]) blast
    moreover have "\<exists>u. bs_diff s t = Some u \<and> bs_ok u \<and> bs_size u = bs_size s" by (rule bs_diff_spec[OF assms True]) blast
    ultimately show ?thesis unfolding if_P[OF True] by blast
  next
    case False
    then show ?thesis by (simp add: bs_or_def bs_and_def bs_xor_def bs_diff_def not_size)
  qed
  show "\<forall>pos v. if pos < bs_size s then (\<exists>u. bs_set pos v s = Some u \<and> bs_ok u \<and> bs_size u = bs_size s) \<and> bs_test pos s \<noteq> None
       else bs_set pos v s = None \<and> bs_test pos s = None"
  proof (intro allI)
    fix pos v
    have "\<exists>u. bs_set pos v s = Some u \<and> bs_ok u \<and> bs_size u = bs_size s" if "pos < bs_size s"
      by (rule bs_set_spec[OF assms(1) that, of v]) blast
    then show "if pos < bs_size s then (\<exists>u. bs_set pos v s = Some u \<and> bs_ok u \<and> bs_size u = bs_size s) \<and> bs_test pos s \<noteq> None
       else bs_set pos v s = None \<and> bs_test pos s = None" by (simp add: bs_test_def, simp add: bs_set_def)
  qed
qed (use bs_of_value_spec[of n w] in \<open>auto simp: bs_new_spec bs_not_spec[OF assms(1)] bs_set_all_spec[OF assms(1)] bs_reset_all_spec[OF assms(1)]\<close>)

theorem Bitset_well_formed_witness:
  "bs_ok (bs_not (bs_new 70)) \<and> bs_size (bs_not (bs_new 70)) = 70 \<and> bs_or (bs_new 70) (bs_new 71) = None \<and>
    (\<exists>u. bs_set 69 True (bs_new 70) = Some u \<and> bs_ok u) \<and> bs_set 70 True (bs_new 70) = None"
proof -
  note w = Bitset_well_formed[OF bs_new_spec(1)[of 70] bs_new_spec(1)[of 71], unfolded bs_new_spec(3)]
  from w have "bs_ok (bs_not (bs_new 70)) \<and> bs_size (bs_not (bs_new 70)) = 70" "bs_or (bs_new 70) (bs_new 71) = None" by simp_all
  moreover from w have "\<forall>pos v. if pos < 70 then (\<exists>u. bs_set pos v (bs_new 70) = Some u \<and> bs_ok u \<and> bs_size u = 70) \<and>
      bs_test pos (bs_new 70) \<noteq> None else bs_set pos v (bs_new 70) = None \<and> bs_test pos (bs_new 70) = None" by blast
  from this[rule_format, of 69 True] this[rule_format, of 70 True]
  have "\<exists>u. bs_set 69 True (bs_new 70) = Some u \<and> bs_ok u" "bs_set 70 True (bs_new 70) = None" by auto
  ultimately show ?thesis by blast
qed

text \<open>C14. The arrays are sets of positions. Union, intersection, symmetric difference, difference
  and complement of arrays of one size give the array of the corresponding set; setting or
  clearing a position inserts or removes it, testing it is membership, counting gives the number
  of elements, the constructor from an integer gives the positions of its one bits below the
  size, and two arrays of one size compare equal exactly when they stand for the same set.\<close>

theorem Bitset_refines_sets:
  assumes "bs_ok s" "bs_ok t" "bs_size s = bs_size t"
  shows "map_option bits (bs_or s t) = Some (bits s \<union> bits t) \<and>
    map_option bits (bs_and s t) = Some (bits s \<inter> bits t) \<and>
    map_option bits (bs_xor s t) = Some ((bits s - bits t) \<union> (bits t - bits s)) \<and>
    map_option bits (bs_diff s t) = Some (bits s - bits t) \<and>
    bits (bs_not s) = {..<bs_size s} - bits s \<and> bits (bs_set_all s) = {..<bs_size s} \<and> bits (bs_reset_all s) = {} \<and>
    (pos < bs_size s \<longrightarrow> map_option bits (bs_set pos v s) = Some (if v then insert pos (bits s) else bits s - {pos}) \<and>
       bs_test pos s = Some (pos \<in> bits s)) \<and>
    bs_count s = card (bits s) \<and> (bs_eq s t \<longleftrightarrow> bits s = bits t) \<and>
    map_option bits (bs_of_value n w) = Some {p. p < n \<and> bit w p}"
proof (intro conjI impI)
  show "map_option bits (bs_or s t) = Some (bits s \<union> bits t)" by (rule bs_or_spec[OF assms]) simp
  show "map_option bits (bs_and s t) = Some (bits s \<inter> bits t)" by (rule bs_and_spec[OF assms]) simp
  show "map_option bits (bs_xor s t) = Some ((bits s - bits t) \<union> (bits t - bits s))" by (rule bs_xor_spec[OF assms]) simp
  show "map_option bits (bs_diff s t) = Some (bits s - bits t)" by (rule bs_diff_spec[OF assms]) simp
  show "map_option bits (bs_set pos v s) = Some (if v then insert pos (bits s) else bits s - {pos})" if "pos < bs_size s"
    by (rule bs_set_spec[OF assms(1) that, of v]) simp
  show "map_option bits (bs_of_value n w) = Some {p. p < n \<and> bit w p}" using bs_of_value_spec[of n w] by auto
qed (use assms in \<open>simp_all add: bs_not_spec bs_set_all_spec bs_reset_all_spec bs_count_card bs_test_spec bs_eq_spec\<close>)

theorem Bitset_refines_sets_witness:
  "map_option bits (bs_or (bs_set_all (bs_new 70)) (bs_new 70)) = Some {..<70} \<and>
    bs_count (bs_set_all (bs_new 70)) = 70 \<and> \<not> bs_eq (bs_set_all (bs_new 70)) (bs_new 70)"
proof -
  note s = bs_set_all_spec[OF bs_new_spec(1)[of 70]]
  have "{..<70 :: nat} \<noteq> {}" by (metis emptyE lessThan_iff zero_less_numeral)
  with Bitset_refines_sets[OF s(1) bs_new_spec(1)[of 70]] show ?thesis by (simp add: s bs_new_spec)
qed

end
