(* ===== verification/Call_ABI.thy ===== *)
theory Call_ABI
  imports Register_Map Dynamic_Bitset "HOL-Library.Monad_Syntax"
begin

text \<open>
  The calling conventions the liveness analysis assumes, \<^verbatim>\<open>class ABI\<close>
  (\<^verbatim>\<open>dataflowAPI/src/ABI.C\<close>): for each architecture the sets of registers a call, a return and a
  system call read and write, as bit arrays over the numbering of the registers. Which arrays are
  filled in depends on the platform the library is built for; an array that stays a null pointer
  is \<open>None\<close>, and so is the result of dereferencing it.
\<close>

record abi_regs =
  returnRegs :: dynamic_bitset
  callParam :: dynamic_bitset
  returnRead :: dynamic_bitset
  callRead :: dynamic_bitset
  callWritten :: dynamic_bitset
  syscallRead :: dynamic_bitset
  syscallWritten :: dynamic_bitset
  allRegs :: dynamic_bitset

text \<open>The subscript of a \<^verbatim>\<open>std::map\<close>: a missing register is entered with position 0.\<close>

definition rm_at :: "RegisterMap \<Rightarrow> MachRegister \<Rightarrow> nat" where
  "rm_at m r = (case map_of m r of Some i \<Rightarrow> i | None \<Rightarrow> 0)"

fun set_regs :: "RegisterMap \<Rightarrow> MachRegister list \<Rightarrow> dynamic_bitset \<Rightarrow> dynamic_bitset option" where
  "set_regs m [] s = Some s"
| "set_regs m (r # rs) s = Option.bind (bs_set (rm_at m r) True s) (set_regs m rs)"

definition x86_initialize32 :: "abi_regs option" where
  "x86_initialize32 = (let m = machRegIndex_x86; new = bs_new (rm_size m) in do {
     returnRegs \<leftarrow> set_regs m
       [x86_eax] new;
     let callParam = new;
     returnRead \<leftarrow> set_regs m
       [x86_ebx, x86_esi, x86_edi, x86_eax] new;
     callRead \<leftarrow> set_regs m
       [x86_ecx, x86_edx, x86_ebx] new;
     callWritten \<leftarrow> set_regs m
       [x86_of, x86_sf, x86_zf, x86_af, x86_pf, x86_cf, x86_tf, x86_if, x86_df, x86_nt, x86_rf,
        x86_eax, x86_ecx, x86_edx] new;
     Some \<lparr>returnRegs = returnRegs, callParam = callParam, returnRead = returnRead, callRead = callRead,
       callWritten = callWritten, syscallRead = bs_set_all new, syscallWritten = bs_set_all new, allRegs = bs_set_all new\<rparr>
   })"

definition x86_initialize64 :: "abi_regs option" where
  "x86_initialize64 = (let m = machRegIndex_x86_64; new = bs_new (rm_size m) in do {
     returnRegs \<leftarrow> set_regs m
       [x86_64_rax, x86_64_rdx] new;
     callParam \<leftarrow> set_regs m
       [x86_64_rdi, x86_64_rsi, x86_64_rdx, x86_64_rcx, x86_64_r8, x86_64_r9] new;
     returnRead \<leftarrow> set_regs m
       [x86_64_rax, x86_64_rcx, x86_64_rbx, x86_64_rdx, x86_64_r12, x86_64_r13, x86_64_r14,
        x86_64_r15, x86_64_xmm0, x86_64_xmm1] new;
     callRead \<leftarrow> set_regs m
       [x86_64_rax, x86_64_rcx, x86_64_rdx, x86_64_r8, x86_64_r9, x86_64_rdi, x86_64_rsi,
        x86_64_xmm0, x86_64_xmm1, x86_64_xmm2, x86_64_xmm3, x86_64_xmm4, x86_64_xmm5,
        x86_64_xmm6, x86_64_xmm7] new;
     callWritten \<leftarrow> set_regs m
       [x86_64_rax, x86_64_r10, x86_64_r11, x86_64_of, x86_64_sf, x86_64_zf, x86_64_af,
        x86_64_pf, x86_64_cf, x86_64_tf, x86_64_if, x86_64_df, x86_64_nt, x86_64_rf] callRead;
     Some \<lparr>returnRegs = returnRegs, callParam = callParam, returnRead = returnRead, callRead = callRead,
       callWritten = callWritten, syscallRead = bs_set_all new, syscallWritten = bs_set_all new, allRegs = bs_set_all new\<rparr>
   })"

definition power_initialize32 :: "abi_regs option" where
  "power_initialize32 = (let m = machRegIndex_ppc; new = bs_new (rm_size m) in do {
     returnRegs \<leftarrow> set_regs m
       [ppc32_r3] new;
     callParam \<leftarrow> set_regs m
       [ppc32_r3, ppc32_r4, ppc32_r5, ppc32_r6, ppc32_r7, ppc32_r8, ppc32_r9, ppc32_r10] new;
     returnRead \<leftarrow> set_regs m
       [ppc32_r3, ppc32_r4, ppc32_fpr1, ppc32_fpr2] new;
     callRead \<leftarrow> set_regs m
       [ppc32_r3, ppc32_r4, ppc32_r5, ppc32_r6, ppc32_r7, ppc32_r8, ppc32_r9, ppc32_r10,
        ppc32_fpr1, ppc32_fpr2, ppc32_fpr3, ppc32_fpr4, ppc32_fpr5, ppc32_fpr6, ppc32_fpr7,
        ppc32_fpr8, ppc32_fpr9, ppc32_fpr10, ppc32_fpr11, ppc32_fpr12, ppc32_fpr13] new;
     callWritten \<leftarrow> set_regs m
       [ppc32_r0, ppc32_r3, ppc32_r4, ppc32_r5, ppc32_r6, ppc32_r7, ppc32_r8, ppc32_r9,
        ppc32_r10, ppc32_r11, ppc32_r12, ppc32_fpr0, ppc32_fpr1, ppc32_fpr2, ppc32_fpr3,
        ppc32_fpr4, ppc32_fpr5, ppc32_fpr6, ppc32_fpr7, ppc32_fpr8, ppc32_fpr9, ppc32_fpr10,
        ppc32_fpr11, ppc32_fpr12, ppc32_fpr13] new;
     syscallRead \<leftarrow> set_regs m
       [ppc32_r0] callRead;
     let syscallWritten = callWritten;
     Some \<lparr>returnRegs = returnRegs, callParam = callParam, returnRead = returnRead, callRead = callRead,
       callWritten = callWritten, syscallRead = syscallRead, syscallWritten = syscallWritten, allRegs = bs_set_all new\<rparr>
   })"

definition power_initialize64 :: "abi_regs option" where
  "power_initialize64 = (let m = machRegIndex_ppc_64; new = bs_new (rm_size m) in do {
     returnRegs \<leftarrow> set_regs m
       [ppc64_r3] new;
     callParam \<leftarrow> set_regs m
       [ppc64_r3, ppc64_r4, ppc64_r5, ppc64_r6, ppc64_r7, ppc64_r8, ppc64_r9, ppc64_r10] new;
     returnRead \<leftarrow> set_regs m
       [ppc64_r3, ppc64_r4, ppc64_fpr3, ppc64_fpr2] new;
     callRead \<leftarrow> set_regs m
       [ppc64_r3, ppc64_r4, ppc64_r5, ppc64_r6, ppc64_r7, ppc64_r8, ppc64_r9, ppc64_r10,
        ppc64_fpr1, ppc64_fpr2, ppc64_fpr3, ppc64_fpr4, ppc64_fpr5, ppc64_fpr6, ppc64_fpr7,
        ppc64_fpr8, ppc64_fpr9, ppc64_fpr10, ppc64_fpr11, ppc64_fpr12, ppc64_fpr13] new;
     callWritten \<leftarrow> set_regs m
       [ppc64_r0, ppc64_r3, ppc64_r4, ppc64_r5, ppc64_r6, ppc64_r7, ppc64_r8, ppc64_r9,
        ppc64_r10, ppc64_r11, ppc64_r12, ppc64_fpr0, ppc64_fpr1, ppc64_fpr2, ppc64_fpr3,
        ppc64_fpr4, ppc64_fpr5, ppc64_fpr6, ppc64_fpr7, ppc64_fpr8, ppc64_fpr9, ppc64_fpr10,
        ppc64_fpr11, ppc64_fpr12, ppc64_fpr13] new;
     Some \<lparr>returnRegs = returnRegs, callParam = callParam, returnRead = returnRead, callRead = callRead,
       callWritten = callWritten, syscallRead = bs_set_all new, syscallWritten = bs_set_all new, allRegs = bs_set_all new\<rparr>
   })"

text \<open>On AArch64 the array of the registers a call writes is the array of those it reads: the
  pointer is copied, not the array, and the later additions go to both.\<close>

definition aarch64_initialize64 :: "abi_regs option" where
  "aarch64_initialize64 = (let m = machRegIndex_aarch64; new = bs_new (rm_size m) in do {
     returnRegs \<leftarrow> set_regs m
       [aarch64_x0, aarch64_q0] new;
     callParam \<leftarrow> set_regs m
       [aarch64_x0, aarch64_x1, aarch64_x2, aarch64_x3, aarch64_x4, aarch64_x5, aarch64_x6,
        aarch64_x7] new;
     returnRead \<leftarrow> set_regs m
       [aarch64_x0, aarch64_q0, aarch64_x19, aarch64_x20, aarch64_x21, aarch64_x22,
        aarch64_x23, aarch64_x24, aarch64_x25, aarch64_x26, aarch64_x27, aarch64_x28,
        aarch64_sp, aarch64_q8, aarch64_q9, aarch64_q10, aarch64_q11, aarch64_q12, aarch64_q13,
        aarch64_q14, aarch64_q15] new;
     callRead \<leftarrow> set_regs m
       [aarch64_x0, aarch64_x1, aarch64_x2, aarch64_x3, aarch64_x4, aarch64_x5, aarch64_x6,
        aarch64_x7, aarch64_q0, aarch64_q1, aarch64_q2, aarch64_q3, aarch64_q4, aarch64_q5,
        aarch64_q6, aarch64_q7] new;
     callWritten \<leftarrow> set_regs m
       [aarch64_x9, aarch64_x10, aarch64_x11, aarch64_x12, aarch64_x13, aarch64_x14,
        aarch64_x15, aarch64_q16, aarch64_q17, aarch64_q18, aarch64_q19, aarch64_q20,
        aarch64_q21, aarch64_q22, aarch64_q23, aarch64_q24, aarch64_q25, aarch64_q26,
        aarch64_q27, aarch64_q28, aarch64_q29, aarch64_q30, aarch64_q31] callRead;
     Some \<lparr>returnRegs = returnRegs, callParam = callParam, returnRead = returnRead, callRead = callWritten,
       callWritten = callWritten, syscallRead = bs_set_all new, syscallWritten = bs_set_all new, allRegs = bs_set_all new\<rparr>
   })"

section \<open>The two conventions of a build\<close>

datatype Build = Build_i386 | Build_x86_64 | Build_power | Build_aarch64

record ABI =
  abi_index :: RegisterMap
  addr_width :: int
  abi_32 :: "abi_regs option"
  abi_64 :: "abi_regs option"

definition abi_initialize :: "Build \<Rightarrow> (abi_regs option \<times> abi_regs option) option" where
  "abi_initialize B = (case B of
     Build_i386 \<Rightarrow> do { r \<leftarrow> x86_initialize32; Some (Some r, None) }
   | Build_x86_64 \<Rightarrow> do { r \<leftarrow> x86_initialize32; q \<leftarrow> x86_initialize64; Some (Some r, Some q) }
   | Build_power \<Rightarrow> do { r \<leftarrow> power_initialize32; q \<leftarrow> power_initialize64; Some (Some r, Some q) }
   | Build_aarch64 \<Rightarrow> do { q \<leftarrow> aarch64_initialize64; Some (None, Some q) })"

definition getABI :: "Build \<Rightarrow> int \<Rightarrow> ABI option" where
  "getABI B w = do {
     (r, q) \<leftarrow> abi_initialize B;
     let (index32, index64, width64) = (case B of
         Build_i386 \<Rightarrow> (machRegIndex_x86, machRegIndex_x86_64, 8)
       | Build_x86_64 \<Rightarrow> (machRegIndex_x86, machRegIndex_x86_64, 8)
       | Build_power \<Rightarrow> (machRegIndex_ppc, machRegIndex_ppc, 4)
       | Build_aarch64 \<Rightarrow> (machRegIndex_aarch64, machRegIndex_aarch64, 8));
     Some (if w = 4 then \<lparr>abi_index = index32, addr_width = 4, abi_32 = r, abi_64 = q\<rparr>
           else \<lparr>abi_index = index64, addr_width = width64, abi_32 = r, abi_64 = q\<rparr>)
   }"

definition abi_getIndex :: "ABI \<Rightarrow> MachRegister \<Rightarrow> int" where
  "abi_getIndex A r = (case map_of (abi_index A) r of None \<Rightarrow> - 1 | Some i \<Rightarrow> int i)"

definition abi_getBitArray :: "ABI \<Rightarrow> dynamic_bitset" where
  "abi_getBitArray A = bs_new (rm_size (abi_index A))"

definition getCallReadRegisters :: "ABI \<Rightarrow> dynamic_bitset option" where
  "getCallReadRegisters A = (if addr_width A = 4 then map_option callRead (abi_32 A)
     else if addr_width A = 8 then map_option callRead (abi_64 A) else None)"

definition getCallWrittenRegisters :: "ABI \<Rightarrow> dynamic_bitset option" where
  "getCallWrittenRegisters A = (if addr_width A = 4 then map_option callWritten (abi_32 A)
     else if addr_width A = 8 then map_option callWritten (abi_64 A) else None)"

definition getReturnReadRegisters :: "ABI \<Rightarrow> dynamic_bitset option" where
  "getReturnReadRegisters A = (if addr_width A = 4 then map_option returnRead (abi_32 A)
     else if addr_width A = 8 then map_option returnRead (abi_64 A) else None)"

definition getReturnRegisters :: "ABI \<Rightarrow> dynamic_bitset option" where
  "getReturnRegisters A = (if addr_width A = 4 then map_option returnRegs (abi_32 A)
     else if addr_width A = 8 then map_option returnRegs (abi_64 A) else None)"

definition getParameterRegisters :: "ABI \<Rightarrow> dynamic_bitset option" where
  "getParameterRegisters A = (if addr_width A = 4 then map_option callParam (abi_32 A)
     else if addr_width A = 8 then map_option callParam (abi_64 A) else None)"

definition getSyscallReadRegisters :: "ABI \<Rightarrow> dynamic_bitset option" where
  "getSyscallReadRegisters A = (if addr_width A = 4 then map_option syscallRead (abi_32 A)
     else if addr_width A = 8 then map_option syscallRead (abi_64 A) else None)"

definition getSyscallWrittenRegisters :: "ABI \<Rightarrow> dynamic_bitset option" where
  "getSyscallWrittenRegisters A = (if addr_width A = 4 then map_option syscallWritten (abi_32 A)
     else if addr_width A = 8 then map_option syscallWritten (abi_64 A) else None)"

definition getAllRegs :: "ABI \<Rightarrow> dynamic_bitset option" where
  "getAllRegs A = (if addr_width A = 4 then map_option allRegs (abi_32 A)
     else if addr_width A = 8 then map_option allRegs (abi_64 A) else None)"

lemmas abi_getters = getCallReadRegisters_def
  getCallWrittenRegisters_def
  getReturnReadRegisters_def
  getReturnRegisters_def
  getParameterRegisters_def
  getSyscallReadRegisters_def
  getSyscallWrittenRegisters_def
  getAllRegs_def

section \<open>The arrays of each convention\<close>

lemma map_of_members:
  "distinct (map fst m) \<Longrightarrow> list_all2 (\<lambda>r i. (r, i) \<in> set m) rs is \<Longrightarrow> map (map_of m) rs = map Some is"
proof (induction rs arbitrary: "is")
  case (Cons r rs)
  then show ?case by (auto simp: list_all2_Cons1)
qed simp

lemma rm_at_members:
  assumes "distinct (map fst m)" "list_all2 (\<lambda>r i. (r, i) \<in> set m) rs is"
  shows "map (rm_at m) rs = is"
proof -
  have "map (rm_at m) rs = map (\<lambda>x. case x of Some i \<Rightarrow> i | None \<Rightarrow> 0) (map (map_of m) rs)" by (simp add: rm_at_def)
  also have "\<dots> = is" unfolding map_of_members[OF assms] by (simp add: comp_def)
  finally show ?thesis .
qed

lemma at_x8632: "map (rm_at machRegIndex_x86)
    [x86_eax, x86_ebx, x86_esi, x86_edi, x86_ecx, x86_edx, x86_of, x86_sf, x86_zf, x86_af,
     x86_pf, x86_cf, x86_tf, x86_if, x86_df, x86_nt, x86_rf] =
    [0, 3, 6, 7, 1, 2, 20, 16, 15, 13, 11, 9, 17, 18, 19, 23, 25]"
  by (rule rm_at_members[OF distinct_x86]) (simp only: list_all2_Cons list_all2_Nil machRegIndex_x86_def list.set insert_iff prod.inject simp_thms)

lemma x86_initialize32_eq: "x86_initialize32 = Some \<lparr>
    returnRegs = bs_of 92 {0},
    callParam = bs_of 92 {},
    returnRead = bs_of 92 {0, 3, 6, 7},
    callRead = bs_of 92 {1, 2, 3},
    callWritten = bs_of 92 {0, 1, 2, 9, 11, 13, 15, 16, 17, 18, 19, 20, 23, 25},
    syscallRead = bs_of 92 UNIV,
    syscallWritten = bs_of 92 UNIV, allRegs = bs_of 92 UNIV\<rparr>"
  unfolding x86_initialize32_def Let_def size_x86 bs_new_of bs_set_all_of
  by (simp add: bs_set_of insert_commute at_x8632[simplified])

lemma at_x8664: "map (rm_at machRegIndex_x86_64)
    [x86_64_rax, x86_64_rdx, x86_64_rdi, x86_64_rsi, x86_64_rcx, x86_64_r8, x86_64_r9,
     x86_64_rbx, x86_64_r12, x86_64_r13, x86_64_r14, x86_64_r15, x86_64_xmm0, x86_64_xmm1,
     x86_64_xmm2, x86_64_xmm3, x86_64_xmm4, x86_64_xmm5, x86_64_xmm6, x86_64_xmm7, x86_64_r10,
     x86_64_r11, x86_64_of, x86_64_sf, x86_64_zf, x86_64_af, x86_64_pf, x86_64_cf, x86_64_tf,
     x86_64_if, x86_64_df, x86_64_nt, x86_64_rf] =
    [0, 2, 7, 6, 1, 8, 9, 3, 12, 13, 14, 15, 109, 110, 111, 112, 113, 114, 115, 116, 10, 11,
     25, 21, 20, 19, 18, 17, 22, 23, 24, 26, 27]"
  by (rule rm_at_members[OF distinct_x86_64]) (simp only: list_all2_Cons list_all2_Nil machRegIndex_x86_64_def list.set insert_iff prod.inject simp_thms)

lemma x86_initialize64_eq: "x86_initialize64 = Some \<lparr>
    returnRegs = bs_of 166 {0, 2},
    callParam = bs_of 166 {1, 2, 6, 7, 8, 9},
    returnRead = bs_of 166 {0, 1, 2, 3, 12, 13, 14, 15, 109, 110},
    callRead = bs_of 166 {0, 1, 2, 6, 7, 8, 9, 109, 110, 111, 112, 113, 114, 115, 116},
    callWritten = bs_of 166 {0, 1, 2, 6, 7, 8, 9, 10, 11, 17, 18, 19, 20, 21, 22, 23, 24, 25, 26, 27, 109, 110, 111, 112, 113, 114, 115, 116},
    syscallRead = bs_of 166 UNIV,
    syscallWritten = bs_of 166 UNIV, allRegs = bs_of 166 UNIV\<rparr>"
  unfolding x86_initialize64_def Let_def size_x86_64 bs_new_of bs_set_all_of
  by (simp add: bs_set_of insert_commute at_x8664[simplified])

lemma at_power32: "map (rm_at machRegIndex_ppc)
    [ppc32_r3, ppc32_r4, ppc32_r5, ppc32_r6, ppc32_r7, ppc32_r8, ppc32_r9, ppc32_r10,
     ppc32_fpr1, ppc32_fpr2, ppc32_fpr3, ppc32_fpr4, ppc32_fpr5, ppc32_fpr6, ppc32_fpr7,
     ppc32_fpr8, ppc32_fpr9, ppc32_fpr10, ppc32_fpr11, ppc32_fpr12, ppc32_fpr13, ppc32_r0,
     ppc32_r11, ppc32_r12, ppc32_fpr0] =
    [3, 4, 5, 6, 7, 8, 9, 10, 33, 34, 35, 36, 37, 38, 39, 40, 41, 42, 43, 44, 45, 0, 11, 12, 32]"
  by (rule rm_at_members[OF distinct_ppc]) (simp only: list_all2_Cons list_all2_Nil machRegIndex_ppc_def list.set insert_iff prod.inject simp_thms)

lemma power_initialize32_eq: "power_initialize32 = Some \<lparr>
    returnRegs = bs_of 171 {3},
    callParam = bs_of 171 {3, 4, 5, 6, 7, 8, 9, 10},
    returnRead = bs_of 171 {3, 4, 33, 34},
    callRead = bs_of 171 {3, 4, 5, 6, 7, 8, 9, 10, 33, 34, 35, 36, 37, 38, 39, 40, 41, 42, 43, 44, 45},
    callWritten = bs_of 171 {0, 3, 4, 5, 6, 7, 8, 9, 10, 11, 12, 32, 33, 34, 35, 36, 37, 38, 39, 40, 41, 42, 43, 44, 45},
    syscallRead = bs_of 171 {0, 3, 4, 5, 6, 7, 8, 9, 10, 33, 34, 35, 36, 37, 38, 39, 40, 41, 42, 43, 44, 45},
    syscallWritten = bs_of 171 {0, 3, 4, 5, 6, 7, 8, 9, 10, 11, 12, 32, 33, 34, 35, 36, 37, 38, 39, 40, 41, 42, 43, 44, 45}, allRegs = bs_of 171 UNIV\<rparr>"
  unfolding power_initialize32_def Let_def size_ppc bs_new_of bs_set_all_of
  by (simp add: bs_set_of insert_commute at_power32[simplified])

lemma at_power64: "map (rm_at machRegIndex_ppc_64)
    [ppc64_r3, ppc64_r4, ppc64_r5, ppc64_r6, ppc64_r7, ppc64_r8, ppc64_r9, ppc64_r10,
     ppc64_fpr3, ppc64_fpr2, ppc64_fpr1, ppc64_fpr4, ppc64_fpr5, ppc64_fpr6, ppc64_fpr7,
     ppc64_fpr8, ppc64_fpr9, ppc64_fpr10, ppc64_fpr11, ppc64_fpr12, ppc64_fpr13, ppc64_r0,
     ppc64_r11, ppc64_r12, ppc64_fpr0] =
    [3, 4, 5, 6, 7, 8, 9, 10, 35, 34, 33, 36, 37, 38, 39, 40, 41, 42, 43, 44, 45, 0, 11, 12, 32]"
  by (rule rm_at_members[OF distinct_ppc_64]) (simp only: list_all2_Cons list_all2_Nil machRegIndex_ppc_64_def list.set insert_iff prod.inject simp_thms)

lemma power_initialize64_eq: "power_initialize64 = Some \<lparr>
    returnRegs = bs_of 171 {3},
    callParam = bs_of 171 {3, 4, 5, 6, 7, 8, 9, 10},
    returnRead = bs_of 171 {3, 4, 34, 35},
    callRead = bs_of 171 {3, 4, 5, 6, 7, 8, 9, 10, 33, 34, 35, 36, 37, 38, 39, 40, 41, 42, 43, 44, 45},
    callWritten = bs_of 171 {0, 3, 4, 5, 6, 7, 8, 9, 10, 11, 12, 32, 33, 34, 35, 36, 37, 38, 39, 40, 41, 42, 43, 44, 45},
    syscallRead = bs_of 171 UNIV,
    syscallWritten = bs_of 171 UNIV, allRegs = bs_of 171 UNIV\<rparr>"
  unfolding power_initialize64_def Let_def size_ppc_64 bs_new_of bs_set_all_of
  by (simp add: bs_set_of insert_commute at_power64[simplified])

lemma at_aarch6464: "map (rm_at machRegIndex_aarch64)
    [aarch64_x0, aarch64_q0, aarch64_x1, aarch64_x2, aarch64_x3, aarch64_x4, aarch64_x5,
     aarch64_x6, aarch64_x7, aarch64_x19, aarch64_x20, aarch64_x21, aarch64_x22, aarch64_x23,
     aarch64_x24, aarch64_x25, aarch64_x26, aarch64_x27, aarch64_x28, aarch64_sp, aarch64_q8,
     aarch64_q9, aarch64_q10, aarch64_q11, aarch64_q12, aarch64_q13, aarch64_q14, aarch64_q15,
     aarch64_q1, aarch64_q2, aarch64_q3, aarch64_q4, aarch64_q5, aarch64_q6, aarch64_q7,
     aarch64_x9, aarch64_x10, aarch64_x11, aarch64_x12, aarch64_x13, aarch64_x14, aarch64_x15,
     aarch64_q16, aarch64_q17, aarch64_q18, aarch64_q19, aarch64_q20, aarch64_q21, aarch64_q22,
     aarch64_q23, aarch64_q24, aarch64_q25, aarch64_q26, aarch64_q27, aarch64_q28, aarch64_q29,
     aarch64_q30, aarch64_q31] =
    [0, 31, 1, 2, 3, 4, 5, 6, 7, 19, 20, 21, 22, 23, 24, 25, 26, 27, 28, 66, 39, 40, 41, 42,
     43, 44, 45, 46, 32, 33, 34, 35, 36, 37, 38, 9, 10, 11, 12, 13, 14, 15, 47, 48, 49, 50, 51,
     52, 53, 54, 55, 56, 57, 58, 59, 60, 61, 62]"
  by (rule rm_at_members[OF distinct_aarch64]) (simp only: list_all2_Cons list_all2_Nil machRegIndex_aarch64_def list.set insert_iff prod.inject simp_thms)

lemma aarch64_initialize64_eq: "aarch64_initialize64 = Some \<lparr>
    returnRegs = bs_of 100 {0, 31},
    callParam = bs_of 100 {0, 1, 2, 3, 4, 5, 6, 7},
    returnRead = bs_of 100 {0, 19, 20, 21, 22, 23, 24, 25, 26, 27, 28, 31, 39, 40, 41, 42, 43, 44, 45, 46, 66},
    callRead = bs_of 100 {0, 1, 2, 3, 4, 5, 6, 7, 9, 10, 11, 12, 13, 14, 15, 31, 32, 33, 34, 35, 36, 37, 38, 47, 48, 49, 50, 51, 52, 53, 54, 55, 56, 57, 58, 59, 60, 61, 62},
    callWritten = bs_of 100 {0, 1, 2, 3, 4, 5, 6, 7, 9, 10, 11, 12, 13, 14, 15, 31, 32, 33, 34, 35, 36, 37, 38, 47, 48, 49, 50, 51, 52, 53, 54, 55, 56, 57, 58, 59, 60, 61, 62},
    syscallRead = bs_of 100 UNIV,
    syscallWritten = bs_of 100 UNIV, allRegs = bs_of 100 UNIV\<rparr>"
  unfolding aarch64_initialize64_def Let_def size_aarch64 bs_new_of bs_set_all_of
  by (simp add: bs_set_of insert_commute at_aarch6464[simplified])


lemmas initialize_eqs = x86_initialize32_eq x86_initialize64_eq power_initialize32_eq power_initialize64_eq
  aarch64_initialize64_eq

section \<open>Well-formed conventions\<close>

definition abi_array_ok :: "nat \<Rightarrow> dynamic_bitset option \<Rightarrow> bool" where
  "abi_array_ok n a = (case a of None \<Rightarrow> False | Some s \<Rightarrow> bs_ok s \<and> bs_size s = n)"

definition abi_arrays_ok :: "ABI \<Rightarrow> bool" where
  "abi_arrays_ok A \<longleftrightarrow> list_all (\<lambda>get. abi_array_ok (rm_size (abi_index A)) (get A))
     [getCallReadRegisters, getCallWrittenRegisters, getReturnReadRegisters, getReturnRegisters,
      getParameterRegisters, getSyscallReadRegisters, getSyscallWrittenRegisters, getAllRegs]"

definition abi_ok :: "ABI \<Rightarrow> bool" where
  "abi_ok A \<longleftrightarrow> numbering_ok (abi_index A) \<and> abi_arrays_ok A"

lemma abi_array_of: "abi_array_ok n a \<Longrightarrow> \<exists>X. a = Some (bs_of n X)"
  using bs_of_bits by (cases a) (auto simp: abi_array_ok_def intro: sym)

lemma abi_array_bs_of [simp]: "abi_array_ok n (Some (bs_of k X)) \<longleftrightarrow> n = k"
  by (auto simp: abi_array_ok_def bs_of_spec)

lemma getIndex_range: "abi_ok A \<Longrightarrow> 0 \<le> abi_getIndex A r \<Longrightarrow> nat (abi_getIndex A r) < rm_size (abi_index A)"
  using numbering_in_range[of "abi_index A" r] by (auto simp: abi_ok_def abi_getIndex_def split: option.splits)

lemmas getABI_simps = getABI_def abi_initialize_def initialize_eqs

text \<open>C26. The conventions are well formed. On x86-64, on Power at both widths and on AArch64 at
  width 8, \<^verbatim>\<open>getABI\<close> returns a convention whose eight register sets are well-formed bit arrays
  exactly as long as the register numbering, and whose numbering stays inside them. The 32-bit x86
  convention has well-formed arrays too, but its numbering leaves them. Where the
  platform fills in no arrays (AArch64 at width 4, a 32-bit x86 library at width 8), every
  query of a set dereferences a null pointer.\<close>

theorem ABI_well_formed:
  "list_all (\<lambda>(B, w). \<exists>A. getABI B w = Some A \<and> abi_ok A)
     [(Build_x86_64, 8), (Build_power, 4), (Build_power, 8), (Build_aarch64, 8)] \<and>
   list_all (\<lambda>(B, w). \<exists>A. getABI B w = Some A \<and> abi_arrays_ok A \<and> \<not> numbering_ok (abi_index A))
     [(Build_i386, 4), (Build_x86_64, 4)] \<and>
   list_all (\<lambda>(B, w). \<exists>A. getABI B w = Some A \<and> getCallReadRegisters A = None \<and> getAllRegs A = None)
     [(Build_i386, 8), (Build_aarch64, 4)]"
proof -
  have "(x86_xmm0, 107) \<in> set machRegIndex_x86"
    by (simp only: machRegIndex_x86_def list.set insert_iff prod.inject simp_thms)
  then have "\<not> numbering_ok machRegIndex_x86"
    unfolding numbering_ok_def list_all_iff size_x86 by fastforce
  then show ?thesis
    by (simp add: getABI_simps abi_ok_def abi_arrays_ok_def abi_getters rm_sizes numbering_x86_64
        numbering_ppc numbering_aarch64)
qed












end
