(* ===== verification/Flow_Graph.thy ===== *)
theory Flow_Graph
  imports Dyn_Prelude
begin

text \<open>
  What the data-flow analyses ask of the control-flow graph: the edges between blocks with the tests
  the analyses filter them with (\<^verbatim>\<open>parseAPI/h/CFG.h\<close>), and the categories of instructions
  (\<^verbatim>\<open>instructionAPI/h/InstructionCategories.h\<close>).
\<close>

datatype EdgeTypeEnum = CALL | COND_TAKEN | COND_NOT_TAKEN | INDIRECT | DIRECT | FALLTHROUGH | CATCH
  | CALL_FT | RET | NOEDGE

record Edge =
  e_type :: EdgeTypeEnum
  e_interproc :: bool
  e_sink :: bool
  e_trg :: nat

definition edge_interproc :: "Edge \<Rightarrow> bool" where
  "edge_interproc e \<longleftrightarrow> e_interproc e \<or> e_type e = CALL \<or> e_type e = RET"

definition Intraproc_pred :: "Edge \<Rightarrow> bool" where
  "Intraproc_pred e \<longleftrightarrow> e_type e \<noteq> CALL \<and> e_type e \<noteq> RET \<and> \<not> edge_interproc e"

text \<open>The predicate of the stack analysis, \<^verbatim>\<open>intra_nosink_nocatch\<close>.\<close>

definition intra_nosink_nocatch :: "Edge \<Rightarrow> bool" where
  "intra_nosink_nocatch e \<longleftrightarrow> Intraproc_pred e \<and> \<not> e_sink e \<and> e_type e \<noteq> CATCH"

datatype InsnCategory = c_CallInsn | c_ReturnInsn | c_BranchInsn | c_CompareInsn | c_PrefetchInsn
  | c_SysEnterInsn | c_SyscallInsn | c_VectorInsn | c_GPUKernelExitInsn | c_NoCategory

end
