(* ===== verification/Liveness.thy ===== *)
theory Liveness
  imports Call_ABI Flow_Graph
begin

text \<open>
  The register liveness analysis, \<^verbatim>\<open>class LivenessAnalyzer\<close>
  (\<^verbatim>\<open>dataflowAPI/src/liveness.C\<close>, \<^verbatim>\<open>h/liveness.h\<close>, \<^verbatim>\<open>InstructionCache.C\<close>), operation by
  operation. Blocks and functions are named by numbers that stand for their addresses in memory; a
  block carries its decoded instructions, and an instruction the registers the decoder reports as
  read and written, its category and the other facts the analysis asks for. A failed assertion, a
  null pointer and an assertion of the bit arrays are the result \<open>None\<close>.
\<close>

section \<open>Control flow\<close>

record Instruction =
  insn_size :: nat
  insn_readSet :: "MachRegister list"
  insn_writeSet :: "MachRegister list"
  insn_category :: InsnCategory
  insn_fallsThrough :: bool
  insn_isInterrupt :: bool
  insn_isSyscall :: bool

record Block =
  b_id :: nat
  b_start :: nat
  b_end :: nat
  b_lastInsn :: nat
  b_insns :: "Instruction list"
  b_targets :: "Edge list"

record Function =
  f_id :: nat
  f_entry :: nat
  f_blocks :: "Block list"

text \<open>The instructions of a block with their addresses, in order.\<close>

fun located :: "nat \<Rightarrow> Instruction list \<Rightarrow> (nat \<times> Instruction) list" where
  "located a [] = []"
| "located a (i # is) = (a, i) # located (a + insn_size i) is"

definition insns_at :: "Block \<Rightarrow> (nat \<times> Instruction) list" where
  "insns_at b = located (b_start b) (b_insns b)"

section \<open>The instruction cache\<close>

record ReadWriteInfo =
  rw_read :: dynamic_bitset
  rw_written :: dynamic_bitset
  rw_insnSize :: nat

record InstructionCache =
  ic_cache :: "nat \<rightharpoonup> ReadWriteInfo"
  ic_currentFunction :: "nat option"

definition InstructionCache_new :: InstructionCache where
  "InstructionCache_new = \<lparr>ic_cache = Map.empty, ic_currentFunction = None\<rparr>"

definition getLivenessInfo :: "nat \<Rightarrow> nat \<Rightarrow> InstructionCache \<Rightarrow> ReadWriteInfo option" where
  "getLivenessInfo addr func ic = (if ic_currentFunction ic = Some func then ic_cache ic addr else None)"

definition insertInstructionInfo :: "nat \<Rightarrow> ReadWriteInfo \<Rightarrow> nat \<Rightarrow> InstructionCache \<Rightarrow> InstructionCache" where
  "insertInstructionInfo addr rw func ic =
     (let ic' = (if ic_currentFunction ic = Some func then ic
                 else \<lparr>ic_cache = Map.empty, ic_currentFunction = Some func\<rparr>)
      in ic'\<lparr>ic_cache := (ic_cache ic')(addr \<mapsto> rw)\<rparr>)"

definition ic_clean :: "InstructionCache \<Rightarrow> InstructionCache" where
  "ic_clean ic = ic\<lparr>ic_cache := Map.empty\<rparr>"

section \<open>What an instruction reads and writes\<close>

definition isMMX :: "MachRegister \<Rightarrow> bool" where
  "isMMX r = (if getArchitecture r = Arch_x86 then regClass r = x86_MMX
     else if getArchitecture r = Arch_x86_64 then regClass r = x86_64_MMX else False)"

definition changeIfMMX :: "int \<Rightarrow> MachRegister \<Rightarrow> MachRegister" where
  "changeIfMMX width r = (if \<not> isMMX r then r else if width = 4 then x86_mm0 else x86_64_mm0)"

definition isExitBlock :: "Block \<Rightarrow> bool" where
  "isExitBlock b =
     (let trgs = filter (\<lambda>e. e_type e \<noteq> CATCH) (b_targets b)
      in list_ex edge_interproc trgs \<and> \<not> list_ex (\<lambda>e. \<not> edge_interproc e) trgs)"

text \<open>The assignment \<^verbatim>\<open>s[i] = true\<close>; a negative index becomes a huge position.\<close>

definition bs_mark :: "int \<Rightarrow> dynamic_bitset \<Rightarrow> dynamic_bitset option" where
  "bs_mark i s = (if 0 \<le> i then bs_set (nat i) True s else None)"

fun bs_marks :: "int list \<Rightarrow> dynamic_bitset \<Rightarrow> dynamic_bitset option" where
  "bs_marks [] s = Some s"
| "bs_marks (i # is) s = Option.bind (bs_mark i s) (bs_marks is)"

definition flag_regs :: "int \<Rightarrow> MachRegister list" where
  "flag_regs width =
     (if width = 4
      then [x86_of, x86_cf, x86_pf, x86_af, x86_zf, x86_sf, x86_df, x86_tf, x86_nt]
      else [x86_64_of, x86_64_cf, x86_64_pf, x86_64_af, x86_64_zf, x86_64_sf, x86_64_df, x86_64_tf, x86_64_nt])"

definition to_ppc32 :: "MachRegister \<Rightarrow> MachRegister" where
  "to_ppc32 cur = (if getArchitecture cur = Arch_ppc64 then (cur AND NOT Arch_ppc64) OR Arch_ppc32 else cur)"

definition rw_read_reg :: "int \<Rightarrow> ABI \<Rightarrow> MachRegister \<Rightarrow> ReadWriteInfo \<Rightarrow> ReadWriteInfo option" where
  "rw_read_reg width A r ret =
     (let cur = to_ppc32 r; base = getBaseRegister cur in
      if base = x86_flags \<or> base = x86_64_flags then
        do { s \<leftarrow> bs_marks (map (abi_getIndex A) (flag_regs width)) (rw_read ret);
             Some (ret\<lparr>rw_read := s\<rparr>) }
      else let index = abi_getIndex A (changeIfMMX width base) in
        if 0 \<le> index then do { s \<leftarrow> bs_set (nat index) True (rw_read ret); Some (ret\<lparr>rw_read := s\<rparr>) }
        else Some ret)"

definition rw_write_reg :: "int \<Rightarrow> ABI \<Rightarrow> MachRegister \<Rightarrow> ReadWriteInfo \<Rightarrow> ReadWriteInfo option" where
  "rw_write_reg width A r ret =
     (let cur = to_ppc32 r; base = getBaseRegister cur in
      if base = x86_flags \<or> base = x86_64_flags then
        do { s \<leftarrow> bs_marks (map (abi_getIndex A) (flag_regs width)) (rw_written ret);
             Some (ret\<lparr>rw_written := s\<rparr>) }
      else let base = changeIfMMX width base; index = abi_getIndex A base in
        if 0 \<le> index then
          do { s \<leftarrow> bs_set (nat index) True (rw_written ret);
               partial \<leftarrow> (if cur \<noteq> base then map_option (\<lambda>n. n < 4) (MachRegister_size cur) else Some False);
               t \<leftarrow> (if partial \<or> isMMX base then bs_set (nat index) True (rw_read ret) else Some (rw_read ret));
               Some (ret\<lparr>rw_written := s, rw_read := t\<rparr>) }
        else Some ret)"

fun rw_fold :: "(MachRegister \<Rightarrow> ReadWriteInfo \<Rightarrow> ReadWriteInfo option) \<Rightarrow> MachRegister list \<Rightarrow> ReadWriteInfo \<Rightarrow> ReadWriteInfo option" where
  "rw_fold g [] ret = Some ret"
| "rw_fold g (r # rs) ret = Option.bind (g r ret) (rw_fold g rs)"

definition rw_category :: "ABI \<Rightarrow> Instruction \<Rightarrow> Block \<Rightarrow> nat \<Rightarrow> ReadWriteInfo \<Rightarrow> ReadWriteInfo option" where
  "rw_category A i blk a ret = (case insn_category i of
     c_CallInsn \<Rightarrow> do {
       cr \<leftarrow> getCallReadRegisters A; rd \<leftarrow> bs_or (rw_read ret) cr;
       wr \<leftarrow> (if b_lastInsn blk = a then do { cw \<leftarrow> getCallWrittenRegisters A; bs_or (rw_written ret) cw }
              else Some (rw_written ret));
       Some (ret\<lparr>rw_read := rd, rw_written := wr\<rparr>) }
   | c_ReturnInsn \<Rightarrow> do {
       rr \<leftarrow> getReturnReadRegisters A; rd \<leftarrow> bs_or (rw_read ret) rr; Some (ret\<lparr>rw_read := rd\<rparr>) }
   | c_BranchInsn \<Rightarrow>
       if \<not> insn_fallsThrough i \<and> isExitBlock blk then do {
         cr \<leftarrow> getCallReadRegisters A; rr \<leftarrow> getReturnReadRegisters A; both \<leftarrow> bs_or cr rr;
         rd \<leftarrow> bs_or (rw_read ret) both;
         cw \<leftarrow> getCallWrittenRegisters A; wr \<leftarrow> bs_or (rw_written ret) cw;
         Some (ret\<lparr>rw_read := rd, rw_written := wr\<rparr>) }
       else Some ret
   | _ \<Rightarrow>
       if insn_isInterrupt i \<or> insn_isSyscall i then do {
         sr \<leftarrow> getSyscallReadRegisters A; rd \<leftarrow> bs_or (rw_read ret) sr;
         sw \<leftarrow> getSyscallWrittenRegisters A; wr \<leftarrow> bs_or (rw_written ret) sw;
         Some (ret\<lparr>rw_read := rd, rw_written := wr\<rparr>) }
       else Some ret)"

definition calcRWSets :: "int \<Rightarrow> ABI \<Rightarrow> Instruction \<Rightarrow> Block \<Rightarrow> nat \<Rightarrow> ReadWriteInfo option" where
  "calcRWSets width A curInsn blk a = do {
     let ret = \<lparr>rw_read = abi_getBitArray A, rw_written = abi_getBitArray A, rw_insnSize = insn_size curInsn\<rparr>;
     ret \<leftarrow> rw_fold (rw_read_reg width A) (insn_readSet curInsn) ret;
     ret \<leftarrow> rw_fold (rw_write_reg width A) (insn_writeSet curInsn) ret;
     rw_category A curInsn blk a ret }"

section \<open>The analyzer\<close>

record livenessData =
  ld_in :: dynamic_bitset
  ld_out :: dynamic_bitset
  ld_use :: dynamic_bitset
  ld_def :: dynamic_bitset

record LivenessAnalyzer =
  la_width :: int
  la_abi :: ABI
  blockLiveInfo :: "nat \<rightharpoonup> livenessData"
  liveFuncCalculated :: "nat \<rightharpoonup> bool"
  funcRegsDefined :: "nat \<rightharpoonup> dynamic_bitset"
  cachedLivenessInfo :: InstructionCache
  la_errorno :: int

definition LivenessAnalyzer_new :: "Build \<Rightarrow> int \<Rightarrow> LivenessAnalyzer option" where
  "LivenessAnalyzer_new B w = map_option (\<lambda>A.
     \<lparr>la_width = w, la_abi = A, blockLiveInfo = Map.empty, liveFuncCalculated = Map.empty,
      funcRegsDefined = Map.empty, cachedLivenessInfo = InstructionCache_new, la_errorno = - 1\<rparr>) (getABI B w)"

definition getLivenessIn :: "LivenessAnalyzer \<Rightarrow> nat \<Rightarrow> dynamic_bitset option" where
  "getLivenessIn la block = (case blockLiveInfo la block of None \<Rightarrow> None
     | Some data \<Rightarrow> if bs_size (ld_in data) = 0 then None else Some (ld_in data))"

definition processEdgeLiveness :: "LivenessAnalyzer \<Rightarrow> Edge \<Rightarrow> dynamic_bitset \<Rightarrow> dynamic_bitset \<Rightarrow> dynamic_bitset option" where
  "processEdgeLiveness la e allRegsDefined out =
     (if e_type e = CATCH then Some out
      else if e_sink e then bs_or out allRegsDefined
      else do { i \<leftarrow> getLivenessIn la (e_trg e); bs_or out i })"

fun processEdges :: "LivenessAnalyzer \<Rightarrow> Edge list \<Rightarrow> dynamic_bitset \<Rightarrow> dynamic_bitset \<Rightarrow> dynamic_bitset option" where
  "processEdges la [] allRegsDefined out = Some out"
| "processEdges la (e # es) allRegsDefined out =
     Option.bind (processEdgeLiveness la e allRegsDefined out) (processEdges la es allRegsDefined)"

definition getLivenessOut :: "LivenessAnalyzer \<Rightarrow> Block \<Rightarrow> dynamic_bitset \<Rightarrow> LivenessAnalyzer option" where
  "getLivenessOut la block allRegsDefined = do {
     data \<leftarrow> blockLiveInfo la (b_id block);
     let out = bs_new (bs_size (ld_in data));
     if bs_size out = 0 then None else do {
       out \<leftarrow> processEdges la (filter Intraproc_pred (b_targets block)) allRegsDefined out;
       Some (la\<lparr>blockLiveInfo := (blockLiveInfo la)(b_id block \<mapsto> data\<lparr>ld_out := out\<rparr>)\<rparr>) } }"

text \<open>The read and write sets of an instruction, from the cache or entered into it.\<close>

definition cachedRW :: "LivenessAnalyzer \<Rightarrow> nat \<Rightarrow> Block \<Rightarrow> nat \<Rightarrow> Instruction option \<Rightarrow> (LivenessAnalyzer \<times> ReadWriteInfo) option" where
  "cachedRW la func block current insn =
     (case getLivenessInfo current func (cachedLivenessInfo la) of
        Some rw \<Rightarrow> Some (la, rw)
      | None \<Rightarrow> do {
          i \<leftarrow> insn;
          rw \<leftarrow> calcRWSets (la_width la) (la_abi la) i block current;
          Some (la\<lparr>cachedLivenessInfo := insertInstructionInfo current rw func (cachedLivenessInfo la)\<rparr>, rw) })"

fun summarizeInsns ::
    "nat \<Rightarrow> Block \<Rightarrow> (nat \<times> Instruction) list \<Rightarrow> LivenessAnalyzer \<Rightarrow> dynamic_bitset \<Rightarrow> dynamic_bitset \<Rightarrow>
     (LivenessAnalyzer \<times> dynamic_bitset \<times> dynamic_bitset) option" where
  "summarizeInsns func block [] la use def = Some (la, use, def)"
| "summarizeInsns func block ((current, i) # is) la use def = do {
     (la, rw) \<leftarrow> cachedRW la func block current (Some i);
     exposed \<leftarrow> bs_and (rw_read rw) (bs_not def);
     use \<leftarrow> bs_or use exposed;
     def \<leftarrow> bs_or def (rw_written rw);
     summarizeInsns func block is la use def }"

definition summarizeBlockLivenessInfo ::
    "LivenessAnalyzer \<Rightarrow> nat \<Rightarrow> Block \<Rightarrow> dynamic_bitset \<Rightarrow> (LivenessAnalyzer \<times> dynamic_bitset) option" where
  "summarizeBlockLivenessInfo la func block allRegsDefined =
     (if blockLiveInfo la (b_id block) \<noteq> None then Some (la, allRegsDefined)
      else do {
        let new = abi_getBitArray (la_abi la);
        (la, use, def) \<leftarrow> summarizeInsns func block (insns_at block) la new new;
        let data = \<lparr>ld_in = new, ld_out = bs_new 0, ld_use = use, ld_def = def\<rparr>;
        all \<leftarrow> bs_or allRegsDefined def;
        Some (la\<lparr>blockLiveInfo := (blockLiveInfo la)(b_id block \<mapsto> data)\<rparr>, all) })"

definition updateBlockLivenessInfo ::
    "LivenessAnalyzer \<Rightarrow> Block \<Rightarrow> dynamic_bitset \<Rightarrow> (LivenessAnalyzer \<times> bool) option" where
  "updateBlockLivenessInfo la block allRegsDefined = do {
     old \<leftarrow> blockLiveInfo la (b_id block);
     la \<leftarrow> getLivenessOut la block allRegsDefined;
     data \<leftarrow> blockLiveInfo la (b_id block);
     kept \<leftarrow> bs_diff (ld_out data) (ld_def data);
     newIn \<leftarrow> bs_or (ld_use data) kept;
     Some (la\<lparr>blockLiveInfo := (blockLiveInfo la)(b_id block \<mapsto> data\<lparr>ld_in := newIn\<rparr>)\<rparr>,
           \<not> bs_eq newIn (ld_in old)) }"

fun liveness_summarizeBlocks ::
    "nat \<Rightarrow> Block list \<Rightarrow> LivenessAnalyzer \<Rightarrow> dynamic_bitset \<Rightarrow> (LivenessAnalyzer \<times> dynamic_bitset) option" where
  "liveness_summarizeBlocks func [] la regs = Some (la, regs)"
| "liveness_summarizeBlocks func (b # bs) la regs = do {
     (la, regs) \<leftarrow> summarizeBlockLivenessInfo la func b regs;
     liveness_summarizeBlocks func bs la regs }"

fun updateBlocks :: "Block list \<Rightarrow> dynamic_bitset \<Rightarrow> LivenessAnalyzer \<Rightarrow> bool \<Rightarrow> (LivenessAnalyzer \<times> bool) option" where
  "updateBlocks [] regs la changed = Some (la, changed)"
| "updateBlocks (b # bs) regs la changed = do {
     (la, ch) \<leftarrow> updateBlockLivenessInfo la b regs;
     updateBlocks bs regs la (changed \<or> ch) }"

partial_function (option) liveness_fixpoint :: "Block list \<Rightarrow> dynamic_bitset \<Rightarrow> LivenessAnalyzer \<Rightarrow> LivenessAnalyzer option" where
  "liveness_fixpoint bs regs la =
     Option.bind (updateBlocks bs regs la False) (\<lambda>(la', changed).
       if changed then liveness_fixpoint bs regs la' else Some la')"

definition liveness_analyze :: "LivenessAnalyzer \<Rightarrow> Function \<Rightarrow> LivenessAnalyzer option" where
  "liveness_analyze la func =
     (if liveFuncCalculated la (f_id func) \<noteq> None then Some la
      else if funcRegsDefined la (f_id func) \<noteq> None then None
      else do {
        regs \<leftarrow> getCallReadRegisters (la_abi la);
        (la, regs) \<leftarrow> liveness_summarizeBlocks (f_id func) (f_blocks func) la regs;
        let la = la\<lparr>funcRegsDefined := (funcRegsDefined la)(f_id func \<mapsto> regs)\<rparr>;
        la \<leftarrow> liveness_fixpoint (f_blocks func) regs la;
        Some (la\<lparr>liveFuncCalculated := (liveFuncCalculated la)(f_id func \<mapsto> True)\<rparr>) })"

section \<open>Locations and queries\<close>

datatype loc_type_t = function_loc | block_loc | blockInstance_loc | instruction_loc | instructionInstance_loc
  | edge_loc | entry_loc | call_loc | exit_loc | illegal_loc

record Location =
  loc_func :: "Function option"
  loc_block :: "Block option"
  loc_offset :: nat
  loc_edge :: "Edge option"
  loc_untrusted :: bool
  loc_type :: loc_type_t

definition Location_none :: Location where
  "Location_none = \<lparr>loc_func = None, loc_block = None, loc_offset = 0, loc_edge = None,
     loc_untrusted = False, loc_type = illegal_loc\<rparr>"

definition Location_function :: "Function \<Rightarrow> Location" where
  "Location_function f = Location_none\<lparr>loc_func := Some f, loc_type := function_loc\<rparr>"

definition Location_EntrySite :: "Function \<Rightarrow> Block \<Rightarrow> Location" where
  "Location_EntrySite f b = Location_none\<lparr>loc_func := Some f, loc_block := Some b, loc_type := entry_loc\<rparr>"

definition Location_CallSite :: "Function \<Rightarrow> Block \<Rightarrow> Location" where
  "Location_CallSite f b = Location_none\<lparr>loc_func := Some f, loc_block := Some b, loc_type := call_loc\<rparr>"

definition Location_ExitSite :: "Function \<Rightarrow> Block \<Rightarrow> Location" where
  "Location_ExitSite f b = Location_none\<lparr>loc_func := Some f, loc_block := Some b, loc_type := exit_loc\<rparr>"

definition Location_blockInstance :: "Function \<Rightarrow> Block \<Rightarrow> Location" where
  "Location_blockInstance f b =
     Location_none\<lparr>loc_func := Some f, loc_block := Some b, loc_untrusted := True, loc_type := blockInstance_loc\<rparr>"

definition Location_InsnLoc :: "Function \<Rightarrow> Block \<Rightarrow> nat \<Rightarrow> Location" where
  "Location_InsnLoc f b off =
     Location_none\<lparr>loc_func := Some f, loc_block := Some b, loc_offset := off, loc_type := instructionInstance_loc\<rparr>"

definition Location_rawInsn :: "Function \<Rightarrow> Block \<Rightarrow> nat \<Rightarrow> Location" where
  "Location_rawInsn f b off = (Location_InsnLoc f b off)\<lparr>loc_untrusted := True\<rparr>"

definition Location_EdgeLoc :: "Function \<Rightarrow> Edge \<Rightarrow> Location" where
  "Location_EdgeLoc f e = Location_none\<lparr>loc_func := Some f, loc_edge := Some e, loc_type := edge_loc\<rparr>"

definition Location_block :: "Block \<Rightarrow> Location" where
  "Location_block b = Location_none\<lparr>loc_block := Some b, loc_type := block_loc\<rparr>"

definition Location_instruction :: "Block \<Rightarrow> nat \<Rightarrow> Location" where
  "Location_instruction b off =
     Location_none\<lparr>loc_block := Some b, loc_offset := off, loc_untrusted := True, loc_type := instruction_loc\<rparr>"

text \<open>\<^verbatim>\<open>getInsnInstances\<close>: the addresses of a block's instructions. A decoder that runs out of
  instructions before the end of the block leaves the loop spinning.\<close>

fun insn_instances :: "nat \<Rightarrow> (nat \<times> Instruction) list \<Rightarrow> nat list option" where
  "insn_instances end [] = None"
| "insn_instances end ((off, i) # is) =
     (if off + insn_size i < end then map_option ((#) off) (insn_instances end is) else Some [off])"

definition getInsnInstances :: "Block \<Rightarrow> nat list option" where
  "getInsnInstances b = (if b_start b < b_end b then insn_instances (b_end b) (insns_at b) else Some [])"

definition func_contains :: "Function \<Rightarrow> Block \<Rightarrow> bool" where
  "func_contains f b \<longleftrightarrow> b_id b \<in> b_id ` set (f_blocks f)"

definition loc_isValid :: "Location \<Rightarrow> bool option" where
  "loc_isValid loc =
     (if loc_untrusted loc then
        (case loc_type loc of
           blockInstance_loc \<Rightarrow> do { f \<leftarrow> loc_func loc; b \<leftarrow> loc_block loc; Some (func_contains f b) }
         | instructionInstance_loc \<Rightarrow> do {
             f \<leftarrow> loc_func loc; b \<leftarrow> loc_block loc;
             if \<not> func_contains f b then Some False
             else do { insns \<leftarrow> getInsnInstances b; Some (loc_offset loc \<in> set insns) } }
         | edge_loc \<Rightarrow> do {
             f \<leftarrow> loc_func loc; e \<leftarrow> loc_edge loc;
             Some (list_ex (\<lambda>b. e \<in> set (filter Intraproc_pred (b_targets b))) (f_blocks f)) }
         | instruction_loc \<Rightarrow> do {
             b \<leftarrow> loc_block loc; insns \<leftarrow> getInsnInstances b; Some (loc_offset loc \<in> set insns) }
         | _ \<Rightarrow> None)
      else Some True)"

datatype query_type = Before | After

text \<open>The predecessor of an address in 64-bit arithmetic.\<close>

definition addr_pred :: "nat \<Rightarrow> nat" where
  "addr_pred a = (if a = 0 then 2 ^ 64 - 1 else a - 1)"

text \<open>\<^verbatim>\<open>blockLiveInfo[block]\<close> enters an empty record for an unknown block.\<close>

definition liveInfo_subscript :: "LivenessAnalyzer \<Rightarrow> nat \<Rightarrow> LivenessAnalyzer \<times> livenessData" where
  "liveInfo_subscript la block = (case blockLiveInfo la block of Some data \<Rightarrow> (la, data)
     | None \<Rightarrow> let data = \<lparr>ld_in = bs_new 0, ld_out = bs_new 0, ld_use = bs_new 0, ld_def = bs_new 0\<rparr>
               in (la\<lparr>blockLiveInfo := (blockLiveInfo la)(block \<mapsto> data)\<rparr>, data))"

text \<open>The first half of \<^verbatim>\<open>query\<close>: either the answer, or the block and the address above
  which its instructions are to be replayed.\<close>

datatype query_plan = Answer LivenessAnalyzer dynamic_bitset | Replay Block nat

definition query_switch :: "LivenessAnalyzer \<Rightarrow> Location \<Rightarrow> query_type \<Rightarrow> query_plan option" where
  "query_switch la loc type = (case loc_type loc of
     function_loc \<Rightarrow> (case type of
         Before \<Rightarrow> do { f \<leftarrow> loc_func loc; s \<leftarrow> getLivenessIn la (f_entry f); Some (Answer la s) }
       | After \<Rightarrow> None)
   | edge_loc \<Rightarrow> do { e \<leftarrow> loc_edge loc; s \<leftarrow> getLivenessIn la (e_trg e); Some (Answer la s) }
   | illegal_loc \<Rightarrow> None
   | t \<Rightarrow> do {
       b \<leftarrow> loc_block loc;
       if t = block_loc \<or> t = blockInstance_loc then
         (case type of Before \<Rightarrow> do { s \<leftarrow> getLivenessIn la (b_id b); Some (Answer la s) }
          | After \<Rightarrow> Some (Replay b (addr_pred (b_lastInsn b))))
       else if t = instruction_loc \<or> t = instructionInstance_loc then
         (case type of
            Before \<Rightarrow> if loc_offset loc = b_start b then do { s \<leftarrow> getLivenessIn la (b_id b); Some (Answer la s) }
                      else Some (Replay b (addr_pred (loc_offset loc)))
          | After \<Rightarrow> if loc_offset loc = b_lastInsn b
                     then (case liveInfo_subscript la (b_id b) of (la, data) \<Rightarrow> Some (Answer la (ld_out data)))
                     else Some (Replay b (loc_offset loc)))
       else if t = entry_loc then
         (case type of Before \<Rightarrow> do { s \<leftarrow> getLivenessIn la (b_id b); Some (Answer la s) } | After \<Rightarrow> None)
       else if t = call_loc then
         (case type of Before \<Rightarrow> Some (Replay b (addr_pred (b_lastInsn b)))
          | After \<Rightarrow> (case liveInfo_subscript la (b_id b) of (la, data) \<Rightarrow> Some (Answer la (ld_out data))))
       else (case type of After \<Rightarrow> Some (Replay b (addr_pred (b_lastInsn b))) | Before \<Rightarrow> None) })"

text \<open>The loop that enters all instructions of the block into the cache and lists their addresses.\<close>

partial_function (option) query_scan ::
    "nat \<Rightarrow> Block \<Rightarrow> nat \<Rightarrow> LivenessAnalyzer \<Rightarrow> (LivenessAnalyzer \<times> nat list) option" where
  "query_scan func block cur la =
     Option.bind (cachedRW la func block cur (map_of (insns_at block) cur)) (\<lambda>(la', rw).
       let cur' = cur + rw_insnSize rw in
       if cur' < b_end block
       then Option.bind (query_scan func block cur' la') (\<lambda>(la'', addrs). Some (la'', cur # addrs))
       else Some (la', [cur]))"

fun query_replay :: "LivenessAnalyzer \<Rightarrow> nat \<Rightarrow> nat \<Rightarrow> nat list \<Rightarrow> dynamic_bitset \<Rightarrow> dynamic_bitset option" where
  "query_replay la func addr [] working = Some working"
| "query_replay la func addr (current # rest) working =
     (if addr < current then do {
        rw \<leftarrow> getLivenessInfo current func (cachedLivenessInfo la);
        working \<leftarrow> bs_and working (bs_not (rw_written rw));
        working \<leftarrow> bs_or working (rw_read rw);
        query_replay la func addr rest working }
      else Some working)"

text \<open>\<^verbatim>\<open>query\<close> for a whole bit array: the new analyzer and, when it returns true, the array.\<close>

definition liveness_query :: "LivenessAnalyzer \<Rightarrow> Location \<Rightarrow> query_type \<Rightarrow> (LivenessAnalyzer \<times> dynamic_bitset option) option" where
  "liveness_query la loc type = do {
     valid \<leftarrow> loc_isValid loc;
     if \<not> valid then Some (la\<lparr>la_errorno := 0\<rparr>, None)
     else do {
       f \<leftarrow> loc_func loc;
       la \<leftarrow> liveness_analyze la f;
       plan \<leftarrow> query_switch la loc type;
       case plan of
         Answer la s \<Rightarrow> Some (la, Some s)
       | Replay b addr \<Rightarrow> (case liveInfo_subscript la (b_id b) of (la, data) \<Rightarrow>
           if bs_empty (ld_out data) then None
           else do {
             (la, addrs) \<leftarrow> query_scan (f_id f) b (b_start b) la;
             working \<leftarrow> query_replay la (f_id f) addr (rev addrs) (ld_out data);
             if bs_empty working then None else Some (la, Some working) }) } }"

definition query_register :: "LivenessAnalyzer \<Rightarrow> Location \<Rightarrow> query_type \<Rightarrow> MachRegister \<Rightarrow> (LivenessAnalyzer \<times> bool option) option" where
  "query_register la loc type r = do {
     (la, res) \<leftarrow> liveness_query la loc type;
     case res of None \<Rightarrow> Some (la, None)
     | Some liveRegs \<Rightarrow> let index = abi_getIndex (la_abi la) r in
         if index < 0 then None
         else do { live \<leftarrow> bs_test (nat index) liveRegs; Some (la, Some live) } }"

text \<open>\<^verbatim>\<open>query\<close> with an output iterator: the live registers in the order of the map.\<close>

fun collect_live :: "(MachRegister \<times> nat) list \<Rightarrow> dynamic_bitset \<Rightarrow> MachRegister list option" where
  "collect_live [] s = Some []"
| "collect_live ((r, i) # m) s = do {
     t \<leftarrow> bs_test i s; rs \<leftarrow> collect_live m s; Some (if t then r # rs else rs) }"

definition query_registers :: "LivenessAnalyzer \<Rightarrow> Location \<Rightarrow> query_type \<Rightarrow> (LivenessAnalyzer \<times> MachRegister list option) option" where
  "query_registers la loc type = do {
     (la, res) \<leftarrow> liveness_query la loc type;
     case res of None \<Rightarrow> Some (la, None)
     | Some liveRegs \<Rightarrow> do {
         rs \<leftarrow> collect_live (map (\<lambda>r. (r, rm_at (abi_index (la_abi la)) r)) (sort_key sint (remdups (map fst (abi_index (la_abi la)))))) liveRegs;
         Some (la, Some rs) } }"

definition liveness_clean :: "LivenessAnalyzer \<Rightarrow> LivenessAnalyzer" where
  "liveness_clean la = la\<lparr>blockLiveInfo := Map.empty, liveFuncCalculated := Map.empty,
     cachedLivenessInfo := ic_clean (cachedLivenessInfo la)\<rparr>"

definition liveness_clean_func :: "LivenessAnalyzer \<Rightarrow> Function \<Rightarrow> LivenessAnalyzer" where
  "liveness_clean_func la func =
     (let la = (if liveFuncCalculated la (f_id func) \<noteq> None
                then la\<lparr>liveFuncCalculated := (liveFuncCalculated la)(f_id func := None),
                        blockLiveInfo := foldl (\<lambda>m b. m(b_id b := None)) (blockLiveInfo la) (f_blocks func)\<rparr>
                else la)
      in if ic_currentFunction (cachedLivenessInfo la) = Some (f_id func)
         then la\<lparr>cachedLivenessInfo := ic_clean (cachedLivenessInfo la)\<rparr> else la)"

end
