(* ===== verification/Liveness_Facts.thy ===== *)
theory Liveness_Facts
  imports Liveness
begin

text \<open>
  Correctness of the liveness analysis. \<open>live\<close> says in terms of paths what it means for a register
  to be live before an instruction; the block summaries, the iteration of \<open>liveness_analyze\<close> and
  the replay of \<open>liveness_query\<close> are shown to compute exactly these sets.
\<close>

section \<open>The sets of one instruction\<close>

definition touched :: "int \<Rightarrow> ABI \<Rightarrow> MachRegister \<Rightarrow> nat set" where
  "touched w A r =
     (let base = getBaseRegister (to_ppc32 r) in
      if base = x86_flags \<or> base = x86_64_flags then (\<lambda>g. nat (abi_getIndex A g)) ` set (flag_regs w)
      else let index = abi_getIndex A (changeIfMMX w base) in if 0 \<le> index then {nat index} else {})"

definition written_part :: "int \<Rightarrow> ABI \<Rightarrow> MachRegister \<Rightarrow> nat set" where
  "written_part w A r =
     (let cur = to_ppc32 r; base = getBaseRegister cur in
      if base = x86_flags \<or> base = x86_64_flags then {}
      else let base = changeIfMMX w base in
        if cur \<noteq> base \<and> the (MachRegister_size cur) < 4 \<or> isMMX base then touched w A r else {})"

definition reg_ok :: "int \<Rightarrow> ABI \<Rightarrow> MachRegister \<Rightarrow> bool" where
  "reg_ok w A r \<longleftrightarrow>
     (let cur = to_ppc32 r; base = getBaseRegister cur in
      if base = x86_flags \<or> base = x86_64_flags then list_all (\<lambda>g. 0 \<le> abi_getIndex A g) (flag_regs w)
      else MachRegister_size cur \<noteq> None)"

definition lv_insn_ok :: "int \<Rightarrow> ABI \<Rightarrow> Instruction \<Rightarrow> bool" where
  "lv_insn_ok w A i \<longleftrightarrow> list_all (reg_ok w A) (insn_readSet i) \<and> list_all (reg_ok w A) (insn_writeSet i)"

definition abi_bits :: "(ABI \<Rightarrow> dynamic_bitset option) \<Rightarrow> ABI \<Rightarrow> nat set" where
  "abi_bits get A = (case get A of Some s \<Rightarrow> bits s | None \<Rightarrow> {})"

definition cat_reads :: "ABI \<Rightarrow> Instruction \<Rightarrow> Block \<Rightarrow> nat set" where
  "cat_reads A i blk = (case insn_category i of
     c_CallInsn \<Rightarrow> abi_bits getCallReadRegisters A
   | c_ReturnInsn \<Rightarrow> abi_bits getReturnReadRegisters A
   | c_BranchInsn \<Rightarrow> if \<not> insn_fallsThrough i \<and> isExitBlock blk
       then abi_bits getCallReadRegisters A \<union> abi_bits getReturnReadRegisters A else {}
   | _ \<Rightarrow> if insn_isInterrupt i \<or> insn_isSyscall i then abi_bits getSyscallReadRegisters A else {})"

definition cat_writes :: "ABI \<Rightarrow> Instruction \<Rightarrow> Block \<Rightarrow> nat \<Rightarrow> nat set" where
  "cat_writes A i blk a = (case insn_category i of
     c_CallInsn \<Rightarrow> if b_lastInsn blk = a then abi_bits getCallWrittenRegisters A else {}
   | c_ReturnInsn \<Rightarrow> {}
   | c_BranchInsn \<Rightarrow> if \<not> insn_fallsThrough i \<and> isExitBlock blk then abi_bits getCallWrittenRegisters A else {}
   | _ \<Rightarrow> if insn_isInterrupt i \<or> insn_isSyscall i then abi_bits getSyscallWrittenRegisters A else {})"

text \<open>The registers an instruction reads and writes, as positions: those the decoder reports, a
  register that is written only in part as read too, and what the convention adds for calls,
  returns, tail calls and system calls.\<close>

definition insn_reads :: "int \<Rightarrow> ABI \<Rightarrow> Instruction \<Rightarrow> Block \<Rightarrow> nat set" where
  "insn_reads w A i blk = (\<Union>r\<in>set (insn_readSet i). touched w A r) \<union> (\<Union>r\<in>set (insn_writeSet i). written_part w A r) \<union>
     cat_reads A i blk"

definition insn_writes :: "int \<Rightarrow> ABI \<Rightarrow> Instruction \<Rightarrow> Block \<Rightarrow> nat \<Rightarrow> nat set" where
  "insn_writes w A i blk a = (\<Union>r\<in>set (insn_writeSet i). touched w A r) \<union> cat_writes A i blk a"

definition rw_of :: "nat \<Rightarrow> nat set \<Rightarrow> nat set \<Rightarrow> nat \<Rightarrow> ReadWriteInfo" where
  "rw_of n R W k = \<lparr>rw_read = bs_of n R, rw_written = bs_of n W, rw_insnSize = k\<rparr>"

abbreviation abi_size :: "ABI \<Rightarrow> nat" where "abi_size A \<equiv> rm_size (abi_index A)"

lemma rw_of_sel [simp]:
  "rw_read (rw_of n R W k) = bs_of n R" "rw_written (rw_of n R W k) = bs_of n W" "rw_insnSize (rw_of n R W k) = k"
  "(rw_of n R W k)\<lparr>rw_read := bs_of n X\<rparr> = rw_of n X W k" "(rw_of n R W k)\<lparr>rw_written := bs_of n X\<rparr> = rw_of n R X k"
  by (simp_all add: rw_of_def)

lemma abi_get_cases:
  assumes "abi_ok A"
  shows "getCallReadRegisters A = Some (bs_of (abi_size A) (abi_bits getCallReadRegisters A))"
    "getCallWrittenRegisters A = Some (bs_of (abi_size A) (abi_bits getCallWrittenRegisters A))"
    "getReturnReadRegisters A = Some (bs_of (abi_size A) (abi_bits getReturnReadRegisters A))"
    "getSyscallReadRegisters A = Some (bs_of (abi_size A) (abi_bits getSyscallReadRegisters A))"
    "getSyscallWrittenRegisters A = Some (bs_of (abi_size A) (abi_bits getSyscallWrittenRegisters A))"
proof -
  have *: "get A = Some (bs_of (abi_size A) (abi_bits get A))" if "abi_array_ok (abi_size A) (get A)" for get
    using that bs_of_bits[of "the (get A)"] by (auto simp: abi_array_ok_def abi_bits_def split: option.splits)
  show "getCallReadRegisters A = Some (bs_of (abi_size A) (abi_bits getCallReadRegisters A))"
    "getCallWrittenRegisters A = Some (bs_of (abi_size A) (abi_bits getCallWrittenRegisters A))"
    "getReturnReadRegisters A = Some (bs_of (abi_size A) (abi_bits getReturnReadRegisters A))"
    "getSyscallReadRegisters A = Some (bs_of (abi_size A) (abi_bits getSyscallReadRegisters A))"
    "getSyscallWrittenRegisters A = Some (bs_of (abi_size A) (abi_bits getSyscallWrittenRegisters A))"
    using assms by (intro *; simp add: abi_ok_def abi_arrays_ok_def)+
qed

lemma bs_mark_of: "0 \<le> i \<Longrightarrow> nat i < n \<Longrightarrow> bs_mark i (bs_of n X) = Some (bs_of n (insert (nat i) X))"
  by (simp add: bs_mark_def bs_set_of)

lemma bs_marks_of:
  "list_all (\<lambda>i. 0 \<le> i \<and> nat i < n) is \<Longrightarrow> bs_marks is (bs_of n X) = Some (bs_of n (X \<union> nat ` set is))"
  by (induction "is" arbitrary: X) (simp_all add: bs_mark_of insert_commute)

lemma rw_read_reg_of:
  assumes "abi_ok A" "reg_ok w A r"
  shows "rw_read_reg w A r (rw_of (abi_size A) R W k) = Some (rw_of (abi_size A) (R \<union> touched w A r) W k)"
proof -
  have "list_all (\<lambda>i. 0 \<le> i \<and> nat i < abi_size A) (map (abi_getIndex A) (flag_regs w))"
    if "list_all (\<lambda>g. 0 \<le> abi_getIndex A g) (flag_regs w)"
    using that getIndex_range[OF assms(1)] by (auto simp: list_all_iff)
  from bs_marks_of[OF this] assms(2) show ?thesis using getIndex_range[OF assms(1)]
    by (auto simp: rw_read_reg_def touched_def reg_ok_def Let_def bs_set_of image_image split: if_splits)
qed

lemma rw_write_step:
  "j < n \<Longrightarrow> do { s \<leftarrow> bs_set j True (bs_of n W); partial \<leftarrow> (if c then map_option (\<lambda>x. x < 4) (Some z) else Some False);
       t \<leftarrow> (if partial \<or> m then bs_set j True (bs_of n R) else Some (bs_of n R));
       Some ((rw_of n R W k)\<lparr>rw_written := s, rw_read := t\<rparr>) } =
    Some (rw_of n (R \<union> (if c \<and> z < (4 :: nat) \<or> m then {j} else {})) (W \<union> {j}) k)"
  by (simp add: bs_set_of)

lemma rw_write_reg_of:
  assumes "abi_ok A" "reg_ok w A r"
  shows "rw_write_reg w A r (rw_of (abi_size A) R W k) =
    Some (rw_of (abi_size A) (R \<union> written_part w A r) (W \<union> touched w A r) k)"
proof (cases "getBaseRegister (to_ppc32 r) = x86_flags \<or> getBaseRegister (to_ppc32 r) = x86_64_flags")
  case True
  with assms(2) have f: "list_all (\<lambda>g. 0 \<le> abi_getIndex A g) (flag_regs w)" by (simp only: reg_ok_def Let_def if_P)
  then have "list_all (\<lambda>i. 0 \<le> i \<and> nat i < abi_size A) (map (abi_getIndex A) (flag_regs w))"
    using getIndex_range[OF assms(1)] by (auto simp: list_all_iff)
  from bs_marks_of[OF this] show ?thesis
    unfolding rw_write_reg_def touched_def written_part_def Let_def if_P[OF True] by (simp add: image_image)
next
  case False
  let ?cur = "to_ppc32 r" and ?base = "changeIfMMX w (getBaseRegister (to_ppc32 r))"
  from False assms(2) obtain z where z: "MachRegister_size ?cur = Some z" unfolding reg_ok_def Let_def if_not_P[OF False] by auto
  have t: "touched w A r = (if 0 \<le> abi_getIndex A ?base then {nat (abi_getIndex A ?base)} else {})"
    unfolding touched_def Let_def if_not_P[OF False] ..
  show ?thesis
  proof (cases "0 \<le> abi_getIndex A ?base")
    case True
    note range = getIndex_range[OF assms(1) True]
    show ?thesis unfolding rw_write_reg_def written_part_def t Let_def if_not_P[OF False] z if_P[OF True] rw_of_sel option.sel
      by (rule rw_write_step[OF range])
  next
    case neg: False
    show ?thesis unfolding rw_write_reg_def written_part_def t Let_def if_not_P[OF False] if_not_P[OF neg] by simp
  qed
qed

lemma rw_fold_read:
  "abi_ok A \<Longrightarrow> list_all (reg_ok w A) rs \<Longrightarrow> rw_fold (rw_read_reg w A) rs (rw_of (abi_size A) R W k) =
    Some (rw_of (abi_size A) (R \<union> (\<Union>r\<in>set rs. touched w A r)) W k)"
  by (induction rs arbitrary: R) (simp_all add: rw_read_reg_of Un_assoc)

lemma rw_fold_write:
  "abi_ok A \<Longrightarrow> list_all (reg_ok w A) rs \<Longrightarrow> rw_fold (rw_write_reg w A) rs (rw_of (abi_size A) R W k) =
    Some (rw_of (abi_size A) (R \<union> (\<Union>r\<in>set rs. written_part w A r)) (W \<union> (\<Union>r\<in>set rs. touched w A r)) k)"
  by (induction rs arbitrary: R W) (simp_all add: rw_write_reg_of Un_assoc)

lemma rw_category_of:
  assumes "abi_ok A"
  shows "rw_category A i blk a (rw_of (abi_size A) R W k) =
    Some (rw_of (abi_size A) (R \<union> cat_reads A i blk) (W \<union> cat_writes A i blk a) k)"
  by (simp add: rw_category_def cat_reads_def cat_writes_def abi_get_cases[OF assms] bv.union_law Un_assoc
      split: InsnCategory.split)

lemma calcRWSets_of:
  assumes "abi_ok A" "lv_insn_ok w A i"
  shows "calcRWSets w A i blk a = Some (rw_of (abi_size A) (insn_reads w A i blk) (insn_writes w A i blk a) (insn_size i))"
proof -
  have new: "\<lparr>rw_read = abi_getBitArray A, rw_written = abi_getBitArray A, rw_insnSize = insn_size i\<rparr> =
      rw_of (abi_size A) {} {} (insn_size i)"
    by (simp add: abi_getBitArray_def bs_new_of rw_of_def)
  from assms(2) have l: "list_all (reg_ok w A) (insn_readSet i)" "list_all (reg_ok w A) (insn_writeSet i)"
    by (simp_all add: lv_insn_ok_def)
  show ?thesis unfolding calcRWSets_def new Let_def insn_reads_def insn_writes_def
    by (simp add: rw_fold_read[OF assms(1) l(1)] rw_fold_write[OF assms(1) l(2)] rw_category_of[OF assms(1)])
qed

section \<open>Straight-line code on sets\<close>

text \<open>The registers live before a sequence of instructions, given as pairs of the sets read and
  written, from those live after it.\<close>

fun rws_live :: "(nat set \<times> nat set) list \<Rightarrow> nat set \<Rightarrow> nat set" where
  "rws_live [] X = X"
| "rws_live ((R, W) # xs) X = R \<union> (rws_live xs X - W)"

definition rws_def :: "(nat set \<times> nat set) list \<Rightarrow> nat set" where
  "rws_def xs = (\<Union>p\<in>set xs. snd p)"

definition block_rws :: "int \<Rightarrow> ABI \<Rightarrow> Block \<Rightarrow> (nat set \<times> nat set) list" where
  "block_rws w A b = map (\<lambda>(a, i). (insn_reads w A i b, insn_writes w A i b a)) (insns_at b)"

lemma rws_def_simps [simp]: "rws_def [] = {}" "rws_def (p # xs) = snd p \<union> rws_def xs"
  by (simp_all add: rws_def_def)

lemma rws_live_gen_kill: "rws_live xs X = rws_live xs {} \<union> (X - rws_def xs)"
  by (induction xs) auto

lemma rws_live_mono: "X \<subseteq> Y \<Longrightarrow> rws_live xs X \<subseteq> rws_live xs Y"
  by (induction xs) auto

lemma rws_live_append: "rws_live (xs @ ys) X = rws_live xs (rws_live ys X)"
  by (induction xs) auto

lemma located_length [simp]: "length (located a is) = length is"
  by (induction a "is" rule: located.induct) simp_all

lemma insns_at_length [simp]: "length (insns_at b) = length (b_insns b)"
  by (simp add: insns_at_def)

lemma block_rws_length [simp]: "length (block_rws w A b) = length (b_insns b)"
  by (simp add: block_rws_def)

section \<open>Paths to a use\<close>

text \<open>\<open>live w A f b k r\<close>: from the point before instruction \<open>k\<close> of block \<open>b\<close> (the end of the block
  when \<open>k\<close> is the number of its instructions) there is a path of the function to an instruction
  that reads \<open>r\<close> with no instruction writing \<open>r\<close> before it, or to an edge of unknown
  target, where the analysis takes all registers a call reads and all the function
  writes as used. Paths follow the edges inside the function other than exception edges.\<close>

definition flow_edge :: "Edge \<Rightarrow> bool" where
  "flow_edge e \<longleftrightarrow> Intraproc_pred e \<and> e_type e \<noteq> CATCH"

definition regs_defined :: "int \<Rightarrow> ABI \<Rightarrow> Function \<Rightarrow> nat set" where
  "regs_defined w A f = abi_bits getCallReadRegisters A \<union> (\<Union>b\<in>set (f_blocks f). rws_def (block_rws w A b))"

inductive live :: "int \<Rightarrow> ABI \<Rightarrow> Function \<Rightarrow> Block \<Rightarrow> nat \<Rightarrow> nat \<Rightarrow> bool" for w A f where
  live_read: "b \<in> set (f_blocks f) \<Longrightarrow> k < length (b_insns b) \<Longrightarrow> r \<in> fst (block_rws w A b ! k) \<Longrightarrow> live w A f b k r"
| live_next: "b \<in> set (f_blocks f) \<Longrightarrow> k < length (b_insns b) \<Longrightarrow> r \<notin> snd (block_rws w A b ! k) \<Longrightarrow>
    live w A f b (Suc k) r \<Longrightarrow> live w A f b k r"
| live_edge: "b \<in> set (f_blocks f) \<Longrightarrow> e \<in> set (b_targets b) \<Longrightarrow> flow_edge e \<Longrightarrow> \<not> e_sink e \<Longrightarrow>
    b' \<in> set (f_blocks f) \<Longrightarrow> b_id b' = e_trg e \<Longrightarrow> live w A f b' 0 r \<Longrightarrow> live w A f b (length (b_insns b)) r"
| live_sink: "b \<in> set (f_blocks f) \<Longrightarrow> e \<in> set (b_targets b) \<Longrightarrow> flow_edge e \<Longrightarrow> e_sink e \<Longrightarrow>
    r \<in> regs_defined w A f \<Longrightarrow> live w A f b (length (b_insns b)) r"

inductive_cases live_endE: "live w A f b (length (b_insns b)) r"

definition live_set :: "int \<Rightarrow> ABI \<Rightarrow> Function \<Rightarrow> Block \<Rightarrow> nat \<Rightarrow> nat set" where
  "live_set w A f b k = {r. live w A f b k r}"

definition live_entry :: "int \<Rightarrow> ABI \<Rightarrow> Function \<Rightarrow> nat \<Rightarrow> nat set" where
  "live_entry w A f x = (\<Union>b\<in>{b \<in> set (f_blocks f). b_id b = x}. live_set w A f b 0)"

definition flow_out :: "nat set \<Rightarrow> (nat \<Rightarrow> nat set) \<Rightarrow> Block \<Rightarrow> nat set" where
  "flow_out D In b = (\<Union>e\<in>{e \<in> set (b_targets b). flow_edge e}. if e_sink e then D else In (e_trg e))"

definition live_transfer :: "int \<Rightarrow> ABI \<Rightarrow> nat set \<Rightarrow> (nat \<Rightarrow> nat set) \<Rightarrow> Block \<Rightarrow> nat set" where
  "live_transfer w A D In b = rws_live (block_rws w A b) (flow_out D In b)"

lemma flow_out_mono: "(\<And>x. In x \<subseteq> In' x) \<Longrightarrow> flow_out D In b \<subseteq> flow_out D In' b"
  unfolding flow_out_def by (rule UN_mono) auto

lemma live_transfer_mono: "(\<And>x. In x \<subseteq> In' x) \<Longrightarrow> live_transfer w A D In b \<subseteq> live_transfer w A D In' b"
  unfolding live_transfer_def by (rule rws_live_mono) (rule flow_out_mono)

lemma drop_rws: "k < length (b_insns b) \<Longrightarrow> drop k (block_rws w A b) = block_rws w A b ! k # drop (Suc k) (block_rws w A b)"
  by (simp add: Cons_nth_drop_Suc)

lemma live_end:
  assumes "b \<in> set (f_blocks f)"
  shows "live_set w A f b (length (b_insns b)) = flow_out (regs_defined w A f) (live_entry w A f) b"
proof (rule set_eqI)
  fix r
  show "r \<in> live_set w A f b (length (b_insns b)) \<longleftrightarrow> r \<in> flow_out (regs_defined w A f) (live_entry w A f) b"
  proof
    assume "r \<in> live_set w A f b (length (b_insns b))"
    then have "live w A f b (length (b_insns b)) r" by (simp add: live_set_def)
    then show "r \<in> flow_out (regs_defined w A f) (live_entry w A f) b"
      by (cases rule: live_endE) (fastforce simp: flow_out_def live_entry_def live_set_def)+
  next
    assume "r \<in> flow_out (regs_defined w A f) (live_entry w A f) b"
    then obtain e where e: "e \<in> set (b_targets b)" "flow_edge e"
      "r \<in> (if e_sink e then regs_defined w A f else live_entry w A f (e_trg e))"
      unfolding flow_out_def by blast
    show "r \<in> live_set w A f b (length (b_insns b))"
      using e live_sink[OF assms e(1,2)] live_edge[OF assms e(1,2)]
      by (cases "e_sink e") (auto simp: live_set_def live_entry_def)
  qed
qed

lemma live_step:
  assumes "b \<in> set (f_blocks f)" "k < length (b_insns b)"
  shows "live_set w A f b k = fst (block_rws w A b ! k) \<union> (live_set w A f b (Suc k) - snd (block_rws w A b ! k))"
proof (rule set_eqI)
  fix r
  show "r \<in> live_set w A f b k \<longleftrightarrow> r \<in> fst (block_rws w A b ! k) \<union> (live_set w A f b (Suc k) - snd (block_rws w A b ! k))"
    unfolding live_set_def using live_read[OF assms, of r w A] live_next[OF assms, of r w A] assms(2)
    by (auto elim: live.cases)
qed

lemma live_suffix:
  assumes "b \<in> set (f_blocks f)"
  shows "k \<le> length (b_insns b) \<Longrightarrow>
    live_set w A f b k = rws_live (drop k (block_rws w A b)) (live_set w A f b (length (b_insns b)))"
proof (induction "length (b_insns b) - k" arbitrary: k)
  case (Suc d)
  then have k: "k < length (b_insns b)" by simp
  from Suc have "live_set w A f b (Suc k) = rws_live (drop (Suc k) (block_rws w A b)) (live_set w A f b (length (b_insns b)))"
    by simp
  then show ?case unfolding drop_rws[OF k] live_step[OF assms k] by (cases "block_rws w A b ! k") simp
qed simp

text \<open>The sets live at the block entries are the least solution of the equations of the analysis.\<close>

lemma live_entry_eq:
  assumes "distinct (map b_id (f_blocks f))" "b \<in> set (f_blocks f)"
  shows "live_entry w A f (b_id b) = live_set w A f b 0"
    and "live_entry w A f (b_id b) = live_transfer w A (regs_defined w A f) (live_entry w A f) b"
proof -
  have "{b' \<in> set (f_blocks f). b_id b' = b_id b} = {b}"
    using assms inj_onD[of b_id "set (f_blocks f)"] by (auto simp: distinct_map)
  then show e: "live_entry w A f (b_id b) = live_set w A f b 0" by (simp add: live_entry_def)
  show "live_entry w A f (b_id b) = live_transfer w A (regs_defined w A f) (live_entry w A f) b"
    unfolding e live_transfer_def live_end[OF assms(2), symmetric] using live_suffix[OF assms(2), of 0] by simp
qed

lemma live_least:
  assumes "\<forall>b\<in>set (f_blocks f). live_transfer w A (regs_defined w A f) In b \<subseteq> In (b_id b)"
  shows "live w A f b k r \<Longrightarrow> r \<in> rws_live (drop k (block_rws w A b)) (flow_out (regs_defined w A f) In b)"
proof (induction rule: live.induct)
  case (live_read b k r)
  then show ?case unfolding drop_rws[OF live_read(2)] by (cases "block_rws w A b ! k") simp
next
  case (live_next b k r)
  then show ?case unfolding drop_rws[OF live_next(2)] by (cases "block_rws w A b ! k") simp
next
  case (live_edge b e b' r)
  have "r \<in> In (b_id b')" using assms live_edge(5,8) by (auto simp: live_transfer_def)
  with live_edge show ?case by (auto simp: flow_out_def)
next
  case (live_sink b e r)
  then show ?case by (auto simp: flow_out_def)
qed

section \<open>Well-formed functions and the cache\<close>

definition block_ok :: "int \<Rightarrow> ABI \<Rightarrow> Function \<Rightarrow> Block \<Rightarrow> bool" where
  "block_ok w A f b \<longleftrightarrow> b_insns b \<noteq> [] \<and> 0 < b_start b \<and>
     (\<forall>i\<in>set (b_insns b). 0 < insn_size i \<and> lv_insn_ok w A i) \<and>
     b_end b = b_start b + sum_list (map insn_size (b_insns b)) \<and> b_lastInsn b = fst (last (insns_at b)) \<and>
     (\<forall>e\<in>set (b_targets b). flow_edge e \<and> \<not> e_sink e \<longrightarrow> e_trg e \<in> b_id ` set (f_blocks f))"

definition func_insns :: "Function \<Rightarrow> (nat \<times> Block \<times> Instruction) list" where
  "func_insns f = concat (map (\<lambda>b. map (\<lambda>(a, i). (a, b, i)) (insns_at b)) (f_blocks f))"

text \<open>A function as the parser builds it: its blocks are different, every block holds the
  instructions between its start and its end, no address belongs to two of them, and the edges inside the
  function lead to its blocks.\<close>

definition lv_func_ok :: "int \<Rightarrow> ABI \<Rightarrow> Function \<Rightarrow> bool" where
  "lv_func_ok w A f \<longleftrightarrow> abi_ok A \<and> 0 < abi_size A \<and> distinct (map b_id (f_blocks f)) \<and> f_entry f \<in> b_id ` set (f_blocks f) \<and>
     distinct (map fst (func_insns f)) \<and> (\<forall>b\<in>set (f_blocks f). block_ok w A f b)"

definition cache_ok :: "int \<Rightarrow> ABI \<Rightarrow> Function \<Rightarrow> InstructionCache \<Rightarrow> bool" where
  "cache_ok w A f ic \<longleftrightarrow> (ic_currentFunction ic = Some (f_id f) \<longrightarrow>
     (\<forall>a rw. ic_cache ic a = Some rw \<longrightarrow> (\<exists>b i. (a, b, i) \<in> set (func_insns f) \<and> calcRWSets w A i b a = Some rw)))"

definition insn_rw :: "int \<Rightarrow> ABI \<Rightarrow> Block \<Rightarrow> nat \<Rightarrow> Instruction \<Rightarrow> ReadWriteInfo" where
  "insn_rw w A b a i = rw_of (abi_size A) (insn_reads w A i b) (insn_writes w A i b a) (insn_size i)"

lemma func_insns_iff: "(a, b, i) \<in> set (func_insns f) \<longleftrightarrow> b \<in> set (f_blocks f) \<and> (a, i) \<in> set (insns_at b)"
  by (auto simp: func_insns_def)

lemma func_insns_unique:
  "lv_func_ok w A f \<Longrightarrow> (a, b, i) \<in> set (func_insns f) \<Longrightarrow> (a, b', i') \<in> set (func_insns f) \<Longrightarrow> b = b' \<and> i = i'"
  using eq_key_imp_eq_value[of "func_insns f" a "(b, i)" "(b', i')"] by (simp add: lv_func_ok_def)

lemma located_insns: "(a, i) \<in> set (located s is) \<Longrightarrow> i \<in> set is"
  by (induction s "is" rule: located.induct) auto

lemma func_insn_calc:
  assumes "lv_func_ok w A f" "(a, b, i) \<in> set (func_insns f)"
  shows "calcRWSets w A i b a = Some (insn_rw w A b a i)"
proof -
  from assms(2) have "b \<in> set (f_blocks f)" "i \<in> set (b_insns b)"
    by (auto simp: func_insns_iff insns_at_def dest: located_insns)
  with assms(1) have "abi_ok A" "lv_insn_ok w A i" by (auto simp: lv_func_ok_def block_ok_def)
  then show ?thesis unfolding insn_rw_def by (rule calcRWSets_of)
qed

text \<open>What every use of the cache guarantees: it stays correct, belongs to the function and keeps
  what it had for it.\<close>

definition cache_grows :: "Function \<Rightarrow> InstructionCache \<Rightarrow> InstructionCache \<Rightarrow> bool" where
  "cache_grows f ic ic' \<longleftrightarrow>
     (\<forall>a rw. getLivenessInfo a (f_id f) ic = Some rw \<longrightarrow> getLivenessInfo a (f_id f) ic' = Some rw)"

lemma cache_grows_refl [simp]: "cache_grows f ic ic"
  by (simp add: cache_grows_def)

lemma cache_grows_trans: "cache_grows f ic ic' \<Longrightarrow> cache_grows f ic' ic'' \<Longrightarrow> cache_grows f ic ic''"
  by (simp add: cache_grows_def)

lemma cachedRW_ok:
  assumes f: "lv_func_ok w A f" and c: "cache_ok w A f (cachedLivenessInfo la)" "la_width la = w" "la_abi la = A"
    and m: "(a, b, i) \<in> set (func_insns f)"
  obtains ic where "cachedRW la (f_id f) b a (Some i) = Some (la\<lparr>cachedLivenessInfo := ic\<rparr>, insn_rw w A b a i)"
    "cache_ok w A f ic" "cache_grows f (cachedLivenessInfo la) ic" "getLivenessInfo a (f_id f) ic = Some (insn_rw w A b a i)"
proof (cases "getLivenessInfo a (f_id f) (cachedLivenessInfo la)")
  case None
  let ?ic = "insertInstructionInfo a (insn_rw w A b a i) (f_id f) (cachedLivenessInfo la)"
  have "cachedRW la (f_id f) b a (Some i) = Some (la\<lparr>cachedLivenessInfo := ?ic\<rparr>, insn_rw w A b a i)"
    using None func_insn_calc[OF f m] c by (simp add: cachedRW_def)
  moreover have "cache_ok w A f ?ic"
    using c(1) m func_insn_calc[OF f m] by (auto simp: cache_ok_def insertInstructionInfo_def Let_def)
  moreover have "cache_grows f (cachedLivenessInfo la) ?ic"
    using None by (auto simp: cache_grows_def insertInstructionInfo_def getLivenessInfo_def Let_def)
  moreover have "getLivenessInfo a (f_id f) ?ic = Some (insn_rw w A b a i)"
    by (simp add: getLivenessInfo_def insertInstructionInfo_def Let_def)
  ultimately show thesis by (rule that)
next
  case (Some rw)
  then have "ic_cache (cachedLivenessInfo la) a = Some rw" "ic_currentFunction (cachedLivenessInfo la) = Some (f_id f)"
    by (simp_all add: getLivenessInfo_def split: if_splits)
  with c(1) obtain b' i' where "(a, b', i') \<in> set (func_insns f)" "calcRWSets w A i' b' a = Some rw"
    unfolding cache_ok_def by blast
  with func_insns_unique[OF f _ m] func_insn_calc[OF f m] have rw: "rw = insn_rw w A b a i" by (metis option.inject)
  with Some c that[of "cachedLivenessInfo la"] show thesis by (simp add: cachedRW_def)
qed

section \<open>Block summaries\<close>

definition rws_of :: "int \<Rightarrow> ABI \<Rightarrow> Block \<Rightarrow> (nat \<times> Instruction) list \<Rightarrow> (nat set \<times> nat set) list" where
  "rws_of w A b xs = map (\<lambda>(a, i). (insn_reads w A i b, insn_writes w A i b a)) xs"

lemma summarizeInsns_ok:
  assumes f: "lv_func_ok w A f" and b: "b \<in> set (f_blocks f)"
  shows "set xs \<subseteq> set (insns_at b) \<Longrightarrow> cache_ok w A f (cachedLivenessInfo la) \<Longrightarrow> la_width la = w \<Longrightarrow> la_abi la = A \<Longrightarrow>
    \<exists>ic. summarizeInsns (f_id f) b xs la (bs_of (abi_size A) U) (bs_of (abi_size A) D) =
        Some (la\<lparr>cachedLivenessInfo := ic\<rparr>, bs_of (abi_size A) (U \<union> (rws_live (rws_of w A b xs) {} - D)),
              bs_of (abi_size A) (D \<union> rws_def (rws_of w A b xs))) \<and> cache_ok w A f ic"
proof (induction xs arbitrary: la U D)
  case Nil
  then show ?case by (intro exI[of _ "cachedLivenessInfo la"]) (simp add: rws_of_def)
next
  case (Cons x xs)
  obtain a i where x: "x = (a, i)" by (cases x)
  have m: "(a, b, i) \<in> set (func_insns f)" using Cons.prems(1) b by (simp add: x func_insns_iff)
  obtain ic where ic: "cachedRW la (f_id f) b a (Some i) = Some (la\<lparr>cachedLivenessInfo := ic\<rparr>, insn_rw w A b a i)" "cache_ok w A f ic"
    using cachedRW_ok[OF f Cons.prems(2-4) m] by metis
  let ?R = "insn_reads w A i b" and ?W = "insn_writes w A i b a" and ?la = "la\<lparr>cachedLivenessInfo := ic\<rparr>"
  have "\<exists>ic'. summarizeInsns (f_id f) b xs ?la (bs_of (abi_size A) (U \<union> (?R - D))) (bs_of (abi_size A) (D \<union> ?W)) =
        Some (?la\<lparr>cachedLivenessInfo := ic'\<rparr>, bs_of (abi_size A) (U \<union> (?R - D) \<union> (rws_live (rws_of w A b xs) {} - (D \<union> ?W))),
              bs_of (abi_size A) (D \<union> ?W \<union> rws_def (rws_of w A b xs))) \<and> cache_ok w A f ic'"
    using Cons.prems ic(2) by (intro Cons.IH) simp_all
  moreover have "summarizeInsns (f_id f) b (x # xs) la (bs_of (abi_size A) U) (bs_of (abi_size A) D) =
      summarizeInsns (f_id f) b xs ?la (bs_of (abi_size A) (U \<union> (?R - D))) (bs_of (abi_size A) (D \<union> ?W))"
    by (simp add: x ic insn_rw_def bv.inter_law bv.compl_law bv.union_law Diff_eq)
  moreover have "U \<union> (?R - D) \<union> (rws_live (rws_of w A b xs) {} - (D \<union> ?W)) = U \<union> (rws_live (rws_of w A b (x # xs)) {} - D)"
    by (auto simp: x rws_of_def)
  moreover have "D \<union> ?W \<union> rws_def (rws_of w A b xs) = D \<union> rws_def (rws_of w A b (x # xs))"
    by (auto simp: x rws_of_def)
  ultimately show ?case by simp
qed

definition lv_rep :: "int \<Rightarrow> ABI \<Rightarrow> Block list \<Rightarrow> (nat \<Rightarrow> nat set) \<Rightarrow> (nat \<Rightarrow> dynamic_bitset) \<Rightarrow> LivenessAnalyzer \<Rightarrow> bool" where
  "lv_rep w A bs In Out la \<longleftrightarrow> (\<forall>b\<in>set bs. blockLiveInfo la (b_id b) =
     Some \<lparr>ld_in = bs_of (abi_size A) (In (b_id b)), ld_out = Out (b_id b),
           ld_use = bs_of (abi_size A) (rws_live (block_rws w A b) {}),
           ld_def = bs_of (abi_size A) (rws_def (block_rws w A b))\<rparr>)"

text \<open>What the analysis of some blocks leaves alone.\<close>

definition la_frame :: "nat set \<Rightarrow> LivenessAnalyzer \<Rightarrow> LivenessAnalyzer \<Rightarrow> bool" where
  "la_frame X la la' \<longleftrightarrow> la_width la' = la_width la \<and> la_abi la' = la_abi la \<and>
     liveFuncCalculated la' = liveFuncCalculated la \<and> funcRegsDefined la' = funcRegsDefined la \<and>
     la_errorno la' = la_errorno la \<and> (\<forall>x. x \<notin> X \<longrightarrow> blockLiveInfo la' x = blockLiveInfo la x)"

lemma la_frame_refl [simp]: "la_frame X la la"
  by (simp add: la_frame_def)

lemma la_frame_trans: "la_frame X la la' \<Longrightarrow> la_frame Y la' la'' \<Longrightarrow> X \<subseteq> Z \<Longrightarrow> Y \<subseteq> Z \<Longrightarrow> la_frame Z la la''"
  unfolding la_frame_def by (metis subsetD)

lemma summarizeBlock_ok:
  assumes f: "lv_func_ok w A f" and b: "b \<in> set (f_blocks f)" and la: "la_width la = w" "la_abi la = A"
    "cache_ok w A f (cachedLivenessInfo la)" "blockLiveInfo la (b_id b) = None"
  obtains la' where "summarizeBlockLivenessInfo la (f_id f) b (bs_of (abi_size A) D) =
      Some (la', bs_of (abi_size A) (D \<union> rws_def (block_rws w A b)))"
    "lv_rep w A [b] (\<lambda>_. {}) (\<lambda>_. bs_new 0) la'" "la_frame {b_id b} la la'" "cache_ok w A f (cachedLivenessInfo la')"
proof -
  obtain ic where ic: "summarizeInsns (f_id f) b (insns_at b) la (bs_of (abi_size A) {}) (bs_of (abi_size A) {}) =
        Some (la\<lparr>cachedLivenessInfo := ic\<rparr>, bs_of (abi_size A) (rws_live (rws_of w A b (insns_at b)) {}),
              bs_of (abi_size A) (rws_def (rws_of w A b (insns_at b))))" "cache_ok w A f ic"
    using summarizeInsns_ok[OF f b order_refl la(3,1,2), of "{}" "{}"] by auto
  have rws: "rws_of w A b (insns_at b) = block_rws w A b" by (simp add: rws_of_def block_rws_def)
  let ?d = "\<lparr>ld_in = bs_of (abi_size A) {}, ld_out = bs_new 0, ld_use = bs_of (abi_size A) (rws_live (block_rws w A b) {}),
      ld_def = bs_of (abi_size A) (rws_def (block_rws w A b))\<rparr>"
  let ?la = "la\<lparr>cachedLivenessInfo := ic, blockLiveInfo := (blockLiveInfo la)(b_id b \<mapsto> ?d)\<rparr>"
  show thesis
  proof (rule that[of ?la])
    show "summarizeBlockLivenessInfo la (f_id f) b (bs_of (abi_size A) D) =
        Some (?la, bs_of (abi_size A) (D \<union> rws_def (block_rws w A b)))"
      using la ic by (simp add: summarizeBlockLivenessInfo_def abi_getBitArray_def bs_new_of[of "abi_size A"] rws bv.union_law)
    show "la_frame {b_id b} la ?la" "cache_ok w A f (cachedLivenessInfo ?la)" using ic(2) by (simp_all add: la_frame_def)
    show "lv_rep w A [b] (\<lambda>_. {}) (\<lambda>_. bs_new 0) ?la" by (simp add: lv_rep_def)
  qed
qed

lemma lv_rep_frame:
  assumes "lv_rep w A bs In Out la" "la_frame X la la'" "X \<inter> b_id ` set bs = {}"
  shows "lv_rep w A bs In Out la'"
  unfolding lv_rep_def
proof
  fix b assume b: "b \<in> set bs"
  then have "b_id b \<notin> X" using assms(3) by blast
  then have "blockLiveInfo la' (b_id b) = blockLiveInfo la (b_id b)" using assms(2) by (simp add: la_frame_def)
  then show "blockLiveInfo la' (b_id b) = Some \<lparr>ld_in = bs_of (abi_size A) (In (b_id b)), ld_out = Out (b_id b),
           ld_use = bs_of (abi_size A) (rws_live (block_rws w A b) {}),
           ld_def = bs_of (abi_size A) (rws_def (block_rws w A b))\<rparr>"
    using assms(1) b by (simp add: lv_rep_def)
qed

lemma liveness_summarizeBlocks_ok:
  assumes f: "lv_func_ok w A f"
  shows "set bs \<subseteq> set (f_blocks f) \<Longrightarrow> distinct (map b_id bs) \<Longrightarrow> la_width la = w \<Longrightarrow> la_abi la = A \<Longrightarrow>
    cache_ok w A f (cachedLivenessInfo la) \<Longrightarrow> \<forall>b\<in>set bs. blockLiveInfo la (b_id b) = None \<Longrightarrow>
    \<exists>la'. liveness_summarizeBlocks (f_id f) bs la (bs_of (abi_size A) D) =
        Some (la', bs_of (abi_size A) (D \<union> (\<Union>b\<in>set bs. rws_def (block_rws w A b)))) \<and>
      lv_rep w A bs (\<lambda>_. {}) (\<lambda>_. bs_new 0) la' \<and> la_frame (b_id ` set bs) la la' \<and> cache_ok w A f (cachedLivenessInfo la')"
proof (induction bs arbitrary: la D)
  case Nil
  then show ?case by (simp add: lv_rep_def)
next
  case (Cons b bs)
  have b: "b \<in> set (f_blocks f)" "blockLiveInfo la (b_id b) = None" using Cons.prems by simp_all
  obtain la1 where la1: "summarizeBlockLivenessInfo la (f_id f) b (bs_of (abi_size A) D) =
      Some (la1, bs_of (abi_size A) (D \<union> rws_def (block_rws w A b)))"
    "lv_rep w A [b] (\<lambda>_. {}) (\<lambda>_. bs_new 0) la1" "la_frame {b_id b} la la1" "cache_ok w A f (cachedLivenessInfo la1)"
    by (rule summarizeBlock_ok[OF f b(1) Cons.prems(3,4,5) b(2)])
  have others: "b_id b \<notin> b_id ` set bs" using Cons.prems(2) by auto
  have none: "\<forall>c\<in>set bs. blockLiveInfo la1 (b_id c) = None"
  proof
    fix c assume "c \<in> set bs"
    with others have "b_id c \<noteq> b_id b" by (metis imageI)
    with la1(3) Cons.prems(6) \<open>c \<in> set bs\<close> show "blockLiveInfo la1 (b_id c) = None" by (simp add: la_frame_def)
  qed
  have "la_width la1 = w" "la_abi la1 = A" using la1(3) Cons.prems by (simp_all add: la_frame_def)
  from Cons.IH[OF _ _ this la1(4) none, of "D \<union> rws_def (block_rws w A b)"] Cons.prems obtain la2 where
    la2: "liveness_summarizeBlocks (f_id f) bs la1 (bs_of (abi_size A) (D \<union> rws_def (block_rws w A b))) =
        Some (la2, bs_of (abi_size A) (D \<union> rws_def (block_rws w A b) \<union> (\<Union>b\<in>set bs. rws_def (block_rws w A b))))"
      "lv_rep w A bs (\<lambda>_. {}) (\<lambda>_. bs_new 0) la2" "la_frame (b_id ` set bs) la1 la2" "cache_ok w A f (cachedLivenessInfo la2)"
    by auto
  have "lv_rep w A [b] (\<lambda>_. {}) (\<lambda>_. bs_new 0) la2"
    using others by (intro lv_rep_frame[OF la1(2) la2(3)]) simp
  then have "lv_rep w A (b # bs) (\<lambda>_. {}) (\<lambda>_. bs_new 0) la2" using la2(2) by (simp add: lv_rep_def)
  moreover have "la_frame (b_id ` set (b # bs)) la la2" by (rule la_frame_trans[OF la1(3) la2(3)]) auto
  ultimately show ?case using la1(1) la2(1,4) by (simp add: Un_assoc)
qed

section \<open>The iteration\<close>

lemma touched_bounded: "abi_ok A \<Longrightarrow> 0 < abi_size A \<Longrightarrow> touched w A r \<subseteq> {..<abi_size A}"
proof -
  assume A: "abi_ok A" "0 < abi_size A"
  have "nat (abi_getIndex A g) < abi_size A" for g
    using getIndex_range[OF A(1), of g] A(2) by (cases "0 \<le> abi_getIndex A g") auto
  then show ?thesis by (auto simp: touched_def Let_def)
qed

lemma abi_bits_bounded:
  assumes "abi_ok A"
  shows "abi_bits getCallReadRegisters A \<subseteq> {..<abi_size A}" "abi_bits getCallWrittenRegisters A \<subseteq> {..<abi_size A}"
    "abi_bits getReturnReadRegisters A \<subseteq> {..<abi_size A}" "abi_bits getSyscallReadRegisters A \<subseteq> {..<abi_size A}"
    "abi_bits getSyscallWrittenRegisters A \<subseteq> {..<abi_size A}"
proof -
  have *: "abi_bits get A \<subseteq> {..<abi_size A}" if "get A = Some (bs_of (abi_size A) X)" for get X
    unfolding abi_bits_def that by (simp add: bs_of_spec)
  show "abi_bits getCallReadRegisters A \<subseteq> {..<abi_size A}" "abi_bits getCallWrittenRegisters A \<subseteq> {..<abi_size A}"
    "abi_bits getReturnReadRegisters A \<subseteq> {..<abi_size A}" "abi_bits getSyscallReadRegisters A \<subseteq> {..<abi_size A}"
    "abi_bits getSyscallWrittenRegisters A \<subseteq> {..<abi_size A}"
    by (intro *; rule abi_get_cases[OF assms])+
qed

lemma insn_sets_bounded:
  assumes "abi_ok A" "0 < abi_size A"
  shows "insn_reads w A i b \<subseteq> {..<abi_size A}" "insn_writes w A i b a \<subseteq> {..<abi_size A}"
proof -
  have "written_part w A r \<subseteq> touched w A r" for r by (auto simp: written_part_def Let_def)
  moreover note touched_bounded[OF assms]
  moreover have "cat_reads A i b \<subseteq> {..<abi_size A}" "cat_writes A i b a \<subseteq> {..<abi_size A}"
    unfolding cat_reads_def cat_writes_def using abi_bits_bounded[OF assms(1)] by (auto split: InsnCategory.split)
  ultimately show "insn_reads w A i b \<subseteq> {..<abi_size A}" "insn_writes w A i b a \<subseteq> {..<abi_size A}"
    unfolding insn_reads_def insn_writes_def by blast+
qed

lemma rws_live_bounded: "\<forall>p\<in>set xs. fst p \<subseteq> N \<Longrightarrow> X \<subseteq> N \<Longrightarrow> rws_live xs X \<subseteq> N"
  by (induction xs) auto

lemma block_rws_bounded:
  assumes "abi_ok A" "0 < abi_size A"
  shows "X \<subseteq> {..<abi_size A} \<Longrightarrow> rws_live (block_rws w A b) X \<subseteq> {..<abi_size A}" "rws_def (block_rws w A b) \<subseteq> {..<abi_size A}"
    "X \<subseteq> {..<abi_size A} \<Longrightarrow> rws_live (drop k (block_rws w A b)) X \<subseteq> {..<abi_size A}"
proof -
  have "\<forall>p\<in>set (block_rws w A b). fst p \<subseteq> {..<abi_size A} \<and> snd p \<subseteq> {..<abi_size A}"
    using insn_sets_bounded[OF assms] by (fastforce simp: block_rws_def)
  note p = this
  show "rws_def (block_rws w A b) \<subseteq> {..<abi_size A}" using p by (auto simp: rws_def_def)
  show "rws_live (block_rws w A b) X \<subseteq> {..<abi_size A}" if "X \<subseteq> {..<abi_size A}"
    using p that by (intro rws_live_bounded) blast+
  show "rws_live (drop k (block_rws w A b)) X \<subseteq> {..<abi_size A}" if "X \<subseteq> {..<abi_size A}"
    using p that by (intro rws_live_bounded) (blast dest: in_set_dropD)+
qed

lemma regs_defined_bounded: "abi_ok A \<Longrightarrow> 0 < abi_size A \<Longrightarrow> regs_defined w A f \<subseteq> {..<abi_size A}"
  unfolding regs_defined_def using abi_bits_bounded(1) block_rws_bounded(2) by blast

lemma processEdges_of:
  assumes "\<forall>e\<in>set es. e_type e \<noteq> CATCH \<and> \<not> e_sink e \<longrightarrow> getLivenessIn la (e_trg e) = Some (bs_of n (In (e_trg e)))"
  shows "processEdges la es (bs_of n D) (bs_of n X) =
    Some (bs_of n (X \<union> (\<Union>e\<in>{e \<in> set es. e_type e \<noteq> CATCH}. if e_sink e then D else In (e_trg e))))"
  using assms
proof (induction es arbitrary: X)
  case (Cons e es)
  let ?S = "\<lambda>es. \<Union>e\<in>{e \<in> set es. e_type e \<noteq> CATCH}. if e_sink e then D else In (e_trg e)"
  have "processEdgeLiveness la e (bs_of n D) (bs_of n X) = Some (bs_of n (X \<union> ?S [e]))"
  proof (cases "e_type e = CATCH")
    case False
    then have "{e' \<in> set [e]. e_type e' \<noteq> CATCH} = {e}" by auto
    with False Cons.prems show ?thesis by (simp add: processEdgeLiveness_def bv.union_law)
  next
    case True
    then have "{e' \<in> set [e]. e_type e' \<noteq> CATCH} = {}" by auto
    then show ?thesis using True by (simp only: processEdgeLiveness_def if_True Union_empty image_empty Un_empty_right simp_thms)
  qed
  moreover have "X \<union> ?S [e] \<union> ?S es = X \<union> ?S (e # es)" by auto
  ultimately show ?case using Cons by simp
qed simp

lemma flow_out_filter:
  "flow_out D In b = (\<Union>e\<in>{e \<in> set (filter Intraproc_pred (b_targets b)). e_type e \<noteq> CATCH}. if e_sink e then D else In (e_trg e))"
  by (auto simp: flow_out_def flow_edge_def)

definition edges_inside :: "Block list \<Rightarrow> Block \<Rightarrow> bool" where
  "edges_inside bs b \<longleftrightarrow> (\<forall>e\<in>set (b_targets b). flow_edge e \<and> \<not> e_sink e \<longrightarrow> e_trg e \<in> b_id ` set bs)"

lemma updateBlock_ok:
  assumes A: "abi_ok A" "0 < abi_size A" and rep: "lv_rep w A bs In Out la" and b: "b \<in> set bs" "edges_inside bs b"
    and d: "distinct (map b_id bs)"
  obtains la' where "updateBlockLivenessInfo la b (bs_of (abi_size A) D) =
      Some (la', live_transfer w A D In b \<inter> {..<abi_size A} \<noteq> In (b_id b) \<inter> {..<abi_size A})"
    "lv_rep w A bs (In(b_id b := live_transfer w A D In b)) (Out(b_id b := bs_of (abi_size A) (flow_out D In b))) la'"
    "la_frame {b_id b} la la'" "cachedLivenessInfo la' = cachedLivenessInfo la"
proof -
  let ?n = "abi_size A" and ?O = "flow_out D In b" and ?T = "live_transfer w A D In b"
  let ?use = "rws_live (block_rws w A b) {}" and ?def = "rws_def (block_rws w A b)"
  let ?d = "\<lambda>I O'. \<lparr>ld_in = bs_of ?n I, ld_out = O', ld_use = bs_of ?n ?use, ld_def = bs_of ?n ?def\<rparr>"
  let ?la = "la\<lparr>blockLiveInfo := (blockLiveInfo la)(b_id b \<mapsto> ?d ?T (bs_of ?n ?O))\<rparr>"
  have data: "blockLiveInfo la (b_id b) = Some (?d (In (b_id b)) (Out (b_id b)))" using rep b(1) by (simp add: lv_rep_def)
  have "getLivenessIn la (e_trg e) = Some (bs_of ?n (In (e_trg e)))"
    if "e \<in> set (filter Intraproc_pred (b_targets b))" "e_type e \<noteq> CATCH" "\<not> e_sink e" for e
  proof -
    from that have "e \<in> set (b_targets b)" "flow_edge e" by (simp_all add: flow_edge_def)
    with that(3) b(2) obtain c where c: "c \<in> set bs" "e_trg e = b_id c" unfolding edges_inside_def by blast
    show ?thesis unfolding c(2) getLivenessIn_def using rep c(1) A(2) by (simp add: lv_rep_def bs_of_spec)
  qed
  then have "processEdges la (filter Intraproc_pred (b_targets b)) (bs_of ?n D) (bs_of ?n {}) = Some (bs_of ?n ?O)"
    unfolding flow_out_filter using processEdges_of[of "filter Intraproc_pred (b_targets b)" la ?n In D "{}"] by simp
  then have out: "getLivenessOut la b (bs_of ?n D) = Some (la\<lparr>blockLiveInfo := (blockLiveInfo la)(b_id b \<mapsto> ?d (In (b_id b)) (bs_of ?n ?O))\<rparr>)"
    using A(2) by (simp add: getLivenessOut_def data bs_of_spec bs_new_of bs_new_spec)
  have T: "?use \<union> (?O - ?def) = ?T" unfolding live_transfer_def by (rule rws_live_gen_kill[symmetric])
  show thesis
  proof (rule that[of ?la])
    show "updateBlockLivenessInfo la b (bs_of ?n D) = Some (?la, ?T \<inter> {..<?n} \<noteq> In (b_id b) \<inter> {..<?n})"
      by (simp add: updateBlockLivenessInfo_def data out bv.diff_law bv.union_law T bv.eq_law)
    show "la_frame {b_id b} la ?la" "cachedLivenessInfo ?la = cachedLivenessInfo la" by (simp_all add: la_frame_def)
    show "lv_rep w A bs (In(b_id b := ?T)) (Out(b_id b := bs_of ?n ?O)) ?la"
      unfolding lv_rep_def
    proof
      fix c assume c: "c \<in> set bs"
      show "blockLiveInfo ?la (b_id c) = Some \<lparr>ld_in = bs_of ?n ((In(b_id b := ?T)) (b_id c)), ld_out = (Out(b_id b := bs_of ?n ?O)) (b_id c),
           ld_use = bs_of ?n (rws_live (block_rws w A c) {}), ld_def = bs_of ?n (rws_def (block_rws w A c))\<rparr>"
      proof (cases "b_id c = b_id b")
        case True
        then have "c = b" using d c b(1) by (simp add: distinct_map inj_on_def)
        then show ?thesis by simp
      next
        case False
        then show ?thesis using rep c by (simp add: lv_rep_def)
      qed
    qed
  qed
qed

text \<open>The invariant of the iteration: the sets stay inside the array and grow, and never leave
  what is live.\<close>

definition iter_inv :: "int \<Rightarrow> ABI \<Rightarrow> Function \<Rightarrow> (nat \<Rightarrow> nat set) \<Rightarrow> bool" where
  "iter_inv w A f In \<longleftrightarrow> (\<forall>b\<in>set (f_blocks f). In (b_id b) \<subseteq> {..<abi_size A} \<and>
     In (b_id b) \<subseteq> live_transfer w A (regs_defined w A f) In b) \<and> (\<forall>x. In x \<subseteq> live_entry w A f x)"

definition iter_room :: "ABI \<Rightarrow> Function \<Rightarrow> (nat \<Rightarrow> nat set) \<Rightarrow> nat" where
  "iter_room A f In = (\<Sum>b\<in>set (f_blocks f). abi_size A - card (In (b_id b)))"

lemma lv_func_ok_parts:
  assumes "lv_func_ok w A f"
  shows "abi_ok A" "0 < abi_size A" "distinct (map b_id (f_blocks f))"
    "b \<in> set (f_blocks f) \<Longrightarrow> edges_inside (f_blocks f) b" "b \<in> set (f_blocks f) \<Longrightarrow> block_ok w A f b"
  using assms by (auto simp: lv_func_ok_def block_ok_def edges_inside_def)

lemma transfer_bounded:
  assumes f: "lv_func_ok w A f" and b: "b \<in> set (f_blocks f)" and In: "\<forall>b\<in>set (f_blocks f). In (b_id b) \<subseteq> {..<abi_size A}"
  shows "flow_out (regs_defined w A f) In b \<subseteq> {..<abi_size A}"
    "live_transfer w A (regs_defined w A f) In b \<subseteq> {..<abi_size A}"
proof -
  note p = lv_func_ok_parts[OF f]
  show "flow_out (regs_defined w A f) In b \<subseteq> {..<abi_size A}"
    unfolding flow_out_def
  proof (rule UN_least)
    fix e assume e: "e \<in> {e \<in> set (b_targets b). flow_edge e}"
    show "(if e_sink e then regs_defined w A f else In (e_trg e)) \<subseteq> {..<abi_size A}"
    proof (cases "e_sink e")
      case True
      then show ?thesis using regs_defined_bounded[OF p(1,2)] by simp
    next
      case False
      with e p(4)[OF b] obtain c where "c \<in> set (f_blocks f)" "e_trg e = b_id c" unfolding edges_inside_def by blast
      with False In show ?thesis by simp
    qed
  qed
  then show "live_transfer w A (regs_defined w A f) In b \<subseteq> {..<abi_size A}"
    unfolding live_transfer_def by (rule block_rws_bounded(1)[OF p(1,2)])
qed

lemma iter_step:
  assumes f: "lv_func_ok w A f" and b: "b \<in> set (f_blocks f)" and inv: "iter_inv w A f In"
    and T: "T = live_transfer w A (regs_defined w A f) In b"
  shows "iter_inv w A f (In(b_id b := T))" "In x \<subseteq> (In(b_id b := T)) x"
proof -
  let ?D = "regs_defined w A f"
  have grow: "In x \<subseteq> (In(b_id b := T)) x" for x using inv b by (simp add: iter_inv_def T)
  then show "In x \<subseteq> (In(b_id b := T)) x" .
  have mono: "live_transfer w A ?D In c \<subseteq> live_transfer w A ?D (In(b_id b := T)) c" for c
    by (rule live_transfer_mono) (rule grow)
  have "T \<subseteq> live_transfer w A ?D (live_entry w A f) b"
    unfolding T using inv by (intro live_transfer_mono) (simp add: iter_inv_def)
  then have live: "T \<subseteq> live_entry w A f (b_id b)" using live_entry_eq(2)[OF lv_func_ok_parts(3)[OF f] b] by simp
  have T_bounded: "T \<subseteq> {..<abi_size A}" unfolding T using inv by (intro transfer_bounded(2)[OF f b]) (simp add: iter_inv_def)
  show "iter_inv w A f (In(b_id b := T))"
    unfolding iter_inv_def
  proof (intro conjI ballI allI)
    fix c assume c: "c \<in> set (f_blocks f)"
    show "(In(b_id b := T)) (b_id c) \<subseteq> {..<abi_size A}" using T_bounded inv c by (simp add: iter_inv_def)
    show "(In(b_id b := T)) (b_id c) \<subseteq> live_transfer w A ?D (In(b_id b := T)) c"
    proof (cases "b_id c = b_id b")
      case True
      then have "c = b" using lv_func_ok_parts(3)[OF f] c b by (simp add: distinct_map inj_on_def)
      then show ?thesis using mono[of b] by (simp add: T)
    next
      case False
      then show ?thesis using inv c mono[of c] by (auto simp: iter_inv_def)
    qed
  next
    fix x
    show "(In(b_id b := T)) x \<subseteq> live_entry w A f x" using inv live by (simp add: iter_inv_def)
  qed
qed

lemma iter_room_less:
  assumes inv: "iter_inv w A f In" "iter_inv w A f In'" and le: "\<forall>x. In x \<subseteq> In' x"
    and b: "b \<in> set (f_blocks f)" "In (b_id b) \<noteq> In' (b_id b)"
  shows "iter_room A f In' < iter_room A f In"
  unfolding iter_room_def
proof (rule sum_strict_mono_ex1)
  have fin: "finite (In' (b_id c))" "card (In' (b_id c)) \<le> abi_size A" if "c \<in> set (f_blocks f)" for c
    using inv(2) that card_mono[of "{..<abi_size A}" "In' (b_id c)"] finite_subset[of "In' (b_id c)" "{..<abi_size A}"]
    by (auto simp: iter_inv_def)
  show "\<forall>c\<in>set (f_blocks f). abi_size A - card (In' (b_id c)) \<le> abi_size A - card (In (b_id c))"
    using fin le by (auto intro!: diff_le_mono2 card_mono)
  have "card (In (b_id b)) < card (In' (b_id b))" using fin(1)[OF b(1)] le b(2) by (intro psubset_card_mono) auto
  with fin(2)[OF b(1)] have "abi_size A - card (In' (b_id b)) < abi_size A - card (In (b_id b))" by linarith
  with b(1) show "\<exists>c\<in>set (f_blocks f). abi_size A - card (In' (b_id c)) < abi_size A - card (In (b_id c))" by blast
qed simp

text \<open>One pass over the blocks: when nothing changed, every block satisfies its equation; otherwise
  some set grew.\<close>

definition pass_ok :: "int \<Rightarrow> ABI \<Rightarrow> Function \<Rightarrow> Block list \<Rightarrow> (nat \<Rightarrow> nat set) \<Rightarrow> (nat \<Rightarrow> dynamic_bitset) \<Rightarrow>
    (nat \<Rightarrow> nat set) \<Rightarrow> (nat \<Rightarrow> dynamic_bitset) \<Rightarrow> bool \<Rightarrow> bool" where
  "pass_ok w A f bs In Out In' Out' ch \<longleftrightarrow> iter_inv w A f In' \<and> (\<forall>x. In x \<subseteq> In' x) \<and>
     (if ch then \<exists>b\<in>set (f_blocks f). In (b_id b) \<noteq> In' (b_id b)
      else In' = In \<and> (\<forall>b\<in>set bs. live_transfer w A (regs_defined w A f) In b = In (b_id b) \<and>
         Out' (b_id b) = bs_of (abi_size A) (flow_out (regs_defined w A f) In b)) \<and>
         (\<forall>x. x \<notin> b_id ` set bs \<longrightarrow> Out' x = Out x))"

lemma pass_cons:
  assumes f: "lv_func_ok w A f" and bs: "set (b # bs) \<subseteq> set (f_blocks f)" and inv: "iter_inv w A f In"
    and T: "T = live_transfer w A (regs_defined w A f) In b" and O: "out = bs_of (abi_size A) (flow_out (regs_defined w A f) In b)"
    and rest: "pass_ok w A f bs (In(b_id b := T)) (Out(b_id b := out)) In' Out' ch"
  shows "pass_ok w A f (b # bs) In Out In' Out' (T \<noteq> In (b_id b) \<or> ch)"
proof -
  have b: "b \<in> set (f_blocks f)" using bs by simp
  note step = iter_step[OF f b inv T]
  have le1: "(In(b_id b := T)) x \<subseteq> In' x" for x using rest by (simp add: pass_ok_def)
  then have le: "\<forall>x. In x \<subseteq> In' x" using step(2) by blast
  show ?thesis
  proof (cases "T = In (b_id b)")
    case False
    have "In (b_id b) \<noteq> In' (b_id b)" using le1[of "b_id b"] step(2)[of "b_id b"] False by auto
    with b le rest False show ?thesis by (auto simp: pass_ok_def)
  next
    case True
    then have id: "In(b_id b := T) = In" by (simp add: fun_eq_iff)
    have "Out' (b_id b) = out" if no: "\<not> ch"
    proof (cases "b_id b \<in> b_id ` set bs")
      case True
      then obtain c where c: "c \<in> set bs" "b_id c = b_id b" by auto
      then have "c = b" using lv_func_ok_parts(3)[OF f] bs by (auto simp: distinct_map inj_on_def)
      with rest no c(1) show ?thesis unfolding id O by (simp add: pass_ok_def)
    next
      case False
      with rest no show ?thesis by (simp add: pass_ok_def)
    qed
    with rest True T O show ?thesis unfolding id by (simp add: pass_ok_def)
  qed
qed

lemma updateBlocks_ok:
  assumes f: "lv_func_ok w A f"
  shows "set bs \<subseteq> set (f_blocks f) \<Longrightarrow> lv_rep w A (f_blocks f) In Out la \<Longrightarrow> iter_inv w A f In \<Longrightarrow>
    \<exists>la' In' Out' ch. updateBlocks bs (bs_of (abi_size A) (regs_defined w A f)) la c = Some (la', c \<or> ch) \<and>
      lv_rep w A (f_blocks f) In' Out' la' \<and> la_frame (b_id ` set (f_blocks f)) la la' \<and>
      cachedLivenessInfo la' = cachedLivenessInfo la \<and> pass_ok w A f bs In Out In' Out' ch"
proof (induction bs arbitrary: In Out la c)
  case Nil
  then show ?case by (intro exI[of _ la] exI[of _ In] exI[of _ Out] exI[of _ False]) (simp add: pass_ok_def)
next
  case (Cons b bs)
  let ?n = "abi_size A" and ?D = "regs_defined w A f"
  let ?T = "live_transfer w A ?D In b" and ?O = "bs_of ?n (flow_out ?D In b)"
  note p = lv_func_ok_parts[OF f]
  have b: "b \<in> set (f_blocks f)" and bs: "set bs \<subseteq> set (f_blocks f)" using Cons.prems(1) by simp_all
  obtain la1 where la1: "updateBlockLivenessInfo la b (bs_of ?n ?D) = Some (la1, ?T \<inter> {..<?n} \<noteq> In (b_id b) \<inter> {..<?n})"
    "lv_rep w A (f_blocks f) (In(b_id b := ?T)) (Out(b_id b := ?O)) la1"
    "la_frame {b_id b} la la1" "cachedLivenessInfo la1 = cachedLivenessInfo la"
    by (rule updateBlock_ok[OF p(1,2) Cons.prems(2) b p(4)[OF b] p(3)])
  have "?T \<subseteq> {..<?n}" "In (b_id b) \<subseteq> {..<?n}"
    using transfer_bounded(2)[OF f b] Cons.prems(3) b by (simp_all add: iter_inv_def)
  then have eq: "?T \<inter> {..<?n} \<noteq> In (b_id b) \<inter> {..<?n} \<longleftrightarrow> ?T \<noteq> In (b_id b)" by (simp add: Int_absorb2)
  from Cons.IH[OF bs la1(2) iter_step(1)[OF f b Cons.prems(3) refl], of "c \<or> ?T \<noteq> In (b_id b)"] obtain la2 In2 Out2 ch where
    la2: "updateBlocks bs (bs_of ?n ?D) la1 (c \<or> ?T \<noteq> In (b_id b)) = Some (la2, (c \<or> ?T \<noteq> In (b_id b)) \<or> ch)"
      "lv_rep w A (f_blocks f) In2 Out2 la2" "la_frame (b_id ` set (f_blocks f)) la1 la2"
      "cachedLivenessInfo la2 = cachedLivenessInfo la1"
      "pass_ok w A f bs (In(b_id b := ?T)) (Out(b_id b := ?O)) In2 Out2 ch"
    by blast
  have "la_frame (b_id ` set (f_blocks f)) la la2" using b by (intro la_frame_trans[OF la1(3) la2(3)]) auto
  moreover have "updateBlocks (b # bs) (bs_of ?n ?D) la c = Some (la2, c \<or> (?T \<noteq> In (b_id b) \<or> ch))"
    using la1(1) la2(1) by (simp add: eq disj_assoc)
  moreover have "pass_ok w A f (b # bs) In Out In2 Out2 (?T \<noteq> In (b_id b) \<or> ch)"
    by (rule pass_cons[OF f Cons.prems(1,3) refl refl la2(5)])
  ultimately show ?case using la2(2,4) la1(4) by metis
qed

section \<open>The analysis\<close>

definition lv_exact :: "int \<Rightarrow> ABI \<Rightarrow> Function \<Rightarrow> LivenessAnalyzer \<Rightarrow> bool" where
  "lv_exact w A f la \<longleftrightarrow> lv_rep w A (f_blocks f) (live_entry w A f)
     (\<lambda>x. bs_of (abi_size A) (\<Union>b\<in>{b \<in> set (f_blocks f). b_id b = x}. live_set w A f b (length (b_insns b)))) la"

lemma pass_done:
  assumes f: "lv_func_ok w A f" and p: "pass_ok w A f (f_blocks f) In Out In' Out' False" and inv: "iter_inv w A f In"
    and rep: "lv_rep w A (f_blocks f) In' Out' la"
  shows "lv_exact w A f la"
proof -
  let ?D = "regs_defined w A f"
  have In: "In' = In" and fix_eq: "\<forall>b\<in>set (f_blocks f). live_transfer w A ?D In b \<subseteq> In (b_id b)"
    and Out: "\<forall>b\<in>set (f_blocks f). Out' (b_id b) = bs_of (abi_size A) (flow_out ?D In b)"
    using p by (simp_all add: pass_ok_def)
  have ent: "live_entry w A f (b_id b) = In (b_id b)" if b: "b \<in> set (f_blocks f)" for b
  proof
    show "In (b_id b) \<subseteq> live_entry w A f (b_id b)" using inv by (simp add: iter_inv_def)
    have "live_set w A f b 0 \<subseteq> live_transfer w A ?D In b"
      using live_least[OF fix_eq, of b 0] by (auto simp: live_set_def live_transfer_def)
    with fix_eq b show "live_entry w A f (b_id b) \<subseteq> In (b_id b)"
      unfolding live_entry_eq(1)[OF lv_func_ok_parts(3)[OF f] b] by blast
  qed
  have flow: "flow_out ?D In b = live_set w A f b (length (b_insns b))" if b: "b \<in> set (f_blocks f)" for b
  proof -
    have "(if e_sink e then ?D else In (e_trg e)) = (if e_sink e then ?D else live_entry w A f (e_trg e))"
      if "e \<in> {e \<in> set (b_targets b). flow_edge e}" for e
      using that lv_func_ok_parts(4)[OF f b] ent unfolding edges_inside_def by fastforce
    then show ?thesis unfolding live_end[OF b] flow_out_def by (rule SUP_cong[OF refl])
  qed
  have one: "{c \<in> set (f_blocks f). b_id c = b_id b} = {b}" if "b \<in> set (f_blocks f)" for b
    using that lv_func_ok_parts(3)[OF f] by (auto simp: distinct_map inj_on_def)
  show ?thesis using rep unfolding lv_exact_def lv_rep_def In by (simp add: ent flow one Out)
qed

lemma fixpoint_ok:
  assumes f: "lv_func_ok w A f"
  shows "lv_rep w A (f_blocks f) In Out la \<Longrightarrow> iter_inv w A f In \<Longrightarrow>
    \<exists>la'. liveness_fixpoint (f_blocks f) (bs_of (abi_size A) (regs_defined w A f)) la = Some la' \<and> lv_exact w A f la' \<and>
      la_frame (b_id ` set (f_blocks f)) la la' \<and> cachedLivenessInfo la' = cachedLivenessInfo la"
proof (induction "iter_room A f In" arbitrary: In Out la rule: less_induct)
  case less
  let ?bs = "f_blocks f" and ?R = "bs_of (abi_size A) (regs_defined w A f)"
  obtain la' In' Out' ch where p: "updateBlocks ?bs ?R la False = Some (la', ch)" "lv_rep w A ?bs In' Out' la'"
    "la_frame (b_id ` set ?bs) la la'" "cachedLivenessInfo la' = cachedLivenessInfo la" "pass_ok w A f ?bs In Out In' Out' ch"
    using updateBlocks_ok[OF f order_refl less.prems, of False] by auto
  have eq: "liveness_fixpoint ?bs ?R la = (if ch then liveness_fixpoint ?bs ?R la' else Some la')"
    by (subst liveness_fixpoint.simps) (simp add: p(1))
  show ?case
  proof (cases ch)
    case True
    with p(5) obtain b where b: "b \<in> set ?bs" "In (b_id b) \<noteq> In' (b_id b)" and inv: "iter_inv w A f In'" "\<forall>x. In x \<subseteq> In' x"
      by (auto simp: pass_ok_def)
    have "iter_room A f In' < iter_room A f In" by (rule iter_room_less[OF less.prems(2) inv b])
    from less.hyps[OF this p(2) inv(1)] obtain la2 where
      "liveness_fixpoint ?bs ?R la' = Some la2" "lv_exact w A f la2" "la_frame (b_id ` set ?bs) la' la2"
      "cachedLivenessInfo la2 = cachedLivenessInfo la'" by blast
    with True eq p(4) la_frame_trans[OF p(3), of _ la2 "b_id ` set ?bs"] show ?thesis by auto
  next
    case False
    with p(5) have "lv_exact w A f la'" by (intro pass_done[OF f _ less.prems(2) p(2)]) simp
    with False eq p(3,4) show ?thesis by simp
  qed
qed

text \<open>A function the analyzer has not seen yet, and one it has analyzed.\<close>

definition lv_fresh :: "LivenessAnalyzer \<Rightarrow> Function \<Rightarrow> bool" where
  "lv_fresh la f \<longleftrightarrow> liveFuncCalculated la (f_id f) = None \<and> funcRegsDefined la (f_id f) = None \<and>
     list_all (\<lambda>b. blockLiveInfo la (b_id b) = None) (f_blocks f)"

definition lv_ready :: "LivenessAnalyzer \<Rightarrow> Function \<Rightarrow> bool" where
  "lv_ready la f \<longleftrightarrow> cache_ok (la_width la) (la_abi la) f (cachedLivenessInfo la) \<and>
     (lv_fresh la f \<or> liveFuncCalculated la (f_id f) \<noteq> None \<and> lv_exact (la_width la) (la_abi la) f la)"

lemma analyze_ok:
  assumes f: "lv_func_ok (la_width la) (la_abi la) f" and la: "lv_ready la f"
  obtains la' where "liveness_analyze la f = Some la'" "liveFuncCalculated la' (f_id f) \<noteq> None" "lv_exact (la_width la) (la_abi la) f la'"
    "la_width la' = la_width la" "la_abi la' = la_abi la" "cache_ok (la_width la) (la_abi la) f (cachedLivenessInfo la')"
    "\<forall>x. x \<notin> b_id ` set (f_blocks f) \<longrightarrow> blockLiveInfo la' x = blockLiveInfo la x" "funcRegsDefined la' (f_id f) \<noteq> None \<or> la' = la"
proof (cases "lv_fresh la f")
  case False
  with la that[of la] show thesis by (simp add: lv_ready_def liveness_analyze_def)
next
  case True
  let ?w = "la_width la" and ?A = "la_abi la"
  note p = lv_func_ok_parts[OF f]
  have c: "cache_ok ?w ?A f (cachedLivenessInfo la)" using la by (simp add: lv_ready_def)
  have none: "\<forall>b\<in>set (f_blocks f). blockLiveInfo la (b_id b) = None" using True by (simp add: lv_fresh_def list_all_iff)
  obtain la1 where la1: "liveness_summarizeBlocks (f_id f) (f_blocks f) la (bs_of (abi_size ?A) (abi_bits getCallReadRegisters ?A)) =
        Some (la1, bs_of (abi_size ?A) (regs_defined ?w ?A f))"
      "lv_rep ?w ?A (f_blocks f) (\<lambda>_. {}) (\<lambda>_. bs_new 0) la1" "la_frame (b_id ` set (f_blocks f)) la la1"
      "cache_ok ?w ?A f (cachedLivenessInfo la1)"
    using liveness_summarizeBlocks_ok[OF f order_refl p(3) refl refl c none] unfolding regs_defined_def by blast
  let ?la = "la1\<lparr>funcRegsDefined := (funcRegsDefined la1)(f_id f \<mapsto> bs_of (abi_size ?A) (regs_defined ?w ?A f))\<rparr>"
  have rep: "lv_rep ?w ?A (f_blocks f) (\<lambda>_. {}) (\<lambda>_. bs_new 0) ?la" using la1(2) by (simp add: lv_rep_def)
  have "iter_inv ?w ?A f (\<lambda>_. {})" by (simp add: iter_inv_def)
  from fixpoint_ok[OF f rep this] obtain la2 where la2:
    "liveness_fixpoint (f_blocks f) (bs_of (abi_size ?A) (regs_defined ?w ?A f)) ?la = Some la2" "lv_exact ?w ?A f la2"
    "la_frame (b_id ` set (f_blocks f)) ?la la2" "cachedLivenessInfo la2 = cachedLivenessInfo ?la" by blast
  let ?la3 = "la2\<lparr>liveFuncCalculated := (liveFuncCalculated la2)(f_id f \<mapsto> True)\<rparr>"
  have "liveness_analyze la f = Some ?la3"
    using True la1(1) la2(1) by (simp add: liveness_analyze_def lv_fresh_def abi_get_cases[OF p(1)])
  moreover have "lv_exact ?w ?A f ?la3" using la2(2) by (simp add: lv_exact_def lv_rep_def)
  ultimately show thesis using la1(3,4) la2(3,4) by (intro that[of ?la3]) (simp_all add: la_frame_def)
qed

section \<open>Queries\<close>

definition insn_addr :: "Block \<Rightarrow> nat \<Rightarrow> nat" where
  "insn_addr b k = fst (insns_at b ! k)"

lemma located_nth:
  "k < length is \<Longrightarrow> located s is ! k = (s + sum_list (map insn_size (take k is)), is ! k)"
proof (induction s "is" arbitrary: k rule: located.induct)
  case (2 a i "is")
  then show ?case by (cases k) simp_all
qed simp

lemma insn_addr_eq: "k < length (b_insns b) \<Longrightarrow> insn_addr b k = b_start b + sum_list (map insn_size (take k (b_insns b)))"
  by (simp add: insn_addr_def insns_at_def located_nth)

lemma insns_at_nth: "k < length (b_insns b) \<Longrightarrow> insns_at b ! k = (insn_addr b k, b_insns b ! k)"
  by (simp add: insn_addr_def insns_at_def located_nth)

lemma insn_addr_Suc: "Suc k < length (b_insns b) \<Longrightarrow> insn_addr b (Suc k) = insn_addr b k + insn_size (b_insns b ! k)"
  by (simp add: insn_addr_eq take_Suc_conv_app_nth)

lemma sum_take_Suc: "k < length is \<Longrightarrow>
    sum_list (map insn_size is) = sum_list (map insn_size (take k is)) + insn_size (is ! k) + sum_list (map insn_size (drop (Suc k) is))"
  by (subst id_take_nth_drop[of k "is"]) simp_all

lemma insn_end:
  assumes "block_ok w A f b" "k < length (b_insns b)"
  shows "b_end b = insn_addr b k + insn_size (b_insns b ! k) + sum_list (map insn_size (drop (Suc k) (b_insns b)))"
  using assms sum_take_Suc[OF assms(2)] by (simp add: block_ok_def insn_addr_eq)

lemma located_sorted: "\<forall>i\<in>set is. 0 < insn_size i \<Longrightarrow> sorted_wrt (<) (map fst (located s is)) \<and> (\<forall>p\<in>set (located s is). s \<le> fst p)"
proof (induction s "is" rule: located.induct)
  case (2 a i "is")
  then have IH: "sorted_wrt (<) (map fst (located (a + insn_size i) is))" "\<forall>p\<in>set (located (a + insn_size i) is). a + insn_size i \<le> fst p"
    and "0 < insn_size i" by auto
  then show ?case by fastforce
qed simp

lemma insns_sorted: "block_ok w A f b \<Longrightarrow> sorted_wrt (<) (map fst (insns_at b))" "block_ok w A f b \<Longrightarrow> p \<in> set (insns_at b) \<Longrightarrow> 0 < fst p"
  using located_sorted[of "b_insns b" "b_start b"] by (fastforce simp: block_ok_def insns_at_def)+

lemma filter_after:
  fixes xs :: "(nat \<times> 'a) list"
  assumes "sorted_wrt (<) (map fst xs)" "k < length xs"
  shows "filter (\<lambda>p. fst (xs ! k) < fst p) xs = drop (Suc k) xs" "filter (\<lambda>p. fst (xs ! k) \<le> fst p) xs = drop k xs"
proof -
  have xs: "xs = take k xs @ xs ! k # drop (Suc k) xs" by (rule id_take_nth_drop[OF assms(2)])
  have "sorted_wrt (<) (map fst (take k xs @ xs ! k # drop (Suc k) xs))" using assms(1) xs by simp
  then have s: "\<forall>p\<in>set (take k xs). fst p < fst (xs ! k)" "\<forall>p\<in>set (drop (Suc k) xs). fst (xs ! k) < fst p"
    by (simp_all add: sorted_wrt_append)
  have "filter (\<lambda>p. fst (xs ! k) < fst p) (take k xs) = []" "filter (\<lambda>p. fst (xs ! k) < fst p) (drop (Suc k) xs) = drop (Suc k) xs"
    "filter (\<lambda>p. fst (xs ! k) \<le> fst p) (take k xs) = []" "filter (\<lambda>p. fst (xs ! k) \<le> fst p) (drop (Suc k) xs) = drop (Suc k) xs"
    using s by (auto simp: filter_empty_conv filter_id_conv)
  moreover have "filter P xs = filter P (take k xs) @ filter P (drop k xs)" for P
    by (metis append_take_drop_id filter_append)
  moreover have "drop k xs = xs ! k # drop (Suc k) xs" by (simp add: Cons_nth_drop_Suc[OF assms(2)])
  ultimately show "filter (\<lambda>p. fst (xs ! k) < fst p) xs = drop (Suc k) xs" "filter (\<lambda>p. fst (xs ! k) \<le> fst p) xs = drop k xs"
    by simp_all
qed

lemma scan_ok:
  assumes f: "lv_func_ok w A f" and b: "b \<in> set (f_blocks f)"
  shows "k < length (b_insns b) \<Longrightarrow> cache_ok w A f (cachedLivenessInfo la) \<Longrightarrow> la_width la = w \<Longrightarrow> la_abi la = A \<Longrightarrow>
    \<exists>ic. query_scan (f_id f) b (insn_addr b k) la = Some (la\<lparr>cachedLivenessInfo := ic\<rparr>, map fst (drop k (insns_at b))) \<and>
      cache_ok w A f ic \<and> cache_grows f (cachedLivenessInfo la) ic \<and>
      (\<forall>p\<in>set (drop k (insns_at b)). getLivenessInfo (fst p) (f_id f) ic = Some (insn_rw w A b (fst p) (snd p)))"
proof (induction "length (b_insns b) - k" arbitrary: k la)
  case (Suc d)
  let ?a = "insn_addr b k" and ?i = "b_insns b ! k"
  note ok = lv_func_ok_parts(5)[OF f b]
  have mem: "(?a, ?i) \<in> set (insns_at b)" using Suc.prems(1) by (metis insns_at_nth insns_at_length nth_mem)
  have "map_of (insns_at b) ?a = Some ?i"
    using mem insns_sorted(1)[OF ok] by (simp add: strict_sorted_iff)
  moreover obtain ic where ic: "cachedRW la (f_id f) b ?a (Some ?i) = Some (la\<lparr>cachedLivenessInfo := ic\<rparr>, insn_rw w A b ?a ?i)"
    "cache_ok w A f ic" "cache_grows f (cachedLivenessInfo la) ic" "getLivenessInfo ?a (f_id f) ic = Some (insn_rw w A b ?a ?i)"
    using cachedRW_ok[OF f Suc.prems(2-4)] mem b by (metis func_insns_iff)
  ultimately have eq: "query_scan (f_id f) b ?a la =
      (if ?a + insn_size ?i < b_end b
       then Option.bind (query_scan (f_id f) b (?a + insn_size ?i) (la\<lparr>cachedLivenessInfo := ic\<rparr>)) (\<lambda>(la'', addrs). Some (la'', ?a # addrs))
       else Some (la\<lparr>cachedLivenessInfo := ic\<rparr>, [?a]))"
    by (subst query_scan.simps) (simp add: Let_def insn_rw_def)
  have dr: "drop k (insns_at b) = (?a, ?i) # drop (Suc k) (insns_at b)"
    using Suc.prems(1) insns_at_nth[of k b] by (metis Cons_nth_drop_Suc insns_at_length)
  show ?case
  proof (cases "Suc k < length (b_insns b)")
    case True
    have "0 < insn_size (b_insns b ! Suc k)" using ok True by (simp add: block_ok_def)
    moreover note insn_end[OF ok True]
    ultimately have "?a + insn_size ?i < b_end b" using insn_addr_Suc[OF True] by linarith
    moreover have "d = length (b_insns b) - Suc k" using Suc.hyps(2) by simp
    from Suc.hyps(1)[OF this True, of "la\<lparr>cachedLivenessInfo := ic\<rparr>"] Suc.prems ic obtain ic2 where
      "query_scan (f_id f) b (insn_addr b (Suc k)) (la\<lparr>cachedLivenessInfo := ic\<rparr>) =
        Some (la\<lparr>cachedLivenessInfo := ic2\<rparr>, map fst (drop (Suc k) (insns_at b)))"
      "cache_ok w A f ic2" "cache_grows f ic ic2"
      "\<forall>p\<in>set (drop (Suc k) (insns_at b)). getLivenessInfo (fst p) (f_id f) ic2 = Some (insn_rw w A b (fst p) (snd p))" by auto
    ultimately show ?thesis using eq insn_addr_Suc[OF True] ic(3,4) cache_grows_trans[OF ic(3), of ic2]
      by (intro exI[of _ ic2]) (auto simp: dr cache_grows_def)
  next
    case False
    with eq ic insn_end[OF ok Suc.prems(1)] show ?thesis by (intro exI[of _ ic]) (simp add: dr)
  qed
qed simp

lemma replay_ok:
  assumes "\<forall>p\<in>set xs. getLivenessInfo (fst p) (f_id f) (cachedLivenessInfo la) = Some (insn_rw w A b (fst p) (snd p))"
    "sorted_wrt (<) (map fst xs)"
  shows "query_replay la (f_id f) addr (rev (map fst xs)) (bs_of (abi_size A) X) =
    Some (bs_of (abi_size A) (rws_live (rws_of w A b (filter (\<lambda>p. addr < fst p) xs)) X))"
  using assms
proof (induction xs arbitrary: X rule: rev_induct)
  case Nil
  then show ?case by (simp add: rws_of_def)
next
  case (snoc x xs)
  obtain a i where x: "x = (a, i)" by (cases x)
  from snoc.prems(2) have s: "sorted_wrt (<) (map fst xs)" "\<forall>p\<in>set xs. fst p < a" by (simp_all add: sorted_wrt_append x)
  show ?case
  proof (cases "addr < a")
    case True
    have "query_replay la (f_id f) addr (rev (map fst (xs @ [x]))) (bs_of (abi_size A) X) =
        query_replay la (f_id f) addr (rev (map fst xs)) (bs_of (abi_size A) (insn_reads w A i b \<union> (X - insn_writes w A i b a)))"
      using True snoc.prems(1) by (simp add: x insn_rw_def bv.inter_law bv.compl_law bv.union_law Diff_eq Un_commute)
    also have "\<dots> = Some (bs_of (abi_size A) (rws_live (rws_of w A b (filter (\<lambda>p. addr < fst p) xs))
        (insn_reads w A i b \<union> (X - insn_writes w A i b a))))"
      using snoc.prems(1) s(1) by (intro snoc.IH) simp_all
    finally show ?thesis using True by (simp add: x rws_of_def rws_live_append)
  next
    case False
    with s(2) have "filter (\<lambda>p. addr < fst p) xs = []" by (auto simp: filter_empty_conv)
    with False show ?thesis by (simp add: x rws_of_def)
  qed
qed

lemma exact_data:
  assumes f: "lv_func_ok w A f" and e: "lv_exact w A f la" and b: "b \<in> set (f_blocks f)"
  shows "getLivenessIn la (b_id b) = Some (bs_of (abi_size A) (live_set w A f b 0))"
    "\<exists>d. liveInfo_subscript la (b_id b) = (la, d) \<and> ld_out d = bs_of (abi_size A) (live_set w A f b (length (b_insns b)))"
proof -
  have "{c \<in> set (f_blocks f). b_id c = b_id b} = {b}"
    using b lv_func_ok_parts(3)[OF f] by (auto simp: distinct_map inj_on_def)
  then have "blockLiveInfo la (b_id b) = Some \<lparr>ld_in = bs_of (abi_size A) (live_set w A f b 0),
      ld_out = bs_of (abi_size A) (live_set w A f b (length (b_insns b))),
      ld_use = bs_of (abi_size A) (rws_live (block_rws w A b) {}), ld_def = bs_of (abi_size A) (rws_def (block_rws w A b))\<rparr>"
    using e b by (simp add: lv_exact_def lv_rep_def live_entry_eq(1)[OF lv_func_ok_parts(3)[OF f] b])
  with lv_func_ok_parts(2)[OF f] show "getLivenessIn la (b_id b) = Some (bs_of (abi_size A) (live_set w A f b 0))"
    "\<exists>d. liveInfo_subscript la (b_id b) = (la, d) \<and> ld_out d = bs_of (abi_size A) (live_set w A f b (length (b_insns b)))"
    by (simp_all add: getLivenessIn_def liveInfo_subscript_def bs_of_spec)
qed

lemma live_set_bounded:
  assumes "lv_func_ok w A f"
  shows "live_set w A f b k \<subseteq> {..<abi_size A}"
proof
  note p = lv_func_ok_parts[OF assms]
  fix r assume "r \<in> live_set w A f b k"
  then have "live w A f b k r" by (simp add: live_set_def)
  then show "r \<in> {..<abi_size A}"
  proof induction
    case (live_read b k r)
    then show ?case using insn_sets_bounded(1)[OF p(1,2)] by (auto simp: block_rws_def split: prod.splits)
  next
    case (live_sink b e r)
    then show ?case using regs_defined_bounded[OF p(1,2)] by blast
  qed
qed

text \<open>\<open>query_gives la f loc ty X\<close>: the query returns an array that stands for \<open>X\<close> and leaves an
  analyzer that can be asked again.\<close>

definition query_gives :: "LivenessAnalyzer \<Rightarrow> Function \<Rightarrow> Location \<Rightarrow> query_type \<Rightarrow> nat set \<Rightarrow> bool" where
  "query_gives la f loc ty X \<longleftrightarrow> (\<exists>la' s. liveness_query la loc ty = Some (la', Some s) \<and> bits s = X \<and>
     bs_ok s \<and> bs_size s = abi_size (la_abi la) \<and> lv_ready la' f \<and> la_width la' = la_width la \<and> la_abi la' = la_abi la)"

lemma query_answer:
  assumes f: "lv_func_ok (la_width la) (la_abi la) f" and la: "lv_ready la f" and loc: "loc_isValid loc = Some True" "loc_func loc = Some f"
    and X: "X = live_set (la_width la) (la_abi la) f b k"
    and ans: "\<And>la'. lv_exact (la_width la) (la_abi la) f la' \<Longrightarrow> query_switch la' loc ty = Some (Answer la' (bs_of (abi_size (la_abi la)) X))"
  shows "query_gives la f loc ty X"
proof -
  obtain la' where la': "liveness_analyze la f = Some la'" "liveFuncCalculated la' (f_id f) \<noteq> None"
    "lv_exact (la_width la) (la_abi la) f la'" "la_width la' = la_width la" "la_abi la' = la_abi la"
    "cache_ok (la_width la) (la_abi la) f (cachedLivenessInfo la')"
    by (rule analyze_ok[OF f la])
  have "bits (bs_of (abi_size (la_abi la)) X) = X" using live_set_bounded[OF f] by (simp add: bs_of_spec Int_absorb2 X)
  then show ?thesis using la' loc ans[OF la'(3)] by (simp add: query_gives_def liveness_query_def lv_ready_def bs_of_spec)
qed

lemma query_replayed:
  assumes f: "lv_func_ok (la_width la) (la_abi la) f" and la: "lv_ready la f" and loc: "loc_isValid loc = Some True" "loc_func loc = Some f"
    and b: "b \<in> set (f_blocks f)" "k \<le> length (b_insns b)" "filter (\<lambda>p. addr < fst p) (insns_at b) = drop k (insns_at b)"
    and plan: "\<And>la'. query_switch la' loc ty = Some (Replay b addr)"
  shows "query_gives la f loc ty (live_set (la_width la) (la_abi la) f b k)"
proof -
  let ?w = "la_width la" and ?A = "la_abi la" and ?m = "length (b_insns b)"
  note ok = lv_func_ok_parts(5)[OF f b(1)]
  obtain la' where la': "liveness_analyze la f = Some la'" "liveFuncCalculated la' (f_id f) \<noteq> None"
    "lv_exact ?w ?A f la'" "la_width la' = ?w" "la_abi la' = ?A" "cache_ok ?w ?A f (cachedLivenessInfo la')"
    by (rule analyze_ok[OF f la])
  obtain d where d: "liveInfo_subscript la' (b_id b) = (la', d)" "ld_out d = bs_of (abi_size ?A) (live_set ?w ?A f b ?m)"
    using exact_data(2)[OF f la'(3) b(1)] by blast
  have "0 < ?m" using ok by (simp add: block_ok_def)
  then have start: "insn_addr b 0 = b_start b" by (simp add: insn_addr_eq)
  obtain ic where ic: "query_scan (f_id f) b (b_start b) la' = Some (la'\<lparr>cachedLivenessInfo := ic\<rparr>, map fst (insns_at b))"
    "cache_ok ?w ?A f ic" "\<forall>p\<in>set (insns_at b). getLivenessInfo (fst p) (f_id f) ic = Some (insn_rw ?w ?A b (fst p) (snd p))"
    using scan_ok[OF f b(1) \<open>0 < ?m\<close> la'(6,4,5)] by (auto simp: start)
  let ?la = "la'\<lparr>cachedLivenessInfo := ic\<rparr>" and ?s = "bs_of (abi_size ?A) (live_set ?w ?A f b k)"
  have "rws_of ?w ?A b (drop k (insns_at b)) = drop k (block_rws ?w ?A b)" by (simp add: rws_of_def block_rws_def drop_map)
  then have "query_replay ?la (f_id f) addr (rev (map fst (insns_at b))) (ld_out d) = Some ?s"
    using replay_ok[OF _ insns_sorted(1)[OF ok], of f ?la ?w ?A b addr "live_set ?w ?A f b ?m"] ic(3) live_suffix[OF b(1,2), of ?w ?A]
    by (simp add: d b(3))
  moreover have "\<not> bs_empty (bs_of (abi_size ?A) Y)" for Y using lv_func_ok_parts(2)[OF f] by (simp add: bs_empty_def bs_of_spec)
  ultimately have "liveness_query la loc ty = Some (?la, Some ?s)"
    using la'(1) loc d ic(1) plan by (simp add: liveness_query_def)
  moreover have "lv_ready ?la f" using la' ic(2) by (simp add: lv_ready_def lv_exact_def lv_rep_def)
  moreover have "bits ?s = live_set ?w ?A f b k" using live_set_bounded[OF f] by (simp add: bs_of_spec Int_absorb2)
  ultimately show ?thesis using la'(4,5) by (simp add: query_gives_def bs_of_spec)
qed

lemma instances_ok:
  "is \<noteq> [] \<Longrightarrow> \<forall>i\<in>set is. 0 < insn_size i \<Longrightarrow>
    insn_instances (s + sum_list (map insn_size is)) (located s is) = Some (map fst (located s is))"
proof (induction s "is" rule: located.induct)
  case (2 a i "is")
  show ?case
  proof (cases "is")
    case Nil
    then show ?thesis by simp
  next
    case (Cons j js)
    then have "0 < sum_list (map insn_size is)" using 2(3) by simp
    moreover have "insn_instances (a + insn_size i + sum_list (map insn_size is)) (located (a + insn_size i) is) =
        Some (map fst (located (a + insn_size i) is))" using 2 Cons by simp
    ultimately show ?thesis by (simp add: add.assoc)
  qed
qed simp

lemma getInsnInstances_ok: "block_ok w A f b \<Longrightarrow> getInsnInstances b = Some (map fst (insns_at b))"
proof -
  assume b: "block_ok w A f b"
  then have "0 < sum_list (map insn_size (b_insns b))" by (cases "b_insns b") (auto simp: block_ok_def)
  with b instances_ok[of "b_insns b" "b_start b"] show ?thesis by (simp add: block_ok_def getInsnInstances_def insns_at_def)
qed

lemmas loc_defs = Location_none_def Location_function_def Location_EntrySite_def Location_CallSite_def
  Location_ExitSite_def Location_blockInstance_def Location_InsnLoc_def Location_rawInsn_def Location_EdgeLoc_def

lemma insn_addr_bounds:
  assumes "block_ok w A f b"
  shows "k < length (b_insns b) \<Longrightarrow> 0 < insn_addr b k" "insn_addr b k = insn_addr b j \<Longrightarrow> k < length (b_insns b) \<Longrightarrow> j < length (b_insns b) \<Longrightarrow> k = j"
    "b_start b = insn_addr b 0" "b_lastInsn b = insn_addr b (length (b_insns b) - 1)"
proof -
  show "0 < insn_addr b k" if "k < length (b_insns b)"
    using insns_sorted(2)[OF assms, of "insns_at b ! k"] that by (simp add: insn_addr_def)
  have "distinct (map fst (insns_at b))" using insns_sorted(1)[OF assms] by (simp add: strict_sorted_iff)
  then show "k = j" if "insn_addr b k = insn_addr b j" "k < length (b_insns b)" "j < length (b_insns b)"
    using that nth_eq_iff_index_eq[of "map fst (insns_at b)" k j] by (simp add: insn_addr_def)
  have "b_insns b \<noteq> []" using assms by (simp add: block_ok_def)
  then show "b_start b = insn_addr b 0" by (simp add: insn_addr_eq)
  have "insns_at b \<noteq> []" using \<open>b_insns b \<noteq> []\<close> by (metis insns_at_length length_0_conv)
  then show "b_lastInsn b = insn_addr b (length (b_insns b) - 1)"
    using assms by (simp add: block_ok_def insn_addr_def last_conv_nth)
qed

lemma filter_before:
  assumes "block_ok w A f b" "k < length (b_insns b)"
  shows "filter (\<lambda>p. addr_pred (insn_addr b k) < fst p) (insns_at b) = drop k (insns_at b)"
    "filter (\<lambda>p. insn_addr b k < fst p) (insns_at b) = drop (Suc k) (insns_at b)"
proof -
  have "addr_pred (insn_addr b k) < n \<longleftrightarrow> insn_addr b k \<le> n" for n
    using insn_addr_bounds(1)[OF assms] by (auto simp: addr_pred_def)
  then show "filter (\<lambda>p. addr_pred (insn_addr b k) < fst p) (insns_at b) = drop k (insns_at b)"
    "filter (\<lambda>p. insn_addr b k < fst p) (insns_at b) = drop (Suc k) (insns_at b)"
    using filter_after[OF insns_sorted(1)[OF assms(1)], of k] assms(2) by (simp_all add: insn_addr_def)
qed

text \<open>One query of an instruction, for the trusted and for the checked form of its location.\<close>

lemma query_insn:
  assumes f: "lv_func_ok (la_width la) (la_abi la) f" and la: "lv_ready la f" and b: "b \<in> set (f_blocks f)" and k: "k < length (b_insns b)"
    and loc: "loc = Location_InsnLoc f b (insn_addr b k) \<or> loc = Location_rawInsn f b (insn_addr b k)"
  shows "query_gives la f loc Before (live_set (la_width la) (la_abi la) f b k)"
    and "query_gives la f loc After (live_set (la_width la) (la_abi la) f b (Suc k))"
proof -
  note ok = lv_func_ok_parts(5)[OF f b]
  have "insn_addr b k \<in> set (map fst (insns_at b))" using k by (auto simp: insn_addr_def)
  moreover have "func_contains f b" using b by (simp add: func_contains_def)
  ultimately have "loc_isValid loc = Some True \<and> loc_func loc = Some f"
    using loc getInsnInstances_ok[OF ok] by (elim disjE) (simp_all add: loc_defs loc_isValid_def)
  then have valid: "loc_isValid loc = Some True" "loc_func loc = Some f" by simp_all
  show "query_gives la f loc Before (live_set (la_width la) (la_abi la) f b k)"
  proof (cases "k = 0")
    case True
    then show ?thesis using loc exact_data(1)[OF f _ b] insn_addr_bounds(3)[OF ok]
      by (intro query_answer[OF f la valid refl]) (auto simp: query_switch_def loc_defs)
  next
    case False
    then have "insn_addr b k \<noteq> b_start b" using insn_addr_bounds(2,3)[OF ok] k by (metis gr0I less_trans)
    then show ?thesis using loc k
      by (intro query_replayed[OF f la valid b _ filter_before(1)[OF ok k]]) (auto simp: query_switch_def loc_defs)
  qed
  show "query_gives la f loc After (live_set (la_width la) (la_abi la) f b (Suc k))"
  proof (cases "Suc k = length (b_insns b)")
    case True
    then have "insn_addr b k = b_lastInsn b" using insn_addr_bounds(4)[OF ok] by (metis diff_Suc_1)
    then show ?thesis using loc exact_data(2)[OF f _ b] unfolding True
      by (intro query_answer[OF f la valid refl]) (fastforce simp: query_switch_def loc_defs)
  next
    case False
    then have "insn_addr b k \<noteq> b_lastInsn b" using insn_addr_bounds(2)[OF ok, of k "length (b_insns b) - 1"] insn_addr_bounds(4)[OF ok] k by auto
    then show ?thesis using loc k
      by (intro query_replayed[OF f la valid b _ filter_before(2)[OF ok k]]) (auto simp: query_switch_def loc_defs)
  qed
qed

end
