(* ===== verification/Liveness_Properties.thy ===== *)
theory Liveness_Properties
  imports Liveness_Facts
begin

text \<open>
  What the liveness analysis guarantees, on top of the lemmas of \<open>Liveness_Facts\<close>, with a function
  of two blocks on which the hypotheses hold, and the places where it misses registers.
\<close>

section \<open>A function of two blocks\<close>

text \<open>On x86-64: \<^verbatim>\<open>mov rax, rbx\<close>, then a block with \<^verbatim>\<open>ret\<close>.\<close>

definition x64_abi :: ABI where
  "x64_abi = (case getABI Build_x86_64 8 of Some A \<Rightarrow> A | None \<Rightarrow> undefined)"

definition x64_analyzer :: LivenessAnalyzer where
  "x64_analyzer = \<lparr>la_width = 8, la_abi = x64_abi, blockLiveInfo = Map.empty, liveFuncCalculated = Map.empty,
     funcRegsDefined = Map.empty, cachedLivenessInfo = InstructionCache_new, la_errorno = - 1\<rparr>"

definition ex_mov :: Instruction where
  "ex_mov = \<lparr>insn_size = 3, insn_readSet = [x86_64_rbx], insn_writeSet = [x86_64_rax], insn_category = c_NoCategory,
     insn_fallsThrough = True, insn_isInterrupt = False, insn_isSyscall = False\<rparr>"

definition ex_ret :: Instruction where
  "ex_ret = \<lparr>insn_size = 1, insn_readSet = [], insn_writeSet = [], insn_category = c_ReturnInsn,
     insn_fallsThrough = False, insn_isInterrupt = False, insn_isSyscall = False\<rparr>"

definition ex_b1 :: Block where
  "ex_b1 = \<lparr>b_id = 10, b_start = 4096, b_end = 4099, b_lastInsn = 4096, b_insns = [ex_mov],
     b_targets = [\<lparr>e_type = FALLTHROUGH, e_interproc = False, e_sink = False, e_trg = 20\<rparr>]\<rparr>"

definition ex_b2 :: Block where
  "ex_b2 = \<lparr>b_id = 20, b_start = 4099, b_end = 4100, b_lastInsn = 4099, b_insns = [ex_ret],
     b_targets = [\<lparr>e_type = RET, e_interproc = True, e_sink = True, e_trg = 0\<rparr>]\<rparr>"

definition ex_func :: Function where
  "ex_func = \<lparr>f_id = 1, f_entry = 10, f_blocks = [ex_b1, ex_b2]\<rparr>"

lemmas ex_defs = ex_func_def ex_b1_def ex_b2_def ex_mov_def ex_ret_def

lemma x64_getABI: "getABI Build_x86_64 8 = Some x64_abi"
  by (simp add: x64_abi_def getABI_simps)

lemma x64_analyzer_new: "LivenessAnalyzer_new Build_x86_64 8 = Some x64_analyzer"
  by (simp add: LivenessAnalyzer_new_def x64_getABI x64_analyzer_def)

lemma x64_abi_sel: "abi_index x64_abi = machRegIndex_x86_64" "abi_size x64_abi = 166"
  by (simp_all add: x64_abi_def getABI_simps size_x86_64)

lemma x64_abi_ok: "abi_ok x64_abi"
  by (simp add: x64_abi_def getABI_simps abi_ok_def abi_arrays_ok_def abi_getters size_x86_64 numbering_x86_64)

lemma ex_regs_ok: "reg_ok 8 x64_abi x86_64_rbx" "reg_ok 8 x64_abi x86_64_rax"
  by (simp_all add: reg_ok_def to_ppc32_def getArchitecture_def getBaseRegister_def MachRegister_size_def Let_def)

lemma ex_func_ok: "lv_func_ok 8 x64_abi ex_func"
  unfolding lv_func_ok_def using x64_abi_ok ex_regs_ok
  by (simp add: x64_abi_sel size_x86_64 ex_defs func_insns_def block_ok_def insns_at_def lv_insn_ok_def flow_edge_def Intraproc_pred_def
      edge_interproc_def)

lemma ex_fresh: "lv_fresh x64_analyzer ex_func" "cache_ok 8 x64_abi ex_func (cachedLivenessInfo x64_analyzer)"
  "la_width x64_analyzer = 8" "la_abi x64_analyzer = x64_abi"
  by (simp_all add: lv_fresh_def cache_ok_def x64_analyzer_def InstructionCache_new_def list_all_iff)

lemma ex_ready: "lv_ready x64_analyzer ex_func"
  by (simp add: lv_ready_def ex_fresh)

lemma x64_index: "map (map_of machRegIndex_x86_64)
    [x86_64_rax, x86_64_rbx, x86_64_xmm1, x86_64_of, x86_64_cf, x86_64_pf, x86_64_af, x86_64_zf, x86_64_sf, x86_64_df, x86_64_tf, x86_64_nt] =
    map Some [0, 3, 110, 25, 17, 18, 19, 20, 21, 24, 22, 26]"
  by (rule map_of_members[OF distinct_x86_64]) (simp only: list_all2_Cons list_all2_Nil machRegIndex_x86_64_def list.set insert_iff prod.inject simp_thms)

lemmas reg_eval = to_ppc32_def getArchitecture_def getBaseRegister_def changeIfMMX_def isMMX_def regClass_def Let_def

text \<open>A full general register of x86-64 stands for itself.\<close>

lemma touched_self:
  assumes "to_ppc32 r = r" "getBaseRegister r = r" "changeIfMMX w r = r" "\<not> isMMX r" "\<not> (r = x86_flags \<or> r = x86_64_flags)"
    "map_of (abi_index A) r = Some i"
  shows "touched w A r = {i}" "written_part w A r = {}"
  unfolding touched_def written_part_def Let_def assms(1-3) if_not_P[OF assms(5)] using assms(4,6) by (simp_all add: abi_getIndex_def)

lemma x64_self:
  "to_ppc32 x86_64_rax = x86_64_rax" "getBaseRegister x86_64_rax = x86_64_rax" "changeIfMMX 8 x86_64_rax = x86_64_rax" "\<not> isMMX x86_64_rax"
  "to_ppc32 x86_64_rbx = x86_64_rbx" "getBaseRegister x86_64_rbx = x86_64_rbx" "changeIfMMX 8 x86_64_rbx = x86_64_rbx" "\<not> isMMX x86_64_rbx"
  "\<not> (x86_64_rax = x86_flags \<or> x86_64_rax = x86_64_flags)" "\<not> (x86_64_rbx = x86_flags \<or> x86_64_rbx = x86_64_flags)"
  by (simp_all add: reg_eval)

lemma ex_rws: "block_rws 8 x64_abi ex_b1 = [({3}, {0})]"
proof -
  have i: "map_of (abi_index x64_abi) x86_64_rax = Some 0" "map_of (abi_index x64_abi) x86_64_rbx = Some 3"
    using x64_index by (simp_all add: x64_abi_sel)
  note rax = touched_self[OF x64_self(1-4,9) i(1)] and rbx = touched_self[OF x64_self(5-8,10) i(2)]
  show ?thesis
    by (simp only: block_rws_def insns_at_def ex_defs insn_reads_def insn_writes_def Block.simps Instruction.simps located.simps list.map
        prod.case list.set UN_insert UN_empty rax rbx Un_empty_right Un_empty_left cat_reads_def cat_writes_def InsnCategory.case if_False simp_thms)
qed

lemma ex_live: "3 \<in> live_set 8 x64_abi ex_func ex_b1 0" "0 \<notin> live_set 8 x64_abi ex_func ex_b1 0"
proof -
  have "ex_b1 \<in> set (f_blocks ex_func)" "0 < length (b_insns ex_b1)" by (simp_all add: ex_defs)
  from live_step[OF this, of 8 x64_abi] show "3 \<in> live_set 8 x64_abi ex_func ex_b1 0" "0 \<notin> live_set 8 x64_abi ex_func ex_b1 0"
    by (simp_all add: ex_rws)
qed
















section \<open>Properties\<close>

text \<open>C5. The liveness analysis is exact and always ends. For a well-formed function that the
  analyzer has not seen, \<^verbatim>\<open>analyze\<close> returns, and then the sets it holds for every
  block are the registers live at its entry and at its exit: exactly those that some path inside the
  function reads before any instruction writes them (with the registers assumed to be used where
  a path leaves through an edge of unknown target). Blocks of other functions are left alone.\<close>

theorem Analyze_liveness_exact:
  assumes "lv_func_ok (la_width la) (la_abi la) f" "lv_fresh la f" "cache_ok (la_width la) (la_abi la) f (cachedLivenessInfo la)"
  shows "\<exists>la'. liveness_analyze la f = Some la' \<and>
    (\<forall>b\<in>set (f_blocks f). \<exists>d. blockLiveInfo la' (b_id b) = Some d \<and>
       bits (ld_in d) = {r. live (la_width la) (la_abi la) f b 0 r} \<and>
       bits (ld_out d) = {r. live (la_width la) (la_abi la) f b (length (b_insns b)) r}) \<and>
    (\<forall>x. x \<notin> b_id ` set (f_blocks f) \<longrightarrow> blockLiveInfo la' x = blockLiveInfo la x)"
proof -
  have "lv_ready la f" using assms(2,3) by (simp add: lv_ready_def)
  then obtain la' where la': "liveness_analyze la f = Some la'" "lv_exact (la_width la) (la_abi la) f la'"
    "\<forall>x. x \<notin> b_id ` set (f_blocks f) \<longrightarrow> blockLiveInfo la' x = blockLiveInfo la x"
    using analyze_ok[OF assms(1)] by metis
  have "\<exists>d. blockLiveInfo la' (b_id b) = Some d \<and> bits (ld_in d) = live_set (la_width la) (la_abi la) f b 0 \<and>
      bits (ld_out d) = live_set (la_width la) (la_abi la) f b (length (b_insns b))" if b: "b \<in> set (f_blocks f)" for b
  proof -
    have "{c \<in> set (f_blocks f). b_id c = b_id b} = {b}"
      using b lv_func_ok_parts(3)[OF assms(1)] by (auto simp: distinct_map inj_on_def)
    with la'(2) b live_entry_eq(1)[OF lv_func_ok_parts(3)[OF assms(1)] b] live_set_bounded[OF assms(1)] show ?thesis
      by (simp add: lv_exact_def lv_rep_def bs_of_spec Int_absorb2)
  qed
  with la'(1,3) show ?thesis unfolding live_set_def by blast
qed

text \<open>C6. A query gives exactly the registers live at its location, however often the analyzer has
  been asked before. Before and after an instruction of a block (for trusted and for checked locations), before a
  block, before a function and at its entry, before and after a call, and on an edge inside
  the function, the array returned stands for the registers with a path to a use from that
  point.\<close>

theorem Query_liveness_exact:
  assumes "lv_func_ok (la_width la) (la_abi la) f" "lv_ready la f" "b \<in> set (f_blocks f)" "k < length (b_insns b)"
  defines "L \<equiv> live_set (la_width la) (la_abi la) f"
  shows "query_gives la f (Location_InsnLoc f b (insn_addr b k)) Before (L b k) \<and>
    query_gives la f (Location_InsnLoc f b (insn_addr b k)) After (L b (Suc k)) \<and>
    query_gives la f (Location_rawInsn f b (insn_addr b k)) Before (L b k) \<and>
    query_gives la f (Location_rawInsn f b (insn_addr b k)) After (L b (Suc k)) \<and>
    query_gives la f (Location_blockInstance f b) Before (L b 0) \<and>
    query_gives la f (Location_EntrySite f b) Before (L b 0) \<and>
    (f_entry f = b_id b \<longrightarrow> query_gives la f (Location_function f) Before (L b 0)) \<and>
    query_gives la f (Location_CallSite f b) Before (L b (length (b_insns b) - 1)) \<and>
    query_gives la f (Location_CallSite f b) After (L b (length (b_insns b))) \<and>
    (e_trg e = b_id b \<longrightarrow> query_gives la f (Location_EdgeLoc f e) ty (L b 0))"
proof (intro conjI impI)
  note f = assms(1) and la = assms(2) and b = assms(3) and k = assms(4)
  note ok = lv_func_ok_parts(5)[OF f b] and ans = query_answer[OF f la _ _ refl]
  show "query_gives la f (Location_InsnLoc f b (insn_addr b k)) Before (L b k)"
    "query_gives la f (Location_InsnLoc f b (insn_addr b k)) After (L b (Suc k))"
    "query_gives la f (Location_rawInsn f b (insn_addr b k)) Before (L b k)"
    "query_gives la f (Location_rawInsn f b (insn_addr b k)) After (L b (Suc k))"
    unfolding L_def by (rule query_insn[OF f la b k]; simp)+
  show "query_gives la f (Location_blockInstance f b) Before (L b 0)" "query_gives la f (Location_EntrySite f b) Before (L b 0)"
    unfolding L_def using b exact_data(1)[OF f _ b]
    by (intro ans; simp add: loc_defs loc_isValid_def func_contains_def query_switch_def)+
  show "query_gives la f (Location_function f) Before (L b 0)" if "f_entry f = b_id b"
    unfolding L_def using that exact_data(1)[OF f _ b] by (intro ans; simp add: loc_defs loc_isValid_def query_switch_def)
  show "query_gives la f (Location_EdgeLoc f e) ty (L b 0)" if "e_trg e = b_id b"
    unfolding L_def using that exact_data(1)[OF f _ b] by (intro ans; simp add: loc_defs loc_isValid_def query_switch_def)
  show "query_gives la f (Location_CallSite f b) After (L b (length (b_insns b)))"
    unfolding L_def using exact_data(2)[OF f _ b] by (intro ans; fastforce simp: loc_defs loc_isValid_def query_switch_def)
  have m: "length (b_insns b) - 1 < length (b_insns b)" using k by simp
  show "query_gives la f (Location_CallSite f b) Before (L b (length (b_insns b) - 1))"
    unfolding L_def using insn_addr_bounds(4)[OF ok]
    by (intro query_replayed[OF f la _ _ b _ filter_before(1)[OF ok m]]; simp add: loc_defs loc_isValid_def query_switch_def)
qed

theorem Analyze_liveness_exact_witness:
  "\<exists>la' d. liveness_analyze x64_analyzer ex_func = Some la' \<and> blockLiveInfo la' (b_id ex_b1) = Some d \<and> 3 \<in> bits (ld_in d) \<and> 0 \<notin> bits (ld_in d)"
proof -
  have "ex_b1 \<in> set (f_blocks ex_func)" by (simp add: ex_defs)
  with Analyze_liveness_exact[of x64_analyzer ex_func] ex_func_ok ex_fresh ex_live show ?thesis
    unfolding ex_fresh live_set_def by fast
qed

theorem Query_liveness_exact_witness:
  "query_gives x64_analyzer ex_func (Location_InsnLoc ex_func ex_b1 4096) Before (live_set 8 x64_abi ex_func ex_b1 0) \<and>
   query_gives x64_analyzer ex_func (Location_function ex_func) Before (live_set 8 x64_abi ex_func ex_b1 0) \<and>
   3 \<in> live_set 8 x64_abi ex_func ex_b1 0 \<and> 0 \<notin> live_set 8 x64_abi ex_func ex_b1 0"
proof -
  have b: "ex_b1 \<in> set (f_blocks ex_func)" "0 < length (b_insns ex_b1)" "f_entry ex_func = b_id ex_b1" "insn_addr ex_b1 0 = 4096"
    by (simp_all add: ex_defs insn_addr_def insns_at_def)
  from Query_liveness_exact[of x64_analyzer ex_func ex_b1 0] ex_func_ok ex_ready b ex_live show ?thesis
    unfolding ex_fresh b(4) by blast
qed

text \<open>C38. Asking for the registers live after a block, or at an exit site, gives those live before
  its last instruction, not those live at its end; the example of the manual asks for the block exit
  in this way.\<close>

theorem Block_exit_query:
  assumes "lv_func_ok (la_width la) (la_abi la) f" "lv_ready la f" "b \<in> set (f_blocks f)"
  shows "query_gives la f (Location_blockInstance f b) After (live_set (la_width la) (la_abi la) f b (length (b_insns b) - 1)) \<and>
    query_gives la f (Location_ExitSite f b) After (live_set (la_width la) (la_abi la) f b (length (b_insns b) - 1))"
proof -
  note f = assms(1) and la = assms(2) and b = assms(3)
  note ok = lv_func_ok_parts(5)[OF f b]
  have m: "length (b_insns b) - 1 < length (b_insns b)" using ok by (simp add: block_ok_def)
  show ?thesis using insn_addr_bounds(4)[OF ok] b
    by (intro conjI query_replayed[OF f la _ _ b _ filter_before(1)[OF ok m]];
        simp add: loc_defs loc_isValid_def func_contains_def query_switch_def)
qed

theorem Block_exit_query_witness:
  "query_gives x64_analyzer ex_func (Location_blockInstance ex_func ex_b1) After (live_set 8 x64_abi ex_func ex_b1 0) \<and>
   live_set 8 x64_abi ex_func ex_b1 0 \<noteq> live_set 8 x64_abi ex_func ex_b1 1"
proof -
  have b: "ex_b1 \<in> set (f_blocks ex_func)" "length (b_insns ex_b1) = 1" "ex_b2 \<in> set (f_blocks ex_func)" "length (b_insns ex_b2) = 1"
    by (simp_all add: ex_defs)
  have "0 \<in> cat_reads x64_abi ex_ret ex_b2"
    by (simp add: cat_reads_def ex_ret_def abi_bits_def x64_abi_def getABI_simps abi_getters bs_of_spec)
  then have "0 \<in> fst (block_rws 8 x64_abi ex_b2 ! 0)" by (simp add: block_rws_def insns_at_def ex_b2_def insn_reads_def)
  then have "live 8 x64_abi ex_func ex_b2 0 0" using b(4) by (intro live_read[OF b(3)]) simp_all
  moreover have "hd (b_targets ex_b1) \<in> set (b_targets ex_b1)" "flow_edge (hd (b_targets ex_b1))" "\<not> e_sink (hd (b_targets ex_b1))"
    "b_id ex_b2 = e_trg (hd (b_targets ex_b1))"
    by (simp_all add: ex_defs flow_edge_def Intraproc_pred_def edge_interproc_def)
  ultimately have "live 8 x64_abi ex_func ex_b1 (length (b_insns ex_b1)) 0" using live_edge[OF b(1) _ _ _ b(3)] by blast
  then have "0 \<in> live_set 8 x64_abi ex_func ex_b1 1" using b(2) by (simp add: live_set_def)
  then show ?thesis using Block_exit_query[of x64_analyzer ex_func ex_b1] ex_func_ok ex_ready b(1,2) ex_live(2)
    unfolding ex_fresh by auto
qed

text \<open>C36. Cleaning an analyzer makes it unusable: after a function has been analyzed, \<^verbatim>\<open>clean()\<close>
  and \<^verbatim>\<open>clean(func)\<close> forget its results but not the registers it defines, and the next
  \<^verbatim>\<open>analyze\<close> of the function fails its assertion that there are none.\<close>

theorem Clean_breaks_analyze:
  assumes "lv_func_ok (la_width la) (la_abi la) f" "lv_fresh la f" "cache_ok (la_width la) (la_abi la) f (cachedLivenessInfo la)"
  shows "\<exists>la'. liveness_analyze la f = Some la' \<and> liveness_analyze (liveness_clean la') f = None \<and>
    liveness_analyze (liveness_clean_func la' f) f = None"
proof -
  have "lv_ready la f" using assms(2,3) by (simp add: lv_ready_def)
  then obtain la' where la': "liveness_analyze la f = Some la'" "liveFuncCalculated la' (f_id f) \<noteq> None"
    "funcRegsDefined la' (f_id f) \<noteq> None \<or> la' = la"
    using analyze_ok[OF assms(1)] by metis
  then have "funcRegsDefined la' (f_id f) \<noteq> None" using assms(2) by (auto simp: lv_fresh_def)
  then have "liveness_analyze (liveness_clean la') f = None" "liveness_analyze (liveness_clean_func la' f) f = None"
    using la'(2) by (auto simp: liveness_analyze_def liveness_clean_def liveness_clean_func_def Let_def)
  with la'(1) show ?thesis by blast
qed

theorem Clean_breaks_analyze_witness:
  "\<exists>la'. liveness_analyze x64_analyzer ex_func = Some la' \<and> liveness_analyze (liveness_clean la') ex_func = None"
  using Clean_breaks_analyze[of x64_analyzer ex_func] ex_func_ok ex_fresh by (auto simp: ex_fresh)





text \<open>C17. The queries for registers read off the array. When the query of a location gives an
  array, asking whether one numbered register is live gives its bit, and asking for all live registers
  lists exactly the registers of the numbering whose bit is set, each once.\<close>

theorem Register_queries:
  assumes "liveness_query la loc ty = Some (la', Some s)" "abi_ok (la_abi la')" "bs_ok s" "bs_size s = abi_size (la_abi la')"
  shows "(\<forall>r i. map_of (abi_index (la_abi la')) r = Some i \<longrightarrow> query_register la loc ty r = Some (la', Some (i \<in> bits s))) \<and>
    (\<exists>rs. query_registers la loc ty = Some (la', Some rs) \<and> distinct rs \<and>
       set rs = {r. \<exists>i. map_of (abi_index (la_abi la')) r = Some i \<and> i \<in> bits s})"
proof (intro conjI allI impI)
  let ?m = "abi_index (la_abi la')"
  have rng: "i < bs_size s" if "map_of ?m r = Some i" for r i
    using numbering_in_range[OF _ that] assms(2,4) by (simp add: abi_ok_def)
  show "query_register la loc ty r = Some (la', Some (i \<in> bits s))" if "map_of ?m r = Some i" for r i
    using rng[OF that] that assms(1,3) by (simp add: query_register_def abi_getIndex_def bs_test_spec)
  have *: "collect_live (map (\<lambda>r. (r, rm_at ?m r)) rs) s = Some (filter (\<lambda>r. rm_at ?m r \<in> bits s) rs)" if "set rs \<subseteq> fst ` set ?m" for rs
    using that
  proof (induction rs)
    case (Cons r rs)
    then have "r \<in> fst ` set ?m" by simp
    then obtain i where i: "map_of ?m r = Some i" by (metis map_of_eq_None_iff not_None_eq)
    with rng[OF i] Cons assms(3) show ?case by (simp add: rm_at_def bs_test_spec)
  qed simp
  let ?rs = "filter (\<lambda>r. rm_at ?m r \<in> bits s) (sort_key sint (remdups (map fst ?m)))"
  have "query_registers la loc ty = Some (la', Some ?rs)" using assms(1) *[of "sort_key sint (remdups (map fst ?m))"] by (simp add: query_registers_def)
  moreover have "distinct ?rs" by simp
  moreover have "set ?rs = {r. \<exists>i. map_of ?m r = Some i \<and> i \<in> bits s}"
  proof (rule set_eqI)
    fix r
    have "r \<in> set ?rs \<longleftrightarrow> map_of ?m r \<noteq> None \<and> rm_at ?m r \<in> bits s" by (auto simp: map_of_eq_None_iff)
    then show "r \<in> set ?rs \<longleftrightarrow> r \<in> {r. \<exists>i. map_of ?m r = Some i \<and> i \<in> bits s}" by (auto simp: rm_at_def)
  qed
  ultimately show "\<exists>rs. query_registers la loc ty = Some (la', Some rs) \<and> distinct rs \<and>
       set rs = {r. \<exists>i. map_of ?m r = Some i \<and> i \<in> bits s}" by blast
qed

theorem Register_queries_witness:
  "\<exists>la' rs. query_registers x64_analyzer (Location_function ex_func) Before = Some (la', Some rs) \<and>
    x86_64_rbx \<in> set rs \<and> x86_64_rax \<notin> set rs"
proof -
  have b: "ex_b1 \<in> set (f_blocks ex_func)" "f_entry ex_func = b_id ex_b1" by (simp_all add: ex_defs)
  have "query_gives x64_analyzer ex_func (Location_function ex_func) Before (live_set 8 x64_abi ex_func ex_b1 0)"
    using query_answer[of x64_analyzer ex_func "Location_function ex_func" _ ex_b1 0 Before] exact_data(1)[OF ex_func_ok _ b(1)] ex_func_ok ex_ready b(2)
    by (simp add: ex_fresh loc_defs loc_isValid_def query_switch_def)
  then obtain la' s where q: "liveness_query x64_analyzer (Location_function ex_func) Before = Some (la', Some s)"
    "bits s = live_set 8 x64_abi ex_func ex_b1 0" "bs_ok s" "bs_size s = abi_size (la_abi la')" "la_abi la' = x64_abi"
    by (auto simp: query_gives_def ex_fresh)
  have i: "map_of machRegIndex_x86_64 x86_64_rax = Some 0" "map_of machRegIndex_x86_64 x86_64_rbx = Some 3" using x64_index by simp_all
  obtain rs where rs: "query_registers x64_analyzer (Location_function ex_func) Before = Some (la', Some rs)"
    "set rs = {r. \<exists>i. map_of machRegIndex_x86_64 r = Some i \<and> i \<in> live_set 8 x64_abi ex_func ex_b1 0}"
    using Register_queries[OF q(1) _ q(3,4)] x64_abi_ok unfolding q(2,5) x64_abi_sel(1) by blast
  have "x86_64_rbx \<in> set rs" "x86_64_rax \<notin> set rs" unfolding rs(2) mem_Collect_eq i using ex_live by blast+
  with rs(1) show ?thesis by blast
qed


end
