(* ===== verification/Spec2Isabelle.thy ===== *)
theory Spec2Isabelle
  imports Dyn_Prelude Mach_Register_Facts Strided_Interval Inferior_Heap Stack_Fixpoint Liveness_Properties
begin

text \<open>
  A verification development for Dyninst, the binary analysis and instrumentation toolkit.

  \<^bold>\<open>Parts and theories.\<close>

  \<^item> \<open>Dyn_Prelude\<close>: machine integers (64-bit signed and 32/64-bit unsigned wrap-around) and
    the arithmetic lemmas the components share.
  \<^item> \<open>Strided_Interval\<close>: \<^verbatim>\<open>struct StridedInterval\<close> of
    \<^verbatim>\<open>parseAPI/src/BoundFactData.{h,C}\<close>, the value domain of the jump-table analysis.
\<close>

end
